(* ===== verification/Prelude.thy ===== *)
theory Prelude
  imports Main "HOL-Library.AList" "HOL-Library.Multiset" "HOL-Library.List_Lexorder"
    "HOL-Library.Char_ord" "HOL-Library.Product_Lexorder"
begin

section \<open>Prelude: shared notions of the Go model\<close>

text \<open>
  What every component of the development uses: the result type of fallible functions, the
  sorting of the Go library over a comparison function, Go maps as association lists and the
  grouping loop (a map from keys to accumulators, filled by one pass over a slice) that the
  engines share.

  A Go map is an association list with distinct keys, in insertion order. Go iterates over a
  map in an unspecified order, so where the code ranges over a map, the model's function takes
  the list in any order and the component proves that the order does not matter.
\<close>

named_theorems engine_defs \<open>definitions that the component proofs unfold\<close>
named_theorems engine_simps \<open>equations of the operations the components share\<close>

type_synonym ('k, 'v) gomap = "('k \<times> 'v) list"

subsection \<open>Fallible functions\<close>

text \<open>A Go function that returns a value and an error: \<open>Inl\<close> is a non-nil error.\<close>

datatype go_error = Err string "string list"

type_synonym 'a result = "go_error + 'a"

fun map_result :: "('a \<Rightarrow> 'b result) \<Rightarrow> 'a list \<Rightarrow> 'b list result" where
  "map_result f [] = Inr []"
| "map_result f (x # xs) =
     (case f x of Inl e \<Rightarrow> Inl e
      | Inr y \<Rightarrow> (case map_result f xs of Inl e \<Rightarrow> Inl e | Inr ys \<Rightarrow> Inr (y # ys)))"

fun check_all :: "('a \<Rightarrow> go_error option) \<Rightarrow> 'a list \<Rightarrow> go_error option" where
  "check_all f [] = None"
| "check_all f (x # xs) = (case f x of Some e \<Rightarrow> Some e | None \<Rightarrow> check_all f xs)"

lemma check_all_None [simp]: "check_all f xs = None \<longleftrightarrow> (\<forall>x \<in> set xs. f x = None)"
  by (induction xs) (auto split: option.splits)

lemma map_result_length: "map_result f xs = Inr ys \<Longrightarrow> length ys = length xs"
  by (induction xs arbitrary: ys) (auto split: sum.splits)

lemma map_result_mem:
  "map_result f xs = Inr ys \<Longrightarrow> x \<in> set xs \<Longrightarrow> \<exists>y \<in> set ys. f x = Inr y"
  by (induction xs arbitrary: ys) (auto split: sum.splits)

subsection \<open>Sorting by a comparison function\<close>

text \<open>
  \<open>sort.SliceStable(xs, less)\<close>: insertion sort, which keeps elements that compare equal
  in their order. \<open>sort.Slice\<close> and \<open>sort.Strings\<close> promise the order only; where the code
  uses them the comparison is total on the elements at hand, which fixes the result
  (\<open>sort_by_unique\<close>).
\<close>

fun insert_by :: "('a \<Rightarrow> 'a \<Rightarrow> bool) \<Rightarrow> 'a \<Rightarrow> 'a list \<Rightarrow> 'a list" where
  "insert_by lt x [] = [x]"
| "insert_by lt x (y # ys) =
     (if lt y x then y # insert_by lt x ys else x # y # ys)"

fun sort_by :: "('a \<Rightarrow> 'a \<Rightarrow> bool) \<Rightarrow> 'a list \<Rightarrow> 'a list" where
  "sort_by lt [] = []"
| "sort_by lt (x # xs) = insert_by lt x (sort_by lt xs)"

definition in_order :: "('a \<Rightarrow> 'a \<Rightarrow> bool) \<Rightarrow> 'a list \<Rightarrow> bool" where
  "in_order lt = sorted_wrt (\<lambda>a b. \<not> lt b a)"

lemma mset_insert_by [simp]: "mset (insert_by lt x xs) = add_mset x (mset xs)"
  by (induction xs) auto

lemma mset_sort_by [simp]: "mset (sort_by lt xs) = mset xs"
  by (induction xs) auto

lemma set_insert_by [simp]: "set (insert_by lt x xs) = insert x (set xs)"
  by (induction xs) auto

lemma set_sort_by [simp]: "set (sort_by lt xs) = set xs"
  by (induction xs) auto

lemma length_sort_by [simp]: "length (sort_by lt xs) = length xs"
  by (metis mset_sort_by size_mset)

lemma distinct_sort_by [simp]: "distinct (sort_by lt xs) = distinct xs"
  by (metis mset_sort_by distinct_count_atmost_1 set_mset_mset)

lemma sort_by_eq_Nil [simp]: "sort_by lt xs = [] \<longleftrightarrow> xs = []"
  by (metis length_0_conv length_sort_by)

lemma insert_by_neq_Nil [simp]: "insert_by lt x xs \<noteq> []"
  by (cases xs) auto

text \<open>
  A comparison sorts if it is a strict weak order on the elements: the interface between the
  sorting of the library and each component's comparison function.
\<close>

locale sort_order =
  fixes lt :: "'a \<Rightarrow> 'a \<Rightarrow> bool"
    and dom_of :: "'a \<Rightarrow> bool"
  assumes less_asym: "dom_of a \<Longrightarrow> dom_of b \<Longrightarrow> lt a b \<Longrightarrow> \<not> lt b a"
    and less_neg_trans: "dom_of a \<Longrightarrow> dom_of b \<Longrightarrow> dom_of c \<Longrightarrow>
      lt a c \<Longrightarrow> lt a b \<or> lt b c"
begin

lemma not_less_trans:
  assumes "dom_of a" "dom_of b" "dom_of c" "\<not> lt b a" "\<not> lt c b"
  shows "\<not> lt c a"
  using assms less_neg_trans by blast

lemma in_order_insert_by:
  assumes "dom_of x" "\<forall>y \<in> set xs. dom_of y" "in_order lt xs"
  shows "in_order lt (insert_by lt x xs)"
  using assms
proof (induction xs)
  case Nil
  then show ?case by (simp add: in_order_def)
next
  case (Cons y ys)
  show ?case
  proof (cases "lt y x")
    case True
    then show ?thesis
      using Cons less_asym by (auto simp: in_order_def)
  next
    case False
    then have "\<forall>z \<in> set (y # ys). \<not> lt z x"
      using Cons.prems not_less_trans[of x y] by (auto simp: in_order_def)
    then show ?thesis
      using False Cons.prems by (auto simp: in_order_def)
  qed
qed

lemma in_order_sort_by:
  "\<forall>x \<in> set xs. dom_of x \<Longrightarrow> in_order lt (sort_by lt xs)"
  by (induction xs) (auto intro!: in_order_insert_by, simp add: in_order_def)

text \<open>Elements that compare equal keep their order.\<close>

lemma insert_by_filter:
  assumes "dom_of x" "\<forall>y \<in> set xs. dom_of y" "in_order lt xs"
    and "\<And>y. dom_of y \<Longrightarrow> P x \<Longrightarrow> P y \<Longrightarrow> \<not> lt y x"
  shows "filter P (insert_by lt x xs) = (if P x then [x] else []) @ filter P xs"
  using assms
proof (induction xs)
  case Nil
  then show ?case by simp
next
  case (Cons y ys)
  have IH: "filter P (insert_by lt x ys) = (if P x then [x] else []) @ filter P ys"
    using Cons.IH Cons.prems by (simp add: in_order_def)
  show ?case
  proof (cases "lt y x")
    case True
    then have "P x \<Longrightarrow> \<not> P y" using Cons.prems(4)[of y] Cons.prems(2) by auto
    then show ?thesis using True IH by auto
  next
    case False
    then show ?thesis by simp
  qed
qed

lemma sort_by_stable:
  assumes "\<forall>x \<in> set xs. dom_of x"
    and "\<And>x y. dom_of x \<Longrightarrow> dom_of y \<Longrightarrow> P x \<Longrightarrow> P y \<Longrightarrow> \<not> lt x y"
  shows "filter P (sort_by lt xs) = filter P xs"
  using assms
proof (induction xs)
  case Nil
  then show ?case by simp
next
  case (Cons x xs)
  have "filter P (insert_by lt x (sort_by lt xs)) =
      (if P x then [x] else []) @ filter P (sort_by lt xs)"
    using Cons.prems by (intro insert_by_filter in_order_sort_by) auto
  then show ?case using Cons by simp
qed

text \<open>Where the comparison is total on the elements, there is one sorted arrangement.\<close>

lemma in_order_unique:
  assumes "mset xs = mset ys" "in_order lt xs" "in_order lt ys"
    and "\<forall>x \<in> set xs. dom_of x"
    and "\<And>x y. x \<in> set xs \<Longrightarrow> y \<in> set xs \<Longrightarrow> x \<noteq> y \<Longrightarrow> lt x y \<or> lt y x"
  shows "xs = ys"
  using assms
proof (induction xs arbitrary: ys)
  case Nil
  then show ?case by simp
next
  case (Cons x xs)
  obtain y ys' where ys: "ys = y # ys'"
    using Cons.prems(1) by (cases ys) auto
  have mem: "y \<in> set (x # xs)" "x \<in> set ys"
    using Cons.prems(1) ys by (metis list.set_intros(1) set_mset_mset)+
  have "x = y"
  proof (rule ccontr)
    assume ne: "x \<noteq> y"
    then have "\<not> lt y x" "\<not> lt x y"
      using mem ys Cons.prems(2,3) by (auto simp: in_order_def)
    then show False using Cons.prems(5)[of x y] mem ne by auto
  qed
  moreover have "xs = ys'"
    using Cons.prems ys \<open>x = y\<close> by (intro Cons.IH) (auto simp: in_order_def)
  ultimately show ?case using ys by simp
qed

lemma sort_by_unique:
  assumes "mset xs = mset ys" "\<forall>x \<in> set xs. dom_of x"
    and "\<And>x y. x \<in> set xs \<Longrightarrow> y \<in> set xs \<Longrightarrow> x \<noteq> y \<Longrightarrow> lt x y \<or> lt y x"
  shows "sort_by lt xs = sort_by lt ys"
proof (rule in_order_unique)
  have "set xs = set ys" using assms(1) by (metis set_mset_mset)
  then show "in_order lt (sort_by lt xs)" "in_order lt (sort_by lt ys)"
    using assms(2) by (auto intro: in_order_sort_by)
qed (use assms in auto)

end

lemma sum_list_mset_cong:
  "mset xs = mset ys \<Longrightarrow> sum_list (map f xs) = sum_list (map f ys)"
  for f :: "'a \<Rightarrow> 'b::comm_monoid_add"
  by (metis mset_map sum_mset_sum_list)

lemma sum_list_sort_by [simp]: "sum_list (map f (sort_by lt xs)) = sum_list (map f xs)"
  for f :: "'a \<Rightarrow> 'b::comm_monoid_add"
  by (rule sum_list_mset_cong) simp

lemma sum_list_if_filter:
  "sum_list (map (\<lambda>x. if P x then f x else 0) xs) = sum_list (map f (filter P xs))"
  for f :: "'a \<Rightarrow> 'b::comm_monoid_add"
  by (induction xs) simp_all

text \<open>A comparison by a key of a linear order.\<close>

lemma sort_order_key: "sort_order (\<lambda>a b. (f a :: 'k::linorder) < f b) (\<lambda>_. True)"
  by unfold_locales auto

text \<open>\<open>sort.Strings\<close>: byte-wise lexicographic order.\<close>

definition sort_strings :: "string list \<Rightarrow> string list" where
  "sort_strings = sort_by (<)"

interpretation strings: sort_order "(<) :: string \<Rightarrow> string \<Rightarrow> bool" "\<lambda>_. True"
  by unfold_locales auto

lemma set_sort_strings [simp]: "set (sort_strings xs) = set xs"
  by (simp add: sort_strings_def)

lemma length_sort_strings [simp]: "length (sort_strings xs) = length xs"
  by (simp add: sort_strings_def)

lemma mset_sort_strings [simp]: "mset (sort_strings xs) = mset xs"
  by (simp add: sort_strings_def)

lemma distinct_sort_strings [simp]: "distinct (sort_strings xs) = distinct xs"
  by (simp add: sort_strings_def)

lemma sorted_sort_strings: "sorted (sort_strings xs)"
  using strings.in_order_sort_by[of xs]
  by (simp add: sort_strings_def in_order_def not_less)

lemma sort_strings_cong: "mset xs = mset ys \<Longrightarrow> sort_strings xs = sort_strings ys"
  unfolding sort_strings_def by (rule strings.sort_by_unique) auto

text \<open>Sorting blocks whose elements are in order across the blocks.\<close>

lemma insert_by_append_after: "\<forall>y \<in> set ys. lt y x \<Longrightarrow> insert_by lt x (ys @ zs) = ys @ insert_by lt x zs"
  by (induction ys) auto

lemma insert_by_append_before:
  "\<forall>z \<in> set zs. \<not> lt z x \<Longrightarrow> insert_by lt x (ys @ zs) = insert_by lt x ys @ zs"
  by (induction ys) (cases zs, auto)

lemma sort_by_append_swap:
  "\<forall>x \<in> set xs. \<forall>y \<in> set ys. lt y x \<Longrightarrow> sort_by lt (xs @ ys) = sort_by lt ys @ sort_by lt xs"
  by (induction xs) (auto simp: insert_by_append_after)

lemma sort_by_append:
  "\<forall>x \<in> set xs. \<forall>y \<in> set ys. \<not> lt y x \<Longrightarrow> sort_by lt (xs @ ys) = sort_by lt xs @ sort_by lt ys"
  by (induction xs) (auto simp: insert_by_append_before)

lemma insert_by_cong:
  "(\<And>y. y \<in> set ys \<Longrightarrow> lt y x = lt' y x) \<Longrightarrow> insert_by lt x ys = insert_by lt' x ys"
  by (induction ys) auto

lemma sort_by_cong:
  "(\<And>x y. x \<in> set xs \<Longrightarrow> y \<in> set xs \<Longrightarrow> lt y x = lt' y x) \<Longrightarrow> sort_by lt xs = sort_by lt' xs"
proof (induction xs)
  case Nil
  then show ?case by simp
next
  case (Cons x xs)
  then have "sort_by lt xs = sort_by lt' xs" by simp
  moreover have "insert_by lt x (sort_by lt' xs) = insert_by lt' x (sort_by lt' xs)"
    using Cons.prems by (intro insert_by_cong) simp
  ultimately show ?case by simp
qed

lemma sort_by_trivial: "\<forall>x \<in> set xs. \<forall>y \<in> set xs. \<not> lt y x \<Longrightarrow> sort_by lt xs = xs"
proof (induction xs)
  case Nil
  then show ?case by simp
next
  case (Cons x xs)
  then show ?case by (cases xs) auto
qed

lemma map_filter_mem: "y \<in> set (List.map_filter f xs) \<longleftrightarrow> (\<exists>x \<in> set xs. f x = Some y)"
  by (force simp: List.map_filter_def)

lemma filter_ConsD: "filter P xs = y # ys \<Longrightarrow> y \<in> set xs \<and> P y"
  by (auto simp: filter_eq_Cons_iff)

lemma filter_Cons_ex: "x \<in> set xs \<Longrightarrow> P x \<Longrightarrow> \<exists>y ys. filter P xs = y # ys"
  by (metis filter_empty_conv neq_Nil_conv)

subsection \<open>Loops over several variables\<close>

text \<open>A variable of a loop that is updated from itself and the element alone.\<close>

lemma fold_project:
  "(\<And>x st. g (f x st) = h x (g st)) \<Longrightarrow> g (fold f xs st) = fold h xs (g st)"
  by (induction xs arbitrary: st) auto

subsection \<open>Grouping: one pass that fills a map of accumulators\<close>

text \<open>
  \<^verbatim>\<open>
  m := map[K]V{}
  for _, x := range xs {
      k := key(x)              // or continue
      acc := m[k]              // the zero value when absent
      m[k] = upd(x, acc)
  }
  \<close>
\<close>

definition group_step ::
  "('a \<Rightarrow> 'k option) \<Rightarrow> ('a \<Rightarrow> 'v option \<Rightarrow> 'v) \<Rightarrow> 'a \<Rightarrow> ('k, 'v) gomap \<Rightarrow> ('k, 'v) gomap" where
  "group_step key upd x m =
     (case key x of None \<Rightarrow> m | Some k \<Rightarrow> AList.update k (upd x (map_of m k)) m)"

definition group_by ::
  "('a \<Rightarrow> 'k option) \<Rightarrow> ('a \<Rightarrow> 'v option \<Rightarrow> 'v) \<Rightarrow> 'a list \<Rightarrow> ('k, 'v) gomap \<Rightarrow> ('k, 'v) gomap" where
  "group_by key upd xs m = fold (group_step key upd) xs m"

definition group_fold :: "('a \<Rightarrow> 'v option \<Rightarrow> 'v) \<Rightarrow> 'a list \<Rightarrow> 'v option \<Rightarrow> 'v option" where
  "group_fold upd xs = fold (\<lambda>x acc. Some (upd x acc)) xs"

lemma group_fold_simps [simp]:
  "group_fold upd [] acc = acc"
  "group_fold upd (x # xs) acc = group_fold upd xs (Some (upd x acc))"
  by (simp_all add: group_fold_def)

lemma group_fold_append [simp]:
  "group_fold upd (xs @ ys) acc = group_fold upd ys (group_fold upd xs acc)"
  by (simp add: group_fold_def)

lemma group_fold_Some [simp]: "group_fold upd xs (Some a) \<noteq> None"
  by (induction xs arbitrary: a) auto

lemma group_fold_None_iff: "group_fold upd xs None = None \<longleftrightarrow> xs = []"
  by (cases xs) auto

lemma map_of_group_step:
  "map_of (group_step key upd x m) k =
     (if key x = Some k then Some (upd x (map_of m k)) else map_of m k)"
  by (auto simp: group_step_def update_conv' split: option.splits)

lemma map_of_group_by:
  "map_of (group_by key upd xs m) k =
     group_fold upd (filter (\<lambda>x. key x = Some k) xs) (map_of m k)"
proof (induction xs arbitrary: m)
  case Nil
  then show ?case by (simp add: group_by_def)
next
  case (Cons x xs)
  have "group_by key upd (x # xs) m = group_by key upd xs (group_step key upd x m)"
    by (simp add: group_by_def)
  then show ?case by (simp add: Cons.IH map_of_group_step)
qed

lemma distinct_group_by [simp]:
  "distinct (map fst m) \<Longrightarrow> distinct (map fst (group_by key upd xs m))"
  by (induction xs arbitrary: m)
     (auto simp: group_by_def group_step_def distinct_update split: option.splits)

lemma keys_group_by:
  "fst ` set (group_by key upd xs m) = fst ` set m \<union> {k. \<exists>x \<in> set xs. key x = Some k}"
  by (induction xs arbitrary: m)
     (auto simp: group_by_def group_step_def dom_update dom_map_of_conv_image_fst[symmetric]
       update_conv' split: option.splits if_splits)

lemma group_by_simps [simp]:
  "group_by key upd [] m = m"
  "group_by key upd (x # xs) m = group_by key upd xs (group_step key upd x m)"
  by (simp_all add: group_by_def)

text \<open>A pass keeps an invariant of the accumulators.\<close>

lemma group_fold_invariant:
  assumes "group_fold upd xs acc = Some r"
    and "\<And>a. acc = Some a \<Longrightarrow> P a"
    and "\<And>x a. x \<in> set xs \<Longrightarrow> (\<And>b. a = Some b \<Longrightarrow> P b) \<Longrightarrow> P (upd x a)"
  shows "P r"
  using assms
proof (induction xs arbitrary: acc)
  case Nil
  then show ?case by simp
next
  case (Cons x xs)
  have "P (upd x acc)" using Cons.prems(2) Cons.prems(3)[of x acc] by auto
  then show ?case
    using Cons.prems by (intro Cons.IH[of "Some (upd x acc)"]) auto
qed

text \<open>
  What the accumulators add up to: a measure that each update increases by a weight of the
  element sums, over the whole map, to the weights of the elements that have a key.
\<close>

lemma sum_update:
  fixes g :: "'v \<Rightarrow> 'b::comm_monoid_add"
  assumes "distinct (map fst m)"
    and "map_of m k = None \<Longrightarrow> g v = w"
    and "\<And>u. map_of m k = Some u \<Longrightarrow> g v = g u + w"
  shows "sum_list (map (\<lambda>kv. g (snd kv)) (AList.update k v m)) =
    sum_list (map (\<lambda>kv. g (snd kv)) m) + w"
  using assms
proof (induction m)
  case Nil
  then show ?case by simp
next
  case (Cons kv m)
  obtain k' v' where kv: "kv = (k', v')" by fastforce
  show ?case
  proof (cases "k' = k")
    case True
    then show ?thesis using Cons.prems(3)[of v'] kv by (simp add: ac_simps)
  next
    case False
    then show ?thesis using Cons kv by (simp add: ac_simps)
  qed
qed

lemma sum_group_by_inv:
  fixes g :: "'v \<Rightarrow> 'b::comm_monoid_add"
  assumes "distinct (map fst m)" "\<And>k u. map_of m k = Some u \<Longrightarrow> P k u"
    and "\<And>x k. x \<in> set xs \<Longrightarrow> key x = Some k \<Longrightarrow>
      P k (upd x None) \<and> g (upd x None) = w x"
    and "\<And>x k u. x \<in> set xs \<Longrightarrow> key x = Some k \<Longrightarrow> P k u \<Longrightarrow>
      P k (upd x (Some u)) \<and> g (upd x (Some u)) = g u + w x"
  shows "sum_list (map (\<lambda>kv. g (snd kv)) (group_by key upd xs m)) =
    sum_list (map (\<lambda>kv. g (snd kv)) m) + sum_list (map w (filter (\<lambda>x. key x \<noteq> None) xs))"
  using assms
proof (induction xs arbitrary: m)
  case Nil
  then show ?case by simp
next
  case (Cons x xs)
  note step = Cons.prems(3,4)[of x]
  show ?case
  proof (cases "key x")
    case None
    then show ?thesis using Cons by (simp add: group_step_def)
  next
    case (Some k)
    let ?v = "upd x (map_of m k)"
    have v: "P k ?v"
      using step(1,2)[of k] Some Cons.prems(2)[of k] by (cases "map_of m k") auto
    have "sum_list (map (\<lambda>kv. g (snd kv)) (AList.update k ?v m)) =
        sum_list (map (\<lambda>kv. g (snd kv)) m) + w x"
      using Cons.prems(1,2) step[of k] Some by (intro sum_update) auto
    moreover have "sum_list (map (\<lambda>kv. g (snd kv)) (group_by key upd xs (AList.update k ?v m))) =
        sum_list (map (\<lambda>kv. g (snd kv)) (AList.update k ?v m)) +
        sum_list (map w (filter (\<lambda>x. key x \<noteq> None) xs))"
      using Cons.prems v
      by (intro Cons.IH) (auto simp: distinct_update update_conv' split: if_splits)
    ultimately show ?thesis
      using Some by (simp add: group_step_def ac_simps)
  qed
qed

lemma sum_group_by:
  fixes g :: "'v \<Rightarrow> 'b::comm_monoid_add"
  assumes "distinct (map fst m)"
    and "\<And>x. g (upd x None) = w x" and "\<And>x u. g (upd x (Some u)) = g u + w x"
  shows "sum_list (map (\<lambda>kv. g (snd kv)) (group_by key upd xs m)) =
    sum_list (map (\<lambda>kv. g (snd kv)) m) + sum_list (map w (filter (\<lambda>x. key x \<noteq> None) xs))"
  using assms by (intro sum_group_by_inv[where P = "\<lambda>_ _. True"]) auto


text \<open>A comparison by two keys, one after the other.\<close>

lemma sort_order_lex: "sort_order (\<lambda>a b. if f a \<noteq> f b then (f a :: 'k::linorder) < f b else (g a :: 'l::linorder) < g b) (\<lambda>_. True)"
proof
  fix a b
  show "(if f a \<noteq> f b then f a < f b else g a < g b) \<Longrightarrow> \<not> (if f b \<noteq> f a then f b < f a else g b < g a)"
    by (cases "f a = f b") auto
next
  fix a b c
  show "(if f a \<noteq> f c then f a < f c else g a < g c) \<Longrightarrow>
      (if f a \<noteq> f b then f a < f b else g a < g b) \<or> (if f b \<noteq> f c then f b < f c else g b < g c)"
    by (cases "f a = f b"; cases "f b = f c") (auto split: if_splits)
qed

end
