(* ===== verification/GoFloat.thy ===== *)
theory GoFloat
  imports Prelude Complex_Main "HOL-Library.Log_Nat" "HOL-Library.Word"
begin

section \<open>Go's numbers: float64 and int64\<close>

text \<open>
  \<open>float64\<close> is IEEE 754 binary64 with rounding to nearest, ties to even. A finite value is the
  rational number it denotes, and every operation computes the exact result and rounds it:
  to 53 significant bits, with the exponent bounded below by -1074 (gradual underflow) and
  overflow to an infinity from 2 ^ 1024. The sign of a zero is not represented; the programs
  modelled here never divide by a zero and never print one with a sign. The repository's
  Dockerfile builds for linux/amd64 at its baseline, where the compiler does not fuse
  multiplications and additions.

  \<open>int64\<close> is a 64-bit word read by \<open>sint\<close>; additions wrap around.
\<close>

type_synonym int64 = "64 word"
type_synonym int32 = "32 word"

datatype f64 = NaN | PInf | NInf | Fin rat

subsection \<open>Rounding to an integer, ties to even\<close>

definition rnd_even :: "rat \<Rightarrow> int" where
  "rnd_even x =
     (let f = \<lfloor>x\<rfloor>; d = x - of_int f
      in if d < 1 / 2 then f else if d > 1 / 2 then f + 1 else if even f then f else f + 1)"

lemma rnd_even_of_int [simp]: "rnd_even (of_int n) = n"
  by (simp add: rnd_even_def)

lemma rnd_even_bounds: "of_int (rnd_even x) - x \<le> 1 / 2 \<and> x - of_int (rnd_even x) \<le> 1 / 2"
proof -
  have "of_int \<lfloor>x\<rfloor> \<le> x" "x < of_int \<lfloor>x\<rfloor> + 1" by linarith+
  then show ?thesis
    by (auto simp: rnd_even_def Let_def simp del: of_int_floor_le)
qed

lemma rnd_even_mono: "x \<le> y \<Longrightarrow> rnd_even x \<le> rnd_even y"
proof -
  assume le: "x \<le> y"
  then have fl: "\<lfloor>x\<rfloor> \<le> \<lfloor>y\<rfloor>" by (rule floor_mono)
  have ge: "\<lfloor>y\<rfloor> \<le> rnd_even y" and lex: "rnd_even x \<le> \<lfloor>x\<rfloor> + 1"
    by (auto simp: rnd_even_def Let_def)
  show ?thesis
  proof (cases "\<lfloor>x\<rfloor> = \<lfloor>y\<rfloor>")
    case True
    then show ?thesis using le by (auto simp: rnd_even_def Let_def)
  next
    case False
    then show ?thesis using fl ge lex by linarith
  qed
qed

lemma rnd_even_minus: "rnd_even (- x) = - rnd_even x"
proof (cases "x = of_int \<lfloor>x\<rfloor>")
  case True
  then show ?thesis
    by (metis of_int_minus rnd_even_of_int)
next
  case False
  then have "\<lfloor>- x\<rfloor> = - \<lfloor>x\<rfloor> - 1"
    using floor_correct[of x] by (intro floor_unique) (auto simp: order.order_iff_strict)
  then show ?thesis
    by (auto simp: rnd_even_def Let_def)
qed

subsection \<open>The binary exponent of a rational number\<close>

definition pow2 :: "int \<Rightarrow> rat" where
  "pow2 e = (if 0 \<le> e then 2 ^ nat e else 1 / 2 ^ nat (- e))"

lemma pow2_powi: "pow2 e = 2 powi e"
  by (simp add: pow2_def power_int_def field_simps)

lemma pow2_pos [simp]: "0 < pow2 e"
  by (simp add: pow2_def)

lemma pow2_nonneg [simp]: "0 \<le> pow2 e"
  by (simp add: pow2_def)

lemma pow2_neq_0 [simp]: "pow2 e \<noteq> 0"
  using pow2_pos[of e] by (simp del: pow2_pos)

lemma pow2_add: "pow2 (a + b) = pow2 a * pow2 b"
  by (simp add: pow2_powi power_int_add)

lemma pow2_diff: "pow2 (a - b) = pow2 a / pow2 b"
  by (simp add: pow2_powi power_int_diff)

lemma pow2_0 [simp]: "pow2 0 = 1"
  by (simp add: pow2_def)

lemma pow2_not_le_0 [simp]: "\<not> pow2 e \<le> 0"
  using pow2_pos[of e] by linarith

lemma pow2_strict_mono: "a < b \<Longrightarrow> pow2 a < pow2 b"
  by (simp add: pow2_powi power_int_strict_increasing)

lemma pow2_less_iff [simp]: "pow2 a < pow2 b \<longleftrightarrow> a < b"
  by (metis linorder_neq_iff order_less_asym pow2_strict_mono)

lemma pow2_le_iff [simp]: "pow2 a \<le> pow2 b \<longleftrightarrow> a \<le> b"
  by (metis linorder_not_less pow2_less_iff)

lemma pow2_of_nat: "pow2 (int n) = 2 ^ n"
  by (simp add: pow2_def)

lemma pow2_is_int: "0 \<le> e \<Longrightarrow> pow2 e = of_int (2 ^ nat e)"
  by (simp add: pow2_def)

definition ilog2 :: "rat \<Rightarrow> int" where
  "ilog2 x =
     (let (p, q) = quotient_of x; e = bitlen \<bar>p\<bar> - bitlen q
      in if pow2 e \<le> \<bar>x\<bar> then e else e - 1)"

lemma ilog2_bounds:
  assumes "x \<noteq> 0"
  shows "pow2 (ilog2 x) \<le> \<bar>x\<bar>" "\<bar>x\<bar> < pow2 (ilog2 x + 1)"
proof -
  obtain p q where pq: "quotient_of x = (p, q)" by (cases "quotient_of x")
  have q: "0 < q" and x: "x = of_int p / of_int q"
    using pq by (auto dest: quotient_of_denom_pos quotient_of_div)
  have p: "0 < \<bar>p\<bar>" using x assms by auto
  define a b where "a = bitlen \<bar>p\<bar>" and "b = bitlen q"
  have ab: "1 \<le> a" "1 \<le> b"
    using p q by (auto simp: a_def b_def bitlen_alt_def)
  have P: "pow2 (a - 1) \<le> of_int \<bar>p\<bar>" "of_int \<bar>p\<bar> < pow2 a"
    and Q: "pow2 (b - 1) \<le> of_int q" "of_int q < pow2 b"
    using bitlen_bounds[OF p] bitlen_bounds[OF q] ab
    by (simp_all add: a_def b_def pow2_is_int del: of_int_power of_int_abs)
  have ax: "\<bar>x\<bar> = of_int \<bar>p\<bar> / of_int q" using x q by (simp add: abs_divide)
  have up: "\<bar>x\<bar> < pow2 (a - b + 1)"
  proof -
    have "\<bar>x\<bar> < pow2 a / pow2 (b - 1)"
      unfolding ax using P Q q by (intro frac_less) auto
    then show ?thesis by (simp flip: pow2_diff add: algebra_simps)
  qed
  have lo: "pow2 (a - b - 1) \<le> \<bar>x\<bar>"
  proof -
    have "pow2 (a - 1) / pow2 b \<le> \<bar>x\<bar>"
      unfolding ax using P Q q by (intro frac_le) auto
    then show ?thesis by (simp flip: pow2_diff add: algebra_simps)
  qed
  have e: "ilog2 x = (if pow2 (a - b) \<le> \<bar>x\<bar> then a - b else a - b - 1)"
    by (simp add: ilog2_def pq a_def b_def Let_def)
  show "pow2 (ilog2 x) \<le> \<bar>x\<bar>" "\<bar>x\<bar> < pow2 (ilog2 x + 1)"
    using up lo by (auto simp: e)
qed

lemma ilog2_unique:
  assumes "pow2 e \<le> \<bar>x\<bar>" "\<bar>x\<bar> < pow2 (e + 1)"
  shows "ilog2 x = e"
proof -
  have "x \<noteq> 0" using assms(1) by auto
  note b = ilog2_bounds[OF this]
  have "pow2 (ilog2 x) < pow2 (e + 1)" "pow2 e < pow2 (ilog2 x + 1)"
    using assms b by linarith+
  then show ?thesis by simp
qed

lemma ilog2_le: "x \<noteq> 0 \<Longrightarrow> \<bar>x\<bar> < pow2 e \<Longrightarrow> ilog2 x < e"
  using ilog2_bounds(1)[of x] by (metis le_less_trans pow2_less_iff)

lemma ilog2_ge: "pow2 e \<le> \<bar>x\<bar> \<Longrightarrow> e \<le> ilog2 x"
proof -
  assume le: "pow2 e \<le> \<bar>x\<bar>"
  then have "x \<noteq> 0" by auto
  then have "pow2 e < pow2 (ilog2 x + 1)" using ilog2_bounds(2)[of x] le by linarith
  then show ?thesis by simp
qed

lemma ilog2_mono: "x \<noteq> 0 \<Longrightarrow> \<bar>x\<bar> \<le> \<bar>y\<bar> \<Longrightarrow> ilog2 x \<le> ilog2 y"
  using ilog2_bounds(1)[of x] by (intro ilog2_ge) linarith

lemma ilog2_minus [simp]: "ilog2 (- x) = ilog2 x"
proof (cases "x = 0")
  case False
  then show ?thesis using ilog2_bounds[of x] by (intro ilog2_unique) auto
qed simp

subsection \<open>Rounding to binary64\<close>

definition ulp_exp :: "rat \<Rightarrow> int" where
  "ulp_exp x = max (ilog2 x - 52) (- 1074)"

definition round_rat :: "rat \<Rightarrow> rat" where
  "round_rat x =
     (if x = 0 then 0 else of_int (rnd_even (x / pow2 (ulp_exp x))) * pow2 (ulp_exp x))"

definition rnd :: "rat \<Rightarrow> f64" where
  "rnd x =
     (let y = round_rat x
      in if pow2 1024 \<le> y then PInf else if y \<le> - pow2 1024 then NInf else Fin y)"

lemma ulp_exp_minus [simp]: "ulp_exp (- x) = ulp_exp x"
  by (simp add: ulp_exp_def)

lemma round_rat_0 [simp]: "round_rat 0 = 0"
  by (simp add: round_rat_def)

lemma round_rat_minus: "round_rat (- x) = - round_rat x"
  by (simp add: round_rat_def rnd_even_minus)

text \<open>A multiple of \<open>2 ^ k\<close> with at most 53 significant bits is exact.\<close>

lemma round_rat_exact:
  assumes x: "x = of_int m * pow2 k" and m: "\<bar>m\<bar> \<le> 2 ^ 53" and k: "- 1074 \<le> k"
  shows "round_rat x = x"
proof (cases "x = 0")
  case False
  have int: "round_rat x = x" if "x / pow2 (ulp_exp x) = of_int n" for n
  proof -
    have "x = of_int n * pow2 (ulp_exp x)"
      using that by (simp add: divide_eq_eq)
    then show ?thesis
      using False that by (simp add: round_rat_def)
  qed
  have ax: "\<bar>x\<bar> = of_int \<bar>m\<bar> * pow2 k"
    unfolding x by (simp add: abs_mult)
  show ?thesis
  proof (cases "\<bar>m\<bar> = 2 ^ 53")
    case True
    have pk: "\<bar>x\<bar> = pow2 (53 + k)"
      unfolding ax True by (simp add: pow2_add pow2_is_int)
    then have "ilog2 x = 53 + k" by (intro ilog2_unique) simp_all
    then have u: "ulp_exp x = k + 1" using k by (simp add: ulp_exp_def)
    have "x / pow2 (k + 1) = of_int (m div 2)"
    proof -
      have "m = 2 ^ 53 \<or> m = - (2 ^ 53)" using True by linarith
      then have "of_int m / 2 = (of_int (m div 2) :: rat)" by auto
      then show ?thesis by (simp add: x pow2_add pow2_is_int)
    qed
    then show ?thesis using int u by simp
  next
    case m_less: False
    have "\<bar>x\<bar> < pow2 (53 + k)"
    proof -
      have "\<bar>m\<bar> < 2 ^ 53" using m m_less by linarith
      then have "(of_int \<bar>m\<bar> :: rat) < of_int (2 ^ 53)" by (rule of_int_less_iff[THEN iffD2])
      then show ?thesis
        unfolding ax by (simp add: pow2_add pow2_is_int)
    qed
    then have "ulp_exp x \<le> k" using ilog2_le[OF False] k by (fastforce simp: ulp_exp_def)
    then have "x / pow2 (ulp_exp x) = of_int (m * 2 ^ nat (k - ulp_exp x))"
      by (simp add: x pow2_diff[symmetric] flip: times_divide_eq_right)
         (simp add: pow2_is_int)
    then show ?thesis by (rule int)
  qed
qed simp

lemma round_rat_of_int [simp]: "\<bar>n\<bar> \<le> 2 ^ 53 \<Longrightarrow> round_rat (of_int n) = of_int n"
  by (rule round_rat_exact[of _ n 0]) simp_all

lemma round_rat_numeral [simp]:
  "(numeral w :: int) \<le> 2 ^ 53 \<Longrightarrow> round_rat (numeral w) = numeral w"
  using round_rat_of_int[of "numeral w"] by simp

lemma round_rat_1 [simp]: "round_rat 1 = 1"
  using round_rat_of_int[of 1] by simp

definition round_at :: "int \<Rightarrow> rat \<Rightarrow> rat" where
  "round_at k x = of_int (rnd_even (x / pow2 k)) * pow2 k"

lemma round_rat_at: "round_rat x = round_at (ulp_exp x) x"
  by (simp add: round_rat_def round_at_def rnd_even_def)

lemma round_at_mono: "x \<le> y \<Longrightarrow> round_at k x \<le> round_at k y"
  by (simp add: round_at_def rnd_even_mono divide_right_mono)

lemma round_at_pow2: "k \<le> j \<Longrightarrow> round_at k (pow2 j) = pow2 j"
proof -
  assume "k \<le> j"
  then have "pow2 j / pow2 k = of_int (2 ^ nat (j - k))"
    by (simp add: pow2_is_int flip: pow2_diff)
  then show ?thesis
    by (simp add: round_at_def del: of_int_power) (simp add: divide_eq_eq)
qed

lemma round_rat_mono_pos:
  assumes "0 < x" "x \<le> y"
  shows "round_rat x \<le> round_rat y"
proof -
  define k l where "k = ulp_exp x" and "l = ulp_exp y"
  have kl: "k \<le> l"
    using ilog2_mono[of x y] assms by (simp add: k_def l_def ulp_exp_def)
  show ?thesis
  proof (cases "k = l")
    case True
    then show ?thesis
      using round_at_mono[OF assms(2), of k] by (simp add: round_rat_at k_def l_def)
  next
    case False
    then have l: "l = ilog2 y - 52" and k: "ilog2 x - 52 \<le> k" "k < l"
      using kl by (auto simp: k_def l_def ulp_exp_def)
    have "x < pow2 (ilog2 x + 1)" "pow2 (ilog2 y) \<le> y"
      using ilog2_bounds[of x] ilog2_bounds[of y] assms by auto
    moreover have "pow2 (ilog2 x + 1) \<le> pow2 (ilog2 y)"
      using k l by simp
    ultimately have "x \<le> pow2 (ilog2 y)" "pow2 (ilog2 y) \<le> y" by linarith+
    then have "round_at k x \<le> pow2 (ilog2 y)" "pow2 (ilog2 y) \<le> round_at l y"
      using round_at_mono[of x "pow2 (ilog2 y)" k] round_at_mono[of "pow2 (ilog2 y)" y l]
        round_at_pow2[of k "ilog2 y"] round_at_pow2[of l "ilog2 y"] k l by simp_all
    then show ?thesis by (simp add: round_rat_at k_def l_def)
  qed
qed

lemma round_rat_nonneg: "0 \<le> x \<Longrightarrow> 0 \<le> round_rat x"
  using round_at_mono[of 0 x "ulp_exp x"]
  by (simp add: round_rat_at round_at_def rnd_even_def)

text \<open>Rounding is monotone: the fact behind every bound on a computed score.\<close>

lemma round_rat_mono: "x \<le> y \<Longrightarrow> round_rat x \<le> round_rat y"
proof -
  assume le: "x \<le> y"
  consider "0 < x" | "x \<le> 0" "0 \<le> y" | "y < 0" by linarith
  then show ?thesis
  proof cases
    case 1
    then show ?thesis using le by (rule round_rat_mono_pos)
  next
    case 2
    then show ?thesis
      using round_rat_nonneg[of "- x"] round_rat_nonneg[of y] by (simp add: round_rat_minus)
  next
    case 3
    then show ?thesis
      using round_rat_mono_pos[of "- y" "- x"] le by (simp add: round_rat_minus)
  qed
qed

lemma round_rat_idem [simp]: "round_rat (round_rat x) = round_rat x"
proof (cases "x = 0")
  case False
  define k where "k = ulp_exp x"
  define m where "m = rnd_even (x / pow2 k)"
  have "\<bar>x\<bar> \<le> pow2 (k + 53)"
  proof -
    have "pow2 (ilog2 x + 1) \<le> pow2 (k + 53)" by (simp add: k_def ulp_exp_def)
    then show ?thesis using ilog2_bounds(2)[OF False] by linarith
  qed
  then have "\<bar>x / pow2 k\<bar> \<le> of_int (2 ^ 53)"
    by (simp add: abs_divide divide_le_eq pow2_add pow2_is_int mult.commute)
  then have "x / pow2 k \<le> of_int (2 ^ 53)" "of_int (- (2 ^ 53)) \<le> x / pow2 k"
    unfolding abs_le_iff of_int_minus by linarith+
  then have "m \<le> 2 ^ 53" "- (2 ^ 53) \<le> m"
    unfolding m_def by (metis rnd_even_mono rnd_even_of_int)+
  then have "\<bar>m\<bar> \<le> 2 ^ 53" by linarith
  then have "round_rat (of_int m * pow2 k) = of_int m * pow2 k"
    by (intro round_rat_exact[of _ m k]) (simp_all add: k_def ulp_exp_def)
  moreover have "round_rat x = of_int m * pow2 k"
    using False by (simp add: round_rat_def m_def k_def)
  ultimately show ?thesis by simp
qed simp

subsection \<open>Comparison\<close>

text \<open>Every comparison with a NaN is false.\<close>

fun fle :: "f64 \<Rightarrow> f64 \<Rightarrow> bool" where
  "fle NaN _ = False"
| "fle _ NaN = False"
| "fle NInf _ = True"
| "fle _ PInf = True"
| "fle (Fin a) (Fin b) = (a \<le> b)"
| "fle _ _ = False"

definition feq :: "f64 \<Rightarrow> f64 \<Rightarrow> bool" where
  "feq x y \<longleftrightarrow> x \<noteq> NaN \<and> x = y"

definition flt :: "f64 \<Rightarrow> f64 \<Rightarrow> bool" where
  "flt x y \<longleftrightarrow> fle x y \<and> x \<noteq> y"

abbreviation fge :: "f64 \<Rightarrow> f64 \<Rightarrow> bool" where "fge x y \<equiv> fle y x"
abbreviation fgt :: "f64 \<Rightarrow> f64 \<Rightarrow> bool" where "fgt x y \<equiv> flt y x"

lemma fle_refl [simp]: "fle x x \<longleftrightarrow> x \<noteq> NaN"
  by (cases x) auto

lemma fle_trans: "fle x y \<Longrightarrow> fle y z \<Longrightarrow> fle x z"
  by (cases x; cases y; cases z) auto

lemma fle_antisym: "fle x y \<Longrightarrow> fle y x \<Longrightarrow> x = y"
  by (cases x; cases y) auto

lemma fle_linear: "x \<noteq> NaN \<Longrightarrow> y \<noteq> NaN \<Longrightarrow> fle x y \<or> fle y x"
  by (cases x; cases y) auto

lemma fle_NaN [simp]: "fle x NaN = False" "fle NaN x = False"
  by (cases x; simp)+

lemma fle_infs [simp]: "fle NInf x \<longleftrightarrow> x \<noteq> NaN" "fle x PInf \<longleftrightarrow> x \<noteq> NaN"
  by (cases x; simp)+

lemma flt_Fin [simp]: "flt (Fin a) (Fin b) \<longleftrightarrow> a < b"
  by (auto simp: flt_def)

lemma flt_NaN [simp]: "flt x NaN = False" "flt NaN x = False"
  by (simp_all add: flt_def)

lemma flt_irrefl [simp]: "\<not> flt x x"
  by (simp add: flt_def)

lemma flt_asym: "flt x y \<Longrightarrow> \<not> flt y x"
  by (auto simp: flt_def dest: fle_antisym)

lemma not_flt: "x \<noteq> NaN \<Longrightarrow> y \<noteq> NaN \<Longrightarrow> \<not> flt x y \<longleftrightarrow> fle y x"
  using fle_linear[of x y] fle_antisym[of x y] by (auto simp: flt_def)

lemma flt_total: "x \<noteq> NaN \<Longrightarrow> y \<noteq> NaN \<Longrightarrow> x \<noteq> y \<Longrightarrow> flt x y \<or> flt y x"
  using fle_linear by (auto simp: flt_def)

lemma flt_neg_trans: "y \<noteq> NaN \<Longrightarrow> flt x z \<Longrightarrow> flt x y \<or> flt y z"
  by (cases x; cases y; cases z) (auto simp: flt_def)

lemma flt_trans: "flt x y \<Longrightarrow> flt y z \<Longrightarrow> flt x z"
  unfolding flt_def by (meson fle_antisym fle_trans)

lemma flt_fle_trans: "flt x y \<Longrightarrow> fle y z \<Longrightarrow> flt x z"
  unfolding flt_def by (metis fle_antisym fle_trans)

lemma fle_flt_trans: "fle x y \<Longrightarrow> flt y z \<Longrightarrow> flt x z"
  unfolding flt_def by (metis fle_antisym fle_trans)

lemma flt_imp_fle: "flt x y \<Longrightarrow> fle x y"
  by (simp add: flt_def)

lemma flt_imp_not_NaN: "flt x y \<Longrightarrow> x \<noteq> NaN \<and> y \<noteq> NaN"
  by (auto simp: flt_def)

lemma flt_infs [simp]: "flt (Fin a) PInf" "flt NInf (Fin a)" "\<not> flt PInf x" "\<not> flt x NInf"
  by (cases x; simp add: flt_def)+

lemma feq_simps [simp]: "feq (Fin a) (Fin b) \<longleftrightarrow> a = b" "feq NaN x = False" "feq x NaN = False"
  by (auto simp: feq_def)

subsection \<open>Arithmetic\<close>

lemma rnd_not_NaN [simp]: "rnd x \<noteq> NaN"
  by (simp add: rnd_def Let_def)

lemma rnd_0 [simp]: "rnd 0 = Fin 0"
  by (simp add: rnd_def)

lemma rnd_mono: "x \<le> y \<Longrightarrow> fle (rnd x) (rnd y)"
  using round_rat_mono[of x y] by (auto simp: rnd_def Let_def)

lemma rnd_Fin: "rnd x = Fin y \<longleftrightarrow> y = round_rat x \<and> \<bar>y\<bar> < pow2 1024"
  by (auto simp: rnd_def Let_def abs_less_iff)

lemma rnd_exact:
  assumes "round_rat x = x" "\<bar>x\<bar> < pow2 1024"
  shows "rnd x = Fin x"
  using assms by (simp add: rnd_Fin)

lemma pow2_53_1024: "(2 :: rat) ^ 53 < pow2 1024"
  using pow2_less_iff[of 53 1024] by (simp add: pow2_is_int)

lemma rnd_of_int: "\<bar>n\<bar> \<le> 2 ^ 53 \<Longrightarrow> rnd (of_int n) = Fin (of_int n)"
proof -
  assume n: "\<bar>n\<bar> \<le> 2 ^ 53"
  then have "(of_int \<bar>n\<bar> :: rat) \<le> of_int (2 ^ 53)" by (simp only: of_int_le_iff)
  then have "\<bar>of_int n :: rat\<bar> < pow2 1024" using pow2_53_1024 by simp
  then show ?thesis using n by (intro rnd_exact) simp_all
qed

lemma rnd_numeral [simp]: "(numeral w :: int) \<le> 2 ^ 53 \<Longrightarrow> rnd (numeral w) = Fin (numeral w)"
  using rnd_of_int[of "numeral w"] by simp

lemma rnd_1 [simp]: "rnd 1 = Fin 1"
  using rnd_of_int[of 1] by simp

lemma rnd_minus_numeral [simp]:
  "(numeral w :: int) \<le> 2 ^ 53 \<Longrightarrow> rnd (- numeral w) = Fin (- numeral w)"
  using rnd_of_int[of "- numeral w"] by simp

text \<open>A fraction whose denominator is a power of two and whose numerator has 53 bits.\<close>

lemma rnd_dyadic:
  "\<bar>m\<bar> \<le> 2 ^ 53 \<Longrightarrow> k \<le> 1074 \<Longrightarrow> rnd (of_int m / 2 ^ k) = Fin (of_int m / 2 ^ k)"
proof -
  assume m: "\<bar>m\<bar> \<le> 2 ^ 53" and k: "k \<le> 1074"
  have e: "of_int m / 2 ^ k = of_int m * pow2 (- int k)" by (simp add: pow2_def)
  have "\<bar>of_int m / 2 ^ k :: rat\<bar> \<le> of_int \<bar>m\<bar> / 1"
    unfolding abs_divide by (intro frac_le) simp_all
  also have "\<dots> \<le> of_int (2 ^ 53)" using m by (simp only: of_int_le_iff div_by_1)
  finally have "\<bar>of_int m / 2 ^ k :: rat\<bar> < pow2 1024" using pow2_53_1024 by simp
  moreover have "round_rat (of_int m / 2 ^ k) = of_int m / 2 ^ k"
    using round_rat_exact[OF e m] k by simp
  ultimately show ?thesis by (rule rnd_exact[rotated])
qed

fun fneg :: "f64 \<Rightarrow> f64" where
  "fneg NaN = NaN"
| "fneg PInf = NInf"
| "fneg NInf = PInf"
| "fneg (Fin a) = Fin (- a)"

fun fadd :: "f64 \<Rightarrow> f64 \<Rightarrow> f64" where
  "fadd (Fin a) (Fin b) = rnd (a + b)"
| "fadd NaN _ = NaN"
| "fadd _ NaN = NaN"
| "fadd PInf NInf = NaN"
| "fadd NInf PInf = NaN"
| "fadd PInf _ = PInf"
| "fadd _ PInf = PInf"
| "fadd NInf _ = NInf"
| "fadd _ NInf = NInf"

definition fsub :: "f64 \<Rightarrow> f64 \<Rightarrow> f64" where
  "fsub x y = fadd x (fneg y)"

definition finf_of :: "bool \<Rightarrow> f64" where
  "finf_of neg = (if neg then NInf else PInf)"

fun fsign :: "f64 \<Rightarrow> bool" where
  "fsign NInf = True"
| "fsign (Fin a) = (a < 0)"
| "fsign _ = False"

fun fmul :: "f64 \<Rightarrow> f64 \<Rightarrow> f64" where
  "fmul (Fin a) (Fin b) = rnd (a * b)"
| "fmul NaN _ = NaN"
| "fmul _ NaN = NaN"
| "fmul x y =
     (if x = Fin 0 \<or> y = Fin 0 then NaN else finf_of (fsign x \<noteq> fsign y))"

fun fdiv :: "f64 \<Rightarrow> f64 \<Rightarrow> f64" where
  "fdiv (Fin a) (Fin b) =
     (if b = 0 then (if a = 0 then NaN else finf_of (a < 0)) else rnd (a / b))"
| "fdiv NaN _ = NaN"
| "fdiv _ NaN = NaN"
| "fdiv (Fin a) _ = Fin 0"
| "fdiv x (Fin b) = finf_of (fsign x \<noteq> (b < 0))"
| "fdiv _ _ = NaN"

lemma fsub_Fin [simp]: "fsub (Fin a) (Fin b) = rnd (a - b)"
  by (simp add: fsub_def)

text \<open>A constant expression of the source is exact until it is converted to float64.\<close>

definition flit :: "rat \<Rightarrow> f64" where
  "flit = rnd"

lemma flit_numeral [simp]:
  "flit 0 = Fin 0" "flit 1 = Fin 1"
  "(numeral w :: int) \<le> 2 ^ 53 \<Longrightarrow> flit (numeral w) = Fin (numeral w)"
  by (simp_all add: flit_def)

text \<open>\<open>math.Max\<close> and \<open>math.Min\<close> with their special cases for infinities and NaN.\<close>

definition math_Max :: "f64 \<Rightarrow> f64 \<Rightarrow> f64" where
  "math_Max x y =
     (if x = PInf \<or> y = PInf then PInf
      else if x = NaN \<or> y = NaN then NaN
      else if flt y x then x else y)"

definition math_Min :: "f64 \<Rightarrow> f64 \<Rightarrow> f64" where
  "math_Min x y =
     (if x = NInf \<or> y = NInf then NInf
      else if x = NaN \<or> y = NaN then NaN
      else if flt x y then x else y)"

definition round_away :: "rat \<Rightarrow> int" where
  "round_away x = (if 0 \<le> x then \<lfloor>x + 1 / 2\<rfloor> else - \<lfloor>1 / 2 - x\<rfloor>)"

definition trunc_rat :: "rat \<Rightarrow> int" where
  "trunc_rat x = (if 0 \<le> x then \<lfloor>x\<rfloor> else - \<lfloor>- x\<rfloor>)"

text \<open>
  \<open>math.Round\<close>, \<open>math.Floor\<close> and \<open>math.Ceil\<close> return an integer that is itself a
  float64 (a float64 of at least 2 ^ 52 is an integer), so nothing is rounded again.
\<close>

fun map_Fin :: "(rat \<Rightarrow> int) \<Rightarrow> f64 \<Rightarrow> f64" where
  "map_Fin f (Fin a) = Fin (of_int (f a))"
| "map_Fin f x = x"

definition math_Round :: "f64 \<Rightarrow> f64" where "math_Round = map_Fin round_away"
definition math_Floor :: "f64 \<Rightarrow> f64" where "math_Floor = map_Fin floor"
definition math_Ceil :: "f64 \<Rightarrow> f64" where "math_Ceil = map_Fin ceiling"

subsection \<open>Conversions\<close>

definition of_i64 :: "int64 \<Rightarrow> f64" where
  "of_i64 w = rnd (of_int (sint w))"

definition of_i32 :: "int32 \<Rightarrow> f64" where
  "of_i32 w = rnd (of_int (sint w))"

declare of_int_sint [simp del]

text \<open>A Go \<open>int\<close> that is the length of a slice or counts its elements.\<close>

definition of_len :: "nat \<Rightarrow> f64" where
  "of_len n = rnd (of_nat n)"

text \<open>
  A conversion to an integer type truncates. Where the value does not fit, the Go
  specification leaves the result to the implementation: it is the argument \<open>oor\<close>.
\<close>

fun to_i32 :: "(f64 \<Rightarrow> int32) \<Rightarrow> f64 \<Rightarrow> int32" where
  "to_i32 oor (Fin a) =
     (if - (2 ^ 31) \<le> trunc_rat a \<and> trunc_rat a < 2 ^ 31 then of_int (trunc_rat a)
      else oor (Fin a))"
| "to_i32 oor x = oor x"

fun to_i64 :: "(f64 \<Rightarrow> int64) \<Rightarrow> f64 \<Rightarrow> int64" where
  "to_i64 oor (Fin a) =
     (if - (2 ^ 63) \<le> trunc_rat a \<and> trunc_rat a < 2 ^ 63 then of_int (trunc_rat a)
      else oor (Fin a))"
| "to_i64 oor x = oor x"

lemma round_away_of_int [simp]: "round_away (of_int n) = n"
proof -
  have "\<lfloor>of_int n + 1 / 2 :: rat\<rfloor> = n" by (rule floor_unique) simp_all
  moreover have "\<lfloor>1 / 2 - of_int n :: rat\<rfloor> = - n" by (rule floor_unique) simp_all
  ultimately show ?thesis by (simp add: round_away_def)
qed

lemma round_away_0 [simp]: "round_away 0 = 0"
  using round_away_of_int[of 0] by simp

lemma round_away_numeral [simp]: "round_away (numeral w) = numeral w"
  using round_away_of_int[of "numeral w"] by simp

lemma round_away_mono: "x \<le> y \<Longrightarrow> round_away x \<le> round_away y"
proof -
  assume le: "x \<le> y"
  consider "0 \<le> x" | "x < 0" "0 \<le> y" | "y < 0" by linarith
  then show ?thesis
  proof cases
    case 1
    then show ?thesis using le by (simp add: round_away_def floor_mono)
  next
    case 2
    then have "0 \<le> \<lfloor>1 / 2 - x\<rfloor>" "0 \<le> \<lfloor>y + 1 / 2\<rfloor>" by (simp_all add: zero_le_floor)
    then have "- \<lfloor>1 / 2 - x\<rfloor> \<le> \<lfloor>y + 1 / 2\<rfloor>" by linarith
    then show ?thesis using 2 by (simp add: round_away_def)
  next
    case 3
    then show ?thesis using le by (simp add: round_away_def floor_mono)
  qed
qed

lemma trunc_rat_of_int [simp]: "trunc_rat (of_int n) = n"
  by (simp add: trunc_rat_def flip: of_int_minus)

lemma sint64_bounds: "- (2 ^ 63) \<le> sint (w :: int64)" "sint (w :: int64) < 2 ^ 63"
  using sint_ge[of w] sint_lt[of w] by simp_all

lemma sint32_bounds: "- (2 ^ 31) \<le> sint (w :: int32)" "sint (w :: int32) < 2 ^ 31"
  using sint_ge[of w] sint_lt[of w] by simp_all

lemma sint64_of_int: "- (2 ^ 63) \<le> n \<Longrightarrow> n < 2 ^ 63 \<Longrightarrow> sint (of_int n :: int64) = n"
  by (simp add: sint_sbintrunc' signed_take_bit_int_eq_self)

lemma sint32_of_int: "- (2 ^ 31) \<le> n \<Longrightarrow> n < 2 ^ 31 \<Longrightarrow> sint (of_int n :: int32) = n"
  by (simp add: sint_sbintrunc' signed_take_bit_int_eq_self)

lemma rnd_bounded:
  assumes "\<bar>x\<bar> \<le> b" "round_rat b = b" "b < pow2 1024"
  shows "rnd x = Fin (round_rat x)" "\<bar>round_rat x\<bar> \<le> b"
proof -
  have "round_rat x \<le> b" "- b \<le> round_rat x"
    using assms round_rat_mono[of x b] round_rat_mono[of "- b" x]
    by (auto simp: round_rat_minus abs_le_iff)
  then show "\<bar>round_rat x\<bar> \<le> b" by (simp add: abs_le_iff)
  then show "rnd x = Fin (round_rat x)" using assms by (simp add: rnd_Fin)
qed

lemma rnd_nonneg: "0 \<le> x \<Longrightarrow> fle (Fin 0) (rnd x)"
  using rnd_mono[of 0 x] by simp

lemma rnd_nonpos: "x \<le> 0 \<Longrightarrow> fle (rnd x) (Fin 0)"
  using rnd_mono[of x 0] by simp

lemma of_i64_mono: "sint a \<le> sint b \<Longrightarrow> fle (of_i64 a) (of_i64 b)"
  by (simp add: of_i64_def rnd_mono)

lemma of_i64_0 [simp]: "of_i64 0 = Fin 0"
  by (simp add: of_i64_def)

lemma of_i64_nonneg: "0 \<le> sint a \<Longrightarrow> fle (Fin 0) (of_i64 a)"
  by (simp add: of_i64_def rnd_nonneg)

lemma of_i64_Fin: "of_i64 a = Fin (round_rat (of_int (sint a)))"
proof -
  have "\<bar>sint a\<bar> \<le> 2 ^ 63" using sint64_bounds[of a] by (simp add: abs_le_iff)
  then have "(of_int \<bar>sint a\<bar> :: rat) \<le> of_int (2 ^ 63)" by (simp only: of_int_le_iff)
  then have a: "\<bar>of_int (sint a) :: rat\<bar> \<le> pow2 63" by (simp add: pow2_is_int)
  have "round_rat (pow2 63) = pow2 63" by (rule round_rat_exact[of _ 1 63]) simp_all
  moreover have "pow2 63 < pow2 1024" by (rule pow2_strict_mono) simp
  ultimately show ?thesis unfolding of_i64_def using a by (intro rnd_bounded(1))
qed

lemma of_i64_pos: "0 < sint a \<Longrightarrow> \<exists>r. of_i64 a = Fin r \<and> 1 \<le> r"
proof -
  assume "0 < sint a"
  then have "(1 :: rat) \<le> of_int (sint a)" by simp
  then have "1 \<le> round_rat (of_int (sint a))" 
    using round_rat_mono[of 1 "of_int (sint a)"] by simp
  then show ?thesis by (simp add: of_i64_Fin)
qed

subsection \<open>Monotonicity of the operations\<close>

lemma fle_fdiv_mono: "0 < c \<Longrightarrow> fle x y \<Longrightarrow> fle (fdiv x (Fin c)) (fdiv y (Fin c))"
  by (cases x; cases y) (auto simp: finf_of_def rnd_mono divide_right_mono)

lemma fle_fmul_mono: "0 < c \<Longrightarrow> fle x y \<Longrightarrow> fle (fmul x (Fin c)) (fmul y (Fin c))"
  by (cases x; cases y) (auto simp: finf_of_def rnd_mono)

lemma fle_round_mono: "fle x y \<Longrightarrow> fle (math_Round x) (math_Round y)"
  by (cases x; cases y) (auto simp: math_Round_def round_away_mono)

lemma fle_fadd_mono:
  "fle x x' \<Longrightarrow> fle y y' \<Longrightarrow> fadd x y \<noteq> NaN \<Longrightarrow> fadd x' y' \<noteq> NaN \<Longrightarrow>
     fle (fadd x y) (fadd x' y')"
  by (cases x; cases x'; cases y; cases y') (auto simp: rnd_mono)

text \<open>
  The general form: an operation is monotone as long as neither result is NaN, which is what a
  comparison of the results needs.
\<close>

lemma fle_fdiv_nonneg:
  "fle (Fin 0) d \<Longrightarrow> fle x y \<Longrightarrow> fdiv x d \<noteq> NaN \<Longrightarrow> fdiv y d \<noteq> NaN \<Longrightarrow> fle (fdiv x d) (fdiv y d)"
  by (cases x; cases y; cases d)
     (auto simp: finf_of_def rnd_mono divide_right_mono split: if_splits)

lemma fle_fmul_nonneg:
  "fle (Fin 0) w \<Longrightarrow> fle x y \<Longrightarrow> fmul w x \<noteq> NaN \<Longrightarrow> fmul w y \<noteq> NaN \<Longrightarrow> fle (fmul w x) (fmul w y)"
  by (cases x; cases y; cases w)
     (auto simp: finf_of_def rnd_mono mult_left_mono split: if_splits)

lemma fle_fneg: "fle x y \<Longrightarrow> fle (fneg y) (fneg x)"
  by (cases x; cases y) auto

lemma fneg_NaN [simp]: "fneg x = NaN \<longleftrightarrow> x = NaN"
  by (cases x) auto

lemma fadd_NaN: "fadd x y \<noteq> NaN \<Longrightarrow> x \<noteq> NaN \<and> y \<noteq> NaN"
  by (cases x; cases y) auto

lemma fmul_NaN: "fmul x y \<noteq> NaN \<Longrightarrow> x \<noteq> NaN \<and> y \<noteq> NaN"
  by (cases x; cases y) auto

lemma fdiv_NaN: "fdiv x y \<noteq> NaN \<Longrightarrow> x \<noteq> NaN \<and> y \<noteq> NaN"
  by (cases x; cases y) auto

lemma fsub_NaN: "fsub x y \<noteq> NaN \<Longrightarrow> x \<noteq> NaN \<and> y \<noteq> NaN"
  using fadd_NaN[of x "fneg y"] by (simp add: fsub_def)

lemma fle_fsub_left: "fle x y \<Longrightarrow> fsub x z \<noteq> NaN \<Longrightarrow> fsub y z \<noteq> NaN \<Longrightarrow> fle (fsub x z) (fsub y z)"
  using fsub_NaN[of x z] unfolding fsub_def by (intro fle_fadd_mono) auto

lemma fle_fsub_right: "fle x y \<Longrightarrow> fsub z x \<noteq> NaN \<Longrightarrow> fsub z y \<noteq> NaN \<Longrightarrow> fle (fsub z y) (fsub z x)"
  using fsub_NaN[of z x] unfolding fsub_def by (intro fle_fadd_mono fle_fneg) auto

lemma fsub_pos: "flt x y \<Longrightarrow> fsub y x \<noteq> NaN \<Longrightarrow> fle (Fin 0) (fsub y x)"
  by (cases x; cases y) (auto simp: fsub_def rnd_nonneg)

lemma not_fle_cases: "\<not> fle x y \<Longrightarrow> x = NaN \<or> y = NaN \<or> flt y x"
  using not_flt[of y x] by (auto simp: flt_def fle_linear)

lemma rnd_halves [simp]: "rnd (1 / 2) = Fin (1 / 2)" "rnd (1 / 4) = Fin (1 / 4)" "rnd (3 / 4) = Fin (3 / 4)" "rnd (1 / 8) = Fin (1 / 8)"
  using rnd_dyadic[of 1 1] rnd_dyadic[of 1 2] rnd_dyadic[of 3 2] rnd_dyadic[of 1 3] by simp_all

lemma of_i64_1 [simp]: "of_i64 1 = Fin 1" "of_i64 1000000 = Fin 1000000"
  by (simp_all add: of_i64_def)

end
