(* ===== verification/GoStrings.thy ===== *)
theory GoStrings
  imports GoFloat
begin

section \<open>Go's strings and formatting\<close>

text \<open>
  A Go string is a sequence of bytes: a \<open>string\<close> (list of \<open>char\<close>) in UTF-8. Of the
  packages strings, strconv and fmt this theory models what the operator uses. White space and
  letter case are those of ASCII: a byte of 128 or more is neither a space nor a letter here,
  and \<open>%q\<close> prints it as it is, which is Go's behaviour for printable UTF-8.
\<close>

subsection \<open>Package strings\<close>

definition lower_char :: "char \<Rightarrow> char" where
  "lower_char c =
     (let n = (of_char c :: nat) in if 65 \<le> n \<and> n \<le> 90 then char_of (n + 32) else c)"

definition upper_char :: "char \<Rightarrow> char" where
  "upper_char c =
     (let n = (of_char c :: nat) in if 97 \<le> n \<and> n \<le> 122 then char_of (n - 32) else c)"

definition ToLower :: "string \<Rightarrow> string" where "ToLower = map lower_char"
definition ToUpper :: "string \<Rightarrow> string" where "ToUpper = map upper_char"

definition is_space :: "char \<Rightarrow> bool" where
  "is_space c = (let n = (of_char c :: nat) in n = 32 \<or> (9 \<le> n \<and> n \<le> 13))"

definition TrimSpace :: "string \<Rightarrow> string" where
  "TrimSpace s = rev (dropWhile is_space (rev (dropWhile is_space s)))"

definition HasPrefix :: "string \<Rightarrow> string \<Rightarrow> bool" where
  "HasPrefix s p \<longleftrightarrow> take (length p) s = p"

definition HasSuffix :: "string \<Rightarrow> string \<Rightarrow> bool" where
  "HasSuffix s p \<longleftrightarrow> HasPrefix (rev s) (rev p)"

definition TrimSuffix :: "string \<Rightarrow> string \<Rightarrow> string" where
  "TrimSuffix s p = (if HasSuffix s p then take (length s - length p) s else s)"

fun Contains :: "string \<Rightarrow> string \<Rightarrow> bool" where
  "Contains [] p = (p = [])"
| "Contains (c # s) p = (HasPrefix (c # s) p \<or> Contains s p)"

text \<open>\<open>strings.Index\<close>: the position of the first occurrence, \<open>None\<close> for -1.\<close>

fun Index :: "string \<Rightarrow> string \<Rightarrow> nat option" where
  "Index [] p = (if p = [] then Some 0 else None)"
| "Index (c # s) p =
     (if HasPrefix (c # s) p then Some 0 else map_option Suc (Index s p))"

text \<open>\<open>strings.IndexAny\<close> and \<open>strings.LastIndex\<close> for one-byte needles.\<close>

fun IndexAny :: "string \<Rightarrow> char list \<Rightarrow> nat option" where
  "IndexAny [] cs = None"
| "IndexAny (c # s) cs = (if c \<in> set cs then Some 0 else map_option Suc (IndexAny s cs))"

definition LastIndex :: "string \<Rightarrow> char \<Rightarrow> nat option" where
  "LastIndex s c = map_option (\<lambda>i. length s - 1 - i) (IndexAny (rev s) [c])"

fun Split :: "char \<Rightarrow> string \<Rightarrow> string list" where
  "Split d [] = [[]]"
| "Split d (c # s) =
     (if c = d then [] # Split d s
      else (case Split d s of [] \<Rightarrow> [[c]] | w # ws \<Rightarrow> (c # w) # ws))"

fun Join :: "string list \<Rightarrow> string \<Rightarrow> string" where
  "Join [] sep = []"
| "Join [s] sep = s"
| "Join (s # t # ts) sep = s @ sep @ Join (t # ts) sep"

lemma HasPrefix_append [simp]: "HasPrefix (p @ s) p"
  by (simp add: HasPrefix_def)

lemma HasPrefix_iff: "HasPrefix s p \<longleftrightarrow> (\<exists>t. s = p @ t)"
  by (metis HasPrefix_append HasPrefix_def append_take_drop_id)

lemma HasSuffix_iff: "HasSuffix s p \<longleftrightarrow> (\<exists>t. s = t @ p)"
  by (simp add: HasSuffix_def HasPrefix_iff) (metis rev_append rev_rev_ident)

lemma lower_char_idem [simp]: "lower_char (lower_char c) = lower_char c"
  by (auto simp: lower_char_def Let_def)

lemma ToLower_idem [simp]: "ToLower (ToLower s) = ToLower s"
  by (simp add: ToLower_def)

lemma upper_char_idem [simp]: "upper_char (upper_char c) = upper_char c"
  by (auto simp: upper_char_def Let_def)

lemma ToUpper_idem [simp]: "ToUpper (ToUpper s) = ToUpper s"
  by (simp add: ToUpper_def)

lemma lower_upper_char [simp]: "lower_char (upper_char c) = lower_char c"
  by (auto simp: lower_char_def upper_char_def Let_def)

lemma ToLower_ToUpper [simp]: "ToLower (ToUpper s) = ToLower s"
  by (simp add: ToLower_def ToUpper_def)

lemma is_space_upper [simp]: "is_space (upper_char c) = is_space c"
  by (auto simp: is_space_def upper_char_def Let_def)

lemma is_space_lower [simp]: "is_space (lower_char c) = is_space c"
  by (auto simp: is_space_def lower_char_def Let_def)

lemma dropWhile_map_space:
  "(\<And>c. is_space (f c) = is_space c) \<Longrightarrow> dropWhile is_space (map f s) = map f (dropWhile is_space s)"
  by (induction s) auto

lemma TrimSpace_ToUpper: "TrimSpace (ToUpper s) = ToUpper (TrimSpace s)"
  by (simp add: TrimSpace_def ToUpper_def dropWhile_map_space rev_map)

lemma TrimSpace_ToLower: "TrimSpace (ToLower s) = ToLower (TrimSpace s)"
  by (simp add: TrimSpace_def ToLower_def dropWhile_map_space rev_map)

lemma dropWhile_trimmed: "s = [] \<or> \<not> is_space (hd s) \<Longrightarrow> dropWhile is_space s = s"
  by (cases s) auto

lemma TrimSpace_idem [simp]: "TrimSpace (TrimSpace s) = TrimSpace s"
proof -
  define t where "t = dropWhile is_space s"
  define u where "u = dropWhile is_space (rev t)"
  have t: "t = [] \<or> \<not> is_space (hd t)"
    unfolding t_def using hd_dropWhile by blast
  have u: "u = [] \<or> \<not> is_space (hd u)"
    unfolding u_def using hd_dropWhile by blast
  obtain v where v: "rev t = v @ u"
    unfolding u_def by (metis takeWhile_dropWhile_id)
  have "dropWhile is_space (rev u) = rev u"
  proof (cases "u = []")
    case False
    have "t = rev u @ rev v" using v by (metis rev_append rev_rev_ident)
    then have "hd (rev u) = hd t" "t \<noteq> []" using False by auto
    then show ?thesis using t by (intro dropWhile_trimmed) auto
  qed simp
  then show ?thesis using u by (simp add: TrimSpace_def t_def[symmetric] u_def[symmetric]
        dropWhile_trimmed)
qed

lemma Split_not_Nil [simp]: "Split d s \<noteq> []"
  by (induction s) (auto split: list.splits)

lemma Join_Split: "Join (Split d s) [d] = s"
proof (induction s)
  case Nil
  then show ?case by simp
next
  case (Cons c s)
  obtain w ws where w: "Split d s = w # ws" by (cases "Split d s") auto
  then show ?case using Cons by (cases ws) auto
qed

text \<open>A joined key determines its parts when no part holds the separator.\<close>

lemma append_sep_inject:
  "d \<notin> set a \<Longrightarrow> d \<notin> set b \<Longrightarrow> a @ d # s = b @ d # t \<longleftrightarrow> a = b \<and> s = t"
proof (induction a arbitrary: b)
  case Nil
  then show ?case by (cases b) auto
next
  case (Cons x a)
  then show ?case by (cases b) auto
qed

lemma Join_inject:
  assumes "length xs = length ys" "\<forall>x \<in> set xs. d \<notin> set x" "\<forall>y \<in> set ys. d \<notin> set y"
    and "Join xs [d] = Join ys [d]"
  shows "xs = ys"
  using assms
proof (induction xs arbitrary: ys)
  case Nil
  then show ?case by simp
next
  case (Cons x xs)
  obtain y ys' where ys: "ys = y # ys'" using Cons.prems(1) by (cases ys) auto
  show ?case
  proof (cases xs)
    case Nil
    then show ?thesis using Cons.prems ys by simp
  next
    case (Cons x' xs')
    then obtain y' ys'' where ys': "ys' = y' # ys''"
      using Cons.prems(1) ys by (cases ys') auto
    have "x = y \<and> Join xs [d] = Join ys' [d]"
      using Cons.prems ys ys' Cons append_sep_inject[of d x y] by simp
    then show ?thesis using Cons.IH[of ys'] Cons.prems ys by simp
  qed
qed

text \<open>The separator of joined keys.\<close>

definition unit_sep :: char where "unit_sep = CHR 0x1F"

text \<open>Where the first or last occurrence of a separator is.\<close>

lemma IndexAny_append:
  "set a \<inter> set cs = {} \<Longrightarrow> c \<in> set cs \<Longrightarrow> IndexAny (a @ c # b) cs = Some (length a)"
  by (induction a) auto

lemma IndexAny_None [simp]: "IndexAny a cs = None \<longleftrightarrow> set a \<inter> set cs = {}"
  by (induction a) auto

lemma LastIndex_append: "c \<notin> set b \<Longrightarrow> LastIndex (a @ c # b) c = Some (length a)"
  by (simp add: LastIndex_def IndexAny_append)

lemma LastIndex_None [simp]: "LastIndex a c = None \<longleftrightarrow> c \<notin> set a"
  by (simp add: LastIndex_def)

lemma Index_append: "c \<notin> set a \<Longrightarrow> Index (a @ (c # p) @ b) (c # p) = Some (length a)"
proof (induction a)
  case Nil
  then show ?case by (simp add: HasPrefix_def)
next
  case (Cons x a)
  then show ?case by (auto simp: HasPrefix_def)
qed

lemma ToLower_append [simp]: "ToLower (a @ b) = ToLower a @ ToLower b"
  by (simp add: ToLower_def)

lemma ToLower_Cons [simp]: "ToLower (c # b) = lower_char c # ToLower b"
  by (simp add: ToLower_def)

lemma ToLower_Nil [simp]: "ToLower [] = []"
  by (simp add: ToLower_def)

lemma TrimSpace_id: "\<forall>c \<in> set s. \<not> is_space c \<Longrightarrow> TrimSpace s = s"
proof -
  assume s: "\<forall>c \<in> set s. \<not> is_space c"
  have *: "dropWhile is_space t = t" if "set t \<subseteq> set s" for t
    using that s by (cases t) auto
  show ?thesis by (simp add: TrimSpace_def *)
qed

lemma lower_char_eq_iff:
  "(of_char d :: nat) < 65 \<Longrightarrow> lower_char c = d \<longleftrightarrow> c = d"
  by (auto simp: lower_char_def Let_def)

lemma ToLower_mem: "(of_char d :: nat) < 65 \<Longrightarrow> d \<in> set (ToLower s) \<longleftrightarrow> d \<in> set s"
proof -
  assume d: "(of_char d :: nat) < 65"
  show ?thesis
    unfolding ToLower_def set_map image_iff using lower_char_eq_iff[OF d] by metis
qed

subsection \<open>Packages strconv and fmt\<close>

definition digit_char :: "nat \<Rightarrow> char" where
  "digit_char d = char_of (48 + d)"

fun show_nat :: "nat \<Rightarrow> string" where
  "show_nat n = (if n < 10 then [digit_char n] else show_nat (n div 10) @ [digit_char (n mod 10)])"

declare show_nat.simps [simp del]

definition show_int :: "int \<Rightarrow> string" where
  "show_int i = (if i < 0 then ''-'' @ show_nat (nat (- i)) else show_nat (nat i))"

text \<open>\<open>%d\<close> on an int64 and on a Go int.\<close>

definition fmt_d :: "int64 \<Rightarrow> string" where
  "fmt_d w = show_int (sint w)"

fun pad_left :: "nat \<Rightarrow> string \<Rightarrow> string" where
  "pad_left n s = replicate (n - length s) (digit_char 0) @ s"

text \<open>\<open>%.nf\<close>: the exact value, rounded to n decimals, ties to even.\<close>

fun fmt_f :: "nat \<Rightarrow> f64 \<Rightarrow> string" where
  "fmt_f n NaN = ''NaN''"
| "fmt_f n PInf = ''+Inf''"
| "fmt_f n NInf = ''-Inf''"
| "fmt_f n (Fin a) =
     (let d = nat (rnd_even (\<bar>a\<bar> * 10 ^ n));
          ip = show_nat (d div 10 ^ n);
          fp = (if n = 0 then [] else ''.'' @ pad_left n (show_nat (d mod 10 ^ n)))
      in (if a < 0 then ''-'' else []) @ ip @ fp)"

definition hex_char :: "nat \<Rightarrow> char" where
  "hex_char d = (if d < 10 then char_of (48 + d) else char_of (87 + d))"

text \<open>\<open>%q\<close> (strconv.Quote).\<close>

definition quote_char :: "char \<Rightarrow> string" where
  "quote_char c =
     (let n = (of_char c :: nat)
      in if n = 34 then [char_of (92::nat), CHR 0x22]
         else if n = 92 then [char_of (92::nat), char_of (92::nat)]
         else if n = 7 then [char_of (92::nat), CHR ''a'']
         else if n = 8 then [char_of (92::nat), CHR ''b'']
         else if n = 12 then [char_of (92::nat), CHR ''f'']
         else if n = 10 then [char_of (92::nat), CHR ''n'']
         else if n = 13 then [char_of (92::nat), CHR ''r'']
         else if n = 9 then [char_of (92::nat), CHR ''t'']
         else if n = 11 then [char_of (92::nat), CHR ''v'']
         else if n < 32 \<or> n = 127 then
           [char_of (92::nat), CHR ''x'', hex_char (n div 16), hex_char (n mod 16)]
         else [c])"

definition fmt_q :: "string \<Rightarrow> string" where
  "fmt_q s = [CHR 0x22] @ concat (map quote_char s) @ [CHR 0x22]"

text \<open>\<open>%v\<close> on a slice of strings.\<close>

definition fmt_list :: "string list \<Rightarrow> string" where
  "fmt_list xs = ''['' @ Join xs '' '' @ '']''"

text \<open>Characters of the source's messages outside ASCII, in UTF-8.\<close>

definition emdash :: string where
  "emdash = [CHR 0xE2, CHR 0x80, CHR 0x94]"

definition read_digit :: "char \<Rightarrow> nat" where
  "read_digit c = of_char c - 48"

definition read_nat :: "string \<Rightarrow> nat" where
  "read_nat s = foldl (\<lambda>a c. 10 * a + read_digit c) 0 s"

lemma read_digit_char [simp]: "d < 10 \<Longrightarrow> read_digit (digit_char d) = d"
  by (simp add: read_digit_def digit_char_def)

lemma read_show_nat [simp]: "read_nat (show_nat n) = n"
proof (induction n rule: show_nat.induct)
  case (1 n)
  show ?case
  proof (cases "n < 10")
    case True
    then show ?thesis by (simp add: show_nat.simps[of n] read_nat_def)
  next
    case False
    then show ?thesis using 1 by (simp add: show_nat.simps[of n] read_nat_def)
  qed
qed

lemma show_nat_inject [simp]: "show_nat a = show_nat b \<longleftrightarrow> a = b"
  by (metis read_show_nat)

lemma show_nat_digits: "c \<in> set (show_nat n) \<Longrightarrow> \<exists>d < 10. c = digit_char d"
proof (induction n rule: show_nat.induct)
  case (1 n)
  have "n mod 10 < 10" by simp
  with 1 show ?case
    by (cases "n < 10") (auto simp: show_nat.simps[of n] simp del: mod_less_divisor)
qed

lemma show_nat_not_Nil [simp]: "show_nat n \<noteq> []"
  by (subst show_nat.simps) simp

end
