(* ===== verification/Budgetengine.thy ===== *)
theory Budgetengine
  imports GoStrings
begin

section \<open>Budget engine (internal/budgetengine)\<close>

text \<open>
  Spend against a budget: the rounded percentage, the phase and the recommended actions of the
  highest tripped tier. \<open>oor\<close> is the conversion of a float64 that does not fit an int32.
\<close>

record Thresholds =
  WarningPct :: int32
  CriticalPct :: int32
  HardLimitPct :: int32

record Actions =
  OnWarning :: "string list"
  OnCritical :: "string list"
  OnHardLimit :: "string list"

record BudgetResult =
  br_Phase :: string
  br_UsagePercent :: int32
  br_SpendEUR :: f64
  br_BudgetEUR :: f64
  br_TriggeredActions :: "string list"
  br_Message :: string

definition PhaseUnknown :: string where "PhaseUnknown = ''Unknown''"
definition PhaseWithinBudget :: string where "PhaseWithinBudget = ''WithinBudget''"
definition PhaseWarning :: string where "PhaseWarning = ''Warning''"
definition PhaseCritical :: string where "PhaseCritical = ''Critical''"
definition PhaseExceeded :: string where "PhaseExceeded = ''Exceeded''"

lemmas phase_defs = PhaseUnknown_def PhaseWithinBudget_def PhaseWarning_def PhaseCritical_def
  PhaseExceeded_def

definition usage_percent :: "(f64 \<Rightarrow> int32) \<Rightarrow> f64 \<Rightarrow> f64 \<Rightarrow> int32" where
  "usage_percent oor spend budget =
     (let pctF = fmul (fdiv spend budget) (flit 100) in to_i32 oor (math_Round pctF))"

definition phase_of :: "int32 \<Rightarrow> Thresholds \<Rightarrow> Actions \<Rightarrow> string \<times> string list" where
  "phase_of pct t a =
     (if sint (HardLimitPct t) \<le> sint pct then (PhaseExceeded, OnHardLimit a)
      else if sint (CriticalPct t) \<le> sint pct then (PhaseCritical, OnCritical a)
      else if sint (WarningPct t) \<le> sint pct then (PhaseWarning, OnWarning a)
      else (PhaseWithinBudget, []))"

definition Evaluate_budget ::
  "(f64 \<Rightarrow> int32) \<Rightarrow> f64 \<Rightarrow> f64 \<Rightarrow> Thresholds \<Rightarrow> Actions \<Rightarrow> BudgetResult" where
  "Evaluate_budget oor spend budget t a =
     (if fle budget (Fin 0) then
        \<lparr>br_Phase = PhaseUnknown, br_UsagePercent = 0, br_SpendEUR = spend,
         br_BudgetEUR = budget, br_TriggeredActions = [],
         br_Message = ''budget not set or non-positive; cannot evaluate usage''\<rparr>
      else
        let pct = usage_percent oor spend budget;
            (phase, actions) = phase_of pct t a
        in \<lparr>br_Phase = phase, br_UsagePercent = pct, br_SpendEUR = spend,
            br_BudgetEUR = budget, br_TriggeredActions = actions,
            br_Message = fmt_f 2 spend @ '' / '' @ fmt_f 2 budget @ '' EUR consumed ('' @
              show_int (sint pct) @ ''%) '' @ emdash @ '' '' @ phase\<rparr>)"

definition phase_rank :: "string \<Rightarrow> nat" where
  "phase_rank p =
     (if p = PhaseExceeded then 4 else if p = PhaseCritical then 3
      else if p = PhaseWarning then 2 else if p = PhaseWithinBudget then 1 else 0)"

text \<open>The percentage as a rational, before the conversion to int32.\<close>

definition pct_rat :: "rat \<Rightarrow> rat \<Rightarrow> int" where
  "pct_rat spend budget = round_away (round_rat (round_rat (spend / budget) * 100))"

lemma pct_rat_mono: "0 < b \<Longrightarrow> s \<le> s' \<Longrightarrow> pct_rat s b \<le> pct_rat s' b"
  by (simp add: pct_rat_def round_away_mono round_rat_mono divide_right_mono)

lemma pct_rat_nonneg: "0 < b \<Longrightarrow> 0 \<le> s \<Longrightarrow> 0 \<le> pct_rat s b"
  using pct_rat_mono[of b 0 s] by (simp add: pct_rat_def)

lemma round_away_diff: "\<bar>of_int (round_away x) - x\<bar> \<le> 1 / 2"
  unfolding round_away_def abs_le_iff by (cases "0 \<le> x"; simp; linarith)

text \<open>A percentage that fits an int32 was computed without overflow.\<close>

lemma usage_percent_Fin:
  assumes b: "0 < b" and s: "0 \<le> s" and fits: "pct_rat s b < 2 ^ 31"
  shows "usage_percent oor (Fin s) (Fin b) = of_int (pct_rat s b)"
proof -
  let ?q = "round_rat (s / b)"
  let ?p = "round_rat (?q * 100)"
  have q0: "0 \<le> ?q" using b s by (simp add: round_rat_nonneg)
  have p0: "0 \<le> ?p" using q0 by (simp add: round_rat_nonneg)
  have p: "?p \<le> pow2 32"
  proof -
    have "(of_int (pct_rat s b) :: rat) < of_int (2 ^ 31)" using fits by (simp only: of_int_less_iff)
    moreover have "?p \<le> of_int (pct_rat s b) + 1 / 2"
      using round_away_diff[of ?p] unfolding pct_rat_def by linarith
    ultimately show ?thesis by (simp add: pow2_is_int)
  qed
  have big: "pow2 32 < pow2 1024" by (rule pow2_strict_mono) simp
  have q: "?q < pow2 1024"
  proof (rule ccontr)
    assume "\<not> ?q < pow2 1024"
    then have "pow2 33 \<le> ?q * 100"
      using pow2_less_iff[of 33 1024] q0 by linarith
    then have "round_rat (pow2 33) \<le> ?p" by (rule round_rat_mono)
    moreover have "round_rat (pow2 33) = pow2 33" by (rule round_rat_exact[of _ 1 33]) simp_all
    moreover have "pow2 32 < pow2 33" by (rule pow2_strict_mono) simp
    ultimately show False using p by linarith
  qed
  have "fdiv (Fin s) (Fin b) = Fin ?q"
    using b q q0 by (simp add: rnd_Fin)
  moreover have "?p < pow2 1024" using p big by (rule le_less_trans)
  then have "rnd (?q * 100) = Fin ?p" using p0 by (simp add: rnd_Fin)
  ultimately have "usage_percent oor (Fin s) (Fin b) = to_i32 oor (Fin (of_int (pct_rat s b)))"
    by (simp add: usage_percent_def math_Round_def pct_rat_def)
  then show ?thesis
    using fits pct_rat_nonneg[OF b s] by simp
qed

lemma sint_usage_percent:
  assumes "0 < b" "0 \<le> s" "pct_rat s b < 2 ^ 31"
  shows "sint (usage_percent oor (Fin s) (Fin b)) = pct_rat s b"
  using assms pct_rat_nonneg[OF assms(1,2)]
  by (simp add: usage_percent_Fin sint32_of_int)

lemma phase_rank_simps [simp]:
  "phase_rank PhaseExceeded = 4" "phase_rank PhaseCritical = 3" "phase_rank PhaseWarning = 2"
  "phase_rank PhaseWithinBudget = 1" "phase_rank PhaseUnknown = 0"
  by (simp_all add: phase_rank_def phase_defs)

lemma phase_of_mono:
  "sint p \<le> sint q \<Longrightarrow> phase_rank (fst (phase_of p t a)) \<le> phase_rank (fst (phase_of q t a))"
  by (auto simp: phase_of_def)

lemma Evaluate_budget_Fin:
  assumes "0 < b"
  shows "br_Phase (Evaluate_budget oor s (Fin b) t a) = fst (phase_of (usage_percent oor s (Fin b)) t a)"
    and "br_TriggeredActions (Evaluate_budget oor s (Fin b) t a) =
      snd (phase_of (usage_percent oor s (Fin b)) t a)"
    and "br_UsagePercent (Evaluate_budget oor s (Fin b) t a) = usage_percent oor s (Fin b)"
  using assms by (simp_all add: Evaluate_budget_def Let_def split: prod.splits)

text \<open>
  The percentage of a non-negative spend is the exact ratio rounded: where it fits an int32,
  \<open>UsagePercent\<close> is the rounded percentage of the float64 quotient, and the phase is the
  highest tier whose threshold it reaches (with the actions of that tier).
\<close>

theorem Evaluate_budget_phase:
  assumes "0 < b" "0 \<le> s" "pct_rat s b < 2 ^ 31"
  shows "let r = Evaluate_budget oor (Fin s) (Fin b) t a; p = pct_rat s b in
      sint (br_UsagePercent r) = p \<and>
      (sint (HardLimitPct t) \<le> p \<longrightarrow> br_Phase r = PhaseExceeded \<and> br_TriggeredActions r = OnHardLimit a) \<and>
      (p < sint (HardLimitPct t) \<and> sint (CriticalPct t) \<le> p \<longrightarrow>
        br_Phase r = PhaseCritical \<and> br_TriggeredActions r = OnCritical a) \<and>
      (p < sint (HardLimitPct t) \<and> p < sint (CriticalPct t) \<and> sint (WarningPct t) \<le> p \<longrightarrow>
        br_Phase r = PhaseWarning \<and> br_TriggeredActions r = OnWarning a) \<and>
      (p < sint (HardLimitPct t) \<and> p < sint (CriticalPct t) \<and> p < sint (WarningPct t) \<longrightarrow>
        br_Phase r = PhaseWithinBudget \<and> br_TriggeredActions r = [])"
  using assms by (auto simp: Let_def Evaluate_budget_Fin sint_usage_percent phase_of_def)

definition std_thresholds :: Thresholds where
  "std_thresholds = \<lparr>WarningPct = 70, CriticalPct = 90, HardLimitPct = 100\<rparr>"

definition std_actions :: Actions where
  "std_actions = \<lparr>OnWarning = [''notify''], OnCritical = [''page''], OnHardLimit = [''fallback'']\<rparr>"

lemma pct_rat_95_100: "pct_rat 96 128 = 75"
proof -
  have "round_rat (3 / 4) = 3 / 4"
    by (rule round_rat_exact[of _ 3 "-2"]) (simp_all add: pow2_def)
  moreover have "96 / 128 = (3 / 4 :: rat)" by simp
  ultimately have "pct_rat 96 128 = round_away (round_rat (3 / 4 * 100))"
    by (simp only: pct_rat_def)
  then show ?thesis by simp
qed

theorem Evaluate_budget_phase_witness:
  "br_Phase (Evaluate_budget (\<lambda>_. 0) (Fin 96) (Fin 128) std_thresholds std_actions) = PhaseWarning"
  using Evaluate_budget_phase[of 128 96 "\<lambda>_. 0" std_thresholds std_actions]
  by (simp add: pct_rat_95_100 std_thresholds_def Let_def)

text \<open>
  Spending more never lowers the phase: for the same budget and thresholds the phase of the
  larger spend is at least as severe, as long as its percentage fits an int32.
\<close>

theorem Evaluate_budget_mono:
  assumes "0 < b" "0 \<le> s" "s \<le> s'" "pct_rat s' b < 2 ^ 31"
  shows "phase_rank (br_Phase (Evaluate_budget oor (Fin s) (Fin b) t a)) \<le>
    phase_rank (br_Phase (Evaluate_budget oor (Fin s') (Fin b) t a))"
proof -
  have "pct_rat s b \<le> pct_rat s' b" using assms by (intro pct_rat_mono)
  then have "sint (usage_percent oor (Fin s) (Fin b)) \<le> sint (usage_percent oor (Fin s') (Fin b))"
    using assms by (simp add: sint_usage_percent)
  then show ?thesis using assms(1) by (simp add: Evaluate_budget_Fin phase_of_mono)
qed

theorem Evaluate_budget_mono_witness:
  "phase_rank (br_Phase (Evaluate_budget (\<lambda>_. 0) (Fin 0) (Fin 128) std_thresholds std_actions)) \<le>
   phase_rank (br_Phase (Evaluate_budget (\<lambda>_. 0) (Fin 96) (Fin 128) std_thresholds std_actions))"
  using Evaluate_budget_mono[of 128 0 96 "\<lambda>_. 0" std_thresholds std_actions]
  by (simp add: pct_rat_95_100)

text \<open>The result of an out-of-range conversion on amd64: the most negative int32.\<close>

definition amd64_oor32 :: "f64 \<Rightarrow> int32" where
  "amd64_oor32 _ = 2 ^ 31"

lemma sint_amd64_oor32 [simp]: "sint (amd64_oor32 x) = - (2 ^ 31)"
  by (simp add: amd64_oor32_def)

text \<open>
  The conversion of the percentage to int32 is not guarded: on amd64 a spend whose
  percentage reaches 2 ^ 31 is reported as \<open>WithinBudget\<close> without any action, although it is
  more than 21 million times the budget.
\<close>

theorem Evaluate_budget_overflow:
  assumes "0 < b" "2 ^ 31 \<le> pct_rat s b" "\<bar>round_rat (s / b)\<bar> < pow2 1000"
    and "- (2 ^ 31) < sint (WarningPct t)" "- (2 ^ 31) < sint (CriticalPct t)"
      "- (2 ^ 31) < sint (HardLimitPct t)"
  shows "br_Phase (Evaluate_budget amd64_oor32 (Fin s) (Fin b) t a) = PhaseWithinBudget \<and>
    br_TriggeredActions (Evaluate_budget amd64_oor32 (Fin s) (Fin b) t a) = []"
proof -
  let ?q = "round_rat (s / b)"
  have "\<bar>?q * 100\<bar> \<le> pow2 1007"
    using assms(3) by (simp add: abs_mult pow2_add[of 1000 7, simplified]) (simp add: pow2_is_int)
  moreover have "round_rat (pow2 1007) = pow2 1007"
    by (rule round_rat_exact[of _ 1 1007]) simp_all
  moreover have "pow2 1007 < pow2 1024" "pow2 1000 < pow2 1024"
    by (rule pow2_strict_mono, simp)+
  ultimately have "rnd (?q * 100) = Fin (round_rat (?q * 100))" "\<bar>?q\<bar> < pow2 1024"
    using rnd_bounded(1)[of "?q * 100" "pow2 1007"] less_trans[OF assms(3)] by blast+
  moreover from this have "rnd (s / b) = Fin ?q" by (simp add: rnd_Fin)
  ultimately have "usage_percent amd64_oor32 (Fin s) (Fin b) = amd64_oor32 (Fin (of_int (pct_rat s b)))"
    using assms(1,2) by (simp add: usage_percent_def math_Round_def pct_rat_def)
  then show ?thesis
    using assms by (simp add: Evaluate_budget_Fin phase_of_def)
qed

theorem Evaluate_budget_overflow_witness:
  "br_Phase (Evaluate_budget amd64_oor32 (Fin 2147483648) (Fin 1) std_thresholds std_actions) =
     PhaseWithinBudget"
proof -
  have "pct_rat 2147483648 1 = 214748364800"
    by (simp add: pct_rat_def)
  moreover have "(2147483648 :: rat) < pow2 1000"
    using pow2_strict_mono[of 31 1000] by (simp add: pow2_is_int)
  ultimately show ?thesis
    using Evaluate_budget_overflow[of 1 2147483648 std_thresholds std_actions]
    by (simp add: std_thresholds_def)
qed

end
