(* ===== verification/Breakevenengine.thy ===== *)
theory Breakevenengine
  imports GoStrings
begin

section \<open>Break-even engine (internal/breakevenengine)\<close>

text \<open>
  The monthly cost of a managed API against a self-hosted alternative: the saving, the payback
  of the migration in months (one decimal) and the recommendation.
\<close>

record BreakEvenInputs =
  ManagedTokenCostMonthly :: f64
  ProviderFixedMonthly :: f64
  GpuMonthly :: f64
  OpsMonthly :: f64
  StorageNetworkMonthly :: f64
  MigrationCost :: f64

record BreakEvenResult =
  be_ManagedMonthly :: f64
  be_SelfHostedMonthly :: f64
  be_MonthlySavings :: f64
  be_PaybackMonths :: f64
  be_HasPayback :: bool
  be_Recommendation :: string
  be_Message :: string

definition RecKeepManaged :: string where "RecKeepManaged = ''keep-managed''"
definition RecInvestigate :: string where "RecInvestigate = ''investigate''"
definition RecSelfHost :: string where "RecSelfHost = ''self-host''"

lemmas rec_defs = RecKeepManaged_def RecInvestigate_def RecSelfHost_def

definition DefaultPaybackThresholdMonths :: f64 where
  "DefaultPaybackThresholdMonths = flit 6"

definition be_managed :: "BreakEvenInputs \<Rightarrow> f64" where
  "be_managed i = fadd (ManagedTokenCostMonthly i) (ProviderFixedMonthly i)"

definition be_self :: "BreakEvenInputs \<Rightarrow> f64" where
  "be_self i = fadd (fadd (GpuMonthly i) (OpsMonthly i)) (StorageNetworkMonthly i)"

definition payback :: "f64 \<Rightarrow> f64 \<Rightarrow> f64" where
  "payback migration savings =
     (if fle migration (Fin 0) then Fin 0
      else fdiv (math_Round (fmul (fdiv migration savings) (flit 10))) (flit 10))"

definition Analyze :: "BreakEvenInputs \<Rightarrow> f64 \<Rightarrow> BreakEvenResult" where
  "Analyze i paybackThreshold =
     (let threshold = (if fle paybackThreshold (Fin 0) then DefaultPaybackThresholdMonths
                       else paybackThreshold);
          managed = be_managed i; self = be_self i; savings = fsub managed self
      in if fle savings (Fin 0) then
           \<lparr>be_ManagedMonthly = managed, be_SelfHostedMonthly = self, be_MonthlySavings = savings,
            be_PaybackMonths = Fin 0, be_HasPayback = False, be_Recommendation = RecKeepManaged,
            be_Message = ''Self-hosting costs '' @ fmt_f 2 self @ ''/mo vs managed '' @
              fmt_f 2 managed @ ''/mo '' @ emdash @ '' no monthly saving; keep managed.''\<rparr>
         else
           let months = payback (MigrationCost i) savings;
               (rec, msg) =
                 (if fle months threshold then
                    (RecSelfHost, ''Self-hosting saves '' @ fmt_f 2 savings @
                       ''/mo; migration pays back in '' @ fmt_f 1 months @ '' months '' @ emdash @
                       '' recommend self-host.'')
                  else
                    (RecInvestigate, ''Self-hosting saves '' @ fmt_f 2 savings @
                       ''/mo but payback is '' @ fmt_f 1 months @ '' months (> '' @
                       fmt_f 0 threshold @ '') '' @ emdash @ '' investigate.''))
           in \<lparr>be_ManagedMonthly = managed, be_SelfHostedMonthly = self,
               be_MonthlySavings = savings, be_PaybackMonths = months, be_HasPayback = True,
               be_Recommendation = rec, be_Message = msg\<rparr>)"

definition ExtrapolateMonthly :: "f64 \<Rightarrow> int32 \<Rightarrow> f64" where
  "ExtrapolateMonthly windowCost windowDays =
     (if sint windowDays \<le> 0 then windowCost
      else fdiv (fmul windowCost (flit 30)) (of_i32 windowDays))"

definition be_threshold :: "f64 \<Rightarrow> f64" where
  "be_threshold p = (if fle p (Fin 0) then flit 6 else p)"

lemma Analyze_fields:
  "be_MonthlySavings (Analyze i p) = fsub (be_managed i) (be_self i)"
  "be_Recommendation (Analyze i p) =
     (if fle (fsub (be_managed i) (be_self i)) (Fin 0) then RecKeepManaged
      else if fle (payback (MigrationCost i) (fsub (be_managed i) (be_self i))) (be_threshold p)
           then RecSelfHost else RecInvestigate)"
  "be_HasPayback (Analyze i p) = (\<not> fle (fsub (be_managed i) (be_self i)) (Fin 0))"
  "be_PaybackMonths (Analyze i p) =
     (if fle (fsub (be_managed i) (be_self i)) (Fin 0) then Fin 0
      else payback (MigrationCost i) (fsub (be_managed i) (be_self i)))"
  by (simp_all add: Analyze_def Let_def be_threshold_def DefaultPaybackThresholdMonths_def)

text \<open>The payback grows with the migration cost.\<close>

lemma payback_mono:
  assumes s: "0 < s" and le: "fle m m'"
  shows "fle (payback m (Fin s)) (payback m' (Fin s))"
proof -
  let ?f = "\<lambda>x. fdiv (math_Round (fmul (fdiv x (Fin s)) (flit 10))) (flit 10)"
  have mono: "fle (?f x) (?f y)" if "fle x y" for x y
    using that s by (simp add: fle_fdiv_mono fle_fmul_mono fle_round_mono)
  have z: "?f (Fin 0) = Fin 0" using s by (simp add: math_Round_def)
  show ?thesis
  proof (cases "fle m' (Fin 0)")
    case True
    then show ?thesis using le by (auto simp: payback_def dest: fle_trans)
  next
    case False
    then have "fle (Fin 0) m'" using le fle_linear[of m' "Fin 0"] by (cases m'; auto)
    then show ?thesis
      using mono[of "Fin 0" m'] mono[OF le] False z by (auto simp: payback_def)
  qed
qed

text \<open>
  Self-hosting is recommended only on a positive monthly saving whose payback is within the
  threshold (six months when none is given), and a finite saving that is not positive always
  keeps the managed model, with no payback.
\<close>

theorem Analyze_recommendation:
  assumes "fsub (be_managed i) (be_self i) \<noteq> NaN"
  shows "(be_Recommendation (Analyze i p) = RecSelfHost \<longleftrightarrow>
       fgt (be_MonthlySavings (Analyze i p)) (Fin 0) \<and>
       fle (be_PaybackMonths (Analyze i p)) (be_threshold p)) \<and>
     (be_Recommendation (Analyze i p) = RecKeepManaged \<longleftrightarrow>
       fle (be_MonthlySavings (Analyze i p)) (Fin 0)) \<and>
     (be_HasPayback (Analyze i p) \<longleftrightarrow> fgt (be_MonthlySavings (Analyze i p)) (Fin 0))"
  using assms not_flt[of "fsub (be_managed i) (be_self i)" "Fin 0"]
    not_flt[of "Fin 0" "fsub (be_managed i) (be_self i)"]
  by (auto simp: Analyze_fields rec_defs)

definition example_inputs :: "rat \<Rightarrow> BreakEvenInputs" where
  "example_inputs m = \<lparr>ManagedTokenCostMonthly = Fin 1000, ProviderFixedMonthly = Fin 0,
     GpuMonthly = Fin 400, OpsMonthly = Fin 80, StorageNetworkMonthly = Fin 20,
     MigrationCost = Fin m\<rparr>"

theorem Analyze_recommendation_witness:
  "be_Recommendation (Analyze (example_inputs 0) (Fin 0)) = RecSelfHost"
  using Analyze_recommendation[of "example_inputs 0" "Fin 0"]
  by (simp add: Analyze_fields be_managed_def be_self_def example_inputs_def payback_def
      be_threshold_def)

text \<open>
  A dearer migration never turns the advice towards self-hosting: with the same monthly
  costs and threshold, if the larger migration cost is advised to self-host, so is the smaller.
\<close>

theorem Analyze_migration_mono:
  assumes "fsub (be_managed i) (be_self i) = Fin s" "fle (MigrationCost i) (MigrationCost j)"
    and "be_managed j = be_managed i" "be_self j = be_self i"
    and "be_Recommendation (Analyze j p) = RecSelfHost"
  shows "be_Recommendation (Analyze i p) = RecSelfHost"
proof -
  have s: "0 < s"
    using assms by (auto simp: Analyze_fields rec_defs split: if_splits)
  then have "fle (payback (MigrationCost i) (Fin s)) (payback (MigrationCost j) (Fin s))"
    using assms(2) by (rule payback_mono)
  moreover have "fle (payback (MigrationCost j) (Fin s)) (be_threshold p)"
    using assms s by (auto simp: Analyze_fields rec_defs split: if_splits)
  ultimately have "fle (payback (MigrationCost i) (Fin s)) (be_threshold p)"
    by (rule fle_trans)
  then show ?thesis using assms(1) s by (simp add: Analyze_fields)
qed

theorem Analyze_migration_mono_witness:
  "be_Recommendation (Analyze (example_inputs 0) (Fin 6)) = RecSelfHost"
proof -
  have "be_Recommendation (Analyze (example_inputs 500) (Fin 6)) = RecSelfHost"
    by (simp add: Analyze_fields be_managed_def be_self_def example_inputs_def payback_def
        be_threshold_def math_Round_def)
  then show ?thesis
    by (intro Analyze_migration_mono[of "example_inputs 0" 500 "example_inputs 500"])
       (simp_all add: be_managed_def be_self_def example_inputs_def)
qed

end
