(* ===== verification/Enforcementengine.thy ===== *)
theory Enforcementengine
  imports GoStrings
begin

section \<open>Enforcement engine (internal/enforcementengine)\<close>

text \<open>
  The single place that decides what happens to a sovereignty violation: report, warn, block or
  reroute, per enforcement mode. The controller carries the decisions out.
\<close>

datatype Action = ActionReport | ActionWarn | ActionBlock | ActionReroute

text \<open>The strings of the Go type; \<open>Action\<close> has no other value in the program.\<close>

fun action_string :: "Action \<Rightarrow> string" where
  "action_string ActionReport = ''report''"
| "action_string ActionWarn = ''warn''"
| "action_string ActionBlock = ''block''"
| "action_string ActionReroute = ''reroute''"

instantiation Action :: linorder
begin

definition action_index :: "Action \<Rightarrow> nat" where
  "action_index a = (case a of ActionReport \<Rightarrow> 0 | ActionWarn \<Rightarrow> 1 | ActionBlock \<Rightarrow> 2
     | ActionReroute \<Rightarrow> 3)"

definition less_eq_Action :: "Action \<Rightarrow> Action \<Rightarrow> bool" where
  "less_eq_Action a b \<longleftrightarrow> action_index a \<le> action_index b"

definition less_Action :: "Action \<Rightarrow> Action \<Rightarrow> bool" where
  "less_Action a b \<longleftrightarrow> action_index a < action_index b"

instance
  by standard
     (auto simp: less_eq_Action_def less_Action_def action_index_def split: Action.splits)

end

record Violation =
  vi_Namespace :: string
  vi_Application :: string
  vi_Provider :: string
  vi_Zone :: string
  vi_Model :: string
  vi_Requests :: int64

record Decision =
  de_Mode :: string
  de_Action :: Action
  de_Namespace :: string
  de_Application :: string
  de_Provider :: string
  de_Zone :: string
  de_Model :: string
  de_Requests :: int64
  de_RerouteTo :: string
  de_Message :: string
  de_Actuated :: bool

definition ModeReportOnly :: string where "ModeReportOnly = ''reportOnly''"
definition ModeWarn :: string where "ModeWarn = ''warn''"
definition ModeEnforce :: string where "ModeEnforce = ''enforce''"

lemmas mode_defs = ModeReportOnly_def ModeWarn_def ModeEnforce_def

text \<open>The decision of one iteration of the loop, with the fields of the violation copied.\<close>

definition decision ::
  "string \<Rightarrow> Violation \<Rightarrow> Action \<Rightarrow> string \<Rightarrow> string \<Rightarrow> bool \<Rightarrow> Decision" where
  "decision mode v act to msg done =
     \<lparr>de_Mode = mode, de_Action = act, de_Namespace = vi_Namespace v,
      de_Application = vi_Application v, de_Provider = vi_Provider v, de_Zone = vi_Zone v,
      de_Model = vi_Model v, de_Requests = vi_Requests v, de_RerouteTo = to,
      de_Message = msg, de_Actuated = done\<rparr>"

definition decide_one :: "string \<Rightarrow> string \<Rightarrow> Violation \<Rightarrow> Decision" where
  "decide_one mode fallbackModel v =
     (if mode = ModeWarn then
        decision mode v ActionWarn ''''
          (''warn: '' @ vi_Namespace v @ ''/'' @ vi_Application v @ '' sent '' @
           fmt_d (vi_Requests v) @ '' request(s) to forbidden zone '' @ vi_Zone v @ '' via '' @
           fmt_q (vi_Provider v) @ '' '' @ emdash @ '' alert raised'') True
      else if mode = ModeEnforce then
        (if fallbackModel \<noteq> '''' then
           decision mode v ActionReroute fallbackModel
             (''enforce: '' @ vi_Namespace v @ ''/'' @ vi_Application v @ '' '' @ emdash @
              '' reroute '' @ fmt_q (vi_Model v) @ '' to compliant '' @ fmt_q fallbackModel) False
         else
           decision mode v ActionBlock ''''
             (''enforce: '' @ vi_Namespace v @ ''/'' @ vi_Application v @ '' '' @ emdash @
              '' block traffic to forbidden zone '' @ vi_Zone v @ '', no compliant fallback'') False)
      else
        decision mode v ActionReport ''''
          (''reportOnly: '' @ vi_Namespace v @ ''/'' @ vi_Application v @
           '' exposure to forbidden zone '' @ vi_Zone v @ '' recorded (no action)'') True)"

definition DecideSovereignty :: "string \<Rightarrow> Violation list \<Rightarrow> string \<Rightarrow> Decision list" where
  "DecideSovereignty mode violations fallbackModel = map (decide_one mode fallbackModel) violations"

definition CountByAction :: "Decision list \<Rightarrow> (Action, nat) gomap" where
  "CountByAction ds =
     group_by (\<lambda>d. Some (de_Action d)) (\<lambda>d acc. case acc of None \<Rightarrow> 1 | Some n \<Rightarrow> n + 1) ds []"

lemma decision_simps [simp]:
  "de_Mode (decision mode v act to msg done) = mode"
  "de_Action (decision mode v act to msg done) = act"
  "de_Model (decision mode v act to msg done) = vi_Model v"
  "de_Namespace (decision mode v act to msg done) = vi_Namespace v"
  "de_Application (decision mode v act to msg done) = vi_Application v"
  "de_Requests (decision mode v act to msg done) = vi_Requests v"
  "de_RerouteTo (decision mode v act to msg done) = to"
  "de_Actuated (decision mode v act to msg done) = done"
  by (simp_all add: decision_def)

lemma decide_one_action:
  "de_Action (decide_one mode fb v) =
     (if mode = ModeWarn then ActionWarn
      else if mode = ModeEnforce then (if fb \<noteq> '''' then ActionReroute else ActionBlock)
      else ActionReport)"
  by (simp add: decide_one_def)

text \<open>
  Every violation gets exactly one decision about its own workload, in order. Traffic is
  blocked or rerouted in enforce mode only; there, a fallback model turns every decision into a
  reroute to it and its absence into a block; and exactly the decisions outside enforce mode
  are marked as already carried out.
\<close>

theorem DecideSovereignty_correct:
  "list_all2 (\<lambda>v d. de_Model d = vi_Model v \<and> de_Namespace d = vi_Namespace v \<and>
       de_Application d = vi_Application v \<and> de_Requests d = vi_Requests v \<and>
       (de_Action d = ActionReroute \<longleftrightarrow> mode = ModeEnforce \<and> fb \<noteq> '''') \<and>
       (de_Action d = ActionBlock \<longleftrightarrow> mode = ModeEnforce \<and> fb = '''') \<and>
       (de_Action d = ActionWarn \<longleftrightarrow> mode = ModeWarn) \<and>
       de_RerouteTo d = (if mode = ModeEnforce then fb else '''') \<and>
       (de_Actuated d \<longleftrightarrow> mode \<noteq> ModeEnforce))
     vs (DecideSovereignty mode vs fb)"
  by (simp add: DecideSovereignty_def list_all2_map2 list_all2_same decide_one_def mode_defs)

lemma count_fold:
  "group_fold (\<lambda>d acc. case acc of None \<Rightarrow> 1 | Some n \<Rightarrow> n + 1) ds (Some n) =
     Some (n + length ds)"
  by (induction ds arbitrary: n) simp_all

lemma CountByAction_eq:
  "map_of (CountByAction ds) a =
     (let n = length (filter (\<lambda>d. de_Action d = a) ds) in if n = 0 then None else Some n)"
proof (cases "filter (\<lambda>d. de_Action d = a) ds")
  case Nil
  then show ?thesis by (simp add: CountByAction_def map_of_group_by)
next
  case (Cons d ds')
  then show ?thesis by (simp add: CountByAction_def map_of_group_by count_fold)
qed

text \<open>
  The tallies of \<open>CountByAction\<close> add up to the number of decisions, and every decision of
  \<open>DecideSovereignty\<close> is counted under the one action of the mode.
\<close>

theorem CountByAction_total:
  "sum_list (map snd (CountByAction ds)) = length ds \<and>
   (\<forall>a. map_of (CountByAction (DecideSovereignty mode vs fb)) a =
     (if vs \<noteq> [] \<and> (\<forall>v. de_Action (decide_one mode fb v) = a) then Some (length vs) else None))"
proof -
  have "sum_list (map (\<lambda>kv. id (snd kv)) (CountByAction ds)) = length ds"
    unfolding CountByAction_def
    by (subst sum_group_by[where w = "\<lambda>_. 1"]) (simp_all add: sum_list_triv)
  then have s: "sum_list (map snd (CountByAction ds)) = length ds" by (simp add: comp_def)
  have "length (filter (\<lambda>d. de_Action d = a) (map (decide_one mode fb) vs)) =
      (if \<forall>v. de_Action (decide_one mode fb v) = a then length vs else 0)" for a
    by (auto simp: decide_one_action filter_map comp_def)
  then show ?thesis
    using s by (simp add: CountByAction_eq DecideSovereignty_def)
qed

end
