(* ===== verification/Collectors.thy ===== *)
theory Collectors
  imports GoStrings
begin

section \<open>Telemetry collectors (internal/collectors)\<close>

text \<open>
  The usage record every engine consumes, the conversion of the ConfigMap collector and the
  aggregation of the Prometheus collector over already parsed metric families (the parsing
  itself is the library's).
\<close>

record UsageSample =
  us_Namespace :: string
  us_Application :: string
  us_Team :: string
  us_Provider :: string
  us_Model :: string
  us_Requests :: int64
  us_InputTokens :: int64
  us_OutputTokens :: int64
  us_LatencyMillis :: f64
  us_Errors :: int64

definition TotalTokens :: "UsageSample \<Rightarrow> int64" where
  "TotalTokens s = us_InputTokens s + us_OutputTokens s"

definition zero_sample :: UsageSample where
  "zero_sample = \<lparr>us_Namespace = '''', us_Application = '''', us_Team = '''', us_Provider = '''',
     us_Model = '''', us_Requests = 0, us_InputTokens = 0, us_OutputTokens = 0,
     us_LatencyMillis = Fin 0, us_Errors = 0\<rparr>"

subsection \<open>ConfigMap collector (internal/collectors/configmap)\<close>

text \<open>The decoded JSON record and its conversion; the decoder is encoding/json.\<close>

record usage_record =
  ur_namespace :: string
  ur_application :: string
  ur_team :: string
  ur_provider :: string
  ur_model :: string
  ur_requests :: int64
  ur_inputTokens :: int64
  ur_outputTokens :: int64
  ur_latencyMillis :: f64
  ur_errors :: int64

definition record_sample :: "usage_record \<Rightarrow> UsageSample" where
  "record_sample r =
     \<lparr>us_Namespace = ur_namespace r, us_Application = ur_application r, us_Team = ur_team r,
      us_Provider = ur_provider r, us_Model = ur_model r, us_Requests = ur_requests r,
      us_InputTokens = ur_inputTokens r, us_OutputTokens = ur_outputTokens r,
      us_LatencyMillis = ur_latencyMillis r, us_Errors = ur_errors r\<rparr>"

text \<open>
  \<open>get\<close> reads the data of the ConfigMap, \<open>decode\<close> is \<open>json.Unmarshal\<close> into the records.
\<close>

definition Collect_configmap ::
  "(string \<Rightarrow> string \<Rightarrow> (string \<Rightarrow> string option) option) \<Rightarrow>
   (string \<Rightarrow> usage_record list option) \<Rightarrow> string \<Rightarrow> string \<Rightarrow> UsageSample list result" where
  "Collect_configmap get decode ns name =
     (case get ns name of
        None \<Rightarrow> Inl (Err ''read usage ConfigMap %s/%s: %w'' [ns, name])
      | Some data \<Rightarrow>
          (case data ''usage.json'' of
             None \<Rightarrow> Inl (Err ''usage ConfigMap %s/%s missing key %q'' [ns, name, ''usage.json''])
           | Some raw \<Rightarrow>
               (case decode raw of
                  None \<Rightarrow> Inl (Err ''parse usage ConfigMap %s/%s: %w'' [ns, name])
                | Some recs \<Rightarrow> Inr (map record_sample recs))))"

subsection \<open>Prometheus collector (internal/collectors/prometheus)\<close>

record sampleKey =
  sk_namespace :: string
  sk_application :: string
  sk_team :: string
  sk_provider :: string
  sk_model :: string

definition zero_key :: sampleKey where
  "zero_key = \<lparr>sk_namespace = '''', sk_application = '''', sk_team = '''', sk_provider = '''',
     sk_model = ''''\<rparr>"

definition key_label :: "string \<times> string \<Rightarrow> sampleKey \<Rightarrow> sampleKey" where
  "key_label l k =
     (let (n, v) = l
      in if n = ''namespace'' then k\<lparr>sk_namespace := v\<rparr>
         else if n = ''application'' \<or> n = ''app'' then k\<lparr>sk_application := v\<rparr>
         else if n = ''team'' then k\<lparr>sk_team := v\<rparr>
         else if n = ''provider'' then k\<lparr>sk_provider := v\<rparr>
         else if n = ''model'' then k\<lparr>sk_model := v\<rparr>
         else k)"

definition keyFromLabels :: "(string \<times> string) list \<Rightarrow> sampleKey" where
  "keyFromLabels ls = fold key_label ls zero_key"

text \<open>A metric of a parsed family: labels and the counter, gauge or untyped value it holds.\<close>

record metric =
  m_Label :: "(string \<times> string) list"
  m_Counter :: "f64 option"
  m_Gauge :: "f64 option"
  m_Untyped :: "f64 option"

definition counterValue :: "metric \<Rightarrow> f64" where
  "counterValue m =
     (case m_Counter m of Some v \<Rightarrow> v
      | None \<Rightarrow> (case m_Gauge m of Some v \<Rightarrow> v
      | None \<Rightarrow> (case m_Untyped m of Some v \<Rightarrow> v | None \<Rightarrow> Fin 0)))"

definition key_sample :: "sampleKey \<Rightarrow> UsageSample" where
  "key_sample k = zero_sample\<lparr>us_Namespace := sk_namespace k,
     us_Application := sk_application k, us_Team := sk_team k, us_Provider := sk_provider k,
     us_Model := sk_model k\<rparr>"

definition apply_metric ::
  "(f64 \<Rightarrow> int64) \<Rightarrow> string \<times> metric \<Rightarrow> UsageSample option \<Rightarrow> UsageSample" where
  "apply_metric oor nm acc =
     (let (name, m) = nm; v = counterValue m;
          s = (case acc of Some s \<Rightarrow> s | None \<Rightarrow> key_sample (keyFromLabels (m_Label m)))
      in if name = ''ai_finops_requests_total'' then
           s\<lparr>us_Requests := us_Requests s + to_i64 oor v\<rparr>
         else if name = ''ai_finops_input_tokens_total'' then
           s\<lparr>us_InputTokens := us_InputTokens s + to_i64 oor v\<rparr>
         else if name = ''ai_finops_output_tokens_total'' then
           s\<lparr>us_OutputTokens := us_OutputTokens s + to_i64 oor v\<rparr>
         else if name = ''ai_finops_errors_total'' then
           s\<lparr>us_Errors := us_Errors s + to_i64 oor v\<rparr>
         else if name = ''ai_finops_latency_millis'' then s\<lparr>us_LatencyMillis := v\<rparr>
         else s)"

text \<open>
  \<open>Parse\<close> after the library's parser: the families in the order the range over the map
  visits them.
\<close>

definition Parse_families ::
  "(f64 \<Rightarrow> int64) \<Rightarrow> (string \<times> metric list) list \<Rightarrow> UsageSample list" where
  "Parse_families oor families =
     map snd (group_by (\<lambda>(_, m). Some (keyFromLabels (m_Label m))) (apply_metric oor)
       (concat (map (\<lambda>(n, ms). map (Pair n) ms) families)) [])"

text \<open>One sample comes out per distinct label set.\<close>

definition sample_key :: "UsageSample \<Rightarrow> sampleKey" where
  "sample_key s = \<lparr>sk_namespace = us_Namespace s, sk_application = us_Application s,
     sk_team = us_Team s, sk_provider = us_Provider s, sk_model = us_Model s\<rparr>"

lemma sample_key_key_sample [simp]: "sample_key (key_sample k) = k"
  by (simp add: sample_key_def key_sample_def)

lemma sample_key_apply_metric:
  "sample_key (apply_metric oor (n, m) acc) =
     (case acc of Some s \<Rightarrow> sample_key s | None \<Rightarrow> keyFromLabels (m_Label m))"
  by (auto simp: apply_metric_def Let_def sample_key_def key_sample_def split: option.splits)

lemma Parse_families_keys:
  assumes "(k, s) \<in> set (group_by (\<lambda>(_, m). Some (keyFromLabels (m_Label m))) (apply_metric oor) xs [])"
  shows "sample_key s = k"
proof -
  let ?key = "\<lambda>(_, m). Some (keyFromLabels (m_Label m))"
  have d: "distinct (map fst (group_by ?key (apply_metric oor) xs []))" by simp
  then have "map_of (group_by ?key (apply_metric oor) xs []) k = Some s"
    using assms by (rule map_of_is_SomeI)
  then have "group_fold (apply_metric oor) (filter (\<lambda>x. ?key x = Some k) xs) None = Some s"
    by (simp add: map_of_group_by)
  then show ?thesis
    by (rule group_fold_invariant)
       (auto simp: sample_key_apply_metric split: option.splits)
qed

text \<open>
  The Prometheus collector returns one usage sample per label set: no two samples of its
  result agree in namespace, application, team, provider and model.
\<close>

theorem Parse_one_sample_per_key: "distinct (map sample_key (Parse_families oor families))"
proof -
  let ?m = "group_by (\<lambda>(_, m). Some (keyFromLabels (m_Label m))) (apply_metric oor)
       (concat (map (\<lambda>(n, ms). map (Pair n) ms) families)) []"
  have "map sample_key (map snd ?m) = map fst ?m"
    using Parse_families_keys by (auto simp: map_eq_conv split: prod.splits)
  moreover have "distinct (map fst ?m)" by simp
  ultimately show ?thesis by (simp only: Parse_families_def)
qed

end
