(* ===== verification/Costengine.thy ===== *)
theory Costengine
  imports Collectors
begin

section \<open>Cost engine (internal/costengine)\<close>

text \<open>
  Spend from usage samples and a price book, decomposed by model, provider, namespace, team and
  application. The loop of \<open>Compute\<close> is one step function over a state of the breakdown and
  the set of unpriced models.
\<close>

record TokenPricing =
  tp_Currency :: string
  tp_InputPerMillion :: f64
  tp_OutputPerMillion :: f64

type_synonym PriceBook = "string \<Rightarrow> TokenPricing option"

definition zero_pricing :: TokenPricing where
  "zero_pricing = \<lparr>tp_Currency = '''', tp_InputPerMillion = Fin 0, tp_OutputPerMillion = Fin 0\<rparr>"

record LineItem =
  li_Key :: string
  li_Requests :: int64
  li_InputTokens :: int64
  li_OutputTokens :: int64
  li_CostInput :: f64
  li_CostOutput :: f64
  li_CostTotal :: f64

definition zero_line :: LineItem where
  "zero_line = \<lparr>li_Key = '''', li_Requests = 0, li_InputTokens = 0, li_OutputTokens = 0,
     li_CostInput = Fin 0, li_CostOutput = Fin 0, li_CostTotal = Fin 0\<rparr>"

definition line_TotalTokens :: "LineItem \<Rightarrow> int64" where
  "line_TotalTokens l = li_InputTokens l + li_OutputTokens l"

record Breakdown =
  bd_Currency :: string
  bd_Total :: LineItem
  bd_ByModel :: "(string, LineItem) gomap"
  bd_ByProvider :: "(string, LineItem) gomap"
  bd_ByNamespace :: "(string, LineItem) gomap"
  bd_ByTeam :: "(string, LineItem) gomap"
  bd_ByApplication :: "(string, LineItem) gomap"
  bd_UnpricedModels :: "string list"

definition AvgCostPerRequest :: "Breakdown \<Rightarrow> f64" where
  "AvgCostPerRequest b =
     (if li_Requests (bd_Total b) = 0 then Fin 0
      else fdiv (li_CostTotal (bd_Total b)) (of_i64 (li_Requests (bd_Total b))))"

definition CostPerToken :: "Breakdown \<Rightarrow> f64" where
  "CostPerToken b =
     (let t = line_TotalTokens (bd_Total b)
      in if t = 0 then Fin 0 else fdiv (li_CostTotal (bd_Total b)) (of_i64 t))"

definition sampleCost :: "UsageSample \<Rightarrow> TokenPricing \<Rightarrow> f64 \<times> f64 \<times> f64" where
  "sampleCost s p =
     (let i = fmul (fdiv (of_i64 (us_InputTokens s)) (flit 1000000)) (tp_InputPerMillion p);
          o' = fmul (fdiv (of_i64 (us_OutputTokens s)) (flit 1000000)) (tp_OutputPerMillion p)
      in (i, o', fadd i o'))"

text \<open>The additions shared by the total and by the lines of the closure \<open>add\<close>.\<close>

definition accumulate :: "UsageSample \<Rightarrow> f64 \<times> f64 \<times> f64 \<Rightarrow> string \<Rightarrow> LineItem \<Rightarrow> LineItem" where
  "accumulate s c key li =
     (let (i, o', t) = c
      in \<lparr>li_Key = key, li_Requests = li_Requests li + us_Requests s,
          li_InputTokens = li_InputTokens li + us_InputTokens s,
          li_OutputTokens = li_OutputTokens li + us_OutputTokens s,
          li_CostInput = fadd (li_CostInput li) i, li_CostOutput = fadd (li_CostOutput li) o',
          li_CostTotal = fadd (li_CostTotal li) t\<rparr>)"

definition add_line ::
  "(string, LineItem) gomap \<Rightarrow> string \<Rightarrow> UsageSample \<Rightarrow> f64 \<times> f64 \<times> f64 \<Rightarrow> (string, LineItem) gomap" where
  "add_line m key s c =
     (if key = '''' then m
      else AList.update key
             (accumulate s c key (case map_of m key of None \<Rightarrow> zero_line | Some li \<Rightarrow> li)) m)"

definition price_of :: "PriceBook \<Rightarrow> string \<Rightarrow> TokenPricing" where
  "price_of prices m = (case prices m of None \<Rightarrow> zero_pricing | Some p \<Rightarrow> p)"

definition compute_step ::
  "PriceBook \<Rightarrow> UsageSample \<Rightarrow> Breakdown \<times> string list \<Rightarrow> Breakdown \<times> string list" where
  "compute_step prices s st =
     (let (b, unpriced) = st;
          p = price_of prices (us_Model s);
          unpriced' = (if prices (us_Model s) = None then List.insert (us_Model s) unpriced
                       else unpriced);
          cur = (if bd_Currency b = '''' \<and> tp_Currency p \<noteq> '''' then tp_Currency p
                 else bd_Currency b);
          c = sampleCost s p
      in (\<lparr>bd_Currency = cur,
           bd_Total = accumulate s c ''total'' (bd_Total b),
           bd_ByModel = add_line (bd_ByModel b) (us_Model s) s c,
           bd_ByProvider = add_line (bd_ByProvider b) (us_Provider s) s c,
           bd_ByNamespace = add_line (bd_ByNamespace b) (us_Namespace s) s c,
           bd_ByTeam = add_line (bd_ByTeam b) (us_Team s) s c,
           bd_ByApplication = add_line (bd_ByApplication b) (us_Application s) s c,
           bd_UnpricedModels = []\<rparr>, unpriced'))"

definition empty_breakdown :: Breakdown where
  "empty_breakdown = \<lparr>bd_Currency = '''', bd_Total = zero_line, bd_ByModel = [],
     bd_ByProvider = [], bd_ByNamespace = [], bd_ByTeam = [], bd_ByApplication = [],
     bd_UnpricedModels = []\<rparr>"

definition Compute :: "UsageSample list \<Rightarrow> PriceBook \<Rightarrow> Breakdown" where
  "Compute samples prices =
     (let (b, unpriced) = fold (compute_step prices) samples (empty_breakdown, [])
      in b\<lparr>bd_UnpricedModels := sort_strings unpriced\<rparr>)"

definition cost_before :: "LineItem \<Rightarrow> LineItem \<Rightarrow> bool" where
  "cost_before a b =
     (if \<not> feq (li_CostTotal a) (li_CostTotal b) then fgt (li_CostTotal a) (li_CostTotal b)
      else li_Key a < li_Key b)"

definition TopByCost :: "(string, LineItem) gomap \<Rightarrow> int \<Rightarrow> LineItem list" where
  "TopByCost m n =
     (let items = sort_by cost_before (map snd m)
      in if 0 < n \<and> n < int (length items) then take (nat n) items else items)"

subsection \<open>What a dimension of the breakdown holds\<close>

text \<open>The reference: the accumulated line of the samples of one key, in order.\<close>

definition line_of :: "PriceBook \<Rightarrow> string \<Rightarrow> UsageSample list \<Rightarrow> LineItem" where
  "line_of prices key ss =
     fold (\<lambda>s. accumulate s (sampleCost s (price_of prices (us_Model s))) key) ss zero_line"

definition dim_key :: "(UsageSample \<Rightarrow> string) \<Rightarrow> UsageSample \<Rightarrow> string option" where
  "dim_key f s = (if f s = '''' then None else Some (f s))"

definition line_upd ::
  "PriceBook \<Rightarrow> (UsageSample \<Rightarrow> string) \<Rightarrow> UsageSample \<Rightarrow> LineItem option \<Rightarrow> LineItem" where
  "line_upd prices f s acc =
     accumulate s (sampleCost s (price_of prices (us_Model s))) (f s)
       (case acc of None \<Rightarrow> zero_line | Some li \<Rightarrow> li)"

definition by_dim :: "PriceBook \<Rightarrow> (UsageSample \<Rightarrow> string) \<Rightarrow> UsageSample list \<Rightarrow> (string, LineItem) gomap" where
  "by_dim prices f ss = group_by (dim_key f) (line_upd prices f) ss []"

lemma dim_key_Some_ex [simp]: "(\<exists>k. dim_key f s = Some k) \<longleftrightarrow> f s \<noteq> ''''"
  by (simp add: dim_key_def)

lemma add_line_group_step:
  "add_line m (f s) s (sampleCost s (price_of prices (us_Model s))) =
     group_step (dim_key f) (line_upd prices f) s m"
  by (simp add: add_line_def group_step_def dim_key_def line_upd_def)

text \<open>Compute is the total line, one grouping per dimension and the set of unpriced models.\<close>

definition unpriced_upd :: "PriceBook \<Rightarrow> UsageSample \<Rightarrow> string list \<Rightarrow> string list" where
  "unpriced_upd prices s u =
     (if prices (us_Model s) = None then List.insert (us_Model s) u else u)"

lemma compute_step_fields:
  "bd_Total (fst (compute_step prices s st)) =
     accumulate s (sampleCost s (price_of prices (us_Model s))) ''total'' (bd_Total (fst st))"
  "bd_ByModel (fst (compute_step prices s st)) =
     group_step (dim_key us_Model) (line_upd prices us_Model) s (bd_ByModel (fst st))"
  "bd_ByProvider (fst (compute_step prices s st)) =
     group_step (dim_key us_Provider) (line_upd prices us_Provider) s (bd_ByProvider (fst st))"
  "bd_ByNamespace (fst (compute_step prices s st)) =
     group_step (dim_key us_Namespace) (line_upd prices us_Namespace) s (bd_ByNamespace (fst st))"
  "bd_ByTeam (fst (compute_step prices s st)) =
     group_step (dim_key us_Team) (line_upd prices us_Team) s (bd_ByTeam (fst st))"
  "bd_ByApplication (fst (compute_step prices s st)) =
     group_step (dim_key us_Application) (line_upd prices us_Application) s (bd_ByApplication (fst st))"
  "snd (compute_step prices s st) = unpriced_upd prices s (snd st)"
  by (simp_all add: compute_step_def Let_def add_line_group_step unpriced_upd_def
      split: prod.splits)

lemma Compute_eq:
  "Compute ss prices =
     (fst (fold (compute_step prices) ss (empty_breakdown, [])))
       \<lparr>bd_UnpricedModels := sort_strings (snd (fold (compute_step prices) ss (empty_breakdown, [])))\<rparr>"
  by (simp add: Compute_def split: prod.splits)

lemma Compute_Total: "bd_Total (Compute ss prices) = line_of prices ''total'' ss"
  unfolding Compute_eq line_of_def
  by (simp add: fold_project[where g = "\<lambda>st. bd_Total (fst st)" and f = "compute_step prices", OF compute_step_fields(1)]
      empty_breakdown_def)

lemma Compute_dims:
  "bd_ByModel (Compute ss prices) = by_dim prices us_Model ss"
  "bd_ByProvider (Compute ss prices) = by_dim prices us_Provider ss"
  "bd_ByNamespace (Compute ss prices) = by_dim prices us_Namespace ss"
  "bd_ByTeam (Compute ss prices) = by_dim prices us_Team ss"
  "bd_ByApplication (Compute ss prices) = by_dim prices us_Application ss"
  unfolding Compute_eq by_dim_def group_by_def
  by (simp_all add: empty_breakdown_def
      fold_project[where g = "\<lambda>st. bd_ByModel (fst st)" and f = "compute_step prices", OF compute_step_fields(2)]
      fold_project[where g = "\<lambda>st. bd_ByProvider (fst st)" and f = "compute_step prices", OF compute_step_fields(3)]
      fold_project[where g = "\<lambda>st. bd_ByNamespace (fst st)" and f = "compute_step prices", OF compute_step_fields(4)]
      fold_project[where g = "\<lambda>st. bd_ByTeam (fst st)" and f = "compute_step prices", OF compute_step_fields(5)]
      fold_project[where g = "\<lambda>st. bd_ByApplication (fst st)" and f = "compute_step prices", OF compute_step_fields(6)])

lemma Compute_Unpriced:
  "bd_UnpricedModels (Compute ss prices) = sort_strings (fold (unpriced_upd prices) ss [])"
  unfolding Compute_eq
  by (simp add: fold_project[where g = snd and f = "compute_step prices", OF compute_step_fields(7)])

lemma set_unpriced:
  "set (fold (unpriced_upd prices) ss u) =
     set u \<union> {m. prices m = None \<and> (\<exists>s \<in> set ss. us_Model s = m)}"
  by (induction ss arbitrary: u) (auto simp: unpriced_upd_def)

lemma distinct_unpriced: "distinct u \<Longrightarrow> distinct (fold (unpriced_upd prices) ss u)"
  by (induction ss arbitrary: u) (auto simp: unpriced_upd_def)

text \<open>A dimension maps a key to the line of the samples that carry it.\<close>

lemma group_fold_line:
  "group_fold (line_upd prices f) ss (Some li) =
     Some (fold (\<lambda>s. accumulate s (sampleCost s (price_of prices (us_Model s))) (f s)) ss li)"
  by (induction ss arbitrary: li) (simp_all add: line_upd_def)

lemma fold_accumulate_key:
  "\<forall>s \<in> set ss. f s = k \<Longrightarrow>
     fold (\<lambda>s. accumulate s (sampleCost s (price_of prices (us_Model s))) (f s)) ss li =
     fold (\<lambda>s. accumulate s (sampleCost s (price_of prices (us_Model s))) k) ss li"
  by (rule fold_cong) auto

lemma map_of_by_dim:
  "map_of (by_dim prices f ss) k =
     (if k = '''' \<or> (\<forall>s \<in> set ss. f s \<noteq> k) then None
      else Some (line_of prices k (filter (\<lambda>s. f s = k) ss)))"
proof (cases "k = ''''")
  case True
  then have "filter (\<lambda>s. dim_key f s = Some k) ss = []"
    by (auto simp: dim_key_def filter_empty_conv)
  then show ?thesis using True by (simp add: by_dim_def map_of_group_by)
next
  case False
  then have e: "(\<lambda>s. dim_key f s = Some k) = (\<lambda>s. f s = k)"
    by (auto simp: dim_key_def)
  show ?thesis
  proof (cases "filter (\<lambda>s. f s = k) ss")
    case Nil
    then show ?thesis
      by (auto simp: by_dim_def map_of_group_by e filter_empty_conv)
  next
    case (Cons s ss')
    have mem: "\<forall>x \<in> set (s # ss'). f x = k"
      unfolding Cons[symmetric] by simp
    have ex: "\<not> (\<forall>x \<in> set ss. f x \<noteq> k)"
      using Cons by (auto simp: filter_eq_Cons_iff)
    have "group_fold (line_upd prices f) (s # ss') None = Some (line_of prices k (s # ss'))"
      using mem fold_accumulate_key[of ss' f k prices]
      by (simp add: group_fold_line line_of_def) (simp add: line_upd_def)
    then show ?thesis
      using False ex Cons by (simp add: by_dim_def map_of_group_by e)
  qed
qed

lemma distinct_by_dim [simp]: "distinct (map fst (by_dim prices f ss))"
  by (simp add: by_dim_def)

text \<open>
  The line of \<open>ByModel\<close> for a model is the accumulated cost and usage of exactly the
  samples of that model, in the order of the samples; models with the empty name have no line.
  The other four dimensions are the same function of their own field.
\<close>

theorem Compute_ByModel:
  "map_of (bd_ByModel (Compute ss prices)) k =
     (if k \<in> us_Model ` set ss - {''''} then Some (line_of prices k (filter (\<lambda>s. us_Model s = k) ss))
      else None)"
  by (auto simp: Compute_dims map_of_by_dim)

lemma line_of_sums:
  "li_Requests (fold (\<lambda>s. accumulate s (c s) key) ss li) = li_Requests li + sum_list (map us_Requests ss)"
  "li_InputTokens (fold (\<lambda>s. accumulate s (c s) key) ss li) =
     li_InputTokens li + sum_list (map us_InputTokens ss)"
  "li_OutputTokens (fold (\<lambda>s. accumulate s (c s) key) ss li) =
     li_OutputTokens li + sum_list (map us_OutputTokens ss)"
  by (induction ss arbitrary: li) (simp_all add: accumulate_def split: prod.splits)

lemma sum_list_TotalTokens:
  "sum_list (map TotalTokens ss) =
     sum_list (map us_InputTokens ss) + sum_list (map us_OutputTokens ss)"
  by (induction ss) (simp_all add: TotalTokens_def)

lemma by_dim_sums:
  "sum_list (map (\<lambda>kv. li_Requests (snd kv)) (by_dim prices f ss)) =
     sum_list (map us_Requests (filter (\<lambda>s. f s \<noteq> '''') ss))"
  "sum_list (map (\<lambda>kv. line_TotalTokens (snd kv)) (by_dim prices f ss)) =
     sum_list (map TotalTokens (filter (\<lambda>s. f s \<noteq> '''') ss))"
proof -
  show "sum_list (map (\<lambda>kv. li_Requests (snd kv)) (by_dim prices f ss)) =
     sum_list (map us_Requests (filter (\<lambda>s. f s \<noteq> '''') ss))"
    unfolding by_dim_def
    by (subst sum_group_by[where w = us_Requests])
       (simp_all add: line_upd_def accumulate_def zero_line_def split: prod.splits)
  show "sum_list (map (\<lambda>kv. line_TotalTokens (snd kv)) (by_dim prices f ss)) =
     sum_list (map TotalTokens (filter (\<lambda>s. f s \<noteq> '''') ss))"
    unfolding by_dim_def
    by (subst sum_group_by[where w = TotalTokens])
       (simp_all add: line_upd_def accumulate_def zero_line_def line_TotalTokens_def TotalTokens_def
         split: prod.splits)
qed

text \<open>
  C24: No request and no token is lost or counted twice: the total adds up all the samples, and
  the lines of \<open>ByModel\<close> add up the samples that name a model (in the 64-bit arithmetic of
  the code).
\<close>

theorem Compute_conserves:
  "li_Requests (bd_Total (Compute ss prices)) = sum_list (map us_Requests ss) \<and>
   line_TotalTokens (bd_Total (Compute ss prices)) = sum_list (map TotalTokens ss) \<and>
   sum_list (map (\<lambda>kv. li_Requests (snd kv)) (bd_ByModel (Compute ss prices))) =
     sum_list (map us_Requests (filter (\<lambda>s. us_Model s \<noteq> '''') ss)) \<and>
   sum_list (map (\<lambda>kv. line_TotalTokens (snd kv)) (bd_ByModel (Compute ss prices))) =
     sum_list (map TotalTokens (filter (\<lambda>s. us_Model s \<noteq> '''') ss))"
proof -
  have "line_TotalTokens (fold (\<lambda>s. accumulate s (c s) key) ss zero_line) =
      sum_list (map TotalTokens ss)" for c key
    by (simp add: line_TotalTokens_def line_of_sums zero_line_def sum_list_TotalTokens)
  then show ?thesis
    by (simp add: Compute_Total line_of_def line_of_sums Compute_dims by_dim_sums zero_line_def)
qed

text \<open>
  \<open>UnpricedModels\<close> lists, sorted and without repetition, exactly the models that occur
  in the samples and have no entry in the price book.
\<close>

theorem Compute_UnpricedModels:
  "set (bd_UnpricedModels (Compute ss prices)) =
     {m \<in> us_Model ` set ss. prices m = None} \<and>
   sorted (bd_UnpricedModels (Compute ss prices)) \<and>
   distinct (bd_UnpricedModels (Compute ss prices))"
  by (auto simp: Compute_Unpriced set_unpriced sorted_sort_strings distinct_unpriced)

subsection \<open>TopByCost\<close>

interpretation top: sort_order cost_before "\<lambda>li. li_CostTotal li \<noteq> NaN"
proof
  fix a b c :: LineItem
  show "cost_before a b \<Longrightarrow> \<not> cost_before b a"
    by (auto simp: cost_before_def feq_def dest: flt_asym split: if_splits)
  assume n: "li_CostTotal a \<noteq> NaN" "li_CostTotal b \<noteq> NaN" "li_CostTotal c \<noteq> NaN"
    and lt: "cost_before a c"
  show "cost_before a b \<or> cost_before b c"
    using n lt flt_neg_trans[of "li_CostTotal b" "li_CostTotal c" "li_CostTotal a"]
      flt_total[of "li_CostTotal b" "li_CostTotal c"]
    by (auto simp: cost_before_def feq_def split: if_splits)
qed

definition keyed_lines :: "(string, LineItem) gomap \<Rightarrow> bool" where
  "keyed_lines m \<longleftrightarrow> distinct (map fst m) \<and>
     (\<forall>(k, li) \<in> set m. li_Key li = k \<and> li_CostTotal li \<noteq> NaN)"

lemma cost_before_total:
  "li_CostTotal a \<noteq> NaN \<Longrightarrow> li_CostTotal b \<noteq> NaN \<Longrightarrow> li_Key a \<noteq> li_Key b \<Longrightarrow>
     cost_before a b \<or> cost_before b a"
  using flt_total[of "li_CostTotal a" "li_CostTotal b"] by (auto simp: cost_before_def feq_def)

lemma keyed_lines_inj:
  "keyed_lines m \<Longrightarrow> a \<in> set (map snd m) \<Longrightarrow> b \<in> set (map snd m) \<Longrightarrow> a \<noteq> b \<Longrightarrow>
     li_Key a \<noteq> li_Key b"
proof
  assume m: "keyed_lines m" "a \<in> set (map snd m)" "b \<in> set (map snd m)" "a \<noteq> b"
    and k: "li_Key a = li_Key b"
  then have "(li_Key a, a) \<in> set m" "(li_Key a, b) \<in> set m" by (auto simp: keyed_lines_def)
  then show False using m by (auto simp: keyed_lines_def dest: eq_key_imp_eq_value)
qed

lemma sort_lines_perm:
  assumes "keyed_lines m" "mset m = mset m'"
  shows "sort_by cost_before (map snd m) = sort_by cost_before (map snd m')"
proof (rule top.sort_by_unique)
  show "mset (map snd m) = mset (map snd m')" using assms(2) by simp
  show "\<forall>li \<in> set (map snd m). li_CostTotal li \<noteq> NaN"
    using assms(1) by (auto simp: keyed_lines_def)
  then show "cost_before a b \<or> cost_before b a"
    if "a \<in> set (map snd m)" "b \<in> set (map snd m)" "a \<noteq> b" for a b
    using keyed_lines_inj[OF assms(1) that] that by (intro cost_before_total) auto
qed

text \<open>
  \<open>TopByCost\<close> returns the lines of the map by descending cost, cut to n when n is
  positive, and no line that is left out costs more than one that is returned. The order in which
  Go happens to range over the map does not show: two arrangements of it give the same list.
\<close>

theorem TopByCost_correct:
  assumes "keyed_lines m" and "mset m = mset m'"
  shows "TopByCost m n = TopByCost m' n \<and>
    (\<exists>rest. mset (TopByCost m n @ rest) = mset (map snd m) \<and>
      in_order cost_before (TopByCost m n) \<and>
      length (TopByCost m n) =
        (if 0 < n then min (nat n) (length m) else length m) \<and>
      (\<forall>a \<in> set (TopByCost m n). \<forall>b \<in> set rest. fle (li_CostTotal b) (li_CostTotal a)))"
proof -
  let ?s = "sort_by cost_before (map snd m)"
  define k where "k = (if 0 < n then min (nat n) (length m) else length m)"
  have dom: "\<forall>li \<in> set ?s. li_CostTotal li \<noteq> NaN"
    using assms(1) by (auto simp: keyed_lines_def)
  have ord: "in_order cost_before ?s"
    using assms(1) by (intro top.in_order_sort_by) (auto simp: keyed_lines_def)
  have t: "TopByCost m n = take k ?s"
    by (auto simp: TopByCost_def Let_def k_def min_def)
  have "fle (li_CostTotal b) (li_CostTotal a)"
    if "a \<in> set (take k ?s)" "b \<in> set (drop k ?s)" for a b
  proof -
    have "\<not> cost_before b a"
      using ord that unfolding in_order_def
      by (metis append_take_drop_id sorted_wrt_append)
    moreover have "li_CostTotal a \<noteq> NaN" "li_CostTotal b \<noteq> NaN"
      using dom that by (meson in_set_takeD in_set_dropD)+
    ultimately show ?thesis
      using fle_linear[of "li_CostTotal a" "li_CostTotal b"]
      by (auto simp: cost_before_def feq_def flt_def split: if_splits)
  qed
  moreover have "mset (take k ?s @ drop k ?s) = mset (map snd m)" by simp
  moreover have "in_order cost_before (take k ?s)"
    using ord by (metis append_take_drop_id in_order_def sorted_wrt_append)
  ultimately have "\<exists>rest. mset (TopByCost m n @ rest) = mset (map snd m) \<and>
      in_order cost_before (TopByCost m n) \<and>
      length (TopByCost m n) =
        (if 0 < n then min (nat n) (length m) else length m) \<and>
      (\<forall>a \<in> set (TopByCost m n). \<forall>b \<in> set rest. fle (li_CostTotal b) (li_CostTotal a))"
    unfolding t by (intro exI[of _ "drop k ?s"]) (auto simp: k_def)
  moreover have "TopByCost m n = TopByCost m' n"
    using sort_lines_perm[OF assms] by (simp add: TopByCost_def)
  ultimately show ?thesis by (simp only: simp_thms)
qed

definition example_lines :: "(string, LineItem) gomap" where
  "example_lines =
     [(''a'', zero_line\<lparr>li_Key := ''a'', li_CostTotal := Fin 1\<rparr>),
      (''b'', zero_line\<lparr>li_Key := ''b'', li_CostTotal := Fin 3\<rparr>),
      (''c'', zero_line\<lparr>li_Key := ''c'', li_CostTotal := Fin 2\<rparr>)]"

theorem TopByCost_correct_witness:
  "map li_Key (TopByCost example_lines 2) = [''b'', ''c''] \<and>
   TopByCost example_lines 2 = TopByCost (rev example_lines) 2"
proof
  show "map li_Key (TopByCost example_lines 2) = [''b'', ''c'']"
    by (simp add: TopByCost_def Let_def example_lines_def cost_before_def zero_line_def feq_def
        flt_def)
  show "TopByCost example_lines 2 = TopByCost (rev example_lines) 2"
    using TopByCost_correct[of example_lines "rev example_lines" 2]
    by (simp add: keyed_lines_def example_lines_def zero_line_def)
qed

end
