(* ===== verification/Sovereigntyengine.thy ===== *)
theory Sovereigntyengine
  imports GoStrings
begin

section \<open>Sovereignty engine (internal/sovereigntyengine)\<close>

text \<open>
  Providers and observed traffic flows against a policy of allowed and forbidden zones. The Go
  sets of zones are lists without repetition. The map \<open>agg\<close> of \<open>EvaluateFlows\<close> together
  with its slice \<open>order\<close> is one association list in insertion order.
\<close>

definition SeverityInfo :: string where "SeverityInfo = ''info''"
definition SeverityWarning :: string where "SeverityWarning = ''warning''"
definition SeverityCritical :: string where "SeverityCritical = ''critical''"

lemmas severity_defs = SeverityInfo_def SeverityWarning_def SeverityCritical_def

record Finding =
  fi_Severity :: string
  fi_Message :: string
  fi_Namespace :: string
  fi_Application :: string
  fi_Model :: string
  fi_Provider :: string
  fi_Zone :: string
  fi_Requests :: int64

record ProviderInfo =
  pi_Name :: string
  pi_Zone :: string
  pi_Managed :: bool
  pi_AllowedForSensitiveData :: bool

record Flow =
  fl_Namespace :: string
  fl_Application :: string
  fl_Model :: string
  fl_Provider :: string
  fl_Zone :: string
  fl_Managed :: bool
  fl_ProviderAllowsSensitive :: bool
  fl_ModelAllowsSensitive :: bool
  fl_Requests :: int64

record Policy =
  AllowedZones :: "string list"
  ForbiddenZones :: "string list"
  ExternalProvidersAllowed :: bool
  RequireAnonymization :: bool

definition euCountries :: "string list" where
  "euCountries = [''FR'', ''DE'', ''ES'', ''IT'', ''NL'', ''BE'', ''LU'', ''IE'', ''PT'', ''AT'',
     ''FI'', ''SE'', ''DK'', ''PL'', ''CZ'', ''GR'', ''RO'', ''HU'']"

definition NormalizeZone :: "string \<Rightarrow> string" where
  "NormalizeZone z =
     (let k = ToLower (TrimSpace z)
      in if k \<in> {''fr'', ''france'', ''francecentral''} then ''FR''
         else if k \<in> {''eu'', ''europe'', ''european union''} then ''EU''
         else if k \<in> {''us'', ''usa'', ''united states'', ''eastus'', ''westus''} then ''US''
         else if k \<in> {''cn'', ''china''} then ''CN''
         else if k \<in> {''uk'', ''gb'', ''united kingdom''} then ''GB''
         else if k = '''' then ''''
         else ToUpper (TrimSpace z))"

definition toSet :: "string list \<Rightarrow> string list" where
  "toSet zones = remdups (map NormalizeZone zones)"

definition zoneAllowed :: "string \<Rightarrow> string list \<Rightarrow> bool" where
  "zoneAllowed zone allowed =
     (if length allowed = 0 then True
      else if zone \<in> set allowed then True
      else if ''EU'' \<in> set allowed \<and> zone \<in> set euCountries then True
      else False)"

definition severityRank :: "string \<Rightarrow> int" where
  "severityRank s =
     (if s = SeverityCritical then 3 else if s = SeverityWarning then 2
      else if s = SeverityInfo then 1 else 0)"

definition empty_finding :: Finding where
  "empty_finding = \<lparr>fi_Severity = '''', fi_Message = '''', fi_Namespace = '''',
     fi_Application = '''', fi_Model = '''', fi_Provider = '''', fi_Zone = '''', fi_Requests = 0\<rparr>"

definition anonymization_findings :: "Policy \<Rightarrow> Finding list" where
  "anonymization_findings policy =
     (if RequireAnonymization policy then
        [empty_finding\<lparr>fi_Severity := SeverityInfo,
           fi_Message := ''Policy requires prompt anonymization; ensure the gateway redacts sensitive fields before egress.''\<rparr>]
      else [])"

subsection \<open>Provider-level evaluation\<close>

definition provider_findings :: "Policy \<Rightarrow> ProviderInfo \<Rightarrow> Finding list" where
  "provider_findings policy p =
     (let allowed = toSet (AllowedZones policy); forbidden = toSet (ForbiddenZones policy);
          zone = NormalizeZone (pi_Zone p);
          base = empty_finding\<lparr>fi_Provider := pi_Name p, fi_Zone := zone\<rparr>
      in (if zone \<in> set forbidden then
            [base\<lparr>fi_Severity := SeverityCritical,
               fi_Message := ''Provider '' @ fmt_q (pi_Name p) @ '' operates in forbidden zone '' @ zone @ ''.''\<rparr>]
          else if \<not> zoneAllowed zone allowed then
            [base\<lparr>fi_Severity := SeverityWarning,
               fi_Message := ''Provider '' @ fmt_q (pi_Name p) @ '' zone '' @ zone @
                 '' is outside the allowed zones '' @ fmt_list (sort_strings allowed) @ ''.''\<rparr>]
          else []) @
         (if \<not> ExternalProvidersAllowed policy \<and> pi_Managed p then
            [base\<lparr>fi_Severity := SeverityWarning,
               fi_Message := ''External managed provider '' @ fmt_q (pi_Name p) @
                 '' is in use while external providers are disallowed for sensitive data.''\<rparr>]
          else []))"

definition provider_before :: "Finding \<Rightarrow> Finding \<Rightarrow> bool" where
  "provider_before a b =
     (let ri = severityRank (fi_Severity a); rj = severityRank (fi_Severity b)
      in if ri \<noteq> rj then ri > rj else fi_Provider a < fi_Provider b)"

definition Evaluate_providers :: "Policy \<Rightarrow> ProviderInfo list \<Rightarrow> Finding list" where
  "Evaluate_providers policy providers =
     sort_by provider_before
       (concat (map (provider_findings policy) providers) @ anonymization_findings policy)"

subsection \<open>Flow-level evaluation\<close>

definition flow_base :: "Flow \<Rightarrow> Finding" where
  "flow_base fl = empty_finding\<lparr>fi_Namespace := fl_Namespace fl,
     fi_Application := fl_Application fl, fi_Model := fl_Model fl, fi_Provider := fl_Provider fl,
     fi_Zone := NormalizeZone (fl_Zone fl), fi_Requests := fl_Requests fl\<rparr>"

definition flow_prefix :: "Flow \<Rightarrow> string" where
  "flow_prefix fl = ''Namespace '' @ fmt_q (fl_Namespace fl) @ '' app '' @ fmt_q (fl_Application fl)"

definition forbidden_message :: "Flow \<Rightarrow> string" where
  "forbidden_message fl = flow_prefix fl @ '' routed model '' @ fmt_q (fl_Model fl) @
     '' to provider '' @ fmt_q (fl_Provider fl) @ '' in forbidden zone '' @
     NormalizeZone (fl_Zone fl) @ ''.''"

definition zone_findings :: "Policy \<Rightarrow> Flow \<Rightarrow> Finding list" where
  "zone_findings policy fl =
     (let allowed = toSet (AllowedZones policy); forbidden = toSet (ForbiddenZones policy);
          zone = NormalizeZone (fl_Zone fl)
      in if zone \<in> set forbidden then
           [(flow_base fl)\<lparr>fi_Severity := SeverityCritical, fi_Message := forbidden_message fl\<rparr>]
         else if \<not> zoneAllowed zone allowed then
           [(flow_base fl)\<lparr>fi_Severity := SeverityWarning,
              fi_Message := flow_prefix fl @ '' routed model '' @ fmt_q (fl_Model fl) @
                '' to provider '' @ fmt_q (fl_Provider fl) @ '' in zone '' @ zone @
                '', outside allowed zones '' @ fmt_list (sort_strings allowed) @ ''.''\<rparr>]
         else [])"

definition sensitive_findings :: "Policy \<Rightarrow> Flow \<Rightarrow> Finding list" where
  "sensitive_findings policy fl =
     (if \<not> ExternalProvidersAllowed policy \<and> fl_Managed fl \<and>
         (\<not> fl_ProviderAllowsSensitive fl \<or> \<not> fl_ModelAllowsSensitive fl) then
        [(flow_base fl)\<lparr>fi_Severity := SeverityWarning,
           fi_Message := flow_prefix fl @ '' sent traffic (model '' @ fmt_q (fl_Model fl) @
             '') to external managed provider '' @ fmt_q (fl_Provider fl) @
             '' while external providers are disallowed for sensitive data.''\<rparr>]
      else [])"

definition flow_findings :: "Policy \<Rightarrow> Flow \<Rightarrow> Finding list" where
  "flow_findings policy fl = zone_findings policy fl @ sensitive_findings policy fl"


definition finding_key :: "Finding \<Rightarrow> string" where
  "finding_key f =
     Join [fi_Severity f, fi_Namespace f, fi_Application f, fi_Model f, fi_Provider f, fi_Message f]
       [unit_sep]"

text \<open>The closure \<open>add\<close>: the first finding of a key is stored, later ones add their requests.\<close>

definition add_finding :: "Finding \<Rightarrow> Finding option \<Rightarrow> Finding" where
  "add_finding f acc =
     (case acc of None \<Rightarrow> f | Some g \<Rightarrow> g\<lparr>fi_Requests := fi_Requests g + fi_Requests f\<rparr>)"

definition aggregate_findings :: "Finding list \<Rightarrow> Finding list" where
  "aggregate_findings fs = map snd (group_by (\<lambda>f. Some (finding_key f)) add_finding fs [])"

definition flow_before :: "Finding \<Rightarrow> Finding \<Rightarrow> bool" where
  "flow_before a b =
     (let ri = severityRank (fi_Severity a); rj = severityRank (fi_Severity b)
      in if ri \<noteq> rj then ri > rj
         else if fi_Namespace a \<noteq> fi_Namespace b then fi_Namespace a < fi_Namespace b
         else if fi_Application a \<noteq> fi_Application b then fi_Application a < fi_Application b
         else if fi_Provider a \<noteq> fi_Provider b then fi_Provider a < fi_Provider b
         else fi_Model a < fi_Model b)"

definition EvaluateFlows :: "Policy \<Rightarrow> Flow list \<Rightarrow> Finding list" where
  "EvaluateFlows policy flows =
     sort_by flow_before
       (aggregate_findings (concat (map (flow_findings policy) flows)) @
        anonymization_findings policy)"

definition IsZoneAllowed :: "Policy \<Rightarrow> string \<Rightarrow> bool" where
  "IsZoneAllowed policy rawZone =
     (let zone = NormalizeZone rawZone
      in if zone \<in> set (toSet (ForbiddenZones policy)) then False
         else zoneAllowed zone (toSet (AllowedZones policy)))"

definition CountBySeverity :: "Finding list \<Rightarrow> (string, nat) gomap" where
  "CountBySeverity fs =
     group_by (\<lambda>f. Some (fi_Severity f)) (\<lambda>f acc. case acc of None \<Rightarrow> 1 | Some n \<Rightarrow> n + 1) fs
       [(SeverityInfo, 0), (SeverityWarning, 0), (SeverityCritical, 0)]"

subsection \<open>Zones\<close>

lemma NormalizeZone_default:
  "ToLower (TrimSpace (ToUpper (TrimSpace z))) = ToLower (TrimSpace z)"
  by (simp add: TrimSpace_ToUpper)

lemma NormalizeZone_values:
  "NormalizeZone z = ''FR'' \<or> NormalizeZone z = ''EU'' \<or> NormalizeZone z = ''US'' \<or>
   NormalizeZone z = ''CN'' \<or> NormalizeZone z = ''GB'' \<or> NormalizeZone z = '''' \<or>
   NormalizeZone z = ToUpper (TrimSpace z)"
  unfolding NormalizeZone_def Let_def by (simp only: split: if_split) blast

lemma NormalizeZone_twice: "NormalizeZone (NormalizeZone z) = NormalizeZone z"
proof -
  consider "NormalizeZone z = ''FR''" | "NormalizeZone z = ''EU''" | "NormalizeZone z = ''US''"
    | "NormalizeZone z = ''CN''" | "NormalizeZone z = ''GB''" | "NormalizeZone z = ''''"
    | "NormalizeZone z = ToUpper (TrimSpace z)"
    using NormalizeZone_values[of z] by blast
  then show ?thesis
  proof cases
    case 7
    have "NormalizeZone (ToUpper (TrimSpace z)) =
        (if NormalizeZone z = ToUpper (TrimSpace z) then ToUpper (TrimSpace z) else NormalizeZone z)"
      by (simp add: NormalizeZone_def Let_def TrimSpace_ToUpper)
    then show ?thesis using 7 by simp
  qed (simp_all, code_simp+)
qed

lemma set_toSet [simp]: "set (toSet zs) = NormalizeZone ` set zs"
  by (simp add: toSet_def)

lemma toSet_Nil [simp]: "toSet zs = [] \<longleftrightarrow> zs = []"
  by (simp add: toSet_def)

lemma IsZoneAllowed_iff:
  "IsZoneAllowed policy z \<longleftrightarrow>
     NormalizeZone z \<notin> NormalizeZone ` set (ForbiddenZones policy) \<and>
     zoneAllowed (NormalizeZone z) (toSet (AllowedZones policy))"
  by (simp add: IsZoneAllowed_def Let_def)

lemma IsZoneAllowed_Normalize [simp]:
  "IsZoneAllowed policy (NormalizeZone z) = IsZoneAllowed policy z"
  by (simp add: IsZoneAllowed_iff NormalizeZone_twice)

text \<open>
  Normalising a zone twice changes nothing, and a zone and its normal form get the same
  decision, so the engines that pass an already normalised zone on (the shadow engine to
  \<open>IsZoneAllowed\<close>) decide on the same zone.
\<close>

theorem NormalizeZone_idem:
  "NormalizeZone (NormalizeZone z) = NormalizeZone z \<and>
   IsZoneAllowed policy (NormalizeZone z) = IsZoneAllowed policy z"
  by (simp add: NormalizeZone_twice)

subsection \<open>The order of the findings\<close>

definition flow_rank :: "Finding \<Rightarrow> int \<times> string \<times> string \<times> string \<times> string" where
  "flow_rank f = (- severityRank (fi_Severity f), fi_Namespace f, fi_Application f,
     fi_Provider f, fi_Model f)"

lemma flow_before_rank: "flow_before = (\<lambda>a b. flow_rank a < flow_rank b)"
  by (intro ext) (auto simp: flow_before_def flow_rank_def Let_def)

interpretation flow_order: sort_order flow_before "\<lambda>_. True"
  unfolding flow_before_rank by (rule sort_order_key)

definition provider_rank :: "Finding \<Rightarrow> int \<times> string" where
  "provider_rank f = (- severityRank (fi_Severity f), fi_Provider f)"

lemma provider_before_rank: "provider_before = (\<lambda>a b. provider_rank a < provider_rank b)"
  by (intro ext) (auto simp: provider_before_def provider_rank_def Let_def)

interpretation provider_order: sort_order provider_before "\<lambda>_. True"
  unfolding provider_before_rank by (rule sort_order_key)

subsection \<open>Aggregation\<close>

lemma group_fold_add:
  "group_fold add_finding fs (Some f) = Some (f\<lparr>fi_Requests := fi_Requests f + sum_list (map fi_Requests fs)\<rparr>)"
  by (induction fs arbitrary: f) (simp_all add: add_finding_def add.assoc)

lemma aggregate_mem:
  "g \<in> set (aggregate_findings fs) \<longleftrightarrow>
     (\<exists>k f rest. filter (\<lambda>f. finding_key f = k) fs = f # rest \<and>
       g = f\<lparr>fi_Requests := sum_list (map fi_Requests (f # rest))\<rparr>)"
proof -
  let ?m = "group_by (\<lambda>f. Some (finding_key f)) add_finding fs []"
  have "g \<in> set (aggregate_findings fs) \<longleftrightarrow> (\<exists>k. map_of ?m k = Some g)"
    by (force simp: aggregate_findings_def map_of_eq_Some_iff)
  moreover have "map_of ?m k = Some g \<longleftrightarrow>
      (\<exists>f rest. filter (\<lambda>f. finding_key f = k) fs = f # rest \<and>
        g = f\<lparr>fi_Requests := sum_list (map fi_Requests (f # rest))\<rparr>)" for k
    by (cases "filter (\<lambda>f. finding_key f = k) fs")
       (auto simp: map_of_group_by group_fold_add, auto simp: add_finding_def)
  ultimately show ?thesis by simp
qed

lemma set_EvaluateFlows:
  "set (EvaluateFlows policy flows) =
     set (aggregate_findings (concat (map (flow_findings policy) flows))) \<union>
     set (anonymization_findings policy)"
  by (simp add: EvaluateFlows_def)

lemma flow_findings_severity:
  "f \<in> set (flow_findings policy fl) \<Longrightarrow>
     fi_Severity f = SeverityCritical \<or> fi_Severity f = SeverityWarning"
  by (auto simp: flow_findings_def zone_findings_def sensitive_findings_def Let_def split: if_splits)

lemma flow_findings_critical:
  "f \<in> set (flow_findings policy fl) \<and> fi_Severity f = SeverityCritical \<longleftrightarrow>
     NormalizeZone (fl_Zone fl) \<in> NormalizeZone ` set (ForbiddenZones policy) \<and>
     f = (flow_base fl)\<lparr>fi_Severity := SeverityCritical, fi_Message := forbidden_message fl\<rparr>"
  by (auto simp: flow_findings_def zone_findings_def sensitive_findings_def Let_def severity_defs)

lemma severities_clean:
  "fi_Severity f = SeverityCritical \<or> fi_Severity f = SeverityWarning \<Longrightarrow>
     unit_sep \<notin> set (fi_Severity f)"
  by (auto simp: severity_defs unit_sep_def)

text \<open>The severity is part of the joined key, whatever the other fields hold.\<close>

lemma finding_key_severity:
  "finding_key f = finding_key g \<Longrightarrow> unit_sep \<notin> set (fi_Severity f) \<Longrightarrow>
     unit_sep \<notin> set (fi_Severity g) \<Longrightarrow> fi_Severity f = fi_Severity g"
  by (simp add: finding_key_def append_sep_inject)

definition clean_flow :: "Flow \<Rightarrow> bool" where
  "clean_flow fl \<longleftrightarrow> unit_sep \<notin> set (fl_Namespace fl) \<and> unit_sep \<notin> set (fl_Application fl) \<and>
     unit_sep \<notin> set (fl_Model fl) \<and> unit_sep \<notin> set (fl_Provider fl)"

lemma flow_findings_fields:
  "f \<in> set (flow_findings policy fl) \<Longrightarrow>
     fi_Namespace f = fl_Namespace fl \<and> fi_Application f = fl_Application fl \<and>
     fi_Model f = fl_Model fl \<and> fi_Provider f = fl_Provider fl \<and>
     fi_Zone f = NormalizeZone (fl_Zone fl) \<and> fi_Requests f = fl_Requests fl"
  by (auto simp: flow_findings_def zone_findings_def sensitive_findings_def Let_def flow_base_def
      split: if_splits)

text \<open>Where no field holds the separator, equal keys come from equal fields.\<close>

lemma finding_key_inject:
  assumes "f \<in> set (flow_findings policy fl)" "g \<in> set (flow_findings policy fl')"
    and "clean_flow fl" "clean_flow fl'" "finding_key f = finding_key g"
  shows "fi_Severity f = fi_Severity g \<and> fi_Namespace f = fi_Namespace g \<and>
    fi_Application f = fi_Application g \<and> fi_Model f = fi_Model g \<and>
    fi_Provider f = fi_Provider g \<and> fi_Message f = fi_Message g"
proof -
  have s: "unit_sep \<notin> set (fi_Severity f)" "unit_sep \<notin> set (fi_Severity g)"
    using assms flow_findings_severity severities_clean by blast+
  show ?thesis
    using assms(3-5) s flow_findings_fields[OF assms(1)] flow_findings_fields[OF assms(2)]
    by (simp add: finding_key_def append_sep_inject clean_flow_def)
qed

definition flow_id :: "Flow \<Rightarrow> string \<times> string \<times> string \<times> string \<times> string" where
  "flow_id fl = (fl_Namespace fl, fl_Application fl, fl_Model fl, fl_Provider fl,
     NormalizeZone (fl_Zone fl))"

definition finding_id :: "Finding \<Rightarrow> string \<times> string \<times> string \<times> string \<times> string" where
  "finding_id f = (fi_Namespace f, fi_Application f, fi_Model f, fi_Provider f, fi_Zone f)"

definition is_forbidden :: "Policy \<Rightarrow> Flow \<Rightarrow> bool" where
  "is_forbidden policy fl \<longleftrightarrow>
     NormalizeZone (fl_Zone fl) \<in> NormalizeZone ` set (ForbiddenZones policy)"

lemma anonymization_not_critical:
  "f \<in> set (anonymization_findings policy) \<Longrightarrow> fi_Severity f = SeverityInfo"
  by (simp add: anonymization_findings_def split: if_splits)

lemma severity_neq [simp]:
  "SeverityInfo \<noteq> SeverityCritical" "SeverityInfo \<noteq> SeverityWarning"
  "SeverityWarning \<noteq> SeverityCritical" "SeverityCritical \<noteq> SeverityWarning"
  by (simp_all add: severity_defs)

lemma critical_from_forbidden:
  assumes "f \<in> set (aggregate_findings (concat (map (flow_findings policy) flows)))"
    and "fi_Severity f = SeverityCritical"
  shows "\<exists>fl \<in> set flows. is_forbidden policy fl \<and> flow_id fl = finding_id f"
proof -
  let ?fs = "concat (map (flow_findings policy) flows)"
  obtain k g rest where g: "filter (\<lambda>f. finding_key f = k) ?fs = g # rest"
    and fg: "f = g\<lparr>fi_Requests := sum_list (map fi_Requests (g # rest))\<rparr>"
    using assms(1) unfolding aggregate_mem by blast
  obtain fl where fl: "fl \<in> set flows" "g \<in> set (flow_findings policy fl)"
    using filter_ConsD[OF g] by auto
  have "fi_Severity g = SeverityCritical" "finding_id g = finding_id f"
    using assms(2) by (simp_all add: fg finding_id_def)
  then show ?thesis
    using fl flow_findings_critical[of g policy fl] flow_findings_fields[OF fl(2)]
    by (intro bexI[of _ fl]) (simp_all add: is_forbidden_def finding_id_def flow_id_def)
qed

lemma forbidden_message_zone:
  assumes "flow_prefix fl = flow_prefix fl'" "fl_Model fl = fl_Model fl'"
    and "fl_Provider fl = fl_Provider fl'" "forbidden_message fl = forbidden_message fl'"
  shows "NormalizeZone (fl_Zone fl) = NormalizeZone (fl_Zone fl')"
  using assms by (simp add: forbidden_message_def)

lemma critical_of_forbidden:
  assumes clean: "\<forall>fl \<in> set flows. clean_flow fl"
    and fl: "fl \<in> set flows" "is_forbidden policy fl"
  shows "\<exists>f \<in> set (aggregate_findings (concat (map (flow_findings policy) flows))).
    fi_Severity f = SeverityCritical \<and> finding_id f = flow_id fl"
proof -
  let ?fs = "concat (map (flow_findings policy) flows)"
  let ?crit = "\<lambda>fl. (flow_base fl)\<lparr>fi_Severity := SeverityCritical, fi_Message := forbidden_message fl\<rparr>"
  define f where "f = ?crit fl"
  have f: "f \<in> set (flow_findings policy fl)" "fi_Severity f = SeverityCritical"
    using flow_findings_critical[of f policy fl] fl(2) by (simp_all add: f_def is_forbidden_def)
  then have "f \<in> set ?fs" using fl(1) by auto
  then obtain g rest where g: "filter (\<lambda>g. finding_key g = finding_key f) ?fs = g # rest"
    using filter_Cons_ex[of f ?fs "\<lambda>g. finding_key g = finding_key f"] by auto
  obtain fl' where fl': "fl' \<in> set flows" "g \<in> set (flow_findings policy fl')"
    and key: "finding_key g = finding_key f"
    using filter_ConsD[OF g] by auto
  have e: "fi_Severity g = SeverityCritical" "fi_Namespace g = fi_Namespace f"
      "fi_Application g = fi_Application f" "fi_Model g = fi_Model f"
      "fi_Provider g = fi_Provider f" "fi_Message g = fi_Message f"
    using finding_key_inject[OF fl'(2) f(1) _ _ key] clean fl(1) fl'(1) f(2) by simp_all
  have g': "g = ?crit fl'"
    using flow_findings_critical[of g policy fl'] fl'(2) e(1) by simp
  have "NormalizeZone (fl_Zone fl') = NormalizeZone (fl_Zone fl)"
    using e(2-6) by (intro forbidden_message_zone)
      (simp_all add: g' f_def flow_base_def flow_prefix_def)
  then have "finding_id g = flow_id fl"
    using e(2-5) by (simp add: finding_id_def flow_id_def g' f_def flow_base_def)
  moreover have "g\<lparr>fi_Requests := sum_list (map fi_Requests (g # rest))\<rparr> \<in> set (aggregate_findings ?fs)"
    using g unfolding aggregate_mem by blast
  ultimately show ?thesis
    using e(1) by (intro bexI[where x = "g\<lparr>fi_Requests := sum_list (map fi_Requests (g # rest))\<rparr>"])
      (simp_all add: finding_id_def)
qed

text \<open>
  C25: The critical findings of a run are exactly the forbidden flows: a workload, model,
  provider and zone has a critical finding if and only if some observed flow of it goes to a
  forbidden zone (telemetry labels do not hold the separator of the aggregation key).
\<close>

theorem EvaluateFlows_critical:
  assumes "\<forall>fl \<in> set flows. clean_flow fl"
  shows "(\<exists>f \<in> set (EvaluateFlows policy flows).
      fi_Severity f = SeverityCritical \<and> finding_id f = i) \<longleftrightarrow>
    (\<exists>fl \<in> set flows. is_forbidden policy fl \<and> flow_id fl = i)" (is "?L \<longleftrightarrow> ?R")
proof
  assume ?L
  then show ?R
    using critical_from_forbidden anonymization_not_critical
    by (fastforce simp: set_EvaluateFlows)
next
  assume ?R
  then show ?L
    using critical_of_forbidden[OF assms, of _ policy] unfolding set_EvaluateFlows by blast
qed

definition example_flow :: "string \<Rightarrow> Flow" where
  "example_flow zone = \<lparr>fl_Namespace = ''hr'', fl_Application = ''bot'', fl_Model = ''gpt-4o'',
     fl_Provider = ''openai'', fl_Zone = zone, fl_Managed = True,
     fl_ProviderAllowsSensitive = True, fl_ModelAllowsSensitive = True, fl_Requests = 7\<rparr>"

definition example_policy :: Policy where
  "example_policy = \<lparr>AllowedZones = [''EU''], ForbiddenZones = [''US''],
     ExternalProvidersAllowed = True, RequireAnonymization = False\<rparr>"

lemma example_zones: "NormalizeZone ''US'' = ''US''" "NormalizeZone ''usa'' = ''US''"
  "NormalizeZone ''EU'' = ''EU''" "NormalizeZone ''france'' = ''FR''"
  by code_simp+

theorem EvaluateFlows_critical_witness:
  "\<exists>f \<in> set (EvaluateFlows example_policy [example_flow ''usa'']).
     fi_Severity f = SeverityCritical \<and>
     finding_id f = (''hr'', ''bot'', ''gpt-4o'', ''openai'', ''US'')"
  using EvaluateFlows_critical[of "[example_flow ''usa'']" example_policy
      "(''hr'', ''bot'', ''gpt-4o'', ''openai'', ''US'')"]
  by (simp add: clean_flow_def example_flow_def unit_sep_def is_forbidden_def flow_id_def
      example_policy_def example_zones)

lemma sum_critical_aggregate:
  "sum_list (map (\<lambda>f. if fi_Severity f = SeverityCritical then fi_Requests f else 0)
     (aggregate_findings (concat (map (flow_findings policy) flows)))) =
   sum_list (map (\<lambda>f. if fi_Severity f = SeverityCritical then fi_Requests f else 0)
     (concat (map (flow_findings policy) flows)))"
proof -
  let ?w = "\<lambda>f. if fi_Severity f = SeverityCritical then fi_Requests f else 0"
  let ?P = "\<lambda>k u. finding_key u = k \<and> unit_sep \<notin> set (fi_Severity u)"
  let ?fs = "concat (map (flow_findings policy) flows)"
  have "sum_list (map (\<lambda>kv. ?w (snd kv)) (group_by (\<lambda>f. Some (finding_key f)) add_finding ?fs [])) =
      sum_list (map (\<lambda>kv. ?w (snd kv)) ([] :: (string, Finding) gomap)) + sum_list (map ?w (filter (\<lambda>f. Some (finding_key f) \<noteq> None) ?fs))"
  proof (rule sum_group_by_inv[where P = ?P and g = ?w and w = ?w])
    fix x k assume x: "x \<in> set ?fs" "Some (finding_key x) = Some k"
    have c: "unit_sep \<notin> set (fi_Severity x)"
      using x(1) flow_findings_severity severities_clean by fastforce
    show "?P k (add_finding x None) \<and> ?w (add_finding x None) = ?w x"
      using x(2) c by (simp add: add_finding_def)
    fix u assume u: "?P k u"
    then have "fi_Severity u = fi_Severity x"
      using c x(2) by (intro finding_key_severity) simp_all
    moreover have "finding_key (u\<lparr>fi_Requests := r\<rparr>) = finding_key u" for r
      by (simp add: finding_key_def)
    ultimately show "?P k (add_finding x (Some u)) \<and> ?w (add_finding x (Some u)) = ?w u + ?w x"
      using u by (simp add: add_finding_def)
  qed simp_all
  then show ?thesis by (simp add: aggregate_findings_def comp_def)
qed

lemma sum_critical_flow:
  "sum_list (map (\<lambda>f. if fi_Severity f = SeverityCritical then fi_Requests f else 0)
     (flow_findings policy fl)) = (if is_forbidden policy fl then fl_Requests fl else 0)"
  by (simp add: flow_findings_def zone_findings_def sensitive_findings_def Let_def is_forbidden_def
      flow_base_def)

text \<open>
  Aggregation loses no traffic: the requests of the critical findings add up to the requests
  of the flows that went to a forbidden zone, whatever the labels of the flows hold.
\<close>

theorem EvaluateFlows_requests:
  "sum_list (map fi_Requests
     (filter (\<lambda>f. fi_Severity f = SeverityCritical) (EvaluateFlows policy flows))) =
   sum_list (map fl_Requests (filter (is_forbidden policy) flows))"
proof -
  let ?w = "\<lambda>f. if fi_Severity f = SeverityCritical then fi_Requests f else 0"
  let ?fs = "concat (map (flow_findings policy) flows)"
  have "sum_list (map ?w (EvaluateFlows policy flows)) =
      sum_list (map ?w (aggregate_findings ?fs)) + sum_list (map ?w (anonymization_findings policy))"
    unfolding EvaluateFlows_def by (simp only: sum_list_sort_by map_append sum_list_append)
  also have "sum_list (map ?w (anonymization_findings policy)) = 0"
    by (simp add: anonymization_findings_def)
  also have "sum_list (map ?w (aggregate_findings ?fs)) = sum_list (map ?w ?fs)"
    by (rule sum_critical_aggregate)
  also have "sum_list (map ?w ?fs) = sum_list (map (\<lambda>fl. if is_forbidden policy fl then fl_Requests fl else 0) flows)"
    by (induction flows) (simp_all add: sum_critical_flow)
  finally show ?thesis by (simp add: sum_list_if_filter)
qed

text \<open>
  A run is silent exactly when there is nothing to say: no anonymization is required and
  every flow is in an allowed zone and breaks no sensitive-data rule.
\<close>

theorem EvaluateFlows_silent_iff:
  "EvaluateFlows policy flows = [] \<longleftrightarrow>
     \<not> RequireAnonymization policy \<and>
     list_all (\<lambda>fl. IsZoneAllowed policy (fl_Zone fl) \<and>
        \<not> (\<not> ExternalProvidersAllowed policy \<and> fl_Managed fl \<and>
          \<not> (fl_ProviderAllowsSensitive fl \<and> fl_ModelAllowsSensitive fl))) flows"
proof -
  have agg: "aggregate_findings fs = [] \<longleftrightarrow> fs = []" for fs
    using keys_group_by[of "\<lambda>f. Some (finding_key f)" add_finding fs "[]"]
    by (cases fs) (auto simp: aggregate_findings_def)
  have "flow_findings policy fl = [] \<longleftrightarrow> IsZoneAllowed policy (fl_Zone fl) \<and>
      \<not> (\<not> ExternalProvidersAllowed policy \<and> fl_Managed fl \<and>
        (\<not> fl_ProviderAllowsSensitive fl \<or> \<not> fl_ModelAllowsSensitive fl))" for fl
    by (simp add: flow_findings_def zone_findings_def sensitive_findings_def Let_def
        IsZoneAllowed_iff)
  then show ?thesis
    by (simp add: EvaluateFlows_def agg anonymization_findings_def list_all_iff)
qed

lemma severityRank_critical: "severityRank s = 3 \<longleftrightarrow> s = SeverityCritical"
  and severityRank_le: "severityRank s \<le> 3"
  by (simp_all add: severityRank_def)

lemma not_flow_before_rank:
  "\<not> flow_before b a \<Longrightarrow> severityRank (fi_Severity b) \<le> severityRank (fi_Severity a)"
  by (rule ccontr) (simp add: flow_before_def Let_def)

lemma in_order_critical:
  assumes "in_order flow_before (x # xs)" "fi_Severity x \<noteq> SeverityCritical" "y \<in> set xs"
  shows "fi_Severity y \<noteq> SeverityCritical"
proof
  assume y: "fi_Severity y = SeverityCritical"
  have "\<not> flow_before y x" using assms(1,3) by (simp add: in_order_def)
  then have "severityRank (fi_Severity y) \<le> severityRank (fi_Severity x)"
    by (rule not_flow_before_rank)
  moreover have "severityRank (fi_Severity y) = 3" using y by (simp only: severityRank_critical)
  moreover have "severityRank (fi_Severity x) \<noteq> 3"
    unfolding severityRank_critical by (rule assms(2))
  ultimately show False using severityRank_le[of "fi_Severity x"] by linarith
qed

lemma critical_prefix:
  "in_order flow_before xs \<Longrightarrow>
     f \<in> set (dropWhile (\<lambda>f. fi_Severity f = SeverityCritical) xs) \<Longrightarrow> fi_Severity f \<noteq> SeverityCritical"
proof (induction xs)
  case (Cons x xs)
  have o: "in_order flow_before xs" using Cons.prems(1) by (simp add: in_order_def)
  show ?case
  proof (cases "fi_Severity x = SeverityCritical")
    case True
    then have "f \<in> set (dropWhile (\<lambda>f. fi_Severity f = SeverityCritical) xs)"
      using Cons.prems(2) by simp
    then show ?thesis by (rule Cons.IH[OF o])
  next
    case False
    then have "f = x \<or> f \<in> set xs" using Cons.prems(2) by simp
    then show ?thesis using False in_order_critical[OF Cons.prems(1) False] by blast
  qed
qed simp

text \<open>
  Findings come by descending severity, then by namespace, application, provider and
  model, and every critical finding stands before every finding that is not.
\<close>

theorem EvaluateFlows_order:
  "in_order flow_before (EvaluateFlows policy flows) \<and>
   (\<exists>crit rest. EvaluateFlows policy flows = crit @ rest \<and>
     list_all (\<lambda>f. fi_Severity f = SeverityCritical) crit \<and>
     list_all (\<lambda>f. fi_Severity f \<noteq> SeverityCritical) rest)"
proof -
  let ?r = "EvaluateFlows policy flows" and ?c = "\<lambda>f. fi_Severity f = SeverityCritical"
  have o: "in_order flow_before ?r"
    by (simp add: EvaluateFlows_def flow_order.in_order_sort_by)
  have "?r = takeWhile ?c ?r @ dropWhile ?c ?r" by simp
  moreover have "\<forall>f \<in> set (takeWhile ?c ?r). ?c f" by (auto dest: set_takeWhileD)
  ultimately show ?thesis using o critical_prefix[OF o] unfolding list_all_iff by blast
qed

end
