(* ===== verification/Shadowengine.thy ===== *)
theory Shadowengine
  imports Sovereigntyengine
begin

section \<open>Shadow-AI engine (internal/shadowengine)\<close>

text \<open>
  Egress observed outside the gateway, classified by a resolver from hosts to a zone and a
  provider. The resolver is the interface of the engine: a host it does not recognise comes back
  as two empty strings.
\<close>

record Egress =
  eg_Namespace :: string
  eg_Application :: string
  eg_Host :: string
  eg_Connections :: int64

record ShadowFinding =
  sf_Namespace :: string
  sf_Application :: string
  sf_Host :: string
  sf_Provider :: string
  sf_Zone :: string
  sf_Severity :: string
  sf_Message :: string
  sf_Connections :: int64

type_synonym ZoneResolver = "string \<Rightarrow> string \<times> string"

definition shadow_finding :: "Policy \<Rightarrow> Egress \<Rightarrow> string \<Rightarrow> string \<Rightarrow> ShadowFinding" where
  "shadow_finding policy e provider nz =
     (let head = ''Shadow-AI: '' @ eg_Namespace e @ ''/'' @ eg_Application e @
            '' connected directly to '' @ fmt_q (eg_Host e) @ '' ('' @ provider @ '')'';
          f = \<lparr>sf_Namespace = eg_Namespace e, sf_Application = eg_Application e,
               sf_Host = eg_Host e, sf_Provider = provider, sf_Zone = nz,
               sf_Severity = '''', sf_Message = '''', sf_Connections = eg_Connections e\<rparr>
      in if nz \<in> set (toSet (ForbiddenZones policy)) then
           f\<lparr>sf_Severity := SeverityCritical,
             sf_Message := head @ '' in FORBIDDEN zone '' @ nz @ '', bypassing the gateway.''\<rparr>
         else
           f\<lparr>sf_Severity := SeverityWarning,
             sf_Message := head @ '' in zone '' @ nz @
               '', outside the allowed zones, bypassing the gateway.''\<rparr>)"

text \<open>The body of the loop: \<open>None\<close> is \<open>continue\<close>.\<close>

definition detect_one :: "Policy \<Rightarrow> ZoneResolver \<Rightarrow> Egress \<Rightarrow> ShadowFinding option" where
  "detect_one policy resolve e =
     (let (zone, provider) = resolve (eg_Host e)
      in if zone = '''' \<and> provider = '''' then None
         else let nz = NormalizeZone zone
              in if IsZoneAllowed policy nz then None
                 else Some (shadow_finding policy e provider nz))"

text \<open>\<open>None\<close> for the resolver is Go's nil function, which stops the loop at once.\<close>

definition Detect :: "Policy \<Rightarrow> Egress list \<Rightarrow> ZoneResolver option \<Rightarrow> ShadowFinding list" where
  "Detect policy egresses resolver =
     (case resolver of None \<Rightarrow> []
      | Some resolve \<Rightarrow> List.map_filter (detect_one policy resolve) egresses)"

lemma shadow_severity_neq: "SeverityCritical \<noteq> SeverityWarning" "SeverityWarning \<noteq> SeverityCritical"
  by (simp_all add: severity_defs)

lemma shadow_finding_fields [simp]:
  "sf_Namespace (shadow_finding policy e p nz) = eg_Namespace e"
  "sf_Application (shadow_finding policy e p nz) = eg_Application e"
  "sf_Host (shadow_finding policy e p nz) = eg_Host e"
  "sf_Provider (shadow_finding policy e p nz) = p"
  "sf_Zone (shadow_finding policy e p nz) = nz"
  "sf_Connections (shadow_finding policy e p nz) = eg_Connections e"
  "sf_Severity (shadow_finding policy e p nz) =
     (if nz \<in> NormalizeZone ` set (ForbiddenZones policy) then SeverityCritical else SeverityWarning)"
  by (simp_all add: shadow_finding_def Let_def)

text \<open>
  The contract of a resolver with its client: the zones it names are canonical. Under it the
  zone of a finding is the resolver's own.
\<close>

locale zone_resolver =
  fixes resolve :: ZoneResolver
  assumes canonical: "NormalizeZone (fst (resolve h)) = fst (resolve h)"
begin

lemma detect_one_iff:
  "detect_one policy resolve e \<noteq> None \<longleftrightarrow>
     resolve (eg_Host e) \<noteq> ('''', '''') \<and> \<not> IsZoneAllowed policy (fst (resolve (eg_Host e)))"
  by (auto simp: detect_one_def Let_def split: prod.splits)

lemma detect_one_eq:
  "detect_one policy resolve e = Some f \<longleftrightarrow>
     resolve (eg_Host e) \<noteq> ('''', '''') \<and> \<not> IsZoneAllowed policy (fst (resolve (eg_Host e))) \<and>
     f = shadow_finding policy e (snd (resolve (eg_Host e))) (fst (resolve (eg_Host e)))"
  using canonical[of "eg_Host e"]
  by (cases "resolve (eg_Host e)") (auto simp: detect_one_def Let_def)

lemma detect_mem:
  "f \<in> set (Detect policy es (Some resolve)) \<longleftrightarrow>
     (\<exists>e \<in> set es. detect_one policy resolve e = Some f)"
  by (auto simp: Detect_def List.map_filter_def intro!: image_eqI)

end

end
