(* ===== verification/Catalog.thy ===== *)
theory Catalog
  imports Costengine Shadowengine
begin

section \<open>Built-in catalog (internal/catalog)\<close>

text \<open>
  Default prices and zones of well-known models, and the zone and provider of an endpoint host.
\<close>

definition usdToEUR :: rat where "usdToEUR = 92 / 100"

record defaultModel =
  dm_Provider :: string
  dm_Zone :: string
  dm_InputUSD :: f64
  dm_OutputUSD :: f64

definition dmodel :: "string \<Rightarrow> string \<Rightarrow> rat \<Rightarrow> rat \<Rightarrow> defaultModel" where
  "dmodel p z i o' = \<lparr>dm_Provider = p, dm_Zone = z, dm_InputUSD = flit i, dm_OutputUSD = flit o'\<rparr>"

definition defaultModels :: "(string, defaultModel) gomap" where
  "defaultModels =
    [(''gpt-4o'', dmodel ''openai'' ''US'' (250 / 100) 10),
     (''gpt-4o-mini'', dmodel ''openai'' ''US'' (15 / 100) (60 / 100)),
     (''gpt-4-turbo'', dmodel ''openai'' ''US'' 10 30),
     (''gpt-3.5-turbo'', dmodel ''openai'' ''US'' (50 / 100) (150 / 100)),
     (''claude-3-5-sonnet'', dmodel ''anthropic'' ''US'' 3 15),
     (''claude-3-7-sonnet'', dmodel ''anthropic'' ''US'' 3 15),
     (''claude-3-5-haiku'', dmodel ''anthropic'' ''US'' (80 / 100) 4),
     (''claude-3-haiku'', dmodel ''anthropic'' ''US'' (25 / 100) (125 / 100)),
     (''claude-3-opus'', dmodel ''anthropic'' ''US'' 15 75),
     (''mistral-large'', dmodel ''mistral'' ''EU'' 2 6),
     (''mistral-large-latest'', dmodel ''mistral'' ''EU'' 2 6),
     (''mistral-small'', dmodel ''mistral'' ''EU'' (20 / 100) (60 / 100)),
     (''mistral-small-latest'', dmodel ''mistral'' ''EU'' (20 / 100) (60 / 100)),
     (''gemini-1.5-pro'', dmodel ''vertex'' ''US'' (125 / 100) 5),
     (''gemini-1.5-flash'', dmodel ''vertex'' ''US'' (75 / 1000) (30 / 100))]"

definition isAllDigits :: "string \<Rightarrow> bool" where
  "isAllDigits s \<longleftrightarrow> list_all (\<lambda>c. 48 \<le> (of_char c :: nat) \<and> (of_char c :: nat) \<le> 57) s \<and> length s > 0"

definition normalizeModel :: "string \<Rightarrow> string" where
  "normalizeModel model =
     (let m = ToLower (TrimSpace model)
      in case LastIndex m (CHR ''-'') of
           None \<Rightarrow> m
         | Some i \<Rightarrow>
             (if 0 < i then
                let rest = drop (i + 1) m
                in if rest \<noteq> '''' \<and> isAllDigits rest then take i m else m
              else m))"

definition lookup_model :: "string \<Rightarrow> defaultModel option" where
  "lookup_model model =
     (case map_of defaultModels (ToLower (TrimSpace model)) of
        Some d \<Rightarrow> Some d
      | None \<Rightarrow> map_of defaultModels (normalizeModel model))"

definition Known :: "string \<Rightarrow> bool" where
  "Known model \<longleftrightarrow> lookup_model model \<noteq> None"

definition PriceForModel :: "string \<Rightarrow> TokenPricing option" where
  "PriceForModel model =
     map_option (\<lambda>d. \<lparr>tp_Currency = ''EUR'',
         tp_InputPerMillion = fmul (dm_InputUSD d) (flit usdToEUR),
         tp_OutputPerMillion = fmul (dm_OutputUSD d) (flit usdToEUR)\<rparr>) (lookup_model model)"

definition ZoneForModel :: "string \<Rightarrow> string" where
  "ZoneForModel model = (case lookup_model model of Some d \<Rightarrow> dm_Zone d | None \<Rightarrow> '''')"

definition ProviderForModel :: "string \<Rightarrow> string" where
  "ProviderForModel model = (case lookup_model model of Some d \<Rightarrow> dm_Provider d | None \<Rightarrow> '''')"

definition AllModelNames :: "string list" where
  "AllModelNames = map fst defaultModels"

text \<open>The default price book, as a finite list (to be ranged over) and as the map it is.\<close>

definition DefaultPriceBook :: "(string, TokenPricing) gomap" where
  "DefaultPriceBook =
     List.map_filter (\<lambda>id. map_option (Pair id) (PriceForModel id)) (map fst defaultModels)"

subsection \<open>Endpoints\<close>

definition knownHosts :: "(string \<times> string \<times> string) list" where
  "knownHosts =
    [(''api.openai.com'', ''openai'', ''US''),
     (''api.anthropic.com'', ''anthropic'', ''US''),
     (''api.mistral.ai'', ''mistral'', ''EU''),
     (''api.cohere.ai'', ''cohere'', ''US''),
     (''api.cohere.com'', ''cohere'', ''US''),
     (''api.groq.com'', ''groq'', ''US''),
     (''generativelanguage.googleapis.com'', ''vertex'', ''US''),
     (''openai.azure.com'', ''azure-openai'', ''''),
     (''cognitiveservices.azure.com'', ''azure-openai'', ''''),
     (''services.ai.azure.com'', ''azure-openai'', ''''),
     (''amazonaws.com'', ''bedrock'', ''''),
     (''aiplatform.googleapis.com'', ''vertex'', '''')]"

definition regionPrefixes :: "(string \<times> string) list" where
  "regionPrefixes =
    [(''europe'', ''EU''), (''eu-'', ''EU''), (''francecentral'', ''FR''), (''westeurope'', ''EU''),
     (''northeurope'', ''EU''), (''swedencentral'', ''EU''), (''germanywestcentral'', ''EU''),
     (''us-'', ''US''), (''eastus'', ''US''), (''westus'', ''US''), (''centralus'', ''US''),
     (''uksouth'', ''GB''), (''ukwest'', ''GB''), (''uk-'', ''GB''), (''ap-'', ''AP''),
     (''asia'', ''AP''), (''australia'', ''AP''), (''cn-'', ''CN''), (''china'', ''CN'')]"

definition label_zone :: "string \<Rightarrow> string option" where
  "label_zone label =
     map_option (\<lambda>rp. NormalizeZone (snd rp)) (find (\<lambda>rp. HasPrefix label (fst rp)) regionPrefixes)"

fun first_zone :: "string list \<Rightarrow> string" where
  "first_zone [] = ''''"
| "first_zone (l # ls) = (case label_zone l of Some z \<Rightarrow> z | None \<Rightarrow> first_zone ls)"

definition zoneFromRegionToken :: "string \<Rightarrow> string" where
  "zoneFromRegionToken host = first_zone (Split (CHR ''.'') host)"

definition hostOf :: "string \<Rightarrow> string" where
  "hostOf endpoint =
     (let h = TrimSpace (ToLower endpoint);
          h = (case Index h ''://'' of Some i \<Rightarrow> drop (i + 3) h | None \<Rightarrow> h);
          h = (case IndexAny h ''/?#'' of Some i \<Rightarrow> take i h | None \<Rightarrow> h);
          h = (case LastIndex h (CHR ''@'') of Some i \<Rightarrow> drop (i + 1) h | None \<Rightarrow> h);
          h = (case LastIndex h (CHR '':'') of Some i \<Rightarrow> take i h | None \<Rightarrow> h)
      in h)"

definition host_matches :: "string \<Rightarrow> string \<Rightarrow> bool" where
  "host_matches host suffix \<longleftrightarrow>
     host = suffix \<or> HasSuffix host (''.'' @ suffix) \<or> HasSuffix host (''-'' @ suffix)"

definition best_step ::
  "string \<Rightarrow> string \<times> string \<times> string \<Rightarrow> string \<times> string \<times> string \<Rightarrow> string \<times> string \<times> string" where
  "best_step host kh best =
     (if host_matches host (fst kh) \<and> length (fst best) < length (fst kh) then kh else best)"

definition EndpointToZone :: "string \<Rightarrow> string \<times> string" where
  "EndpointToZone endpoint =
     (let host = hostOf endpoint
      in if host = '''' then ('''', '''')
         else
           let (best, provider, zone) = fold (best_step host) knownHosts ('''', '''', '''')
           in if best = '''' then ('''', '''')
              else (if zone = '''' then zoneFromRegionToken host else zone, provider))"

subsection \<open>The default prices\<close>

lemma default_names:
  "map fst defaultModels =
    [''gpt-4o'', ''gpt-4o-mini'', ''gpt-4-turbo'', ''gpt-3.5-turbo'', ''claude-3-5-sonnet'',
     ''claude-3-7-sonnet'', ''claude-3-5-haiku'', ''claude-3-haiku'', ''claude-3-opus'',
     ''mistral-large'', ''mistral-large-latest'', ''mistral-small'',
     ''mistral-small-latest'', ''gemini-1.5-pro'', ''gemini-1.5-flash'']"
  by (simp add: defaultModels_def)

lemma distinct_defaultModels: "distinct (map fst defaultModels)"
  by (simp add: default_names)

lemma defaultModels_lower:
  "mid \<in> set (map fst defaultModels) \<Longrightarrow> ToLower (TrimSpace mid) = mid"
proof -
  have "list_all (\<lambda>m. ToLower (TrimSpace m) = m) (map fst defaultModels)"
    unfolding default_names by code_simp
  then show "mid \<in> set (map fst defaultModels) \<Longrightarrow> ToLower (TrimSpace mid) = mid"
    by (simp only: list_all_iff)
qed

lemma lookup_default: "(mid, d) \<in> set defaultModels \<Longrightarrow> lookup_model mid = Some d"
  using defaultModels_lower[of mid] map_of_is_SomeI[OF distinct_defaultModels, of mid d]
  by (force simp: lookup_model_def)

lemma map_of_map_filter_pair:
  "distinct ks \<Longrightarrow> map_of (List.map_filter (\<lambda>k. map_option (Pair k) (f k)) ks) k =
     (if k \<in> set ks then f k else None)"
  by (induction ks) (auto simp: List.map_filter_def map_of_eq_None_iff split: option.splits)

lemma distinct_map_filter_pair:
  "distinct ks \<Longrightarrow> distinct (map fst (List.map_filter (\<lambda>k. map_option (Pair k) (f k)) ks))"
proof (induction ks)
  case Nil
  then show ?case by (simp add: List.map_filter_def)
next
  case (Cons k ks)
  have "fst ` set (List.map_filter (\<lambda>k. map_option (Pair k) (f k)) ks) \<subseteq> set ks"
    by (auto simp: List.map_filter_def)
  then show ?case using Cons by (auto simp: List.map_filter_def split: option.splits)
qed

lemma distinct_DefaultPriceBook: "distinct (map fst DefaultPriceBook)"
  unfolding DefaultPriceBook_def by (rule distinct_map_filter_pair[OF distinct_defaultModels])

lemma lookup_model_values: "lookup_model m = Some d \<Longrightarrow> d \<in> snd ` set defaultModels"
  by (auto simp: lookup_model_def dest!: map_of_SomeD split: option.splits intro: rev_image_eqI)

lemma map_of_DefaultPriceBook:
  "map_of DefaultPriceBook m = (if m \<in> set (map fst defaultModels) then PriceForModel m else None)"
  unfolding DefaultPriceBook_def by (rule map_of_map_filter_pair[OF distinct_defaultModels])

lemma ZoneForModel_canonical: "NormalizeZone (ZoneForModel m) = ZoneForModel m"
proof -
  have "list_all (\<lambda>d. NormalizeZone (dm_Zone d) = dm_Zone d) (map snd defaultModels)"
    by (simp add: defaultModels_def dmodel_def example_zones)
  moreover have "NormalizeZone '''' = ''''" by code_simp
  ultimately show ?thesis
    by (auto simp: ZoneForModel_def list_all_iff split: option.splits dest: lookup_model_values)
qed

lemma first_zone_canonical: "NormalizeZone (first_zone ls) = first_zone ls"
proof (induction ls)
  case Nil
  show ?case by code_simp
next
  case (Cons l ls)
  then show ?case
    by (auto simp: label_zone_def NormalizeZone_twice split: option.splits)
qed

lemma best_step_mem:
  "fold (best_step host) khs b \<in> insert b (set khs)"
  by (induction khs arbitrary: b) (auto simp: best_step_def)

lemma knownHosts_zones: "(s, p, z) \<in> set knownHosts \<Longrightarrow> NormalizeZone z = z"
proof -
  have "list_all (\<lambda>(s, p, z). NormalizeZone z = z) knownHosts" by code_simp
  then show "(s, p, z) \<in> set knownHosts \<Longrightarrow> NormalizeZone z = z" by (auto simp: list_all_iff)
qed

lemma EndpointToZone_canonical: "NormalizeZone (fst (EndpointToZone e)) = fst (EndpointToZone e)"
proof -
  have e: "NormalizeZone '''' = ''''" by code_simp
  obtain s p z where b: "fold (best_step (hostOf e)) knownHosts ('''', '''', '''') = (s, p, z)"
    by (metis prod_cases3)
  then have "NormalizeZone z = z"
    using best_step_mem[of "hostOf e" knownHosts "('''', '''', '''')"] knownHosts_zones e by auto
  then show ?thesis
    using b e by (auto simp: EndpointToZone_def Let_def zoneFromRegionToken_def first_zone_canonical)
qed

interpretation endpoint: zone_resolver EndpointToZone
  by unfold_locales (rule EndpointToZone_canonical)

text \<open>
  Traffic outside the gateway is reported by the shadow engine under the built-in resolver
  exactly when the host belongs to a known provider and its zone is not one the policy allows; the
  report is critical exactly when the policy forbids that zone.
\<close>

theorem Detect_catalog:
  "f \<in> set (Detect policy es (Some EndpointToZone)) \<longleftrightarrow>
     (\<exists>e \<in> set es. EndpointToZone (eg_Host e) \<noteq> ('''', '''') \<and>
        \<not> IsZoneAllowed policy (fst (EndpointToZone (eg_Host e))) \<and>
        f = shadow_finding policy e (snd (EndpointToZone (eg_Host e))) (fst (EndpointToZone (eg_Host e))) \<and>
        (sf_Severity f = SeverityCritical \<longleftrightarrow>
          fst (EndpointToZone (eg_Host e)) \<in> NormalizeZone ` set (ForbiddenZones policy)))"
  unfolding endpoint.detect_mem endpoint.detect_one_eq
  by (rule bex_cong[OF refl]) (auto simp: severity_neq split: if_splits)

subsection \<open>The host of an endpoint\<close>

text \<open>
  \<open>hostOf\<close> finds the host in a full URL: scheme, credentials (which may hold an at sign or
  a colon), port and path (which may hold anything but white space) are cut off, and the host
  comes back in lower case.
\<close>

theorem hostOf_url:
  assumes "\<forall>c \<in> set (scheme @ user @ host @ port @ path). \<not> is_space c"
    and "CHR '':'' \<notin> set scheme"
    and "set (user @ host @ port) \<inter> set ''/?#'' = {}"
    and "set host \<inter> set ''@:'' = {}" and "set port \<inter> set ''@:'' = {}"
  shows "hostOf (scheme @ ''://'' @ user @ ''@'' @ host @ '':'' @ port @ ''/'' @ path) = ToLower host"
proof -
  let ?L = ToLower
  let ?e = "scheme @ ''://'' @ user @ ''@'' @ host @ '':'' @ port @ ''/'' @ path"
  have lc: "lower_char CHR '':'' = CHR '':''" "lower_char CHR ''/'' = CHR ''/''"
    "lower_char CHR ''@'' = CHR ''@''"
    by (simp_all add: lower_char_def)
  have sp: "\<not> is_space CHR '':''" "\<not> is_space CHR ''/''" "\<not> is_space CHR ''@''"
    by (simp_all add: is_space_def)
  have lm: "CHR '':'' \<in> set (?L s) \<longleftrightarrow> CHR '':'' \<in> set s" "CHR ''/'' \<in> set (?L s) \<longleftrightarrow> CHR ''/'' \<in> set s"
    "CHR ''@'' \<in> set (?L s) \<longleftrightarrow> CHR ''@'' \<in> set s" "CHR ''?'' \<in> set (?L s) \<longleftrightarrow> CHR ''?'' \<in> set s"
    "CHR ''#'' \<in> set (?L s) \<longleftrightarrow> CHR ''#'' \<in> set s" for s
    by (simp_all add: ToLower_mem)
  have "TrimSpace (?L ?e) = ?L ?e"
    unfolding TrimSpace_ToLower
    by (rule arg_cong[of _ _ ToLower], rule TrimSpace_id) (use assms(1) sp in \<open>simp add: ball_Un\<close>)
  also have "\<dots> = ?L scheme @ (CHR '':'' # ''//'') @
      (?L user @ ''@'' @ ?L host @ '':'' @ ?L port @ ''/'' @ ?L path)"
    by (simp add: lc)
  finally have 1: "TrimSpace (?L ?e) = \<dots>" .
  have 2: "Index (TrimSpace (?L ?e)) ''://'' = Some (length (?L scheme))"
    unfolding 1 by (rule Index_append) (simp add: lm assms)
  have cut: "drop (length (?L scheme) + 3) (TrimSpace (?L ?e)) =
      ?L user @ ''@'' @ ?L host @ '':'' @ ?L port @ ''/'' @ ?L path"
    unfolding 1 by simp
  have 3: "IndexAny ((?L user @ ''@'' @ ?L host @ '':'' @ ?L port) @ CHR ''/'' # ?L path) ''/?#'' =
      Some (length (?L user @ ''@'' @ ?L host @ '':'' @ ?L port))"
    using assms(3) by (intro IndexAny_append) (auto simp: lm)
  have 4: "LastIndex (?L user @ CHR ''@'' # (?L host @ '':'' @ ?L port)) CHR ''@'' = Some (length (?L user))"
    using assms(4,5) by (intro LastIndex_append) (auto simp: lm)
  have 5: "LastIndex (?L host @ CHR '':'' # ?L port) CHR '':'' = Some (length (?L host))"
    using assms(5) by (intro LastIndex_append) (auto simp: lm)
  have "hostOf ?e = (let h = ?L user @ ''@'' @ ?L host @ '':'' @ ?L port @ ''/'' @ ?L path;
      h = (case IndexAny h ''/?#'' of Some i \<Rightarrow> take i h | None \<Rightarrow> h);
      h = (case LastIndex h (CHR ''@'') of Some i \<Rightarrow> drop (i + 1) h | None \<Rightarrow> h);
      h = (case LastIndex h (CHR '':'') of Some i \<Rightarrow> take i h | None \<Rightarrow> h) in h)"
    unfolding hostOf_def Let_def 2 option.case cut ..
  then show ?thesis using 3 4 5 by simp
qed

theorem hostOf_url_witness:
  "hostOf ''HTTPS://key:s@cret@Api.Mistral.AI:443/v1?x=/@y'' = ToLower ''Api.Mistral.AI''"
  using hostOf_url[of "''HTTPS''" "''key:s@cret''" "''Api.Mistral.AI''" "''443''" "''v1?x=/@y''"]
  by (simp add: is_space_def)

lemma best_step_longest:
  assumes "r = fold (best_step h) khs b"
  shows "(r = b \<or> r \<in> set khs \<and> host_matches h (fst r)) \<and> length (fst b) \<le> length (fst r) \<and>
    (\<forall>kh \<in> set khs. host_matches h (fst kh) \<longrightarrow> length (fst kh) \<le> length (fst r))"
  using assms
proof (induction khs arbitrary: b)
  case Nil
  then show ?case by simp
next
  case (Cons kh khs)
  have "r = fold (best_step h) khs (best_step h kh b)" using Cons.prems by simp
  from Cons.IH[OF this] show ?case by (auto simp: best_step_def split: if_splits)
qed

lemma knownHosts_nonempty: "kh \<in> set knownHosts \<Longrightarrow> fst kh \<noteq> ''''"
  by (auto simp: knownHosts_def)

lemma hostOf_Nil_no_match: "kh \<in> set knownHosts \<Longrightarrow> \<not> host_matches '''' (fst kh)"
  by (auto dest: knownHosts_nonempty simp: host_matches_def HasSuffix_iff)

text \<open>
  The provider and zone of an endpoint are those of the longest known host name that is the
  endpoint's host or follows a dot or a dash in it; a host that matches none is not guessed at.
\<close>

theorem EndpointToZone_longest:
  "if \<forall>kh \<in> set knownHosts. \<not> host_matches (hostOf e) (fst kh) then EndpointToZone e = ('''', '''')
   else \<exists>(s, p, z) \<in> set knownHosts. host_matches (hostOf e) s \<and>
     (\<forall>kh \<in> set knownHosts. host_matches (hostOf e) (fst kh) \<longrightarrow> length (fst kh) \<le> length s) \<and>
     EndpointToZone e = (if z = '''' then zoneFromRegionToken (hostOf e) else z, p)"
proof -
  obtain s p z where f: "fold (best_step (hostOf e)) knownHosts ('''', '''', '''') = (s, p, z)"
    by (metis prod_cases3)
  note l = best_step_longest[OF f[symmetric]]
  show ?thesis
  proof (cases "s = ''''")
    case True
    then have "\<forall>kh \<in> set knownHosts. \<not> host_matches (hostOf e) (fst kh)"
      using l by (auto dest: knownHosts_nonempty)
    then show ?thesis using f True by (simp add: EndpointToZone_def Let_def)
  next
    case False
    then have m: "(s, p, z) \<in> set knownHosts" "host_matches (hostOf e) s"
      using l by auto
    then have "hostOf e \<noteq> ''''" using hostOf_Nil_no_match[of "(s, p, z)"] by auto
    then have "EndpointToZone e = (if z = '''' then zoneFromRegionToken (hostOf e) else z, p)"
      using f False by (simp add: EndpointToZone_def Let_def)
    moreover have "\<not> (\<forall>kh \<in> set knownHosts. \<not> host_matches (hostOf e) (fst kh))"
      using m by (metis fst_conv)
    moreover have "\<forall>kh \<in> set knownHosts. host_matches (hostOf e) (fst kh) \<longrightarrow>
        length (fst kh) \<le> length s" using l by simp
    ultimately show ?thesis
      using m by (simp only: if_False) (rule bexI[where x = "(s, p, z)"], simp_all)
  qed
qed

theorem EndpointToZone_longest_witness:
  "EndpointToZone ''https://europe-west4-aiplatform.googleapis.com/v1'' = (''EU'', ''vertex'') \<and>
   EndpointToZone ''api.mistral.ai.evil.example'' = ('''', '''')"
proof
  have h: "hostOf ''https://europe-west4-aiplatform.googleapis.com/v1'' =
      ''europe-west4-aiplatform.googleapis.com''" by code_simp
  have z: "zoneFromRegionToken ''europe-west4-aiplatform.googleapis.com'' = ''EU''" by code_simp
  have m: "filter (\<lambda>kh. host_matches ''europe-west4-aiplatform.googleapis.com'' (fst kh)) knownHosts =
      [(''aiplatform.googleapis.com'', ''vertex'', '''')]" by code_simp
  let ?m = "\<lambda>kh. host_matches ''europe-west4-aiplatform.googleapis.com'' (fst kh)"
  let ?v = "(''aiplatform.googleapis.com'', ''vertex'', '''')"
  have "set (filter ?m knownHosts) = {?v}" unfolding m by simp
  then have v: "kh \<in> set knownHosts \<and> ?m kh \<longleftrightarrow> kh = ?v" for kh
    unfolding set_filter by blast
  then have "\<not> (\<forall>kh \<in> set knownHosts. \<not> ?m kh)" by blast
  then obtain s p z' where "(s, p, z') \<in> set knownHosts" "?m (s, p, z')"
      "EndpointToZone ''https://europe-west4-aiplatform.googleapis.com/v1'' =
        (if z' = '''' then zoneFromRegionToken ''europe-west4-aiplatform.googleapis.com'' else z', p)"
    using EndpointToZone_longest[of "''https://europe-west4-aiplatform.googleapis.com/v1''"]
    unfolding h by (simp only: if_False) auto
  then show "EndpointToZone ''https://europe-west4-aiplatform.googleapis.com/v1'' = (''EU'', ''vertex'')"
    using v[of "(s, p, z')"] z by simp
  have "hostOf ''api.mistral.ai.evil.example'' = ''api.mistral.ai.evil.example''" by code_simp
  moreover have "list_all (\<lambda>kh. \<not> host_matches ''api.mistral.ai.evil.example'' (fst kh)) knownHosts"
    by code_simp
  ultimately show "EndpointToZone ''api.mistral.ai.evil.example'' = ('''', '''')"
    using EndpointToZone_longest[of "''api.mistral.ai.evil.example''"] by (simp add: list_all_iff)
qed

lemma isAllDigits_no_dash: "isAllDigits ds \<Longrightarrow> CHR ''-'' \<notin> set ds \<and> ds \<noteq> [] \<and> ToLower ds = ds \<and>
    (\<forall>c \<in> set ds. \<not> is_space c)"
  by (auto simp: isAllDigits_def list_all_iff ToLower_def lower_char_def is_space_def Let_def
      intro!: map_idI)

lemma normalizeModel_versioned:
  assumes "base \<in> set (map fst defaultModels)" "isAllDigits ds"
  shows "normalizeModel (base @ ''-'' @ ds) = base" "ToLower (TrimSpace (base @ ''-'' @ ds)) = base @ ''-'' @ ds"
proof -
  note d = isAllDigits_no_dash[OF assms(2)]
  have b: "base \<noteq> [] \<and> (\<forall>c \<in> set base. \<not> is_space c)"
  proof -
    have "list_all (\<lambda>m. m \<noteq> [] \<and> list_all (\<lambda>c. \<not> is_space c) m) (map fst defaultModels)"
      unfolding default_names by code_simp
    then show ?thesis using assms(1) unfolding list_all_iff by blast
  qed
  have sp: "\<not> is_space CHR ''-''" "lower_char CHR ''-'' = CHR ''-''"
    by (simp_all add: is_space_def lower_char_def)
  have "TrimSpace (base @ ''-'' @ ds) = base @ ''-'' @ ds"
    using b d sp by (intro TrimSpace_id) auto
  moreover have "ToLower base = base"
    using defaultModels_lower[OF assms(1)] TrimSpace_id[of base] b by simp
  ultimately show t: "ToLower (TrimSpace (base @ ''-'' @ ds)) = base @ ''-'' @ ds"
    using d sp by simp
  have "LastIndex (base @ CHR ''-'' # ds) CHR ''-'' = Some (length base)"
    using d by (intro LastIndex_append) simp
  then show "normalizeModel (base @ ''-'' @ ds) = base"
    unfolding normalizeModel_def t Let_def using b d assms(2) by simp
qed

lemma versioned_not_default:
  assumes "base \<in> set (map fst defaultModels)" "isAllDigits ds"
  shows "base @ ''-'' @ ds \<notin> set (map fst defaultModels)"
proof
  have "list_all (\<lambda>m. normalizeModel m = m) (map fst defaultModels)"
    unfolding default_names by code_simp
  moreover assume "base @ ''-'' @ ds \<in> set (map fst defaultModels)"
  ultimately have "normalizeModel (base @ ''-'' @ ds) = base @ ''-'' @ ds"
    by (simp only: list_all_iff)
  then show False using normalizeModel_versioned(1)[OF assms] by simp
qed

text \<open>
  A versioned id resolves to its base model: a suffix of a dash and digits does not change
  what the catalog knows of a default model. The default price book is keyed by the base ids
  alone: it holds their prices, and nothing under a versioned id.
\<close>

theorem lookup_model_versioned:
  assumes "base \<in> set AllModelNames" and "isAllDigits ds"
  shows "lookup_model (base @ ''-'' @ ds) = lookup_model base \<and>
    PriceForModel (base @ ''-'' @ ds) = map_of DefaultPriceBook base \<and>
    map_of DefaultPriceBook (base @ ''-'' @ ds) = None"
proof -
  have b: "base \<in> set (map fst defaultModels)" using assms(1) by (simp add: AllModelNames_def)
  have n: "map_of defaultModels (base @ ''-'' @ ds) = None"
    using versioned_not_default[OF b assms(2)] by (simp add: map_of_eq_None_iff)
  obtain d where d: "map_of defaultModels base = Some d"
    using b by (cases "map_of defaultModels base") (auto simp: map_of_eq_None_iff)
  have "lookup_model (base @ ''-'' @ ds) = Some d"
    unfolding lookup_model_def normalizeModel_versioned[OF b assms(2)] n by (simp add: d)
  moreover have "lookup_model base = Some d"
    using d lookup_default map_of_SomeD by fast
  ultimately show ?thesis
    using versioned_not_default[OF b assms(2)] b
    by (simp add: map_of_DefaultPriceBook PriceForModel_def)
qed

theorem lookup_model_versioned_witness:
  "lookup_model ''mistral-large-2407'' = lookup_model ''mistral-large'' \<and>
   lookup_model ''claude-3-5-sonnet-20241022'' = lookup_model ''claude-3-5-sonnet''"
  using lookup_model_versioned[of "''mistral-large''" "''2407''"]
    lookup_model_versioned[of "''claude-3-5-sonnet''" "''20241022''"]
  by (simp add: AllModelNames_def default_names isAllDigits_def)

end
