(* ===== verification/Routingscore.thy ===== *)
theory Routingscore
  imports Costengine
begin

section \<open>Routing scores (internal/routingscore)\<close>

text \<open>
  One score per observed workload, model and provider, from cost, quality tier, latency and
  reliability, with sovereignty as a hard gate.
\<close>

definition NeutralLatencyScore :: f64 where "NeutralLatencyScore = Fin (1 / 2)"
definition SourceObserved :: string where "SourceObserved = ''observed''"
definition SourceUnavailable :: string where "SourceUnavailable = ''unavailable''"

record Weights =
  w_Cost :: f64
  w_Quality :: f64
  w_Latency :: f64
  w_Reliability :: f64

definition DefaultWeights :: Weights where
  "DefaultWeights = \<lparr>w_Cost = flit (40 / 100), w_Quality = flit (30 / 100),
     w_Latency = flit (20 / 100), w_Reliability = flit (10 / 100)\<rparr>"

record ModelInfo =
  mi_QualityTier :: string
  mi_SovereigntyChecked :: bool
  mi_SovereigntyCompliant :: bool

record Score =
  rs_Namespace :: string
  rs_Application :: string
  rs_Model :: string
  rs_Provider :: string
  rs_Requests :: int64
  rs_InputTokens :: int64
  rs_OutputTokens :: int64
  rs_Errors :: int64
  rs_CostEUR :: f64
  rs_CostPerRequestEUR :: f64
  rs_ObservedLatencyMillis :: f64
  rs_LatencyTelemetryAvailable :: bool
  rs_LatencySource :: string
  rs_CostScore :: f64
  rs_QualityScore :: f64
  rs_LatencyScore :: f64
  rs_ReliabilityScore :: f64
  rs_SovereigntyCompliant :: bool
  rs_Score :: f64

record aggregate = Score +
  latencyWeight :: f64

definition clamp01 :: "f64 \<Rightarrow> f64" where
  "clamp01 v = (if flt v (Fin 0) then Fin 0 else if flt (Fin 1) v then Fin 1 else v)"

definition inverseNormalized :: "f64 \<Rightarrow> f64 \<Rightarrow> f64 \<Rightarrow> f64" where
  "inverseNormalized v mn mx =
     (if fle mx mn then Fin 1 else clamp01 (fsub (Fin 1) (fdiv (fsub v mn) (fsub mx mn))))"

definition qualityScore :: "string \<Rightarrow> f64" where
  "qualityScore tier =
     (if tier = ''high'' then Fin 1
      else if tier = ''medium'' then Fin (3 / 4)
      else if tier = ''low'' then Fin (1 / 2)
      else flit (60 / 100))"

definition reliabilityScore :: "int64 \<Rightarrow> int64 \<Rightarrow> f64" where
  "reliabilityScore requests errors =
     (if sint requests \<le> 0 then Fin 1
      else clamp01 (fsub (Fin 1) (fdiv (of_i64 errors) (of_i64 requests))))"

subsection \<open>Aggregation\<close>

type_synonym ModelInfos = "string \<Rightarrow> ModelInfo option"

definition group_key :: "UsageSample \<Rightarrow> string" where
  "group_key s = Join [us_Namespace s, us_Application s, us_Model s, us_Provider s] [unit_sep]"

definition new_aggregate :: "ModelInfos \<Rightarrow> UsageSample \<Rightarrow> aggregate" where
  "new_aggregate models s =
     \<lparr>rs_Namespace = us_Namespace s, rs_Application = us_Application s, rs_Model = us_Model s,
      rs_Provider = us_Provider s, rs_Requests = 0, rs_InputTokens = 0, rs_OutputTokens = 0,
      rs_Errors = 0, rs_CostEUR = Fin 0, rs_CostPerRequestEUR = Fin 0,
      rs_ObservedLatencyMillis = Fin 0, rs_LatencyTelemetryAvailable = False,
      rs_LatencySource = '''', rs_CostScore = Fin 0,
      rs_QualityScore = qualityScore (case models (us_Model s) of None \<Rightarrow> '''' | Some i \<Rightarrow> mi_QualityTier i),
      rs_LatencyScore = Fin 0, rs_ReliabilityScore = Fin 0,
      rs_SovereigntyCompliant = (case models (us_Model s) of None \<Rightarrow> True
        | Some i \<Rightarrow> if mi_SovereigntyChecked i then mi_SovereigntyCompliant i else True),
      rs_Score = Fin 0, latencyWeight = Fin 0\<rparr>"

definition add_sample :: "ModelInfos \<Rightarrow> UsageSample \<Rightarrow> aggregate option \<Rightarrow> aggregate" where
  "add_sample models s acc =
     (let g = (case acc of None \<Rightarrow> new_aggregate models s | Some g \<Rightarrow> g);
          g = g\<lparr>rs_Requests := rs_Requests g + us_Requests s,
                rs_InputTokens := rs_InputTokens g + us_InputTokens s,
                rs_OutputTokens := rs_OutputTokens g + us_OutputTokens s,
                rs_Errors := rs_Errors g + us_Errors s\<rparr>
      in if flt (Fin 0) (us_LatencyMillis s) \<and> 0 < sint (us_Requests s) then
           g\<lparr>rs_LatencyTelemetryAvailable := True,
             latencyWeight := fadd (latencyWeight g) (of_i64 (us_Requests s)),
             rs_ObservedLatencyMillis :=
               fadd (rs_ObservedLatencyMillis g) (fmul (us_LatencyMillis s) (of_i64 (us_Requests s)))\<rparr>
         else g)"

text \<open>The second loop of \<open>aggregateSamples\<close>.\<close>

definition finish_aggregate :: "PriceBook \<Rightarrow> aggregate \<Rightarrow> aggregate" where
  "finish_aggregate prices g =
     (let g = (case prices (rs_Model g) of
                 Some p \<Rightarrow> g\<lparr>rs_CostEUR :=
                   fadd (fmul (fdiv (of_i64 (rs_InputTokens g)) (Fin 1000000)) (tp_InputPerMillion p))
                        (fmul (fdiv (of_i64 (rs_OutputTokens g)) (Fin 1000000)) (tp_OutputPerMillion p))\<rparr>
               | None \<Rightarrow> g);
          g = (if 0 < sint (rs_Requests g) then
                 g\<lparr>rs_CostPerRequestEUR := fdiv (rs_CostEUR g) (of_i64 (rs_Requests g))\<rparr>
               else g)
      in if rs_LatencyTelemetryAvailable g \<and> flt (Fin 0) (latencyWeight g) then
           g\<lparr>rs_ObservedLatencyMillis := fdiv (rs_ObservedLatencyMillis g) (latencyWeight g)\<rparr>
         else g)"

definition aggregateSamples ::
  "UsageSample list \<Rightarrow> PriceBook \<Rightarrow> ModelInfos \<Rightarrow> (string, aggregate) gomap" where
  "aggregateSamples samples prices models =
     map (\<lambda>(k, g). (k, finish_aggregate prices g))
       (group_by (\<lambda>s. Some (group_key s)) (add_sample models) samples [])"

subsection \<open>Scores\<close>

definition MaxFloat64 :: f64 where "MaxFloat64 = Fin (pow2 1024 - pow2 971)"

record Range =
  minCost :: f64
  maxCost :: f64
  minLatency :: f64
  maxLatency :: f64

definition range_step :: "aggregate \<Rightarrow> Range \<Rightarrow> Range" where
  "range_step g r =
     (let r = (if flt (rs_CostPerRequestEUR g) (minCost r) then r\<lparr>minCost := rs_CostPerRequestEUR g\<rparr> else r);
          r = (if flt (maxCost r) (rs_CostPerRequestEUR g) then r\<lparr>maxCost := rs_CostPerRequestEUR g\<rparr> else r)
      in if rs_LatencyTelemetryAvailable g then
           let r = (if flt (rs_ObservedLatencyMillis g) (minLatency r)
                    then r\<lparr>minLatency := rs_ObservedLatencyMillis g\<rparr> else r)
           in (if flt (maxLatency r) (rs_ObservedLatencyMillis g)
               then r\<lparr>maxLatency := rs_ObservedLatencyMillis g\<rparr> else r)
         else r)"

definition ranges :: "aggregate list \<Rightarrow> Range" where
  "ranges gs = fold range_step gs
     \<lparr>minCost = MaxFloat64, maxCost = Fin 0, minLatency = MaxFloat64, maxLatency = Fin 0\<rparr>"

definition total_score :: "Weights \<Rightarrow> Score \<Rightarrow> f64" where
  "total_score w s =
     clamp01 (fadd (fadd (fadd (fmul (w_Cost w) (rs_CostScore s)) (fmul (w_Quality w) (rs_QualityScore s)))
       (fmul (w_Latency w) (rs_LatencyScore s))) (fmul (w_Reliability w) (rs_ReliabilityScore s)))"

definition score_of :: "Weights \<Rightarrow> Range \<Rightarrow> aggregate \<Rightarrow> Score" where
  "score_of w r g =
     (let s = Score.truncate g;
          s = s\<lparr>rs_CostScore := inverseNormalized (rs_CostPerRequestEUR s) (minCost r) (maxCost r)\<rparr>;
          s = s\<lparr>rs_ReliabilityScore := reliabilityScore (rs_Requests s) (rs_Errors s)\<rparr>;
          s = (if rs_LatencyTelemetryAvailable s then
                 s\<lparr>rs_LatencyScore := inverseNormalized (rs_ObservedLatencyMillis s) (minLatency r) (maxLatency r),
                   rs_LatencySource := SourceObserved\<rparr>
               else s\<lparr>rs_LatencyScore := NeutralLatencyScore, rs_LatencySource := SourceUnavailable\<rparr>)
      in if \<not> rs_SovereigntyCompliant s then s\<lparr>rs_Score := Fin 0\<rparr>
         else s\<lparr>rs_Score := total_score w s\<rparr>)"

definition score_before :: "Score \<Rightarrow> Score \<Rightarrow> bool" where
  "score_before a b =
     (if rs_Namespace a \<noteq> rs_Namespace b then rs_Namespace a < rs_Namespace b
      else if rs_Application a \<noteq> rs_Application b then rs_Application a < rs_Application b
      else rs_Model a < rs_Model b)"

definition zero_weights :: "Weights \<Rightarrow> bool" where
  "zero_weights w \<longleftrightarrow> feq (w_Cost w) (Fin 0) \<and> feq (w_Quality w) (Fin 0) \<and>
     feq (w_Latency w) (Fin 0) \<and> feq (w_Reliability w) (Fin 0)"

text \<open>
  The groups come as a list, in the order in which Go happens to range over the map; the empty
  map gives nil, which is the empty slice here.
\<close>

definition Compute_scores_of :: "Weights \<Rightarrow> aggregate list \<Rightarrow> Score list" where
  "Compute_scores_of w gs = sort_by score_before (map (score_of w (ranges gs)) gs)"

definition Compute_scores ::
  "UsageSample list \<Rightarrow> PriceBook \<Rightarrow> ModelInfos \<Rightarrow> Weights \<Rightarrow> Score list" where
  "Compute_scores samples prices models weights =
     (let w = (if zero_weights weights then DefaultWeights else weights)
      in Compute_scores_of w (map snd (aggregateSamples samples prices models)))"

subsection \<open>What a group holds\<close>

definition compliant_in :: "ModelInfos \<Rightarrow> string \<Rightarrow> bool" where
  "compliant_in models m \<longleftrightarrow>
     \<not> (\<exists>i. models m = Some i \<and> mi_SovereigntyChecked i \<and> \<not> mi_SovereigntyCompliant i)"

definition score_key :: "('a) Score_scheme \<Rightarrow> string" where
  "score_key s = Join [rs_Namespace s, rs_Application s, rs_Model s, rs_Provider s] [unit_sep]"

definition agg_inv :: "ModelInfos \<Rightarrow> string \<Rightarrow> aggregate \<Rightarrow> bool" where
  "agg_inv models k g \<longleftrightarrow> score_key g = k \<and> rs_SovereigntyCompliant g = compliant_in models (rs_Model g)"

lemma agg_inv_add_sample:
  "(\<And>g. acc = Some g \<Longrightarrow> agg_inv models (group_key s) g) \<Longrightarrow>
     agg_inv models (group_key s) (add_sample models s acc)"
  by (cases acc)
     (auto simp: agg_inv_def add_sample_def new_aggregate_def group_key_def score_key_def
       compliant_in_def Let_def split: option.splits)

lemma finish_aggregate_fields [simp]:
  "rs_Namespace (finish_aggregate prices g) = rs_Namespace g"
  "rs_Application (finish_aggregate prices g) = rs_Application g"
  "rs_Model (finish_aggregate prices g) = rs_Model g"
  "rs_Provider (finish_aggregate prices g) = rs_Provider g"
  "rs_Requests (finish_aggregate prices g) = rs_Requests g"
  "rs_SovereigntyCompliant (finish_aggregate prices g) = rs_SovereigntyCompliant g"
  by (simp_all add: finish_aggregate_def Let_def split: option.splits)

lemma score_of_fields [simp]:
  "rs_Namespace (score_of w r g) = rs_Namespace g"
  "rs_Application (score_of w r g) = rs_Application g"
  "rs_Model (score_of w r g) = rs_Model g"
  "rs_Provider (score_of w r g) = rs_Provider g"
  "rs_Requests (score_of w r g) = rs_Requests g"
  "rs_CostPerRequestEUR (score_of w r g) = rs_CostPerRequestEUR g"
  "rs_SovereigntyCompliant (score_of w r g) = rs_SovereigntyCompliant g"
  "rs_CostScore (score_of w r g) = inverseNormalized (rs_CostPerRequestEUR g) (minCost r) (maxCost r)"
  "rs_QualityScore (score_of w r g) = rs_QualityScore g"
  by (simp_all add: score_of_def Let_def Score.truncate_def)

lemma score_of_Score:
  "rs_Score (score_of w r g) =
     (if rs_SovereigntyCompliant g then total_score w (score_of w r g) else Fin 0)"
  by (simp add: score_of_def Let_def Score.truncate_def total_score_def)

lemma aggregateSamples_inv:
  "(k, g) \<in> set (aggregateSamples ss prices models) \<Longrightarrow> agg_inv models k g"
proof -
  let ?m = "group_by (\<lambda>s. Some (group_key s)) (add_sample models) ss []"
  assume "(k, g) \<in> set (aggregateSamples ss prices models)"
  then obtain h where h: "(k, h) \<in> set ?m" "g = finish_aggregate prices h"
    by (auto simp: aggregateSamples_def)
  then have "map_of ?m k = Some h" by (intro map_of_is_SomeI) simp_all
  then have "group_fold (add_sample models) (filter (\<lambda>s. Some (group_key s) = Some k) ss) None = Some h"
    by (simp add: map_of_group_by)
  then have "agg_inv models k h"
    by (rule group_fold_invariant) (auto intro: agg_inv_add_sample)
  then show ?thesis using h(2) by (simp add: agg_inv_def score_key_def)
qed

lemma Compute_scores_mem:
  "s \<in> set (Compute_scores ss prices models ws) \<Longrightarrow>
     \<exists>w r k g. (k, g) \<in> set (aggregateSamples ss prices models) \<and> s = score_of w r g"
  unfolding Compute_scores_def Compute_scores_of_def Let_def by (auto; blast)

lemma clamp01_range: "\<not> flt (clamp01 v) (Fin 0)" "\<not> flt (Fin 1) (clamp01 v)"
  by (auto simp: clamp01_def)

subsection \<open>Examples\<close>

definition example_samples :: "UsageSample list" where
  "example_samples =
    [zero_sample\<lparr>us_Namespace := ''ns'', us_Model := ''dear'', us_Requests := 1, us_InputTokens := 1000000\<rparr>,
     zero_sample\<lparr>us_Namespace := ''ns'', us_Model := ''cheap'', us_Requests := 1, us_InputTokens := 1000000\<rparr>]"

definition example_prices :: PriceBook where
  "example_prices =
    [''dear'' \<mapsto> \<lparr>tp_Currency = ''EUR'', tp_InputPerMillion = Fin 2, tp_OutputPerMillion = Fin 2\<rparr>,
     ''cheap'' \<mapsto> \<lparr>tp_Currency = ''EUR'', tp_InputPerMillion = Fin 1, tp_OutputPerMillion = Fin 1\<rparr>]"

definition example_infos :: "bool \<Rightarrow> ModelInfos" where
  "example_infos c =
    [''dear'' \<mapsto> \<lparr>mi_QualityTier = ''low'', mi_SovereigntyChecked = True, mi_SovereigntyCompliant = c\<rparr>,
     ''cheap'' \<mapsto> \<lparr>mi_QualityTier = ''low'', mi_SovereigntyChecked = True, mi_SovereigntyCompliant = True\<rparr>]"

definition example_weights :: Weights where
  "example_weights =
    \<lparr>w_Cost = Fin (1 / 2), w_Quality = Fin (1 / 4), w_Latency = Fin (1 / 4), w_Reliability = Fin 0\<rparr>"

lemma flt_MaxFloat64: "x \<le> 2 ^ 53 \<Longrightarrow> flt (Fin x) MaxFloat64"
proof -
  assume x: "x \<le> 2 ^ 53"
  have "pow2 971 * 2 \<le> pow2 1024"
    using pow2_add[of 971 1] pow2_le_iff[of 972 1024] by (simp add: pow2_def)
  moreover have "(2 :: rat) ^ 53 < pow2 971"
    using pow2_less_iff[of 53 971] by (simp add: pow2_is_int)
  ultimately have "x < pow2 1024 - pow2 971" using x by linarith
  then show ?thesis by (simp add: MaxFloat64_def)
qed

lemmas score_eval =
  Compute_scores_def Compute_scores_of_def Let_def zero_sample_def zero_weights_def
  aggregateSamples_def group_step_def add_sample_def new_aggregate_def group_key_def score_of_def
  finish_aggregate_def ranges_def range_step_def flt_MaxFloat64 total_score_def
  inverseNormalized_def reliabilityScore_def clamp01_def Score.truncate_def score_before_def
  qualityScore_def NeutralLatencyScore_def

lemma example_scores:
  "map (\<lambda>s. (rs_Model s, rs_CostPerRequestEUR s, rs_QualityScore s, rs_LatencyScore s,
      rs_ReliabilityScore s, rs_SovereigntyCompliant s))
     (Compute_scores example_samples example_prices (example_infos True) example_weights) =
   [(''cheap'', Fin 1, Fin (1 / 2), Fin (1 / 2), Fin 1, True),
    (''dear'', Fin 2, Fin (1 / 2), Fin (1 / 2), Fin 1, True)]"
  by (simp add: score_eval example_samples_def example_prices_def example_weights_def
      example_infos_def)

lemma example_scores_blocked:
  "map (\<lambda>s. (rs_Model s, rs_SovereigntyCompliant s))
     (Compute_scores example_samples example_prices (example_infos False) example_weights) =
   [(''cheap'', True), (''dear'', False)]"
  by (simp add: score_eval example_samples_def example_prices_def example_weights_def
      example_infos_def)

text \<open>
  C22: Sovereignty is a hard gate: a model that was checked and is not compliant scores exactly
  zero, whatever its cost, quality, latency and reliability and whatever the weights, and every
  other model keeps its gate open; no score lies outside the interval from 0 to 1.
\<close>

theorem Compute_scores_gate:
  assumes "s \<in> set (Compute_scores ss prices models ws)"
  shows "rs_SovereigntyCompliant s = compliant_in models (rs_Model s) \<and>
    (\<not> compliant_in models (rs_Model s) \<longrightarrow> rs_Score s = Fin 0) \<and>
    \<not> flt (rs_Score s) (Fin 0) \<and> \<not> flt (Fin 1) (rs_Score s)"
proof -
  obtain w r k g where g: "(k, g) \<in> set (aggregateSamples ss prices models)" "s = score_of w r g"
    using Compute_scores_mem[OF assms] by blast
  then have "rs_SovereigntyCompliant g = compliant_in models (rs_Model g)"
    using aggregateSamples_inv[OF g(1)] by (simp add: agg_inv_def)
  then show ?thesis
    using clamp01_range by (simp add: g(2) score_of_Score total_score_def)
qed

theorem Compute_scores_gate_witness:
  "\<exists>s \<in> set (Compute_scores example_samples example_prices (example_infos False) example_weights).
     rs_Model s = ''dear'' \<and> rs_Score s = Fin 0"
proof -
  obtain a b where ab: "Compute_scores example_samples example_prices (example_infos False) example_weights = [a, b]"
    "rs_Model b = ''dear''"
    using example_scores_blocked by (auto simp: map_eq_Cons_conv)
  then show ?thesis
    using Compute_scores_gate[of b example_samples example_prices "example_infos False" example_weights]
    by (simp add: compliant_in_def example_infos_def)
qed

lemma score_key_inv: "(k, g) \<in> set (aggregateSamples ss prices models) \<Longrightarrow> score_key (score_of w r g) = k"
  using aggregateSamples_inv[of k g ss prices models] by (simp add: agg_inv_def score_key_def)

text \<open>
  There is exactly one score for each workload, model and provider that was observed, and
  the scores account for all requests.
\<close>

theorem Compute_scores_groups:
  "distinct (map score_key (Compute_scores ss prices models ws)) \<and>
   set (map score_key (Compute_scores ss prices models ws)) = group_key ` set ss \<and>
   sum_list (map rs_Requests (Compute_scores ss prices models ws)) = sum_list (map us_Requests ss)"
proof -
  let ?A = "aggregateSamples ss prices models"
  define w where "w = (if zero_weights ws then DefaultWeights else ws)"
  define r where "r = ranges (map snd ?A)"
  let ?S = "map (\<lambda>kg. score_of w r (snd kg)) ?A"
  have c: "Compute_scores ss prices models ws = sort_by score_before ?S"
    by (simp add: Compute_scores_def Compute_scores_of_def w_def r_def Let_def comp_def)
  have k: "map score_key ?S = map fst ?A"
    using score_key_inv by (auto simp: comp_def)
  have A: "map fst ?A = map fst (group_by (\<lambda>s. Some (group_key s)) (add_sample models) ss [])"
    by (simp add: aggregateSamples_def comp_def split_def)
  have "mset (map score_key (Compute_scores ss prices models ws)) = mset (map fst ?A)"
    unfolding k[symmetric] c by (simp add: multiset.map_comp)
  moreover have "distinct (map fst ?A)" "set (map fst ?A) = group_key ` set ss"
    unfolding A using keys_group_by[of "\<lambda>s. Some (group_key s)" "add_sample models" ss "[]"] by auto
  moreover have "sum_list (map rs_Requests (Compute_scores ss prices models ws)) = sum_list (map us_Requests ss)"
  proof -
    have "sum_list (map rs_Requests (sort_by score_before ?S)) = sum_list (map rs_Requests ?S)"
      by (rule sum_list_mset_cong) simp
    also have "\<dots> = sum_list (map (\<lambda>kg. rs_Requests (snd kg))
        (group_by (\<lambda>s. Some (group_key s)) (add_sample models) ss []))"
      by (simp add: aggregateSamples_def comp_def split_def)
    also have "\<dots> = sum_list (map us_Requests ss)"
      by (subst sum_group_by[where w = us_Requests])
         (simp_all add: add_sample_def new_aggregate_def Let_def)
    finally show ?thesis unfolding c .
  qed
  ultimately show ?thesis by (metis mset_eq_imp_distinct_iff set_mset_mset)
qed

subsection \<open>Cost\<close>

lemma clamp01_NaN [simp]: "clamp01 v = NaN \<longleftrightarrow> v = NaN"
  by (cases v) (auto simp: clamp01_def)

lemma clamp01_mono: "fle x y \<Longrightarrow> fle (clamp01 x) (clamp01 y)"
  by (cases x; cases y) (auto simp: clamp01_def)

lemma inverseNormalized_antimono:
  assumes "fle x y" "inverseNormalized x mn mx \<noteq> NaN" "inverseNormalized y mn mx \<noteq> NaN"
  shows "fle (inverseNormalized y mn mx) (inverseNormalized x mn mx)"
proof (cases "fle mx mn")
  case True
  then show ?thesis by (simp add: inverseNormalized_def)
next
  case False
  let ?d = "fsub mx mn"
  have n: "fsub (Fin 1) (fdiv (fsub x mn) ?d) \<noteq> NaN" "fsub (Fin 1) (fdiv (fsub y mn) ?d) \<noteq> NaN"
    using assms(2,3) False by (simp_all add: inverseNormalized_def)
  note q = fsub_NaN[OF n(1)] fsub_NaN[OF n(2)]
  then have d: "fsub x mn \<noteq> NaN" "fsub y mn \<noteq> NaN" "?d \<noteq> NaN"
    using fdiv_NaN[of "fsub x mn" ?d] fdiv_NaN[of "fsub y mn" ?d] by auto
  then have "flt mn mx" using not_fle_cases[OF False] fsub_NaN[OF d(3)] by auto
  then have "fle (Fin 0) ?d" using d(3) by (intro fsub_pos)
  then have "fle (fdiv (fsub x mn) ?d) (fdiv (fsub y mn) ?d)"
    using assms(1) d q by (intro fle_fdiv_nonneg fle_fsub_left) auto
  then show ?thesis
    using False n by (simp add: inverseNormalized_def clamp01_mono fle_fsub_right)
qed

lemma total_score_mono:
  assumes "fle (Fin 0) (w_Cost w)" "fle (rs_CostScore b) (rs_CostScore a)"
    and "rs_QualityScore a = rs_QualityScore b" "rs_LatencyScore a = rs_LatencyScore b"
    and "rs_ReliabilityScore a = rs_ReliabilityScore b"
    and "total_score w a \<noteq> NaN" "total_score w b \<noteq> NaN"
  shows "fle (total_score w b) (total_score w a)"
proof -
  have step: "fle (fadd x z) (fadd y z)" if "fle x y" "fadd x z \<noteq> NaN" "fadd y z \<noteq> NaN" for x y z
    using that fadd_NaN[of x z] by (intro fle_fadd_mono) auto
  then show ?thesis
    using assms unfolding total_score_def clamp01_NaN assms(3-5)
    by (intro clamp01_mono step fle_fmul_nonneg) (auto dest!: fadd_NaN)
qed

text \<open>
  A cheaper model never scores worse: of two scores of one run that agree in quality,
  latency and reliability, one with a lower cost per request is not ranked below the other,
  unless its gate is closed. This holds for any weights whose cost weight is not negative.
\<close>

theorem Compute_scores_cheaper:
  assumes "a \<in> set (Compute_scores ss prices models ws)" "b \<in> set (Compute_scores ss prices models ws)"
    and "fle (rs_CostPerRequestEUR a) (rs_CostPerRequestEUR b)"
    and "rs_QualityScore a = rs_QualityScore b" "rs_LatencyScore a = rs_LatencyScore b"
    and "rs_ReliabilityScore a = rs_ReliabilityScore b"
    and "rs_SovereigntyCompliant a" "fle (Fin 0) (w_Cost ws)"
  shows "\<not> flt (rs_Score a) (rs_Score b)"
proof
  let ?w = "if zero_weights ws then DefaultWeights else ws"
  assume lt: "flt (rs_Score a) (rs_Score b)"
  define r where "r = ranges (map snd (aggregateSamples ss prices models))"
  have "\<exists>g. s = score_of ?w r g" if "s \<in> set (Compute_scores ss prices models ws)" for s
    using that unfolding Compute_scores_def Compute_scores_of_def Let_def r_def by auto
  then obtain g h where gh: "a = score_of ?w r g" "b = score_of ?w r h"
    using assms(1,2) by meson
  have nn: "rs_Score a \<noteq> NaN" "rs_Score b \<noteq> NaN" using lt by (auto simp: flt_def)
  have a: "rs_Score a = total_score ?w a" using assms(7) by (simp add: gh score_of_Score)
  have w: "fle (Fin 0) (w_Cost ?w)"
    using assms(8) by (simp add: DefaultWeights_def flit_def rnd_nonneg)
  show False
  proof (cases "rs_SovereigntyCompliant b")
    case False
    then have "rs_Score b = Fin 0" by (simp add: gh score_of_Score)
    then show False using lt a clamp01_range(1) by (metis total_score_def)
  next
    case True
    then have b: "rs_Score b = total_score ?w b" by (simp add: gh score_of_Score)
    have "rs_CostScore a \<noteq> NaN" "rs_CostScore b \<noteq> NaN"
      using nn unfolding a b total_score_def clamp01_NaN by (auto dest!: fadd_NaN fmul_NaN)
    then have "fle (rs_CostScore b) (rs_CostScore a)"
      using assms(3) by (simp add: gh inverseNormalized_antimono)
    then have "fle (rs_Score b) (rs_Score a)"
      using assms(4-6) nn w unfolding a b by (intro total_score_mono) auto
    then show False using lt by (auto simp: flt_def dest: fle_antisym)
  qed
qed

theorem Compute_scores_cheaper_witness:
  "\<exists>a b. Compute_scores example_samples example_prices (example_infos True) example_weights = [a, b] \<and>
     rs_Model a = ''cheap'' \<and> \<not> flt (rs_Score a) (rs_Score b)"
proof -
  obtain a b where ab: "Compute_scores example_samples example_prices (example_infos True) example_weights = [a, b]"
    "rs_Model a = ''cheap''" "rs_CostPerRequestEUR a = Fin 1" "rs_CostPerRequestEUR b = Fin 2"
    "rs_QualityScore a = rs_QualityScore b" "rs_LatencyScore a = rs_LatencyScore b"
    "rs_ReliabilityScore a = rs_ReliabilityScore b" "rs_SovereigntyCompliant a"
    using example_scores by (auto simp: map_eq_Cons_conv)
  then show ?thesis
    using Compute_scores_cheaper[of a example_samples example_prices "example_infos True" example_weights b]
    by (simp add: example_weights_def)
qed

end
