(* ===== verification/Recommendationengine.thy ===== *)
theory Recommendationengine
  imports GoStrings
begin

section \<open>Recommendations (internal/recommendationengine)\<close>

text \<open>
  From observed usage, the candidate models, the sovereignty risks and the models without a
  price to a list of suggestions, most severe and most valuable first.
\<close>

definition TypeCostSaving :: string where "TypeCostSaving = ''cost-saving''"
definition TypeSovereignty :: string where "TypeSovereignty = ''sovereignty''"
definition TypeDataQuality :: string where "TypeDataQuality = ''data-quality''"

definition RecSeverityInfo :: string where "RecSeverityInfo = ''info''"
definition RecSeverityWarning :: string where "RecSeverityWarning = ''warning''"
definition RecSeverityCritical :: string where "RecSeverityCritical = ''critical''"

record Usage =
  ru_Namespace :: string
  ru_Application :: string
  ru_Model :: string
  ru_InputTokens :: int64
  ru_OutputTokens :: int64
  ru_Requests :: int64
  ru_CostEUR :: f64

record Candidate =
  ca_Name :: string
  ca_InputPerMillion :: f64
  ca_OutputPerMillion :: f64
  ca_Compliant :: bool

record Risk =
  rk_Namespace :: string
  rk_Application :: string
  rk_Provider :: string
  rk_Zone :: string
  rk_Requests :: int64
  rk_CostEUR :: f64

record Recommendation =
  rec_Type :: string
  rec_Severity :: string
  rec_Message :: string
  rec_Namespace :: string
  rec_Application :: string
  rec_CurrentModel :: string
  rec_RecommendedModel :: string
  rec_EstimatedSavingsEUR :: f64

definition minSavingFraction :: f64 where "minSavingFraction = flit (20 / 100)"

definition candidateCost :: "Usage \<Rightarrow> Candidate \<Rightarrow> f64" where
  "candidateCost u c =
     fadd (fmul (fdiv (of_i64 (ru_InputTokens u)) (Fin 1000000)) (ca_InputPerMillion c))
          (fmul (fdiv (of_i64 (ru_OutputTokens u)) (Fin 1000000)) (ca_OutputPerMillion c))"

text \<open>The inner loop: the best name and its cost so far.\<close>

definition best_candidate :: "Usage \<Rightarrow> Candidate \<Rightarrow> string \<times> f64 \<Rightarrow> string \<times> f64" where
  "best_candidate u c st =
     (let (best, bestCost) = st
      in if ca_Name c = ru_Model u then st
         else if \<not> ca_Compliant c then st
         else if flt (candidateCost u c) bestCost then (ca_Name c, candidateCost u c)
         else st)"

definition cheapest :: "Candidate list \<Rightarrow> Usage \<Rightarrow> string \<times> f64" where
  "cheapest candidates u = fold (best_candidate u) candidates ('''', ru_CostEUR u)"

definition saving_message :: "Usage \<Rightarrow> string \<Rightarrow> f64 \<Rightarrow> string" where
  "saving_message u best saving =
     ru_Namespace u @ ''/'' @ ru_Application u @ '': routing low-stakes '' @ fmt_q (ru_Model u) @
     '' traffic to '' @ fmt_q best @ '' would save ~'' @ fmt_f 4 saving @
     '' EUR over the window (-'' @ fmt_f 0 (fmul (fdiv saving (ru_CostEUR u)) (Fin 100)) @ ''%).''"

text \<open>The body of the first loop: \<open>None\<close> where it appends nothing.\<close>

definition cost_saving :: "Candidate list \<Rightarrow> Usage \<Rightarrow> Recommendation option" where
  "cost_saving candidates u =
     (if fle (ru_CostEUR u) (Fin 0) then None
      else let (best, bestCost) = cheapest candidates u;
               saving = fsub (ru_CostEUR u) bestCost
           in if best \<noteq> '''' \<and> fge saving (fmul (ru_CostEUR u) minSavingFraction) then
                Some \<lparr>rec_Type = TypeCostSaving, rec_Severity = RecSeverityInfo,
                  rec_Message = saving_message u best saving,
                  rec_Namespace = ru_Namespace u, rec_Application = ru_Application u,
                  rec_CurrentModel = ru_Model u, rec_RecommendedModel = best,
                  rec_EstimatedSavingsEUR = saving\<rparr>
              else None)"

definition sovereignty_rec :: "bool \<Rightarrow> Risk \<Rightarrow> Recommendation option" where
  "sovereignty_rec hasCompliantModel r =
     (if sint (rk_Requests r) \<le> 0 then None
      else let fix_hint = (if \<not> hasCompliantModel
                 then ''no compliant (allowed-zone) model exists in the catalog '' @ emdash @
                   '' add an EU/allowed provider''
                 else ''route this app to an allowed-zone model'')
           in Some \<lparr>rec_Type = TypeSovereignty, rec_Severity = RecSeverityCritical,
                rec_Message = rk_Namespace r @ ''/'' @ rk_Application r @ '': '' @
                  fmt_d (rk_Requests r) @ '' request(s) (~'' @ fmt_f 4 (rk_CostEUR r) @
                  '' EUR) sent to non-compliant provider '' @ fmt_q (rk_Provider r) @
                  '' in zone '' @ rk_Zone r @ '' '' @ emdash @ '' '' @ fix_hint @ ''.'',
                rec_Namespace = rk_Namespace r, rec_Application = rk_Application r,
                rec_CurrentModel = '''', rec_RecommendedModel = '''',
                rec_EstimatedSavingsEUR = Fin 0\<rparr>)"

definition data_quality_rec :: "string \<Rightarrow> Recommendation" where
  "data_quality_rec m =
     \<lparr>rec_Type = TypeDataQuality, rec_Severity = RecSeverityWarning,
      rec_Message = ''Model '' @ fmt_q m @
        '' has no price; create an AIModel/AIProvider so its cost is attributed.'',
      rec_Namespace = '''', rec_Application = '''', rec_CurrentModel = '''',
      rec_RecommendedModel = '''', rec_EstimatedSavingsEUR = Fin 0\<rparr>"

definition sevRank :: "string \<Rightarrow> int" where
  "sevRank s =
     (if s = RecSeverityCritical then 3 else if s = RecSeverityWarning then 2 else 1)"

definition rec_before :: "Recommendation \<Rightarrow> Recommendation \<Rightarrow> bool" where
  "rec_before a b =
     (if sevRank (rec_Severity a) \<noteq> sevRank (rec_Severity b)
      then sevRank (rec_Severity b) < sevRank (rec_Severity a)
      else fgt (rec_EstimatedSavingsEUR a) (rec_EstimatedSavingsEUR b))"

definition Recommend ::
  "Usage list \<Rightarrow> Candidate list \<Rightarrow> Risk list \<Rightarrow> string list \<Rightarrow> bool \<Rightarrow> Recommendation list \<times> f64" where
  "Recommend usages candidates risks unpricedModels hasCompliantModel =
     (let savings = List.map_filter (cost_saving candidates) usages;
          totalSavings = fold (\<lambda>r t. fadd t (rec_EstimatedSavingsEUR r)) savings (Fin 0);
          recs = savings @ List.map_filter (sovereignty_rec hasCompliantModel) risks @
            map data_quality_rec (sort_strings unpricedModels)
      in (sort_by rec_before recs, totalSavings))"

subsection \<open>The cheapest candidate\<close>

definition eligible :: "Usage \<Rightarrow> Candidate \<Rightarrow> bool" where
  "eligible u c \<longleftrightarrow> ca_Name c \<noteq> ru_Model u \<and> ca_Compliant c"

lemma best_candidate_eq:
  "best_candidate u c st =
     (if eligible u c \<and> flt (candidateCost u c) (snd st) then (ca_Name c, candidateCost u c) else st)"
  by (auto simp: best_candidate_def eligible_def split: prod.splits)

text \<open>
  The result of the loop is its start or an eligible candidate, costs no more than the start, and
  nothing eligible undercuts it.
\<close>

lemma fold_best_candidate:
  assumes "r = fold (best_candidate u) cs st" "snd st \<noteq> NaN"
  shows "snd r \<noteq> NaN \<and> fle (snd r) (snd st) \<and>
    (r = st \<or> (\<exists>c \<in> set cs. eligible u c \<and> r = (ca_Name c, candidateCost u c) \<and>
       flt (candidateCost u c) (snd st))) \<and>
    (\<forall>c \<in> set cs. eligible u c \<longrightarrow> \<not> flt (candidateCost u c) (snd r))"
  using assms
proof (induction cs arbitrary: st)
  case Nil
  then show ?case by simp
next
  case (Cons c cs)
  let ?st = "best_candidate u c st"
  have le: "fle (snd ?st) (snd st)" and n: "snd ?st \<noteq> NaN"
    using Cons.prems(2) by (auto simp: best_candidate_eq flt_imp_fle dest: flt_imp_not_NaN)
  have r: "r = fold (best_candidate u) cs ?st" using Cons.prems(1) by simp
  note IH = Cons.IH[OF r n]
  have rst: "fle (snd r) (snd ?st)" using IH by blast
  have "eligible u c \<longrightarrow> \<not> flt (candidateCost u c) (snd ?st)"
    by (simp add: best_candidate_eq)
  then have 1: "eligible u c \<longrightarrow> \<not> flt (candidateCost u c) (snd r)"
    using flt_fle_trans[OF _ rst] by blast
  have 2: "r = st \<or> (\<exists>c \<in> set (c # cs). eligible u c \<and> r = (ca_Name c, candidateCost u c) \<and>
       flt (candidateCost u c) (snd st))"
  proof (cases "r = ?st")
    case True
    then show ?thesis by (simp add: best_candidate_eq)
  next
    case False
    then obtain d where "d \<in> set cs" "eligible u d" "r = (ca_Name d, candidateCost u d)"
      "flt (candidateCost u d) (snd ?st)" using IH by blast
    then show ?thesis using flt_fle_trans[OF _ le] by auto
  qed
  have 3: "fle (snd r) (snd st)" using fle_trans[OF rst le] .
  have 4: "\<forall>d \<in> set (c # cs). eligible u d \<longrightarrow> \<not> flt (candidateCost u d) (snd r)"
    using 1 IH by simp
  show ?case using 2 3 4 IH by blast
qed

lemma cheapest_correct:
  assumes "ru_CostEUR u \<noteq> NaN" "cheapest cs u = (best, cost)" "best \<noteq> ''''"
  shows "\<exists>c \<in> set cs. eligible u c \<and> best = ca_Name c \<and> cost = candidateCost u c \<and>
    flt cost (ru_CostEUR u) \<and> (\<forall>d \<in> set cs. eligible u d \<longrightarrow> \<not> flt (candidateCost u d) cost)"
  using fold_best_candidate[of "(best, cost)" u cs "('''', ru_CostEUR u)"] assms
  by (auto simp: cheapest_def)

lemma cheapest_NaN: "ru_CostEUR u = NaN \<Longrightarrow> cheapest cs u = ('''', NaN)"
proof -
  assume n: "ru_CostEUR u = NaN"
  have "fold (best_candidate u) cs ('''', NaN) = ('''', NaN)"
    by (induction cs) (simp_all add: best_candidate_eq)
  then show ?thesis using n by (simp add: cheapest_def)
qed

lemma cost_saving_correct:
  assumes "cost_saving cs u = Some r"
  shows "\<exists>c \<in> set cs. eligible u c \<and>
    (rec_Namespace r, rec_Application r, rec_CurrentModel r) = (ru_Namespace u, ru_Application u, ru_Model u) \<and>
    rec_RecommendedModel r = ca_Name c \<and>
    rec_EstimatedSavingsEUR r = fsub (ru_CostEUR u) (candidateCost u c) \<and>
    fge (rec_EstimatedSavingsEUR r) (fmul (ru_CostEUR u) minSavingFraction) \<and>
    flt (candidateCost u c) (ru_CostEUR u) \<and>
    (\<forall>d \<in> set cs. eligible u d \<longrightarrow> \<not> flt (candidateCost u d) (candidateCost u c))"
proof -
  obtain best cost where b: "cheapest cs u = (best, cost)" by fastforce
  then have r: "best \<noteq> ''''" "rec_RecommendedModel r = best"
    "rec_EstimatedSavingsEUR r = fsub (ru_CostEUR u) cost"
    "fge (fsub (ru_CostEUR u) cost) (fmul (ru_CostEUR u) minSavingFraction)"
    "(rec_Namespace r, rec_Application r, rec_CurrentModel r) = (ru_Namespace u, ru_Application u, ru_Model u)"
    using assms by (auto simp: cost_saving_def Let_def split: if_splits)
  then have "ru_CostEUR u \<noteq> NaN" using cheapest_NaN[of u cs] b by auto
  from cheapest_correct[OF this b r(1)] show ?thesis using r by auto
qed

subsection \<open>Properties of the list\<close>

lemma rec_types [simp]:
  "TypeCostSaving \<noteq> TypeSovereignty" "TypeCostSaving \<noteq> TypeDataQuality"
  "TypeSovereignty \<noteq> TypeCostSaving" "TypeDataQuality \<noteq> TypeCostSaving"
  by (simp_all add: TypeCostSaving_def TypeSovereignty_def TypeDataQuality_def)

lemma cost_saving_fields:
  "cost_saving cs u = Some r \<Longrightarrow> rec_Type r = TypeCostSaving \<and> sevRank (rec_Severity r) = 1"
  by (auto simp: cost_saving_def Let_def sevRank_def RecSeverityInfo_def RecSeverityWarning_def
      RecSeverityCritical_def split: prod.splits if_splits)

lemma sovereignty_rec_fields:
  "sovereignty_rec h k = Some r \<Longrightarrow> rec_Type r = TypeSovereignty \<and> sevRank (rec_Severity r) = 3 \<and>
     rec_EstimatedSavingsEUR r = Fin 0"
  by (auto simp: sovereignty_rec_def Let_def sevRank_def split: if_splits)

lemma data_quality_rec_fields [simp]:
  "rec_Type (data_quality_rec m) = TypeDataQuality" "sevRank (rec_Severity (data_quality_rec m)) = 2"
  "rec_EstimatedSavingsEUR (data_quality_rec m) = Fin 0"
  by (simp_all add: data_quality_rec_def sevRank_def RecSeverityWarning_def RecSeverityCritical_def)

text \<open>
  C23: A recommended swap is real and lawful: it names a compliant model other than the one in
  use, no compliant alternative is cheaper for this token mix, and its saving is the difference
  of the two costs and at least a fifth of what the workload costs now.
\<close>

theorem Recommend_cost_saving:
  assumes "r \<in> set (fst (Recommend us cs rs ups h))" and "rec_Type r = TypeCostSaving"
  shows "\<exists>u \<in> set us. \<exists>c \<in> set cs. eligible u c \<and>
    (rec_Namespace r, rec_Application r, rec_CurrentModel r) = (ru_Namespace u, ru_Application u, ru_Model u) \<and>
    rec_RecommendedModel r = ca_Name c \<and>
    rec_EstimatedSavingsEUR r = fsub (ru_CostEUR u) (candidateCost u c) \<and>
    fge (rec_EstimatedSavingsEUR r) (fmul (ru_CostEUR u) minSavingFraction) \<and>
    flt (candidateCost u c) (ru_CostEUR u) \<and>
    (\<forall>d \<in> set cs. eligible u d \<longrightarrow> \<not> flt (candidateCost u d) (candidateCost u c))"
proof -
  have "\<exists>u \<in> set us. cost_saving cs u = Some r"
    using assms by (auto simp: Recommend_def Let_def map_filter_mem dest: sovereignty_rec_fields)
  then show ?thesis using cost_saving_correct by meson
qed

definition example_usage :: Usage where
  "example_usage = \<lparr>ru_Namespace = ''shop'', ru_Application = ''chat'', ru_Model = ''big'',
     ru_InputTokens = 1000000, ru_OutputTokens = 0, ru_Requests = 10, ru_CostEUR = Fin 4\<rparr>"

definition example_candidates :: "Candidate list" where
  "example_candidates =
    [\<lparr>ca_Name = ''abroad'', ca_InputPerMillion = Fin 0, ca_OutputPerMillion = Fin 0, ca_Compliant = False\<rparr>,
     \<lparr>ca_Name = ''small'', ca_InputPerMillion = Fin 1, ca_OutputPerMillion = Fin 1, ca_Compliant = True\<rparr>]"

lemma example_saving:
  "\<exists>r. cost_saving example_candidates example_usage = Some r \<and> rec_Type r = TypeCostSaving \<and>
     rec_RecommendedModel r = ''small''"
proof -
  have "fle minSavingFraction (Fin (3 / 4))"
    using rnd_mono[of "20 / 100" "3 / 4"] by (simp add: minSavingFraction_def flit_def)
  then have "fle (fmul minSavingFraction (Fin 4)) (fmul (Fin (3 / 4)) (Fin 4))"
    by (intro fle_fmul_mono) simp_all
  moreover have "fmul minSavingFraction (Fin 4) = fmul (Fin 4) minSavingFraction"
  proof -
    have "fmul x (Fin 4) = fmul (Fin 4) x" for x by (cases x) (simp_all add: mult.commute)
    then show ?thesis .
  qed
  ultimately have "fle (fmul (Fin 4) minSavingFraction) (Fin 3)" by simp
  then show ?thesis
    by (simp add: cost_saving_def example_usage_def example_candidates_def cheapest_def
        best_candidate_def candidateCost_def Let_def)
qed

theorem Recommend_cost_saving_witness:
  "\<exists>r \<in> set (fst (Recommend [example_usage] example_candidates [] [] True)).
     rec_RecommendedModel r = ''small'' \<and>
     rec_EstimatedSavingsEUR r = fsub (Fin 4) (candidateCost example_usage (example_candidates ! 1))"
proof -
  obtain r where r: "cost_saving example_candidates example_usage = Some r" "rec_Type r = TypeCostSaving"
    "rec_RecommendedModel r = ''small''" using example_saving by blast
  then have m: "r \<in> set (fst (Recommend [example_usage] example_candidates [] [] True))"
    by (simp add: Recommend_def Let_def map_filter_mem)
  from Recommend_cost_saving[OF this r(2)] show ?thesis
    using r(3) m by (auto simp: example_candidates_def example_usage_def)
qed

text \<open>
  The list of recommendations is exactly: one critical entry per risk that saw requests, in
  the order of the risks, then one warning per model without a price, by name, then the
  cost savings, the largest first.
\<close>

theorem Recommend_order:
  "fst (Recommend us cs rs ups h) =
     List.map_filter (sovereignty_rec h) rs @ map data_quality_rec (sort_strings ups) @
     sort_by (\<lambda>a b. fgt (rec_EstimatedSavingsEUR a) (rec_EstimatedSavingsEUR b))
       (List.map_filter (cost_saving cs) us)"
proof -
  let ?C = "List.map_filter (cost_saving cs) us"
  let ?S = "List.map_filter (sovereignty_rec h) rs"
  let ?D = "map data_quality_rec (sort_strings ups)"
  have c: "\<forall>x \<in> set ?C. sevRank (rec_Severity x) = 1"
    by (auto simp: map_filter_mem dest: cost_saving_fields)
  have s: "\<forall>x \<in> set ?S. sevRank (rec_Severity x) = 3 \<and> rec_EstimatedSavingsEUR x = Fin 0"
    by (auto simp: map_filter_mem dest: sovereignty_rec_fields)
  have d: "\<forall>x \<in> set ?D. sevRank (rec_Severity x) = 2 \<and> rec_EstimatedSavingsEUR x = Fin 0"
    by auto
  have "sort_by rec_before (?C @ ?S @ ?D) = sort_by rec_before (?S @ ?D) @ sort_by rec_before ?C"
    using c s d by (intro sort_by_append_swap) (auto simp: rec_before_def)
  also have "sort_by rec_before (?S @ ?D) = sort_by rec_before ?S @ sort_by rec_before ?D"
    using s d by (intro sort_by_append) (auto simp: rec_before_def)
  also have "sort_by rec_before ?S = ?S"
    using s by (intro sort_by_trivial) (auto simp: rec_before_def)
  also have "sort_by rec_before ?D = ?D"
    using d by (intro sort_by_trivial) (auto simp: rec_before_def)
  also have "sort_by rec_before ?C =
      sort_by (\<lambda>a b. fgt (rec_EstimatedSavingsEUR a) (rec_EstimatedSavingsEUR b)) ?C"
    using c by (intro sort_by_cong) (simp add: rec_before_def)
  finally show ?thesis by (simp add: Recommend_def Let_def)
qed

end
