(* ===== verification/Gatewayreroute.thy ===== *)
theory Gatewayreroute
  imports GoStrings
begin

section \<open>Gateway rerouting (internal/gatewayreroute)\<close>

text \<open>
  The rules of an AIGatewayRoute as decoded JSON, and the pass that points the first backend of a
  rule at a compliant backend, at the reserved absent backend, or back at its original.
\<close>

subsection \<open>Decoded JSON and its accessors\<close>

text \<open>A Go \<open>any\<close> of a decoded document; \<open>map[string]any\<close> is a map.\<close>

datatype json =
    JNull
  | JBool bool
  | JNum rat
  | JStr string
  | JArr "json list"
  | JObj "string \<Rightarrow> json option"

type_synonym object = "string \<Rightarrow> json option"

text \<open>
  The helpers of k8s.io/apimachinery's package unstructured are not part of the repository: they
  are an argument of the model. The first result of \<open>NestedSlice\<close> and \<open>NestedString\<close>
  is the zero value when the field is absent or has another type; the other two results are not
  used by the code.
\<close>

record unstructured_api =
  NestedSlice :: "object \<Rightarrow> string list \<Rightarrow> json list"
  NestedString :: "object \<Rightarrow> string list \<Rightarrow> string"
  SetNestedSlice :: "object \<Rightarrow> json list \<Rightarrow> string list \<Rightarrow> object"

definition ModelHeaderName :: string where "ModelHeaderName = ''x-ai-eg-model''"
definition BlockBackendName :: string where "BlockBackendName = ''aiops-blocked''"

text \<open>The value of the first header of the model's name, over the headers of one match.\<close>

fun header_model :: "unstructured_api \<Rightarrow> json list \<Rightarrow> string option" where
  "header_model K [] = None"
| "header_model K (JObj hh # hs) =
     (if NestedString K hh [''name''] = ModelHeaderName then Some (NestedString K hh [''value''])
      else header_model K hs)"
| "header_model K (_ # hs) = header_model K hs"

fun match_model :: "unstructured_api \<Rightarrow> json list \<Rightarrow> string option" where
  "match_model K [] = None"
| "match_model K (JObj mm # ms) =
     (case header_model K (NestedSlice K mm [''headers'']) of
        Some v \<Rightarrow> Some v | None \<Rightarrow> match_model K ms)"
| "match_model K (_ # ms) = match_model K ms"

definition RuleModel :: "unstructured_api \<Rightarrow> object \<Rightarrow> string" where
  "RuleModel K rule =
     (case match_model K (NestedSlice K rule [''matches'']) of Some v \<Rightarrow> v | None \<Rightarrow> '''')"

definition firstBackend :: "unstructured_api \<Rightarrow> object \<Rightarrow> (json list \<times> object) option" where
  "firstBackend K rule =
     (case NestedSlice K rule [''backendRefs''] of
        [] \<Rightarrow> None
      | b # bs \<Rightarrow> (case b of JObj b0 \<Rightarrow> Some (b # bs, b0) | _ \<Rightarrow> None))"

subsection \<open>ApplyControls\<close>

record reroute_result =
  rr_Rerouted :: "string list"
  rr_Blocked :: "string list"
  rr_Changed :: bool

definition no_result :: reroute_result where
  "no_result = \<lparr>rr_Rerouted = [], rr_Blocked = [], rr_Changed = False\<rparr>"

type_synonym saved_map = "(string, string) gomap"

text \<open>The lookup of a Go map of strings: the empty string when the key is absent.\<close>

definition get :: "(string, string) gomap \<Rightarrow> string \<Rightarrow> string" where
  "get m k = (case map_of m k of Some v \<Rightarrow> v | None \<Rightarrow> '''')"

definition body_mutation :: "string \<Rightarrow> json" where
  "body_mutation target =
     JObj [''set'' \<mapsto> JArr [JObj [''path'' \<mapsto> JStr ''model'', ''value'' \<mapsto> JStr target]]]"

definition set_backend :: "unstructured_api \<Rightarrow> object \<Rightarrow> json list \<Rightarrow> object \<Rightarrow> json" where
  "set_backend K rule brs b0 = JObj (SetNestedSlice K rule (brs[0 := JObj b0]) [''backendRefs''])"

definition save_original :: "unstructured_api \<Rightarrow> string \<Rightarrow> object \<Rightarrow> saved_map \<Rightarrow> saved_map" where
  "save_original K model b0 saved =
     (if map_of saved model = None then AList.update model (NestedString K b0 [''name'']) saved
      else saved)"

text \<open>The body of the loop over the rules.\<close>

definition apply_rule ::
  "unstructured_api \<Rightarrow> (string, string) gomap \<Rightarrow> (string, bool) gomap \<Rightarrow> (string, string) gomap \<Rightarrow>
     json \<Rightarrow> saved_map \<times> reroute_result \<Rightarrow> json \<times> saved_map \<times> reroute_result" where
  "apply_rule K desired blocked backends j st =
     (case j of
        JObj rule \<Rightarrow>
          (let model = RuleModel K rule; (saved, res) = st
           in if model = '''' then (j, st)
              else
                case firstBackend K rule of
                  None \<Rightarrow> (j, st)
                | Some (brs, b0) \<Rightarrow>
                    (case map_of desired model of
                       Some target \<Rightarrow>
                         (let targetBackend = get backends target
                          in if targetBackend = '''' then (j, st)
                             else (set_backend K rule brs
                                     (b0(''name'' \<mapsto> JStr targetBackend, ''bodyMutation'' \<mapsto> body_mutation target)),
                                   save_original K model b0 saved,
                                   res\<lparr>rr_Changed := True, rr_Rerouted := List.insert model (rr_Rerouted res)\<rparr>))
                     | None \<Rightarrow>
                         if map_of blocked model = Some True then
                           (set_backend K rule brs ((b0(''name'' \<mapsto> JStr BlockBackendName))(''bodyMutation'' := None)),
                            save_original K model b0 saved,
                            res\<lparr>rr_Changed := True, rr_Blocked := List.insert model (rr_Blocked res)\<rparr>)
                         else
                           (case map_of saved model of
                              Some orig \<Rightarrow>
                                (set_backend K rule brs ((b0(''name'' \<mapsto> JStr orig))(''bodyMutation'' := None)),
                                 AList.delete model saved, res\<lparr>rr_Changed := True\<rparr>)
                            | None \<Rightarrow> (j, st))))
      | _ \<Rightarrow> (j, st))"

fun apply_rules ::
  "unstructured_api \<Rightarrow> (string, string) gomap \<Rightarrow> (string, bool) gomap \<Rightarrow> (string, string) gomap \<Rightarrow>
     json list \<Rightarrow> saved_map \<times> reroute_result \<Rightarrow> json list \<times> saved_map \<times> reroute_result" where
  "apply_rules K desired blocked backends [] st = ([], st)"
| "apply_rules K desired blocked backends (j # js) st =
     (let (j', st') = apply_rule K desired blocked backends j st;
          (js', st'') = apply_rules K desired blocked backends js st'
      in (j' # js', st''))"

text \<open>The rules and the saved map are updated in place: the results are the new ones.\<close>

definition ApplyControls ::
  "unstructured_api \<Rightarrow> json list \<Rightarrow> saved_map \<Rightarrow> (string, string) gomap \<Rightarrow> (string, bool) gomap \<Rightarrow>
     (string, string) gomap \<Rightarrow> json list \<times> saved_map \<times> reroute_result" where
  "ApplyControls K rules saved desired blocked backends =
     apply_rules K desired blocked backends rules (saved, no_result)"

definition Apply ::
  "unstructured_api \<Rightarrow> json list \<Rightarrow> saved_map \<Rightarrow> (string, string) gomap \<Rightarrow> (string, string) gomap \<Rightarrow>
     json list \<times> saved_map \<times> string list \<times> bool" where
  "Apply K rules saved desired backends =
     (let (rules', saved', res) = ApplyControls K rules saved desired [] backends
      in (rules', saved', rr_Rerouted res, rr_Changed res))"

subsection \<open>What a rule routes\<close>

text \<open>The model a rule matches, and the name and body mutation of its first backend.\<close>

definition json_model :: "unstructured_api \<Rightarrow> json \<Rightarrow> string" where
  "json_model K j = (case j of JObj rule \<Rightarrow> RuleModel K rule | _ \<Rightarrow> '''')"

definition backend_view :: "unstructured_api \<Rightarrow> json \<Rightarrow> (json option \<times> json option) option" where
  "backend_view K j =
     (case j of
        JObj rule \<Rightarrow> map_option (\<lambda>(brs, b0). (b0 ''name'', b0 ''bodyMutation'')) (firstBackend K rule)
      | _ \<Rightarrow> None)"

definition routed :: "unstructured_api \<Rightarrow> json \<Rightarrow> bool" where
  "routed K j \<longleftrightarrow> json_model K j \<noteq> '''' \<and> backend_view K j \<noteq> None"

text \<open>The same rule with the first backend changed.\<close>

definition with_backend :: "object \<Rightarrow> object \<Rightarrow> json list \<Rightarrow> json option \<Rightarrow> json option \<Rightarrow> json" where
  "with_backend rule b0 bs nm bm =
     JObj (rule(''backendRefs'' \<mapsto> JArr (JObj (b0(''name'' := nm, ''bodyMutation'' := bm)) # bs)))"

text \<open>
  The relation between an original rule, what it has become and the saved map: an unsaved rule
  is the original; a saved one is the original with its first backend changed, and the saved
  name is the original's.
\<close>

definition plain_rule :: "unstructured_api \<Rightarrow> json \<Rightarrow> bool" where
  "plain_rule K j \<longleftrightarrow> (\<forall>v. backend_view K j = Some v \<longrightarrow> (\<exists>s. v = (Some (JStr s), None)))"

definition tracked :: "unstructured_api \<Rightarrow> saved_map \<Rightarrow> json \<Rightarrow> json \<Rightarrow> bool" where
  "tracked K saved j0 j \<longleftrightarrow>
     (if \<not> routed K j0 then j = j0
      else case map_of saved (json_model K j0) of
             None \<Rightarrow> j = j0
           | Some orig \<Rightarrow> \<exists>rule b0 bs nm bm. j0 = with_backend rule b0 bs (Some (JStr orig)) None \<and>
               j = with_backend rule b0 bs nm bm)"

definition distinct_models :: "unstructured_api \<Rightarrow> json list \<Rightarrow> bool" where
  "distinct_models K js \<longleftrightarrow> distinct (map (json_model K) (filter (routed K) js))"

text \<open>The model a control applies to, and a rule that already is as the controls want it.\<close>

definition controlled :: "(string, string) gomap \<Rightarrow> (string, bool) gomap \<Rightarrow> string \<Rightarrow> bool" where
  "controlled desired blocked m \<longleftrightarrow> map_of desired m \<noteq> None \<or> map_of blocked m = Some True"

definition settled ::
  "unstructured_api \<Rightarrow> (string, string) gomap \<Rightarrow> (string, bool) gomap \<Rightarrow> (string, string) gomap \<Rightarrow>
     saved_map \<Rightarrow> json \<Rightarrow> bool" where
  "settled K desired blocked backends saved j \<longleftrightarrow>
     (routed K j \<longrightarrow>
       (case map_of desired (json_model K j) of
          Some t \<Rightarrow> get backends t \<noteq> '''' \<longrightarrow>
            backend_view K j = Some (Some (JStr (get backends t)), Some (body_mutation t)) \<and>
            map_of saved (json_model K j) \<noteq> None
        | None \<Rightarrow>
            if map_of blocked (json_model K j) = Some True
            then backend_view K j = Some (Some (JStr BlockBackendName), None) \<and>
              map_of saved (json_model K j) \<noteq> None
            else map_of saved (json_model K j) = None))"

text \<open>A history of passes, each with its own controls: desired, blocked, backends.\<close>

type_synonym controls = "(string, string) gomap \<times> (string, bool) gomap \<times> (string, string) gomap"

fun control_runs ::
  "unstructured_api \<Rightarrow> controls list \<Rightarrow> json list \<times> saved_map \<Rightarrow> json list \<times> saved_map" where
  "control_runs K [] st = st"
| "control_runs K ((d, b, bk) # cs) (rules, saved) =
     (let (rules', saved', res) = ApplyControls K rules saved d b bk
      in control_runs K cs (rules', saved'))"

subsection \<open>The contract of the accessors\<close>

text \<open>
  What the code relies on: reading a slice or a string returns the field when it has that type
  and the zero value otherwise, and setting a slice changes that field alone.
\<close>

locale unstructured_access =
  fixes K :: unstructured_api
  assumes NestedSlice_field:
      "NestedSlice K obj [k] = (case obj k of Some (JArr xs) \<Rightarrow> xs | _ \<Rightarrow> [])"
    and NestedString_field:
      "NestedString K obj [k] = (case obj k of Some (JStr s) \<Rightarrow> s | _ \<Rightarrow> [])"
    and SetNestedSlice_field: "SetNestedSlice K obj xs [k] = obj(k \<mapsto> JArr xs)"
begin

lemma RuleModel_set_backend [simp]:
  "RuleModel K (rule(''backendRefs'' := v)) = RuleModel K rule"
  by (simp add: RuleModel_def NestedSlice_field)

lemma firstBackend_iff:
  "firstBackend K rule = Some (brs, b0) \<longleftrightarrow>
     (\<exists>bs. rule ''backendRefs'' = Some (JArr brs) \<and> brs = JObj b0 # bs)"
  by (auto simp: firstBackend_def NestedSlice_field split: option.splits json.splits list.splits)

lemma routed_cases:
  assumes "routed K j"
  obtains rule b0 bs where "j = JObj rule" "RuleModel K rule \<noteq> ''''"
    "rule ''backendRefs'' = Some (JArr (JObj b0 # bs))" "firstBackend K rule = Some (JObj b0 # bs, b0)"
proof -
  obtain rule brs b0 where r: "j = JObj rule" "RuleModel K rule \<noteq> ''''" "firstBackend K rule = Some (brs, b0)"
    using assms by (cases j) (auto simp: routed_def json_model_def backend_view_def)
  then show thesis using that firstBackend_iff[of rule brs b0] by auto
qed

lemma firstBackend_with_backend [simp]:
  "firstBackend K (rule(''backendRefs'' \<mapsto> JArr (JObj b # bs))) = Some (JObj b # bs, b)"
  by (simp add: firstBackend_iff)

lemma json_model_with_backend [simp]: "json_model K (with_backend rule b0 bs nm bm) = RuleModel K rule"
  by (simp add: with_backend_def json_model_def)

lemma backend_view_with_backend [simp]: "backend_view K (with_backend rule b0 bs nm bm) = Some (nm, bm)"
  by (simp add: with_backend_def backend_view_def)

lemma not_routed_apply: "\<not> routed K j \<Longrightarrow> apply_rule K desired blocked backends j st = (j, st)"
  by (cases j) (auto simp: apply_rule_def routed_def json_model_def backend_view_def Let_def
      split: prod.splits option.splits)

text \<open>One rule, whose first backend may already have been changed.\<close>

lemma apply_rule_routed:
  assumes "RuleModel K rule \<noteq> ''''" "j = with_backend rule b0 bs nm bm"
    and "m = RuleModel K rule"
  shows "apply_rule K desired blocked backends j (saved, res) =
    (case map_of desired m of
       Some t \<Rightarrow>
         (if get backends t = '''' then (j, saved, res)
          else (with_backend rule b0 bs (Some (JStr (get backends t))) (Some (body_mutation t)),
                (if map_of saved m = None
                 then AList.update m (case nm of Some (JStr s) \<Rightarrow> s | _ \<Rightarrow> []) saved else saved),
                res\<lparr>rr_Changed := True, rr_Rerouted := List.insert m (rr_Rerouted res)\<rparr>))
     | None \<Rightarrow>
         if map_of blocked m = Some True then
           (with_backend rule b0 bs (Some (JStr BlockBackendName)) None,
            (if map_of saved m = None
             then AList.update m (case nm of Some (JStr s) \<Rightarrow> s | _ \<Rightarrow> []) saved else saved),
            res\<lparr>rr_Changed := True, rr_Blocked := List.insert m (rr_Blocked res)\<rparr>)
         else
           (case map_of saved m of
              Some orig \<Rightarrow> (with_backend rule b0 bs (Some (JStr orig)) None,
                 AList.delete m saved, res\<lparr>rr_Changed := True\<rparr>)
            | None \<Rightarrow> (j, saved, res)))"
  using assms(1)
  by (simp add: assms(2,3) apply_rule_def with_backend_def set_backend_def save_original_def
      SetNestedSlice_field NestedString_field fun_upd_twist Let_def split: option.splits)

subsubsection \<open>Controls over time\<close>

lemma plain_routed_cases:
  assumes "routed K j" "plain_rule K j"
  obtains rule b0 bs orig where "j = with_backend rule b0 bs (Some (JStr orig)) None"
    "RuleModel K rule \<noteq> ''''" "json_model K j = RuleModel K rule"
proof -
  obtain rule b0 bs where r: "j = JObj rule" "RuleModel K rule \<noteq> ''''"
    "rule ''backendRefs'' = Some (JArr (JObj b0 # bs))" "firstBackend K rule = Some (JObj b0 # bs, b0)"
    using routed_cases[OF assms(1)] by blast
  then obtain orig where "b0 ''name'' = Some (JStr orig)" "b0 ''bodyMutation'' = None"
    using assms(2) by (auto simp: plain_rule_def backend_view_def)
  then have "b0(''name'' := Some (JStr orig), ''bodyMutation'' := None) = b0"
    by (auto simp: fun_eq_iff)
  then have j: "j = with_backend rule b0 bs (Some (JStr orig)) None"
    unfolding with_backend_def using r by (simp add: fun_eq_iff)
  have "json_model K j = RuleModel K rule" using r(1) by (simp add: json_model_def)
  then show thesis by (rule that[OF j r(2)])
qed

text \<open>A routed rule that is tracked, whether saved or not, in one shape.\<close>

lemma tracked_cases:
  assumes "tracked K saved j0 j" "routed K j0" "plain_rule K j0"
  obtains rule b0 bs orig nm bm where
    "j0 = with_backend rule b0 bs (Some (JStr orig)) None" "j = with_backend rule b0 bs nm bm"
    "RuleModel K rule \<noteq> ''''" "json_model K j0 = RuleModel K rule"
    "map_of saved (RuleModel K rule) = None \<Longrightarrow> nm = Some (JStr orig) \<and> bm = None"
    "\<And>x. map_of saved (RuleModel K rule) = Some x \<Longrightarrow> x = orig"
proof (cases "map_of saved (json_model K j0)")
  case None
  obtain rule b0 bs orig where r: "j0 = with_backend rule b0 bs (Some (JStr orig)) None"
    "RuleModel K rule \<noteq> ''''" "json_model K j0 = RuleModel K rule"
    using plain_routed_cases[OF assms(2,3)] by blast
  moreover have "j = j0" using assms(1,2) None by (simp add: tracked_def)
  ultimately show thesis using None by (intro that[of rule b0 bs orig "Some (JStr orig)" None]) auto
next
  case (Some o1)
  then obtain rule b0 bs nm bm where "j0 = with_backend rule b0 bs (Some (JStr o1)) None"
      "j = with_backend rule b0 bs nm bm"
    using assms(1,2) by (auto simp: tracked_def)
  moreover from this have "RuleModel K rule \<noteq> ''''" "json_model K j0 = RuleModel K rule"
    using assms(2) by (auto simp: routed_def)
  ultimately show thesis using Some by (intro that[of rule b0 bs o1 nm bm]) auto
qed

lemma tracked_other: "map_of saved' (json_model K j0) = map_of saved (json_model K j0) \<Longrightarrow>
    tracked K saved' j0 j = tracked K saved j0 j"
  by (simp add: tracked_def)

lemma tracked_step:
  assumes "tracked K saved j0 j" "plain_rule K j0"
    and "apply_rule K desired blocked backends j (saved, res) = (j', saved', res')"
  shows "tracked K saved' j0 j'" "\<And>m. m \<noteq> json_model K j0 \<Longrightarrow> map_of saved' m = map_of saved m"
    "\<not> routed K j0 \<Longrightarrow> saved' = saved"
proof -
  show "\<not> routed K j0 \<Longrightarrow> saved' = saved"
    using assms by (auto simp: tracked_def not_routed_apply)
  have "tracked K saved' j0 j' \<and> (\<forall>m. m \<noteq> json_model K j0 \<longrightarrow> map_of saved' m = map_of saved m)"
  proof (cases "routed K j0")
    case False
    then show ?thesis using assms by (auto simp: tracked_def not_routed_apply)
  next
    case True
    obtain rule b0 bs orig nm bm where r:
      "j0 = with_backend rule b0 bs (Some (JStr orig)) None" "j = with_backend rule b0 bs nm bm"
      "RuleModel K rule \<noteq> ''''" "json_model K j0 = RuleModel K rule"
      "map_of saved (RuleModel K rule) = None \<Longrightarrow> nm = Some (JStr orig) \<and> bm = None"
      "\<And>x. map_of saved (RuleModel K rule) = Some x \<Longrightarrow> x = orig"
      using tracked_cases[OF assms(1) True assms(2)] by blast
    note a = assms(3)[unfolded apply_rule_routed[OF r(3,2) refl]]
    show ?thesis
      using a r(1,2,4-6) True
      by (auto simp: tracked_def update_conv' delete_conv' split: option.splits if_splits) blast+
  qed
  then show "tracked K saved' j0 j'" "\<And>m. m \<noteq> json_model K j0 \<Longrightarrow> map_of saved' m = map_of saved m"
    by auto
qed

text \<open>A pass over rules of distinct models.\<close>

lemma distinct_models_Cons:
  "distinct_models K (j0 # js0) \<Longrightarrow> distinct_models K js0 \<and>
     (routed K j0 \<longrightarrow> json_model K j0 \<notin> json_model K ` set (filter (routed K) js0))"
  by (auto simp: distinct_models_def split: if_splits)

lemma tracked_rest:
  assumes "list_all2 (tracked K saved) js0 js1" "distinct_models K (j0 # js0)" "plain_rule K j0"
    and "tracked K saved j0 j" "apply_rule K desired blocked backends j (saved, res) = (k, sv1, res1)"
  shows "list_all2 (tracked K sv1) js0 js1"
proof (rule list.rel_mono_strong[OF assms(1)])
  fix i0 i
  assume that: "i0 \<in> set js0" "tracked K saved i0 i"
  note step = tracked_step[OF assms(4,3,5)]
  show "tracked K sv1 i0 i"
  proof (cases "routed K i0 \<and> routed K j0")
    case True
    then have "json_model K i0 \<in> json_model K ` set (filter (routed K) js0)" using that(1) by simp
    moreover have "json_model K j0 \<notin> json_model K ` set (filter (routed K) js0)"
      using distinct_models_Cons[OF assms(2)] True by blast
    ultimately have "json_model K i0 \<noteq> json_model K j0" by auto
    then have "map_of sv1 (json_model K i0) = map_of saved (json_model K i0)" by (rule step(2))
    then show ?thesis using that(2) tracked_other by blast
  next
    case False
    then consider "\<not> routed K i0" | "sv1 = saved" using step(3) by blast
    then show ?thesis
    proof cases
      case 1
      then show ?thesis using that(2) by (simp add: tracked_def)
    next
      case 2
      then show ?thesis using that(2) by simp
    qed
  qed
qed

lemma apply_rules_tracked:
  assumes "list_all2 (tracked K saved) js0 js" "distinct_models K js0" "\<forall>j \<in> set js0. plain_rule K j"
    and "apply_rules K desired blocked backends js (saved, res) = (js', saved', res')"
  shows "list_all2 (tracked K saved') js0 js' \<and>
    (\<forall>m. m \<notin> json_model K ` set (filter (routed K) js0) \<longrightarrow> map_of saved' m = map_of saved m)"
  using assms
proof (induction js0 arbitrary: js js' saved res)
  case Nil
  then show ?case by simp
next
  case (Cons j0 js0)
  obtain j js1 where js: "js = j # js1" "tracked K saved j0 j" "list_all2 (tracked K saved) js0 js1"
    using Cons.prems(1) by (auto simp: list_all2_Cons1)
  obtain k sv1 res1 where k: "apply_rule K desired blocked backends j (saved, res) = (k, sv1, res1)"
    by (metis prod_cases3)
  obtain ks where ks: "apply_rules K desired blocked backends js1 (sv1, res1) = (ks, saved', res')" "js' = k # ks"
    using Cons.prems(4) js(1) k by (auto split: prod.splits)
  have plain: "plain_rule K j0" using Cons.prems(3) by simp
  note step = tracked_step[OF js(2) plain k]
  have d: "distinct_models K js0"
    and ne: "routed K j0 \<Longrightarrow> json_model K j0 \<notin> json_model K ` set (filter (routed K) js0)"
    using distinct_models_Cons[OF Cons.prems(2)] by auto
  have "list_all2 (tracked K sv1) js0 js1"
    by (rule tracked_rest[OF js(3) Cons.prems(2) plain js(2) k])
  moreover have "\<forall>j \<in> set js0. plain_rule K j" using Cons.prems(3) by simp
  ultimately have IH: "list_all2 (tracked K saved') js0 ks"
    "\<And>m. m \<notin> json_model K ` set (filter (routed K) js0) \<Longrightarrow> map_of saved' m = map_of sv1 m"
    using Cons.IH[OF _ d _ ks(1)] by blast+
  have "tracked K saved' j0 k"
  proof (cases "routed K j0")
    case True
    show ?thesis using step(1) tracked_other[OF IH(2)[OF ne[OF True]]] by blast
  next
    case False
    then show ?thesis using step(1) by (simp add: tracked_def)
  qed
  moreover have "map_of saved' m = map_of saved m"
    if "m \<notin> json_model K ` set (filter (routed K) (j0 # js0))" for m
  proof (cases "routed K j0")
    case True
    then show ?thesis using that IH(2)[of m] step(2)[of m] by simp
  next
    case False
    then show ?thesis using that IH(2)[of m] step(3) by simp
  qed
  ultimately show ?case using IH(1) ks(2) by simp
qed

text \<open>Releasing all controls.\<close>

lemma apply_rules_release:
  assumes "list_all2 (tracked K saved) js0 js" "distinct_models K js0" "\<forall>j \<in> set js0. plain_rule K j"
    and "apply_rules K [] [] backends js (saved, res) = (js', saved', res')"
  shows "js' = js0 \<and> (\<forall>m \<in> json_model K ` set (filter (routed K) js0). map_of saved' m = None)"
  using assms
proof (induction js0 arbitrary: js js' saved res)
  case Nil
  then show ?case by simp
next
  case (Cons j0 js0)
  obtain j js1 where js: "js = j # js1" "tracked K saved j0 j" "list_all2 (tracked K saved) js0 js1"
    using Cons.prems(1) by (auto simp: list_all2_Cons1)
  obtain k sv1 res1 where k: "apply_rule K [] [] backends j (saved, res) = (k, sv1, res1)"
    by (metis prod_cases3)
  obtain ks where ks: "apply_rules K [] [] backends js1 (sv1, res1) = (ks, saved', res')" "js' = k # ks"
    using Cons.prems(4) js(1) k by (auto split: prod.splits)
  have plain: "plain_rule K j0" using Cons.prems(3) by simp
  note step = tracked_step[OF js(2) plain k]
  have d: "distinct_models K js0"
    and ne: "routed K j0 \<Longrightarrow> json_model K j0 \<notin> json_model K ` set (filter (routed K) js0)"
    using distinct_models_Cons[OF Cons.prems(2)] by auto
  have tr: "list_all2 (tracked K sv1) js0 js1"
    by (rule tracked_rest[OF js(3) Cons.prems(2) plain js(2) k])
  have rest: "ks = js0" "\<forall>m \<in> json_model K ` set (filter (routed K) js0). map_of saved' m = None"
    using Cons.IH[OF tr d _ ks(1)] Cons.prems(3) by auto
  have frame: "\<And>m. m \<notin> json_model K ` set (filter (routed K) js0) \<Longrightarrow> map_of saved' m = map_of sv1 m"
    using apply_rules_tracked[OF tr d _ ks(1)] Cons.prems(3) by auto
  have "k = j0 \<and> (routed K j0 \<longrightarrow> map_of sv1 (json_model K j0) = None)"
  proof (cases "routed K j0")
    case False
    then show ?thesis using js(2) k by (auto simp: tracked_def not_routed_apply)
  next
    case True
    obtain rule b0 bs orig nm bm where r:
      "j0 = with_backend rule b0 bs (Some (JStr orig)) None" "j = with_backend rule b0 bs nm bm"
      "RuleModel K rule \<noteq> ''''" "json_model K j0 = RuleModel K rule"
      "map_of saved (RuleModel K rule) = None \<Longrightarrow> nm = Some (JStr orig) \<and> bm = None"
      "\<And>x. map_of saved (RuleModel K rule) = Some x \<Longrightarrow> x = orig"
      using tracked_cases[OF js(2) True plain] by blast
    show ?thesis
      using k[unfolded apply_rule_routed[OF r(3,2) refl]] r
      by (auto simp: delete_conv' split: option.splits)
  qed
  then show ?case using rest frame ne ks(2) by (cases "routed K j0") auto
qed

lemma tracked_start: "list_all2 (tracked K []) js js"
  by (rule list.rel_refl_strong) (simp add: tracked_def)

subsubsection \<open>One pass\<close>

lemma routed_shape:
  assumes "routed K j"
  obtains rule b0 bs nm bm where "j = with_backend rule b0 bs nm bm" "RuleModel K rule \<noteq> ''''"
    "json_model K j = RuleModel K rule" "backend_view K j = Some (nm, bm)"
proof -
  obtain rule b0 bs where r: "j = JObj rule" "RuleModel K rule \<noteq> ''''"
    "rule ''backendRefs'' = Some (JArr (JObj b0 # bs))" "firstBackend K rule = Some (JObj b0 # bs, b0)"
    using routed_cases[OF assms] by blast
  have "b0(''name'' := b0 ''name'', ''bodyMutation'' := b0 ''bodyMutation'') = b0" by simp
  then have j: "j = with_backend rule b0 bs (b0 ''name'') (b0 ''bodyMutation'')"
    unfolding with_backend_def using r by (simp add: fun_eq_iff)
  have "json_model K j = RuleModel K rule" "backend_view K j = Some (b0 ''name'', b0 ''bodyMutation'')"
    using r by (simp_all add: json_model_def backend_view_def)
  then show thesis by (rule that[OF j r(2)])
qed

text \<open>The four outcomes of the loop's body on a routed rule.\<close>

lemma apply_rule_outcomes:
  assumes "RuleModel K rule \<noteq> ''''" "j = with_backend rule b0 bs nm bm" "m = RuleModel K rule"
    and "apply_rule K desired blocked backends j (saved, res) = (j', saved', res')"
  obtains (keep) "j' = j" "saved' = saved"
      "(\<exists>t. map_of desired m = Some t \<and> get backends t = '''') \<or>
       \<not> controlled desired blocked m \<and> map_of saved m = None"
    | (reroute) t y where "map_of desired m = Some t" "get backends t \<noteq> ''''"
      "j' = with_backend rule b0 bs (Some (JStr (get backends t))) (Some (body_mutation t))"
      "map_of saved' = (map_of saved)(m \<mapsto> y)"
    | (block) y where "map_of desired m = None" "map_of blocked m = Some True"
      "j' = with_backend rule b0 bs (Some (JStr BlockBackendName)) None"
      "map_of saved' = (map_of saved)(m \<mapsto> y)"
    | (release) orig where "\<not> controlled desired blocked m" "map_of saved m = Some orig"
      "j' = with_backend rule b0 bs (Some (JStr orig)) None"
      "map_of saved' = (map_of saved)(m := None)"
proof -
  note a = assms(4)[unfolded apply_rule_routed[OF assms(1-3)]]
  have sv: "\<exists>y. map_of (if map_of saved m = None then AList.update m n saved else saved) =
      (map_of saved)(m \<mapsto> y)" for n
  proof (cases "map_of saved m")
    case None
    then show ?thesis by (simp add: update_conv') blast
  next
    case (Some y)
    then show ?thesis using fun_upd_triv[of "map_of saved" m] by (intro exI[of _ y]) simp
  qed
  show thesis
  proof (cases "map_of desired m")
    case (Some t)
    show thesis
    proof (cases "get backends t = ''''")
      case True
      then show thesis using a Some by (intro keep) auto
    next
      case False
      then show thesis using a Some sv[of "case nm of Some (JStr s) \<Rightarrow> s | _ \<Rightarrow> []"] reroute by auto
    qed
  next
    case None
    note d = None
    show thesis
    proof (cases "map_of blocked m = Some True")
      case True
      then show thesis using a d sv[of "case nm of Some (JStr s) \<Rightarrow> s | _ \<Rightarrow> []"] block by auto
    next
      case False
      then have u: "\<not> controlled desired blocked m" using d by (simp add: controlled_def)
      show thesis
      proof (cases "map_of saved m")
        case None
        then show thesis using a d False u by (intro keep) auto
      next
        case (Some orig)
        then show thesis using a d False u by (intro release) (auto simp: delete_conv')
      qed
    qed
  qed
qed

lemma apply_rule_settled:
  assumes "apply_rule K desired blocked backends j (saved, res) = (j', saved', res')"
  shows "settled K desired blocked backends saved' j' \<and> json_model K j' = json_model K j \<and>
    routed K j' = routed K j"
proof (cases "routed K j")
  case False
  then show ?thesis using assms by (simp add: not_routed_apply settled_def)
next
  case True
  obtain rule b0 bs nm bm where r: "j = with_backend rule b0 bs nm bm" "RuleModel K rule \<noteq> ''''"
    "json_model K j = RuleModel K rule" "backend_view K j = Some (nm, bm)"
    by (rule routed_shape[OF True])
  have rt: "routed K (with_backend rule b0 bs n b)" for n b
    using r(2) by (simp add: routed_def)
  from r(2,1) refl assms show ?thesis
  proof (cases rule: apply_rule_outcomes)
    case keep
    then show ?thesis
      using r(1) by (auto simp: settled_def controlled_def split: option.splits)
  qed (use r(1) rt in \<open>simp_all add: settled_def controlled_def split: option.splits\<close>)
qed

lemma apply_rule_saved:
  assumes "apply_rule K desired blocked backends j (saved, res) = (j', saved', res')"
  shows "controlled desired blocked m \<Longrightarrow> map_of saved m \<noteq> None \<Longrightarrow> map_of saved' m \<noteq> None"
    "\<not> controlled desired blocked m \<Longrightarrow> map_of saved m = None \<Longrightarrow> map_of saved' m = None"
proof -
  have "(controlled desired blocked m \<longrightarrow> map_of saved m \<noteq> None \<longrightarrow> map_of saved' m \<noteq> None) \<and>
    (\<not> controlled desired blocked m \<longrightarrow> map_of saved m = None \<longrightarrow> map_of saved' m = None)"
  proof (cases "routed K j")
    case False
    then show ?thesis using assms by (simp add: not_routed_apply)
  next
    case True
    obtain rule b0 bs nm bm where r: "j = with_backend rule b0 bs nm bm" "RuleModel K rule \<noteq> ''''"
      "json_model K j = RuleModel K rule" "backend_view K j = Some (nm, bm)"
      by (rule routed_shape[OF True])
    from r(2,1) refl assms show ?thesis
      by (cases rule: apply_rule_outcomes) (auto simp: controlled_def)
  qed
  then show "controlled desired blocked m \<Longrightarrow> map_of saved m \<noteq> None \<Longrightarrow> map_of saved' m \<noteq> None"
    "\<not> controlled desired blocked m \<Longrightarrow> map_of saved m = None \<Longrightarrow> map_of saved' m = None"
    by auto
qed

lemma settled_saved:
  assumes "settled K desired blocked backends saved j"
    and "\<And>m. controlled desired blocked m \<Longrightarrow> map_of saved m \<noteq> None \<Longrightarrow> map_of saved' m \<noteq> None"
    and "\<And>m. \<not> controlled desired blocked m \<Longrightarrow> map_of saved m = None \<Longrightarrow> map_of saved' m = None"
  shows "settled K desired blocked backends saved' j"
  using assms(1) assms(2,3)[of "json_model K j"]
  by (auto simp: settled_def controlled_def split: option.splits)

lemma apply_rules_settled:
  assumes "apply_rules K desired blocked backends js (saved, res) = (js', saved', res')"
  shows "list_all2 (\<lambda>j j'. settled K desired blocked backends saved' j' \<and>
      json_model K j' = json_model K j \<and> routed K j' = routed K j) js js'"
    "\<And>m. controlled desired blocked m \<Longrightarrow> map_of saved m \<noteq> None \<Longrightarrow> map_of saved' m \<noteq> None"
    "\<And>m. \<not> controlled desired blocked m \<Longrightarrow> map_of saved m = None \<Longrightarrow> map_of saved' m = None"
proof -
  have "list_all2 (\<lambda>j j'. settled K desired blocked backends saved' j' \<and>
      json_model K j' = json_model K j \<and> routed K j' = routed K j) js js' \<and>
    (\<forall>m. controlled desired blocked m \<longrightarrow> map_of saved m \<noteq> None \<longrightarrow> map_of saved' m \<noteq> None) \<and>
    (\<forall>m. \<not> controlled desired blocked m \<longrightarrow> map_of saved m = None \<longrightarrow> map_of saved' m = None)"
    using assms
  proof (induction js arbitrary: saved res js')
    case Nil
    then show ?case by simp
  next
    case (Cons j js)
    obtain k sv1 res1 where k: "apply_rule K desired blocked backends j (saved, res) = (k, sv1, res1)"
      by (metis prod_cases3)
    obtain ks where ks: "apply_rules K desired blocked backends js (sv1, res1) = (ks, saved', res')"
      "js' = k # ks" using Cons.prems k by (auto split: prod.splits)
    note IH = Cons.IH[OF ks(1)]
    have st: "settled K desired blocked backends saved' k"
      by (rule settled_saved[of _ _ _ sv1]) (use apply_rule_settled[OF k] IH in blast)+
    have c: "\<forall>m. controlled desired blocked m \<longrightarrow> map_of saved m \<noteq> None \<longrightarrow> map_of saved' m \<noteq> None"
      using apply_rule_saved(1)[OF k] IH by blast
    have u: "\<forall>m. \<not> controlled desired blocked m \<longrightarrow> map_of saved m = None \<longrightarrow> map_of saved' m = None"
      using apply_rule_saved(2)[OF k] IH by blast
    have "list_all2 (\<lambda>j j'. settled K desired blocked backends saved' j' \<and>
        json_model K j' = json_model K j \<and> routed K j' = routed K j) (j # js) js'"
      unfolding ks(2) list_all2_Cons using st apply_rule_settled[OF k] IH by blast
    then show ?case using c u by blast
  qed
  then show "list_all2 (\<lambda>j j'. settled K desired blocked backends saved' j' \<and>
      json_model K j' = json_model K j \<and> routed K j' = routed K j) js js'"
    "\<And>m. controlled desired blocked m \<Longrightarrow> map_of saved m \<noteq> None \<Longrightarrow> map_of saved' m \<noteq> None"
    "\<And>m. \<not> controlled desired blocked m \<Longrightarrow> map_of saved m = None \<Longrightarrow> map_of saved' m = None"
    by auto
qed

lemma settled_apply:
  assumes "settled K desired blocked backends saved j"
  shows "\<exists>res'. apply_rule K desired blocked backends j (saved, res) = (j, saved, res')"
proof (cases "routed K j")
  case False
  then show ?thesis by (simp add: not_routed_apply)
next
  case True
  obtain rule b0 bs nm bm where r: "j = with_backend rule b0 bs nm bm" "RuleModel K rule \<noteq> ''''"
    "json_model K j = RuleModel K rule" "backend_view K j = Some (nm, bm)"
    by (rule routed_shape[OF True])
  show ?thesis
    using assms True r(1,3,4) unfolding apply_rule_routed[OF r(2,1) refl]
    by (auto simp: settled_def split: option.splits if_splits)
qed

lemma settled_apply_rules:
  assumes "\<forall>j \<in> set js. settled K desired blocked backends saved j"
  shows "\<exists>res'. apply_rules K desired blocked backends js (saved, res) = (js, saved, res')"
  using assms
proof (induction js arbitrary: res)
  case Nil
  then show ?case by simp
next
  case (Cons j js)
  obtain res1 where "apply_rule K desired blocked backends j (saved, res) = (j, saved, res1)"
    using settled_apply Cons.prems by fastforce
  then show ?case using Cons.IH[of res1] Cons.prems by auto
qed

lemma ApplyControls_twice:
  assumes "ApplyControls K rules saved desired blocked backends = (rules', saved', res)"
  shows "\<exists>res'. ApplyControls K rules' saved' desired blocked backends = (rules', saved', res')"
proof -
  have "\<forall>j \<in> set rules'. settled K desired blocked backends saved' j"
    using apply_rules_settled(1)[OF assms[unfolded ApplyControls_def]]
    unfolding list_all2_conv_all_nth by (auto simp: in_set_conv_nth)
  then show ?thesis unfolding ApplyControls_def by (rule settled_apply_rules)
qed

text \<open>What a pass leaves alone.\<close>

lemma apply_rule_keeps:
  assumes "(\<exists>t. map_of desired (json_model K j) = Some t \<and> get backends t = '''') \<or>
      \<not> controlled desired blocked (json_model K j) \<and> map_of saved (json_model K j) = None"
  shows "apply_rule K desired blocked backends j (saved, res) = (j, saved, res)"
proof (cases "routed K j")
  case False
  then show ?thesis by (simp add: not_routed_apply)
next
  case True
  obtain rule b0 bs nm bm where r: "j = with_backend rule b0 bs nm bm" "RuleModel K rule \<noteq> ''''"
    "json_model K j = RuleModel K rule" "backend_view K j = Some (nm, bm)"
    by (rule routed_shape[OF True])
  show ?thesis
    using assms unfolding r(3) apply_rule_routed[OF r(2,1) refl]
    by (auto simp: controlled_def split: option.splits)
qed

lemma apply_rules_keeps:
  assumes "apply_rules K desired blocked backends js (saved, res) = (js', saved', res')"
    and "i < length js"
    and "(\<exists>t. map_of desired (json_model K (js ! i)) = Some t \<and> get backends t = '''') \<or>
      \<not> controlled desired blocked (json_model K (js ! i)) \<and> map_of saved (json_model K (js ! i)) = None"
  shows "js' ! i = js ! i"
  using assms
proof (induction js arbitrary: saved res js' i)
  case Nil
  then show ?case by simp
next
  case (Cons j js)
  obtain k sv1 res1 where k: "apply_rule K desired blocked backends j (saved, res) = (k, sv1, res1)"
    by (metis prod_cases3)
  obtain ks where ks: "apply_rules K desired blocked backends js (sv1, res1) = (ks, saved', res')"
    "js' = k # ks" using Cons.prems k by (auto split: prod.splits)
  show ?case
  proof (cases i)
    case 0
    then show ?thesis using Cons.prems(3) apply_rule_keeps[of desired j backends blocked saved res] k ks(2) by auto
  next
    case (Suc n)
    have "ks ! n = js ! n"
      using Cons.prems(2,3) Suc apply_rule_saved(2)[OF k] by (intro Cons.IH[OF ks(1)]) auto
    then show ?thesis using ks(2) Suc by simp
  qed
qed

text \<open>Many passes.\<close>

definition saved_inside :: "json list \<Rightarrow> saved_map \<Rightarrow> bool" where
  "saved_inside js0 saved \<longleftrightarrow>
     (\<forall>m. m \<notin> json_model K ` set (filter (routed K) js0) \<longrightarrow> map_of saved m = None)"

lemma control_runs_tracked:
  assumes "distinct_models K js0" "\<forall>j \<in> set js0. plain_rule K j"
    and "list_all2 (tracked K saved) js0 js" "saved_inside js0 saved"
    and "control_runs K cs (js, saved) = (js', saved')"
  shows "list_all2 (tracked K saved') js0 js' \<and> saved_inside js0 saved'"
  using assms(3-)
proof (induction cs arbitrary: js saved)
  case Nil
  then show ?case by simp
next
  case (Cons c cs)
  obtain d b bk where c: "c = (d, b, bk)" by (metis prod_cases3)
  obtain js1 sv1 res1 where a: "ApplyControls K js saved d b bk = (js1, sv1, res1)"
    by (metis prod_cases3)
  have "list_all2 (tracked K sv1) js0 js1 \<and>
      (\<forall>m. m \<notin> json_model K ` set (filter (routed K) js0) \<longrightarrow> map_of sv1 m = map_of saved m)"
    using apply_rules_tracked[OF Cons.prems(1) assms(1,2)] a by (simp add: ApplyControls_def)
  moreover have "control_runs K cs (js1, sv1) = (js', saved')"
    using Cons.prems(3) a c by simp
  ultimately show ?case
    using Cons.prems(2) by (intro Cons.IH) (simp_all add: saved_inside_def)
qed

lemma control_runs_append:
  "control_runs K (cs @ ds) st = control_runs K ds (control_runs K cs st)"
  by (induction cs arbitrary: st) (auto split: prod.splits)

lemma control_runs_release:
  assumes "distinct_models K rules" "\<forall>j \<in> set rules. plain_rule K j"
  shows "control_runs K (cs @ [([], [], backends)]) (rules, []) = (rules, [])"
proof -
  obtain js sv where r: "control_runs K cs (rules, []) = (js, sv)" by fastforce
  have t: "list_all2 (tracked K sv) rules js" "saved_inside rules sv"
    using control_runs_tracked[OF assms tracked_start _ r] by (auto simp: saved_inside_def)
  obtain js' sv' res' where a: "apply_rules K [] [] backends js (sv, no_result) = (js', sv', res')"
    by (metis prod_cases3)
  have "js' = rules" "\<forall>m \<in> json_model K ` set (filter (routed K) rules). map_of sv' m = None"
    using apply_rules_release[OF t(1) assms a] by auto
  moreover have "\<forall>m. m \<notin> json_model K ` set (filter (routed K) rules) \<longrightarrow> map_of sv' m = None"
    using apply_rules_tracked[OF t(1) assms a] t(2) by (auto simp: saved_inside_def)
  ultimately have "js' = rules" "map_of sv' = Map.empty" by blast+
  then have "js' = rules" "sv' = []" by simp_all
  then show ?thesis using r a by (simp add: control_runs_append ApplyControls_def)
qed

end

text \<open>An instance of the contract, on which the examples are evaluated.\<close>

fun json_at :: "object \<Rightarrow> string list \<Rightarrow> json option" where
  "json_at obj [] = Some (JObj obj)"
| "json_at obj [k] = obj k"
| "json_at obj (k # ks) = (case obj k of Some (JObj o') \<Rightarrow> json_at o' ks | _ \<Rightarrow> None)"

fun json_set :: "object \<Rightarrow> json \<Rightarrow> string list \<Rightarrow> object" where
  "json_set obj v [] = obj"
| "json_set obj v [k] = obj(k \<mapsto> v)"
| "json_set obj v (k # ks) =
     obj(k \<mapsto> JObj (json_set (case obj k of Some (JObj o') \<Rightarrow> o' | _ \<Rightarrow> Map.empty) v ks))"

definition json_api :: unstructured_api where
  "json_api = \<lparr>NestedSlice = (\<lambda>obj p. case json_at obj p of Some (JArr xs) \<Rightarrow> xs | _ \<Rightarrow> []),
     NestedString = (\<lambda>obj p. case json_at obj p of Some (JStr s) \<Rightarrow> s | _ \<Rightarrow> []),
     SetNestedSlice = (\<lambda>obj xs p. json_set obj (JArr xs) p)\<rparr>"

interpretation json_api: unstructured_access json_api
  by unfold_locales (simp_all add: json_api_def)

subsection \<open>Properties\<close>

definition example_rule :: "string \<Rightarrow> string \<Rightarrow> json" where
  "example_rule m b = JObj
     [''matches'' \<mapsto> JArr [JObj [''headers'' \<mapsto>
        JArr [JObj [''name'' \<mapsto> JStr ModelHeaderName, ''value'' \<mapsto> JStr m]]]],
      ''backendRefs'' \<mapsto> JArr [JObj [''name'' \<mapsto> JStr b]]]"

lemma example_rule_view [simp]:
  "json_model json_api (example_rule m b) = m"
  "backend_view json_api (example_rule m b) = Some (Some (JStr b), None)"
  "routed json_api (example_rule m b) \<longleftrightarrow> m \<noteq> ''''"
  by (simp_all add: routed_def json_model_def backend_view_def example_rule_def RuleModel_def
      firstBackend_def json_api_def)

text \<open>
  C17: After a pass every rule that routes a controlled model is as the controls say: a model
  with a reroute target that has a backend goes to that backend with its body rewritten to the
  target, a blocked model goes to the reserved absent backend without a body mutation. A rule is
  left as it was when its target has no known backend, or when its model is neither controlled
  nor saved from an earlier pass. No rule changes the model it matches.
\<close>

theorem ApplyControls_enforces:
  assumes "unstructured_access K"
    and "ApplyControls K rules saved desired blocked backends = (rules', saved', res)"
    and "i < length rules" and "routed K (rules ! i)" and "m = json_model K (rules ! i)"
  shows "length rules' = length rules \<and> json_model K (rules' ! i) = m \<and>
    (case map_of desired m of
       Some t \<Rightarrow>
         if get backends t = '''' then rules' ! i = rules ! i
         else backend_view K (rules' ! i) = Some (Some (JStr (get backends t)), Some (body_mutation t))
     | None \<Rightarrow>
         if map_of blocked m = Some True
         then backend_view K (rules' ! i) = Some (Some (JStr BlockBackendName), None)
         else map_of saved m = None \<longrightarrow> rules' ! i = rules ! i)"
proof -
  note a = assms(2)[unfolded ApplyControls_def]
  have l: "list_all2 (\<lambda>j j'. settled K desired blocked backends saved' j' \<and>
      json_model K j' = json_model K j \<and> routed K j' = routed K j) rules rules'"
    by (rule unstructured_access.apply_rules_settled(1)[OF assms(1) a])
  then have len: "length rules' = length rules" by (simp add: list_all2_lengthD)
  have i: "settled K desired blocked backends saved' (rules' ! i)" "json_model K (rules' ! i) = m"
    "routed K (rules' ! i)"
    using list_all2_nthD[OF l assms(3)] assms(4,5) by auto
  have keep: "rules' ! i = rules ! i"
    if "(\<exists>t. map_of desired m = Some t \<and> get backends t = '''') \<or>
      \<not> controlled desired blocked m \<and> map_of saved m = None"
    using unstructured_access.apply_rules_keeps[OF assms(1) a assms(3)] that assms(5) by blast
  show ?thesis
    using len i keep by (auto simp: settled_def controlled_def split: option.splits)
qed

theorem ApplyControls_enforces_witness:
  "\<exists>rules' saved' res.
     ApplyControls json_api [example_rule ''gpt-4o'' ''openai'', example_rule ''claude'' ''anthropic''] []
       [(''gpt-4o'', ''mistral-large'')] [(''claude'', True)] [(''mistral-large'', ''mistral-be'')] =
       (rules', saved', res) \<and>
     backend_view json_api (rules' ! 0) =
       Some (Some (JStr ''mistral-be''), Some (body_mutation ''mistral-large'')) \<and>
     backend_view json_api (rules' ! 1) = Some (Some (JStr BlockBackendName), None)"
proof -
  let ?rules = "[example_rule ''gpt-4o'' ''openai'', example_rule ''claude'' ''anthropic'']"
  obtain rules' saved' res where a: "ApplyControls json_api ?rules []
       [(''gpt-4o'', ''mistral-large'')] [(''claude'', True)] [(''mistral-large'', ''mistral-be'')] =
       (rules', saved', res)"
    by (metis prod_cases3)
  show ?thesis
    using a ApplyControls_enforces[OF json_api.unstructured_access_axioms a, of 0 "''gpt-4o''"]
      ApplyControls_enforces[OF json_api.unstructured_access_axioms a, of 1 "''claude''"]
    by (simp add: get_def)
qed

text \<open>
  A pass converges: applying the same controls again to its result changes neither a rule nor
  the saved originals, so a reconciliation that repeats does not lose the original backends.
\<close>

theorem ApplyControls_idempotent:
  assumes "unstructured_access K"
    and "ApplyControls K rules saved desired blocked backends = (rules', saved', res)"
  shows "\<exists>res'. ApplyControls K rules' saved' desired blocked backends = (rules', saved', res')"
  by (rule unstructured_access.ApplyControls_twice[OF assms])

theorem ApplyControls_idempotent_witness:
  "\<exists>rules' saved' res res'.
     ApplyControls json_api [example_rule ''gpt-4o'' ''openai''] [] [] [(''gpt-4o'', True)] [] =
       (rules', saved', res) \<and>
     ApplyControls json_api rules' saved' [] [(''gpt-4o'', True)] [] = (rules', saved', res')"
proof -
  obtain rules' saved' res where a: "ApplyControls json_api [example_rule ''gpt-4o'' ''openai''] []
      [] [(''gpt-4o'', True)] [] = (rules', saved', res)"
    by (metis prod_cases3)
  then show ?thesis using ApplyControls_idempotent[OF json_api.unstructured_access_axioms a] by blast
qed

text \<open>
  C18: Enforcement is reversible: after any history of passes, each with its own reroutes, blocks
  and backends, one pass without controls restores every rule exactly and leaves nothing saved.
  The rules must route distinct models and their first backends must have a name and no body
  mutation of their own.
\<close>

theorem control_runs_reversible:
  assumes "unstructured_access K"
    and "distinct_models K rules" and "\<forall>j \<in> set rules. plain_rule K j"
  shows "control_runs K (history @ [([], [], backends)]) (rules, []) = (rules, [])"
  by (rule unstructured_access.control_runs_release[OF assms])

theorem control_runs_reversible_witness:
  "control_runs json_api
     ([([(''gpt-4o'', ''mistral'')], [], [(''mistral'', ''be'')]), ([], [(''gpt-4o'', True)], [])] @ [([], [], [])])
     ([example_rule ''gpt-4o'' ''openai'', example_rule ''mistral'' ''be''], []) =
   ([example_rule ''gpt-4o'' ''openai'', example_rule ''mistral'' ''be''], [])"
  by (rule control_runs_reversible[OF json_api.unstructured_access_axioms])
     (simp_all add: distinct_models_def plain_rule_def)

text \<open>
  Distinct models matter: the saved map holds one original per model and the first rule that
  is released deletes it, so when two rules of a route match the same model, blocking it and
  releasing it leaves the second rule on the absent backend for good.
\<close>

theorem ApplyControls_duplicate_model_stays_blocked:
  "map (backend_view json_api)
     (fst (control_runs json_api [([], [(''m'', True)], []), ([], [], [])]
        ([example_rule ''m'' ''primary'', example_rule ''m'' ''canary''], []))) =
   [Some (Some (JStr ''primary''), None), Some (Some (JStr BlockBackendName), None)] \<and>
   snd (control_runs json_api [([], [(''m'', True)], []), ([], [], [])]
        ([example_rule ''m'' ''primary'', example_rule ''m'' ''canary''], [])) = []"
  by (simp add: ApplyControls_def apply_rule_def example_rule_def RuleModel_def firstBackend_def
      json_api_def set_backend_def save_original_def backend_view_def Let_def)

end
