(* ===== verification/Gatewayactuator.thy ===== *)
theory Gatewayactuator
  imports Gatewayreroute
begin

section \<open>Gateway actuation (internal/controller/gatewayactuator.go)\<close>

text \<open>
  The AIGatewayRoutes of a namespace and the pass that applies controls to all of them, keeping
  the original backends in an annotation of each route. The client's calls are arguments: the
  results of the two list calls, and the outcome of each update.
\<close>

definition sovereigntyRerouteAnnotation :: string where
  "sovereigntyRerouteAnnotation = ''aiops.imperium.io/enforced-reroutes''"

definition budgetRerouteAnnotation :: string where
  "budgetRerouteAnnotation = ''aiops.imperium.io/budget-fallback-reroutes''"

record route =
  rt_Name :: string
  rt_Annotations :: "(string, string) gomap"
  rt_Object :: object

text \<open>
  The JSON text of a map of strings in an annotation (\<open>json.Marshal\<close> and
  \<open>json.Unmarshal\<close> at that type).
\<close>

record saved_codec =
  marshal :: "saved_map \<Rightarrow> string"
  unmarshal :: "string \<Rightarrow> saved_map"

definition route_rules :: "unstructured_api \<Rightarrow> route \<Rightarrow> json list" where
  "route_rules K r = NestedSlice K (rt_Object r) [''spec'', ''rules'']"

subsection \<open>The backends of the routed models\<close>

definition backend_step :: "unstructured_api \<Rightarrow> json \<Rightarrow> (string, string) gomap \<Rightarrow> (string, string) gomap" where
  "backend_step K ru out =
     (case ru of
        JObj rule \<Rightarrow>
          (let model = RuleModel K rule
           in if model = '''' then out
              else case NestedSlice K rule [''backendRefs''] of
                     JObj b0 # _ \<Rightarrow>
                       (let name = NestedString K b0 [''name'']
                        in if name \<noteq> '''' \<and> name \<noteq> BlockBackendName \<and> map_of out model = None
                           then AList.update model name out else out)
                   | _ \<Rightarrow> out)
      | _ \<Rightarrow> out)"

definition modelBackends :: "unstructured_api \<Rightarrow> route list result \<Rightarrow> (string, string) gomap result" where
  "modelBackends K listed =
     (case listed of
        Inl e \<Rightarrow> Inl e
      | Inr routes \<Rightarrow> Inr (fold (\<lambda>r. fold (backend_step K) (route_rules K r)) routes []))"

subsection \<open>Actuation\<close>

record routeActuationResult =
  ra_rerouted :: "string list"
  ra_blocked :: "string list"

definition emptyRouteActuationResult :: routeActuationResult where
  "emptyRouteActuationResult = \<lparr>ra_rerouted = [], ra_blocked = []\<rparr>"

definition routeControlsEmpty :: "(string, string) gomap \<Rightarrow> (string, bool) gomap \<Rightarrow> bool" where
  "routeControlsEmpty reroutes blocked \<longleftrightarrow> reroutes = [] \<and> blocked = []"

definition saved_of :: "saved_codec \<Rightarrow> string \<Rightarrow> route \<Rightarrow> saved_map" where
  "saved_of C key r =
     (let s = get (rt_Annotations r) key in if s \<noteq> '''' then unmarshal C s else [])"

text \<open>One route: the route as it would be updated and what the pass reported.\<close>

definition actuate_route ::
  "unstructured_api \<Rightarrow> saved_codec \<Rightarrow> (string, string) gomap \<Rightarrow> (string, bool) gomap \<Rightarrow>
     (string, string) gomap \<Rightarrow> string \<Rightarrow> route \<Rightarrow> route \<times> reroute_result" where
  "actuate_route K C reroutes blocked mb key r =
     (let (rules', saved', res) =
            ApplyControls K (route_rules K r) (saved_of C key r) reroutes blocked mb
      in (r\<lparr>rt_Object := SetNestedSlice K (rt_Object r) rules' [''spec'', ''rules''],
            rt_Annotations :=
              (if saved' = [] then AList.delete key (rt_Annotations r)
               else AList.update key (marshal C saved') (rt_Annotations r))\<rparr>, res))"

text \<open>
  The loop over the routes, with the routes of the cluster afterwards: an update that fails
  leaves its route and the later ones as they were and ends the loop.
\<close>

fun actuate_routes ::
  "unstructured_api \<Rightarrow> saved_codec \<Rightarrow> (route \<Rightarrow> go_error option) \<Rightarrow> (string, string) gomap \<Rightarrow>
     (string, bool) gomap \<Rightarrow> (string, string) gomap \<Rightarrow> string \<Rightarrow> route list \<Rightarrow> routeActuationResult \<Rightarrow>
     route list \<times> routeActuationResult \<times> go_error option" where
  "actuate_routes K C update reroutes blocked mb key [] out = ([], out, None)"
| "actuate_routes K C update reroutes blocked mb key (r # rs) out =
     (let (r', res) = actuate_route K C reroutes blocked mb key r;
          out' = \<lparr>ra_rerouted = List.union (rr_Rerouted res) (ra_rerouted out),
                  ra_blocked = List.union (rr_Blocked res) (ra_blocked out)\<rparr>
      in if \<not> rr_Changed res then
           (let (rs', out'', e) = actuate_routes K C update reroutes blocked mb key rs out'
            in (r # rs', out'', e))
         else
           (case update r' of
              Some e \<Rightarrow> (r # rs, out', Some e)
            | None \<Rightarrow>
                (let (rs', out'', e) = actuate_routes K C update reroutes blocked mb key rs out'
                 in (r' # rs', out'', e))))"

text \<open>
  The two list calls may fail separately; \<open>IsNoMatch\<close> tells the error of a cluster without
  the AIGatewayRoute kind. The result is the cluster's routes, what was actuated and the error.
\<close>

definition actuateRouteControlsWithAnnotation ::
  "unstructured_api \<Rightarrow> saved_codec \<Rightarrow> (go_error \<Rightarrow> bool) \<Rightarrow> (route \<Rightarrow> go_error option) \<Rightarrow>
     go_error option \<Rightarrow> go_error option \<Rightarrow> route list \<Rightarrow> (string, string) gomap \<Rightarrow>
     (string, bool) gomap \<Rightarrow> string \<Rightarrow> route list \<times> routeActuationResult \<times> go_error option" where
  "actuateRouteControlsWithAnnotation K C IsNoMatch update listErr1 listErr2 cluster reroutes blocked key =
     (let list1 = (case listErr1 of Some e \<Rightarrow> Inl e | None \<Rightarrow> Inr cluster)
      in case modelBackends K list1 of
           Inl e \<Rightarrow>
             (if routeControlsEmpty reroutes blocked \<and> IsNoMatch e
              then (cluster, emptyRouteActuationResult, None)
              else (cluster, emptyRouteActuationResult, Some e))
         | Inr mb \<Rightarrow>
             (case listErr2 of
                Some e \<Rightarrow>
                  (if routeControlsEmpty reroutes blocked \<and> IsNoMatch e
                   then (cluster, emptyRouteActuationResult, None)
                   else (cluster, emptyRouteActuationResult, Some e))
              | None \<Rightarrow>
                  actuate_routes K C update reroutes blocked mb key cluster emptyRouteActuationResult))"

definition actuateReroutesWithAnnotation ::
  "unstructured_api \<Rightarrow> saved_codec \<Rightarrow> (go_error \<Rightarrow> bool) \<Rightarrow> (route \<Rightarrow> go_error option) \<Rightarrow>
     go_error option \<Rightarrow> go_error option \<Rightarrow> route list \<Rightarrow> (string, string) gomap \<Rightarrow> string \<Rightarrow>
     route list \<times> string list \<times> go_error option" where
  "actuateReroutesWithAnnotation K C IsNoMatch update listErr1 listErr2 cluster desired key =
     (let (cluster', res, e) = actuateRouteControlsWithAnnotation K C IsNoMatch update
            listErr1 listErr2 cluster desired [] key
      in (cluster', ra_rerouted res, e))"

definition actuateSovereigntyControls ::
  "unstructured_api \<Rightarrow> saved_codec \<Rightarrow> (go_error \<Rightarrow> bool) \<Rightarrow> (route \<Rightarrow> go_error option) \<Rightarrow>
     go_error option \<Rightarrow> go_error option \<Rightarrow> route list \<Rightarrow> (string, string) gomap \<Rightarrow>
     (string, bool) gomap \<Rightarrow> route list \<times> routeActuationResult \<times> go_error option" where
  "actuateSovereigntyControls K C IsNoMatch update listErr1 listErr2 cluster reroutes blocked =
     actuateRouteControlsWithAnnotation K C IsNoMatch update listErr1 listErr2 cluster reroutes
       blocked sovereigntyRerouteAnnotation"

definition actuateReroutes ::
  "unstructured_api \<Rightarrow> saved_codec \<Rightarrow> (go_error \<Rightarrow> bool) \<Rightarrow> (route \<Rightarrow> go_error option) \<Rightarrow>
     go_error option \<Rightarrow> go_error option \<Rightarrow> route list \<Rightarrow> (string, string) gomap \<Rightarrow>
     route list \<times> string list \<times> go_error option" where
  "actuateReroutes K C IsNoMatch update listErr1 listErr2 cluster desired =
     actuateReroutesWithAnnotation K C IsNoMatch update listErr1 listErr2 cluster desired
       sovereigntyRerouteAnnotation"

subsection \<open>The serving backends\<close>

definition serves :: "unstructured_api \<Rightarrow> route list \<Rightarrow> string \<Rightarrow> string \<Rightarrow> bool" where
  "serves K routes m b \<longleftrightarrow> (\<exists>r \<in> set routes. \<exists>j \<in> set (route_rules K r).
     json_model K j = m \<and> (\<exists>bm. backend_view K j = Some (Some (JStr b), bm)))"

text \<open>A pass of one controller, and a history of passes.\<close>

record pass =
  ps_reroutes :: "(string, string) gomap"
  ps_blocked :: "(string, bool) gomap"
  ps_update :: "route \<Rightarrow> go_error option"
  ps_listErr1 :: "go_error option"
  ps_listErr2 :: "go_error option"

fun cluster_runs ::
  "unstructured_api \<Rightarrow> saved_codec \<Rightarrow> (go_error \<Rightarrow> bool) \<Rightarrow> string \<Rightarrow> pass list \<Rightarrow> route list \<Rightarrow> route list" where
  "cluster_runs K C IsNoMatch key [] cluster = cluster"
| "cluster_runs K C IsNoMatch key (p # ps) cluster =
     cluster_runs K C IsNoMatch key ps
       (fst (actuateRouteControlsWithAnnotation K C IsNoMatch (ps_update p) (ps_listErr1 p)
          (ps_listErr2 p) cluster (ps_reroutes p) (ps_blocked p) key))"

lemma cluster_runs_append:
  "cluster_runs K C nm key (ps @ qs) rs = cluster_runs K C nm key qs (cluster_runs K C nm key ps rs)"
  by (induction ps arbitrary: rs) simp_all

definition release_pass :: pass where
  "release_pass = \<lparr>ps_reroutes = [], ps_blocked = [], ps_update = \<lambda>r. None,
     ps_listErr1 = None, ps_listErr2 = None\<rparr>"

definition same_lookup :: "saved_map \<Rightarrow> saved_map \<Rightarrow> bool" where
  "same_lookup m m' \<longleftrightarrow> map_of m = map_of m'"

lemma apply_rule_changed:
  assumes "apply_rule K d b mb j (saved, res) = (j', saved', res')"
  shows "rr_Changed res \<longrightarrow> rr_Changed res'" "\<not> rr_Changed res' \<longrightarrow> j' = j \<and> saved' = saved"
proof -
  have "(rr_Changed res \<longrightarrow> rr_Changed res') \<and> (\<not> rr_Changed res' \<longrightarrow> j' = j \<and> saved' = saved)"
    using assms
    by (simp add: apply_rule_def Let_def split: json.splits if_splits option.splits prod.splits)
       auto
  then show "rr_Changed res \<longrightarrow> rr_Changed res'" "\<not> rr_Changed res' \<longrightarrow> j' = j \<and> saved' = saved"
    by auto
qed

lemma apply_rules_changed:
  assumes "apply_rules K d b mb js (saved, res) = (js', saved', res')"
  shows "(rr_Changed res \<longrightarrow> rr_Changed res') \<and> (\<not> rr_Changed res' \<longrightarrow> js' = js \<and> saved' = saved)"
  using assms
proof (induction js arbitrary: saved res js')
  case Nil
  then show ?case by simp
next
  case (Cons j js)
  obtain k sv1 res1 where k: "apply_rule K d b mb j (saved, res) = (k, sv1, res1)"
    by (metis prod_cases3)
  obtain ks where ks: "apply_rules K d b mb js (sv1, res1) = (ks, saved', res')" "js' = k # ks"
    using Cons.prems k by (auto split: prod.splits)
  show ?case using Cons.IH[OF ks(1)] apply_rule_changed[OF k] ks(2) by blast
qed

text \<open>A rule before and after a pass that carried its controls out.\<close>

definition obeys ::
  "unstructured_api \<Rightarrow> (string, string) gomap \<Rightarrow> (string, bool) gomap \<Rightarrow> (string, string) gomap \<Rightarrow>
     json \<Rightarrow> json \<Rightarrow> bool" where
  "obeys K desired blocked mb j j' \<longleftrightarrow>
     json_model K j' = json_model K j \<and>
     (routed K j \<longrightarrow>
       (case map_of desired (json_model K j) of
          Some t \<Rightarrow> if get mb t = '''' then j' = j
            else backend_view K j' = Some (Some (JStr (get mb t)), Some (body_mutation t))
        | None \<Rightarrow> map_of blocked (json_model K j) = Some True \<longrightarrow>
            backend_view K j' = Some (Some (JStr BlockBackendName), None)))"

context unstructured_access begin

subsubsection \<open>Serving backends\<close>

lemma backend_step_cases:
  "backend_step K j out =
     (if \<exists>b bm. routed K j \<and> backend_view K j = Some (Some (JStr b), bm) \<and> b \<noteq> '''' \<and>
          b \<noteq> BlockBackendName \<and> map_of out (json_model K j) = None
      then AList.update (json_model K j)
        (case backend_view K j of Some (Some (JStr b), _) \<Rightarrow> b | _ \<Rightarrow> '''') out
      else out)"
  by (cases j)
     (auto simp: backend_step_def routed_def json_model_def backend_view_def firstBackend_def Let_def
       NestedString_field split: list.splits json.splits option.splits)

lemma fold_backend_step:
  assumes "map_of (fold (backend_step K) js out) m = Some b"
  shows "map_of out m = Some b \<or> (m \<noteq> '''' \<and> b \<noteq> '''' \<and> b \<noteq> BlockBackendName \<and>
    (\<exists>j \<in> set js. json_model K j = m \<and> (\<exists>bm. backend_view K j = Some (Some (JStr b), bm))))"
  using assms
proof (induction js arbitrary: out)
  case Nil
  then show ?case by simp
next
  case (Cons j js)
  then have "map_of (backend_step K j out) m = Some b \<or> (m \<noteq> '''' \<and> b \<noteq> '''' \<and> b \<noteq> BlockBackendName \<and>
    (\<exists>j \<in> set js. json_model K j = m \<and> (\<exists>bm. backend_view K j = Some (Some (JStr b), bm))))"
    by simp
  then show ?case
    by (auto simp: backend_step_cases routed_def update_conv' split: if_splits)
qed

lemma fold_routes_backend:
  assumes "map_of (fold (\<lambda>r. fold (backend_step K) (route_rules K r)) routes out) m = Some b"
  shows "map_of out m = Some b \<or> (m \<noteq> '''' \<and> b \<noteq> '''' \<and> b \<noteq> BlockBackendName \<and> serves K routes m b)"
  using assms
proof (induction routes arbitrary: out)
  case Nil
  then show ?case by simp
next
  case (Cons r rs)
  then have "map_of (fold (backend_step K) (route_rules K r) out) m = Some b \<or>
      (m \<noteq> '''' \<and> b \<noteq> '''' \<and> b \<noteq> BlockBackendName \<and> serves K rs m b)" by simp
  then show ?case
    using fold_backend_step[of "route_rules K r" out m b] by (auto simp: serves_def)
qed

lemma modelBackends_serves:
  assumes "modelBackends K (Inr routes) = Inr mb" "map_of mb m = Some b"
  shows "m \<noteq> '''' \<and> b \<noteq> '''' \<and> b \<noteq> BlockBackendName \<and> serves K routes m b"
  using fold_routes_backend[of routes "[]" m b] assms by (simp add: modelBackends_def)

end

text \<open>
  What the actuation relies on beyond the accessors of single fields: setting the rules of a
  route that has rules is read back, and a map of strings survives its JSON text, which is not
  the empty string.
\<close>

locale gateway = unstructured_access +
  fixes C :: saved_codec
  assumes rules_set: "NestedSlice K obj [a, b] \<noteq> [] \<Longrightarrow>
      NestedSlice K (SetNestedSlice K obj xs [a, b]) [a, b] = xs"
    and unmarshal_marshal: "same_lookup (unmarshal C (marshal C m)) m"
    and marshal_nonempty: "marshal C m \<noteq> ''''"
begin

subsubsection \<open>One route\<close>

lemma actuate_route_rules:
  assumes "actuate_route K C d b mb key r = (r', res)"
  obtains rules' saved' where
    "ApplyControls K (route_rules K r) (saved_of C key r) d b mb = (rules', saved', res)"
    "rr_Changed res \<Longrightarrow> route_rules K r' = rules' \<and> same_lookup (saved_of C key r') saved'"
    "\<not> rr_Changed res \<Longrightarrow> rules' = route_rules K r \<and> saved' = saved_of C key r"
proof -
  obtain rules' saved' res1 where a:
    "ApplyControls K (route_rules K r) (saved_of C key r) d b mb = (rules', saved', res1)"
    by (metis prod_cases3)
  have [simp]: "res1 = res" using assms a by (simp add: actuate_route_def Let_def)
  have r': "r' = r\<lparr>rt_Object := SetNestedSlice K (rt_Object r) rules' [''spec'', ''rules''],
            rt_Annotations :=
              (if saved' = [] then AList.delete key (rt_Annotations r)
               else AList.update key (marshal C saved') (rt_Annotations r))\<rparr>"
    using assms a by (simp add: actuate_route_def Let_def)
  note c = apply_rules_changed[OF a[unfolded ApplyControls_def]]
  have "route_rules K r' = rules' \<and> same_lookup (saved_of C key r') saved'" if ch: "rr_Changed res"
  proof
    have "route_rules K r \<noteq> []"
    proof
      assume e: "route_rules K r = []"
      have "res = no_result" using a unfolding ApplyControls_def e by simp
      then show False using ch by (simp add: no_result_def)
    qed
    then show "route_rules K r' = rules'"
      by (simp add: r' route_rules_def rules_set)
    show "same_lookup (saved_of C key r') saved'"
      using marshal_nonempty[of saved'] unmarshal_marshal[of saved']
      by (auto simp: r' saved_of_def get_def same_lookup_def update_conv' delete_conv' Let_def)
  qed
  moreover have "rules' = route_rules K r \<and> saved' = saved_of C key r" if "\<not> rr_Changed res"
    using c that by simp
  ultimately show thesis using that a by auto
qed

lemma actuate_route_obeys:
  assumes "actuate_route K C d b mb key r = (r', res)"
  shows "list_all2 (obeys K d b mb) (route_rules K r)
    (if rr_Changed res then route_rules K r' else route_rules K r)"
proof -
  obtain rules' saved' where
    a: "ApplyControls K (route_rules K r) (saved_of C key r) d b mb = (rules', saved', res)"
    and rs: "rr_Changed res \<Longrightarrow> route_rules K r' = rules' \<and> same_lookup (saved_of C key r') saved'"
      "\<not> rr_Changed res \<Longrightarrow> rules' = route_rules K r \<and> saved' = saved_of C key r"
    using actuate_route_rules[OF assms] by metis
  note st = apply_rules_settled(1)[OF a[unfolded ApplyControls_def]]
  have "list_all2 (obeys K d b mb) (route_rules K r) rules'"
  proof (rule list_all2_all_nthI)
    show "length (route_rules K r) = length rules'" using st by (rule list_all2_lengthD)
    fix i assume i: "i < length (route_rules K r)"
    have s: "settled K d b mb saved' (rules' ! i)" "json_model K (rules' ! i) = json_model K (route_rules K r ! i)"
      "routed K (rules' ! i) = routed K (route_rules K r ! i)"
      using list_all2_nthD[OF st i] by auto
    have k: "rules' ! i = route_rules K r ! i"
      if "map_of d (json_model K (route_rules K r ! i)) = Some t" "get mb t = ''''" for t
      using that by (intro apply_rules_keeps[OF a[unfolded ApplyControls_def] i]) auto
    show "obeys K d b mb (route_rules K r ! i) (rules' ! i)"
      unfolding obeys_def using s k by (auto simp: settled_def split: option.splits)
  qed
  then show ?thesis using rs by auto
qed

lemma actuate_routes_obeys:
  "actuate_routes K C upd d b mb key rs out = (rs', out', None) \<Longrightarrow>
     list_all2 (\<lambda>r r'. list_all2 (obeys K d b mb) (route_rules K r) (route_rules K r')) rs rs'"
proof (induction rs arbitrary: out rs')
  case Nil
  then show ?case by simp
next
  case (Cons r rs)
  obtain r' res where a: "actuate_route K C d b mb key r = (r', res)" by fastforce
  note o1 = actuate_route_obeys[OF a]
  show ?case
  proof (cases "rr_Changed res")
    case True
    then have "upd r' = None" using Cons.prems a by (auto simp: Let_def split: option.splits prod.splits)
    then show ?thesis
      using Cons.prems Cons.IH a True o1 by (auto simp: Let_def split: prod.splits)
  next
    case False
    then show ?thesis using Cons.prems Cons.IH a o1 by (auto simp: Let_def split: prod.splits)
  qed
qed

text \<open>The invariant of a route against the route it started as.\<close>

definition route_tracked :: "string \<Rightarrow> route \<Rightarrow> route \<Rightarrow> bool" where
  "route_tracked key r0 r \<longleftrightarrow>
     list_all2 (tracked K (saved_of C key r)) (route_rules K r0) (route_rules K r) \<and>
     saved_inside (route_rules K r0) (saved_of C key r)"

lemma tracked_same_lookup: "same_lookup s s' \<Longrightarrow> tracked K s = tracked K s'"
  by (simp add: fun_eq_iff tracked_def same_lookup_def)

lemma saved_inside_same_lookup: "same_lookup s s' \<Longrightarrow> saved_inside js s = saved_inside js s'"
  by (simp add: saved_inside_def same_lookup_def)

lemma actuate_route_tracked:
  assumes "route_tracked key r0 r" "distinct_models K (route_rules K r0)"
    and "\<forall>j \<in> set (route_rules K r0). plain_rule K j"
    and "actuate_route K C d b mb key r = (r', res)"
  shows "rr_Changed res \<Longrightarrow> route_tracked key r0 r'"
proof -
  assume ch: "rr_Changed res"
  obtain rules' saved' where
    a: "ApplyControls K (route_rules K r) (saved_of C key r) d b mb = (rules', saved', res)"
    and rs: "rr_Changed res \<Longrightarrow> route_rules K r' = rules' \<and> same_lookup (saved_of C key r') saved'"
    using actuate_route_rules[OF assms(4)] by metis
  have t: "list_all2 (tracked K saved') (route_rules K r0) rules' \<and>
      (\<forall>m. m \<notin> json_model K ` set (filter (routed K) (route_rules K r0)) \<longrightarrow>
        map_of saved' m = map_of (saved_of C key r) m)"
    using assms(1) a
    by (intro apply_rules_tracked[OF _ assms(2,3)]) (simp_all add: route_tracked_def ApplyControls_def)
  then have "saved_inside (route_rules K r0) saved'"
    using assms(1) by (simp add: route_tracked_def saved_inside_def)
  moreover have sl: "same_lookup (saved_of C key r') saved'" using rs[OF ch] by blast
  moreover have "route_rules K r' = rules'" using rs[OF ch] by blast
  ultimately show "route_tracked key r0 r'"
    using t unfolding route_tracked_def tracked_same_lookup[OF sl] saved_inside_same_lookup[OF sl]
    by simp
qed

lemma actuate_route_release:
  assumes "route_tracked key r0 r" "distinct_models K (route_rules K r0)"
    and "\<forall>j \<in> set (route_rules K r0). plain_rule K j"
    and "actuate_route K C [] [] mb key r = (r', res)"
  shows "if rr_Changed res then route_rules K r' = route_rules K r0
    else route_rules K r = route_rules K r0"
proof -
  obtain rules' saved' where
    a: "ApplyControls K (route_rules K r) (saved_of C key r) [] [] mb = (rules', saved', res)"
    and rs: "rr_Changed res \<Longrightarrow> route_rules K r' = rules' \<and> same_lookup (saved_of C key r') saved'"
      "\<not> rr_Changed res \<Longrightarrow> rules' = route_rules K r \<and> saved' = saved_of C key r"
    using actuate_route_rules[OF assms(4)] by metis
  have "rules' = route_rules K r0"
    using assms(1) apply_rules_release[OF _ assms(2,3) a[unfolded ApplyControls_def]]
    by (simp add: route_tracked_def)
  then show ?thesis using rs by auto
qed

subsubsection \<open>All routes, many passes\<close>

lemma actuate_routes_tracked:
  assumes "list_all2 (route_tracked key) rs0 rs"
    and "\<forall>r \<in> set rs0. distinct_models K (route_rules K r) \<and> (\<forall>j \<in> set (route_rules K r). plain_rule K j)"
  shows "list_all2 (route_tracked key) rs0 (fst (actuate_routes K C upd d b mb key rs out))"
  using assms
proof (induction rs0 arbitrary: rs out)
  case Nil
  then show ?case by simp
next
  case (Cons r0 rs0)
  obtain r rs1 where rs: "rs = r # rs1" "route_tracked key r0 r" "list_all2 (route_tracked key) rs0 rs1"
    using Cons.prems(1) by (auto simp: list_all2_Cons1)
  obtain r' res where a: "actuate_route K C d b mb key r = (r', res)" by fastforce
  have t: "rr_Changed res \<Longrightarrow> route_tracked key r0 r'"
    using actuate_route_tracked[OF rs(2) _ _ a] Cons.prems(2) by simp
  have IH: "list_all2 (route_tracked key) rs0 (fst (actuate_routes K C upd d b mb key rs1 out'))" for out'
    using Cons.IH[OF rs(3)] Cons.prems(2) by simp
  show ?case
    using t IH rs Cons.prems(1)
    by (simp add: a Let_def split_def split: option.splits)
qed

lemma actuate_routes_release:
  assumes "list_all2 (route_tracked key) rs0 rs"
    and "\<forall>r \<in> set rs0. distinct_models K (route_rules K r) \<and> (\<forall>j \<in> set (route_rules K r). plain_rule K j)"
  shows "map (route_rules K) (fst (actuate_routes K C (\<lambda>r. None) [] [] mb key rs out)) =
    map (route_rules K) rs0"
  using assms
proof (induction rs0 arbitrary: rs out)
  case Nil
  then show ?case by simp
next
  case (Cons r0 rs0)
  obtain r rs1 where rs: "rs = r # rs1" "route_tracked key r0 r" "list_all2 (route_tracked key) rs0 rs1"
    using Cons.prems(1) by (auto simp: list_all2_Cons1)
  obtain r' res where a: "actuate_route K C [] [] mb key r = (r', res)" by fastforce
  have t: "if rr_Changed res then route_rules K r' = route_rules K r0
    else route_rules K r = route_rules K r0"
    using actuate_route_release[OF rs(2) _ _ a] Cons.prems(2) by simp
  have IH: "map (route_rules K) (fst (actuate_routes K C (\<lambda>r. None) [] [] mb key rs1 out')) =
      map (route_rules K) rs0" for out'
    using Cons.IH[OF rs(3)] Cons.prems(2) by simp
  show ?case using t IH by (auto simp: rs(1) a Let_def split_def)
qed

lemma cluster_runs_tracked:
  assumes "list_all2 (route_tracked key) rs0 rs"
    and "\<forall>r \<in> set rs0. distinct_models K (route_rules K r) \<and> (\<forall>j \<in> set (route_rules K r). plain_rule K j)"
  shows "list_all2 (route_tracked key) rs0 (cluster_runs K C nm key ps rs)"
  using assms
proof (induction ps arbitrary: rs)
  case Nil
  then show ?case by simp
next
  case (Cons p ps)
  have "list_all2 (route_tracked key) rs0 (fst (actuateRouteControlsWithAnnotation K C nm (ps_update p)
      (ps_listErr1 p) (ps_listErr2 p) rs (ps_reroutes p) (ps_blocked p) key))"
    using Cons.prems actuate_routes_tracked[OF Cons.prems]
    by (auto simp: actuateRouteControlsWithAnnotation_def Let_def split: option.splits sum.splits)
  then show ?case using Cons.IH Cons.prems(2) by simp
qed

lemma cluster_runs_release:
  assumes "\<forall>r \<in> set rs. distinct_models K (route_rules K r) \<and> (\<forall>j \<in> set (route_rules K r). plain_rule K j) \<and>
      saved_of C key r = []"
  shows "map (route_rules K) (cluster_runs K C nm key (ps @ [release_pass]) rs) = map (route_rules K) rs"
proof -
  have start: "list_all2 (route_tracked key) rs rs"
    using assms tracked_start
    by (intro list.rel_refl_strong) (simp add: route_tracked_def saved_inside_def)
  then have "list_all2 (route_tracked key) rs (cluster_runs K C nm key ps rs)"
    using cluster_runs_tracked assms by simp
  then show ?thesis
    using actuate_routes_release[of key rs "cluster_runs K C nm key ps rs"] assms
    by (simp add: cluster_runs_append release_pass_def actuateRouteControlsWithAnnotation_def
        modelBackends_def Let_def)
qed

end

subsection \<open>An instance\<close>

text \<open>
  A self-delimiting text of a map of strings (each string after its length in unary), which is
  read back and never empty: it stands for JSON in the examples.
\<close>

definition enc_string :: "string \<Rightarrow> string" where
  "enc_string s = replicate (length s) (CHR ''x'') @ CHR '','' # s"

definition dec_string :: "string \<Rightarrow> string \<times> string" where
  "dec_string t =
     (let n = length (takeWhile (\<lambda>c. c = CHR ''x'') t); t' = drop (n + 1) t
      in (take n t', drop n t'))"

fun dec_pairs :: "nat \<Rightarrow> string \<Rightarrow> saved_map" where
  "dec_pairs 0 t = []"
| "dec_pairs (Suc n) t =
     (if t = [] then []
      else let (k, t1) = dec_string t; (v, t2) = dec_string t1 in (k, v) # dec_pairs n t2)"

definition example_codec :: saved_codec where
  "example_codec = \<lparr>marshal = (\<lambda>m. CHR ''m'' # concat (map (\<lambda>(k, v). enc_string k @ enc_string v) m)),
     unmarshal = (\<lambda>t. dec_pairs (length t) (tl t))\<rparr>"

lemma dec_enc_string [simp]: "dec_string (enc_string s @ t) = (s, t)"
proof -
  have "takeWhile (\<lambda>c. c = CHR ''x'') (replicate n (CHR ''x'') @ CHR '','' # s @ t) = replicate n (CHR ''x'')" for n
    by (induction n) simp_all
  then show ?thesis by (simp add: dec_string_def enc_string_def)
qed

lemma dec_enc_pairs:
  "length m \<le> n \<Longrightarrow> dec_pairs n (concat (map (\<lambda>(k, v). enc_string k @ enc_string v) m)) = m"
proof (induction m arbitrary: n)
  case Nil
  then show ?case by (cases n) simp_all
next
  case (Cons kv m)
  obtain k v where kv: "kv = (k, v)" by fastforce
  obtain n' where "n = Suc n'" using Cons.prems by (cases n) simp_all
  moreover have "enc_string k \<noteq> []" by (simp add: enc_string_def)
  ultimately show ?case using Cons kv by simp
qed

lemma enc_pairs_length: "length m \<le> length (concat (map (\<lambda>(k, v). enc_string k @ enc_string v) m))"
  by (induction m) (auto simp: enc_string_def)

lemma example_codec_inverse [simp]: "unmarshal example_codec (marshal example_codec m) = m"
  using dec_enc_pairs[of m "Suc (length (concat (map (\<lambda>(k, v). enc_string k @ enc_string v) m)))"]
    enc_pairs_length[of m]
  by (simp add: example_codec_def)

lemma example_codec_nonempty [simp]: "marshal example_codec m \<noteq> ''''"
  by (simp add: example_codec_def)

interpretation example_gateway: gateway json_api example_codec
proof unfold_locales
  fix obj :: object and a b xs
  assume ne: "NestedSlice json_api obj [a, b] \<noteq> []"
  then obtain o' ys where "obj a = Some (JObj o')" "o' b = Some (JArr ys)"
    by (auto simp: json_api_def split: option.splits json.splits)
  then show "NestedSlice json_api (SetNestedSlice json_api obj xs [a, b]) [a, b] = xs"
    by (simp add: json_api_def)
qed (simp_all add: same_lookup_def)

definition example_route :: "json list \<Rightarrow> route" where
  "example_route rules = \<lparr>rt_Name = ''route'', rt_Annotations = [],
     rt_Object = [''spec'' \<mapsto> JObj [''rules'' \<mapsto> JArr rules]]\<rparr>"

lemma example_route_rules [simp]: "route_rules json_api (example_route rules) = rules"
  by (simp add: route_rules_def example_route_def json_api_def)

lemma example_route_saved [simp]: "saved_of C key (example_route rules) = []"
  by (simp add: saved_of_def get_def example_route_def)

subsection \<open>Properties\<close>

text \<open>
  C20: A reroute never leads to the reserved absent backend or to one nobody serves: a backend
  that the index gives for a model is the first backend of a rule that routes this model.
\<close>

theorem modelBackends_safe:
  assumes "unstructured_access K"
    and "modelBackends K (Inr routes) = Inr mb" and "map_of mb m = Some b"
  shows "m \<noteq> '''' \<and> b \<noteq> '''' \<and> b \<noteq> BlockBackendName \<and> serves K routes m b"
  by (rule unstructured_access.modelBackends_serves[OF assms])

theorem modelBackends_safe_witness:
  "serves json_api [example_route [example_rule ''gpt-4o'' ''openai'']] ''gpt-4o'' ''openai''"
proof -
  let ?r = "example_route [example_rule ''gpt-4o'' ''openai'']"
  have b: "backend_step json_api (example_rule ''gpt-4o'' ''openai'') [] = [(''gpt-4o'', ''openai'')]"
    by (simp add: json_api.backend_step_cases BlockBackendName_def)
  show ?thesis
    using modelBackends_safe[OF json_api.unstructured_access_axioms, of "[?r]" "[(''gpt-4o'', ''openai'')]"
        "''gpt-4o''" "''openai''"]
    by (simp add: modelBackends_def b)
qed

text \<open>
  C19: Enforcement is reversible in the cluster: after any history of passes under one annotation,
  each with its own reroutes and blocks and with any of its list calls and updates failing, one
  release pass whose calls succeed restores the rules of every route exactly. The rules of a route
  must match distinct models, their first backends must have a name and no body mutation, and the
  annotation must be absent at the start.
\<close>

theorem cluster_runs_reversible:
  assumes "gateway K C"
    and "\<forall>r \<in> set cluster. distinct_models K (route_rules K r) \<and>
      (\<forall>j \<in> set (route_rules K r). plain_rule K j) \<and> saved_of C key r = []"
  shows "map (route_rules K) (cluster_runs K C IsNoMatch key (history @ [release_pass]) cluster) =
    map (route_rules K) cluster"
  by (rule gateway.cluster_runs_release[OF assms])

theorem cluster_runs_reversible_witness:
  "map (route_rules json_api)
     (cluster_runs json_api example_codec (\<lambda>e. False) sovereigntyRerouteAnnotation
       ([release_pass\<lparr>ps_blocked := [(''gpt-4o'', True)], ps_update := \<lambda>r. if rt_Name r = ''route'' then None else Some (Err ''conflict'' [])\<rparr>] @ [release_pass])
       [example_route [example_rule ''gpt-4o'' ''openai'', example_rule ''mistral'' ''be'']]) =
   [[example_rule ''gpt-4o'' ''openai'', example_rule ''mistral'' ''be'']]"
  by (subst cluster_runs_reversible[OF example_gateway.gateway_axioms])
     (simp_all add: distinct_models_def plain_rule_def)

lemmas interplay_eval =
  example_route_def example_rule_def release_pass_def actuateRouteControlsWithAnnotation_def
  modelBackends_def actuate_route_def ApplyControls_def apply_rule_def saved_of_def route_rules_def
  json_api_def backend_step_def RuleModel_def firstBackend_def Let_def get_def set_backend_def
  save_original_def no_result_def BlockBackendName_def ModelHeaderName_def
  budgetRerouteAnnotation_def sovereigntyRerouteAnnotation_def emptyRouteActuationResult_def

section \<open>Reroutes towards a backend nobody routes as a model\<close>

lemma apply_rule_unroutable:
  assumes "\<forall>m t. map_of d m = Some t \<longrightarrow> get mb t = ''''"
  shows "rr_Rerouted (snd (snd (apply_rule K d [] mb j (saved, res)))) = rr_Rerouted res"
  using assms by (auto simp: apply_rule_def Let_def split: json.splits option.splits prod.splits)

lemma apply_rules_unroutable:
  assumes "\<forall>m t. map_of d m = Some t \<longrightarrow> get mb t = ''''"
  shows "rr_Rerouted (snd (snd (apply_rules K d [] mb js (saved, res)))) = rr_Rerouted res"
proof (induction js arbitrary: saved res)
  case (Cons j js)
  obtain j' s1 r1 where a: "apply_rule K d [] mb j (saved, res) = (j', s1, r1)" by (metis prod_cases3)
  then show ?case
    using Cons[of s1 r1] apply_rule_unroutable[OF assms, of K j saved res] by (simp add: Let_def split_def)
qed simp

lemma actuate_routes_unroutable:
  assumes "\<forall>m t. map_of d m = Some t \<longrightarrow> get mb t = ''''"
  shows "ra_rerouted (fst (snd (actuate_routes K C upd d [] mb key rs out))) = ra_rerouted out"
proof (induction rs arbitrary: out)
  case (Cons r rs)
  obtain r' res where a: "actuate_route K C d [] mb key r = (r', res)" by fastforce
  then have "rr_Rerouted res = []"
    using apply_rules_unroutable[OF assms, of K "route_rules K r" "saved_of C key r" no_result]
    by (auto simp: actuate_route_def ApplyControls_def no_result_def Let_def split_def)
  then show ?case using Cons a by (auto simp: Let_def split_def List.union_def split: option.splits)
qed simp

context gateway begin

text \<open>
  A reroute whose target is looked up under a name that no rule routes reports nothing as rerouted
  and leaves the rules of its source model as they are.
\<close>

lemma reroute_unroutable:
  assumes "actuateReroutesWithAnnotation K C nm upd None None cluster [(src, t)] key = (cluster', actuated, None)"
    and "modelBackends K (Inr cluster) = Inr mb" "get mb t = ''''"
  shows "actuated = []"
    and "list_all2 (\<lambda>r r'. list_all2 (\<lambda>j j'. json_model K j' = json_model K j \<and> (json_model K j = src \<and> routed K j \<longrightarrow> j' = j))
      (route_rules K r) (route_rules K r')) cluster cluster'"
proof -
  obtain res where a: "actuate_routes K C upd [(src, t)] [] mb key cluster emptyRouteActuationResult = (cluster', res, None)"
    and r: "actuated = ra_rerouted res"
    using assms(1,2)
    by (auto simp: actuateReroutesWithAnnotation_def actuateRouteControlsWithAnnotation_def Let_def split: prod.splits)
  show "actuated = []"
    using actuate_routes_unroutable[of "[(src, t)]" mb K C upd key cluster emptyRouteActuationResult] assms(3) a r
    by (simp add: emptyRouteActuationResult_def)
  have o: "obeys K [(src, t)] [] mb j j' \<Longrightarrow> json_model K j' = json_model K j \<and> (json_model K j = src \<and> routed K j \<longrightarrow> j' = j)" for j j'
    using assms(3) by (auto simp: obeys_def)
  show "list_all2 (\<lambda>r r'. list_all2 (\<lambda>j j'. json_model K j' = json_model K j \<and> (json_model K j = src \<and> routed K j \<longrightarrow> j' = j))
      (route_rules K r) (route_rules K r')) cluster cluster'"
    using actuate_routes_obeys[OF a] by (rule list_all2_mono) (erule list_all2_mono, rule o)
qed

end


lemma actuate_routes_no_error:
  "\<forall>r. upd r = None \<Longrightarrow> snd (snd (actuate_routes K C upd d b mb key rs out)) = None"
  by (induction rs arbitrary: out) (simp_all add: Let_def split_def)

lemma actuate_reroutes_no_error:
  assumes "\<forall>r. upd r = None"
  shows "snd (snd (actuateReroutesWithAnnotation K C nm upd None None cluster d key)) = None"
  using actuate_routes_no_error[OF assms]
  by (simp add: actuateReroutesWithAnnotation_def actuateRouteControlsWithAnnotation_def modelBackends_def Let_def split_def)


section \<open>A pass as a step on each rule\<close>

text \<open>
  A pass with successful calls, seen at one rule whose model no other rule of its route matches: the name
  and the body mutation of the first backend, and the original that the pass's annotation keeps for the model.
\<close>

type_synonym rule_slot = "json option \<times> json option \<times> string option"

definition remember :: "json option \<Rightarrow> string option \<Rightarrow> string option" where
  "remember nm s = (case s of Some orig \<Rightarrow> Some orig | None \<Rightarrow> Some (case nm of Some (JStr x) \<Rightarrow> x | _ \<Rightarrow> []))"

fun slot_step ::
  "(string, string) gomap \<Rightarrow> (string, bool) gomap \<Rightarrow> (string, string) gomap \<Rightarrow> string \<Rightarrow> rule_slot \<Rightarrow> rule_slot" where
  "slot_step d b mb m (nm, bm, s) =
     (case map_of d m of
        Some t \<Rightarrow>
          if get mb t = '''' then (nm, bm, s)
          else (Some (JStr (get mb t)), Some (body_mutation t), remember nm s)
      | None \<Rightarrow>
          if map_of b m = Some True then (Some (JStr BlockBackendName), None, remember nm s)
          else (case s of Some orig \<Rightarrow> (Some (JStr orig), None, None) | None \<Rightarrow> (nm, bm, None)))"

definition pass_route ::
  "unstructured_api \<Rightarrow> saved_codec \<Rightarrow> (string, string) gomap \<Rightarrow> (string, bool) gomap \<Rightarrow>
     (string, string) gomap \<Rightarrow> string \<Rightarrow> route \<Rightarrow> route" where
  "pass_route K C d b mb key r =
     (let (r', res) = actuate_route K C d b mb key r in if rr_Changed res then r' else r)"

lemma actuate_routes_all:
  "\<forall>r. upd r = None \<Longrightarrow> fst (actuate_routes K C upd d b mb key rs out) = map (pass_route K C d b mb key) rs"
  by (induction rs arbitrary: out) (auto simp: pass_route_def Let_def split_def)

lemma actuate_routes_pass:
  assumes "\<forall>r. upd r = None" "modelBackends K (Inr rs) = Inr mb"
  shows "fst (actuateRouteControlsWithAnnotation K C nm upd None None rs d b key) = map (pass_route K C d b mb key) rs"
  using assms by (simp add: actuateRouteControlsWithAnnotation_def actuate_routes_all Let_def)

lemma cluster_pass:
  assumes "modelBackends K (Inr rs) = Inr mb"
  shows "cluster_runs K C nm key [release_pass\<lparr>ps_reroutes := d, ps_blocked := b\<rparr>] rs =
    map (pass_route K C d b mb key) rs"
  using actuate_routes_pass[OF _ assms] by (simp add: release_pass_def)

lemma modelBackends_Inr: "\<exists>mb. modelBackends K (Inr rs) = Inr mb"
  by (simp add: modelBackends_def)

context unstructured_access begin

lemma apply_rule_frame:
  assumes "apply_rule K d b mb j (saved, res) = (j', saved', res')" "\<not> routed K j \<or> json_model K j \<noteq> m"
  shows "map_of saved' m = map_of saved m"
proof (cases "routed K j")
  case False
  then show ?thesis using assms by (simp add: not_routed_apply)
next
  case True
  obtain rule b0 bs nm bm where r: "j = with_backend rule b0 bs nm bm" "RuleModel K rule \<noteq> ''''"
    "json_model K j = RuleModel K rule" "backend_view K j = Some (nm, bm)"
    by (rule routed_shape[OF True])
  from r(2,1) refl assms(1) show ?thesis
    using assms(2) True r(3) by (cases rule: apply_rule_outcomes) auto
qed

lemma apply_rules_frame:
  assumes "apply_rules K d b mb js (saved, res) = (js', saved', res')"
    and "m \<notin> json_model K ` set (filter (routed K) js)"
  shows "map_of saved' m = map_of saved m"
  using assms
proof (induction js arbitrary: saved res js')
  case (Cons j js)
  obtain k sv1 res1 where k: "apply_rule K d b mb j (saved, res) = (k, sv1, res1)" by (metis prod_cases3)
  obtain ks where ks: "apply_rules K d b mb js (sv1, res1) = (ks, saved', res')"
    using Cons.prems k by (auto split: prod.splits)
  have "map_of sv1 m = map_of saved m" using Cons.prems(2) by (intro apply_rule_frame[OF k]) auto
  then show ?case using Cons.IH[OF ks] Cons.prems(2) by (auto split: if_splits)
qed simp

lemma apply_rule_slot:
  assumes "RuleModel K rule \<noteq> ''''" "m = RuleModel K rule"
    and "apply_rule K d b mb (with_backend rule b0 bs nm bm) (saved, res) = (j', saved', res')"
    and "slot_step d b mb m (nm, bm, map_of saved m) = (nm', bm', s')"
  shows "j' = with_backend rule b0 bs nm' bm' \<and> map_of saved' m = s'"
  using assms(3)[unfolded apply_rule_routed[OF assms(1) refl assms(2)]] assms(4)
  by (auto simp: remember_def update_conv' delete_conv' split: option.splits if_splits)

lemma apply_rules_slot:
  assumes "apply_rules K d b mb js (saved, res) = (js', saved', res')" "distinct_models K js"
    and "i < length js" "js ! i = with_backend rule b0 bs nm bm" "RuleModel K rule \<noteq> ''''" "m = RuleModel K rule"
    and "slot_step d b mb m (nm, bm, map_of saved m) = (nm', bm', s')"
  shows "js' ! i = with_backend rule b0 bs nm' bm' \<and> map_of saved' m = s'"
  using assms(1-4,7)
proof (induction js arbitrary: saved res js' i)
  case (Cons j js)
  obtain k sv1 res1 where k: "apply_rule K d b mb j (saved, res) = (k, sv1, res1)" by (metis prod_cases3)
  obtain ks where ks: "apply_rules K d b mb js (sv1, res1) = (ks, saved', res')" "js' = k # ks"
    using Cons.prems(1) k by (auto split: prod.splits)
  note dm = distinct_models_Cons[OF Cons.prems(2)]
  show ?case
  proof (cases i)
    case 0
    then have j: "j = with_backend rule b0 bs nm bm" using Cons.prems(4) by simp
    have "routed K j" "json_model K j = m" using assms(5,6) by (simp_all add: j routed_def)
    then have "m \<notin> json_model K ` set (filter (routed K) js)" using dm by blast
    then show ?thesis
      using apply_rules_frame[OF ks(1)] apply_rule_slot[OF assms(5,6) k[unfolded j] Cons.prems(5)] ks(2) 0 by simp
  next
    case (Suc n)
    then have n: "n < length js" "js ! n = with_backend rule b0 bs nm bm" using Cons.prems(3,4) by simp_all
    then have "routed K (js ! n)" "json_model K (js ! n) = m" using assms(5,6) by (simp_all add: routed_def)
    then have "m \<in> json_model K ` set (filter (routed K) js)" using n(1) by force
    then have "map_of sv1 m = map_of saved m" using dm by (intro apply_rule_frame[OF k]) auto
    then show ?thesis using Cons.IH[OF ks(1) _ n] dm Cons.prems(5) ks(2) Suc by simp
  qed
qed simp

lemma apply_rules_distinct:
  assumes "apply_rules K d b mb js (saved, res) = (js', saved', res')"
  shows "length js' = length js \<and> distinct_models K js' = distinct_models K js"
proof -
  have "list_all2 (\<lambda>j j'. json_model K j' = json_model K j \<and> routed K j' = routed K j) js js'"
    by (rule list_all2_mono[OF apply_rules_settled(1)[OF assms]]) simp
  then have "length js' = length js \<and>
      map (json_model K) (filter (routed K) js') = map (json_model K) (filter (routed K) js)"
    by (induction rule: list_all2_induct) auto
  then show ?thesis by (simp add: distinct_models_def)
qed

end

context gateway begin

lemma pass_route_other_key:
  "k \<noteq> key \<Longrightarrow> saved_of C k (pass_route K C d b mb key r) = saved_of C k r"
  by (auto simp: pass_route_def actuate_route_def saved_of_def get_def Let_def split_def update_conv' delete_conv')

text \<open>The simulation: a pass steps the slot of every rule and leaves the other annotations alone.\<close>

lemma pass_route_slot:
  assumes "distinct_models K (route_rules K r)" "i < length (route_rules K r)"
    and "route_rules K r ! i = with_backend rule b0 bs nm bm" "RuleModel K rule \<noteq> ''''" "m = RuleModel K rule"
    and "slot_step d b mb m (nm, bm, map_of (saved_of C key r) m) = (nm', bm', s')"
    and "r' = pass_route K C d b mb key r"
  shows "length (route_rules K r') = length (route_rules K r) \<and> distinct_models K (route_rules K r') \<and>
    route_rules K r' ! i = with_backend rule b0 bs nm' bm' \<and> map_of (saved_of C key r') m = s'"
proof -
  obtain r1 res where a: "actuate_route K C d b mb key r = (r1, res)" by fastforce
  obtain rules' saved' where
    ap: "ApplyControls K (route_rules K r) (saved_of C key r) d b mb = (rules', saved', res)"
    and rs: "rr_Changed res \<Longrightarrow> route_rules K r1 = rules' \<and> same_lookup (saved_of C key r1) saved'"
      "\<not> rr_Changed res \<Longrightarrow> rules' = route_rules K r \<and> saved' = saved_of C key r"
    using actuate_route_rules[OF a] by metis
  have "route_rules K r' = rules' \<and> map_of (saved_of C key r') = map_of saved'"
    using rs by (auto simp: assms(7) pass_route_def a same_lookup_def)
  then show ?thesis
    using apply_rules_slot[OF ap[unfolded ApplyControls_def] assms(1-6)]
      apply_rules_distinct[OF ap[unfolded ApplyControls_def]] assms(1) by simp
qed

end

subsection \<open>Two controllers on one route\<close>

text \<open>One rule under two annotations: the slot of the first one and what the second one keeps.\<close>

context gateway begin

definition two_slots ::
  "string \<Rightarrow> string \<Rightarrow> nat \<Rightarrow> nat \<Rightarrow> (json option \<Rightarrow> json option \<Rightarrow> json) \<Rightarrow> string \<Rightarrow> route list \<Rightarrow>
     json option \<Rightarrow> json option \<Rightarrow> string option \<Rightarrow> string option \<Rightarrow> bool" where
  "two_slots k1 k2 n i shape m rs nm bm s1 s2 \<longleftrightarrow>
     n < length rs \<and> i < length (route_rules K (rs ! n)) \<and> distinct_models K (route_rules K (rs ! n)) \<and>
     route_rules K (rs ! n) ! i = shape nm bm \<and>
     map_of (saved_of C k1 (rs ! n)) m = s1 \<and> map_of (saved_of C k2 (rs ! n)) m = s2"

lemma two_slots_swap:
  "two_slots k1 k2 n i shape m rs nm bm s1 s2 \<longleftrightarrow> two_slots k2 k1 n i shape m rs nm bm s2 s1"
  by (auto simp: two_slots_def)

lemma two_slots_pass:
  assumes "two_slots k1 k2 n i (with_backend rule b0 bs) m rs nm bm s1 s2" "k1 \<noteq> k2"
    and "RuleModel K rule \<noteq> ''''" "m = RuleModel K rule" "modelBackends K (Inr rs) = Inr mb"
    and "slot_step d b mb m (nm, bm, s1) = (nm', bm', s1')"
    and "rs' = cluster_runs K C nmt k1 [release_pass\<lparr>ps_reroutes := d, ps_blocked := b\<rparr>] rs"
  shows "two_slots k1 k2 n i (with_backend rule b0 bs) m rs' nm' bm' s1' s2"
proof -
  have r: "rs' ! n = pass_route K C d b mb k1 (rs ! n)"
    using assms(1) by (simp add: assms(7) two_slots_def cluster_pass[OF assms(5)] nth_map del: cluster_runs.simps)
  have len: "length rs' = length rs" by (simp add: assms(7) cluster_pass[OF assms(5)] del: cluster_runs.simps)
  have sl: "slot_step d b mb m (nm, bm, map_of (saved_of C k1 (rs ! n)) m) = (nm', bm', s1')"
    using assms(1,6) by (simp add: two_slots_def del: slot_step.simps)
  from assms(1) have p: "distinct_models K (route_rules K (rs ! n))" "i < length (route_rules K (rs ! n))"
      "route_rules K (rs ! n) ! i = with_backend rule b0 bs nm bm" "map_of (saved_of C k2 (rs ! n)) m = s2" "n < length rs"
    unfolding two_slots_def by blast+
  show ?thesis
    using pass_route_slot[OF p(1-3) assms(3,4) sl r] p(2,4,5) pass_route_other_key[OF assms(2)[symmetric]]
    by (simp add: two_slots_def len r)
qed

lemma two_slots_controls:
  assumes "two_slots k1 k2 n i (with_backend rule b0 bs) m c0 (Some (JStr orig)) None None None" "k1 \<noteq> k2"
    and rule: "RuleModel K rule \<noteq> ''''" "m = RuleModel K rule"
    and mb: "modelBackends K (Inr c0) = Inr mb" "map_of d m = Some t" "get mb t \<noteq> ''''" "map_of b m = Some True"
    and c1: "c1 = cluster_runs K C nm k1 [release_pass\<lparr>ps_reroutes := d\<rparr>] c0"
    and c2: "c2 = cluster_runs K C nm k2 [release_pass\<lparr>ps_blocked := b\<rparr>] c1"
    and c3: "c3 = cluster_runs K C nm k1 [release_pass] c2"
    and c4: "c4 = cluster_runs K C nm k2 [release_pass] c3"
  shows "two_slots k1 k2 n i (with_backend rule b0 bs) m c2 (Some (JStr BlockBackendName)) None (Some orig) (Some (get mb t)) \<and>
    two_slots k1 k2 n i (with_backend rule b0 bs) m c3 (Some (JStr orig)) None None (Some (get mb t)) \<and>
    two_slots k1 k2 n i (with_backend rule b0 bs) m c4 (Some (JStr (get mb t))) None None None"
proof -
  have p1: "c1 = cluster_runs K C nm k1 [release_pass\<lparr>ps_reroutes := d, ps_blocked := []\<rparr>] c0"
    and p2: "c2 = cluster_runs K C nm k2 [release_pass\<lparr>ps_reroutes := [], ps_blocked := b\<rparr>] c1"
    and p3: "c3 = cluster_runs K C nm k1 [release_pass\<lparr>ps_reroutes := [], ps_blocked := []\<rparr>] c2"
    and p4: "c4 = cluster_runs K C nm k2 [release_pass\<lparr>ps_reroutes := [], ps_blocked := []\<rparr>] c3"
    by (simp_all add: c1 c2 c3 c4 release_pass_def del: cluster_runs.simps)
  obtain mb1 mb2 mb3 where m: "modelBackends K (Inr c1) = Inr mb1" "modelBackends K (Inr c2) = Inr mb2"
      "modelBackends K (Inr c3) = Inr mb3"
    using modelBackends_Inr by blast
  have s1: "two_slots k1 k2 n i (with_backend rule b0 bs) m c1 (Some (JStr (get mb t))) (Some (body_mutation t)) (Some orig) None"
    by (rule two_slots_pass[OF assms(1,2) rule mb(1) _ p1])
       (simp add: mb remember_def)
  have s2: "two_slots k2 k1 n i (with_backend rule b0 bs) m c2 (Some (JStr BlockBackendName)) None (Some (get mb t)) (Some orig)"
    by (rule two_slots_pass[OF s1[unfolded two_slots_swap[of k1]] assms(2)[symmetric] rule m(1) _ p2])
       (simp add: mb remember_def)
  have s3: "two_slots k1 k2 n i (with_backend rule b0 bs) m c3 (Some (JStr orig)) None None (Some (get mb t))"
    by (rule two_slots_pass[OF s2[unfolded two_slots_swap[of k2]] assms(2) rule m(2) _ p3]) simp
  have s4: "two_slots k2 k1 n i (with_backend rule b0 bs) m c4 (Some (JStr (get mb t))) None None None"
    by (rule two_slots_pass[OF s3[unfolded two_slots_swap[of k1]] assms(2)[symmetric] rule m(3) _ p4]) simp
  show ?thesis using s2 s3 s4 two_slots_swap by blast
qed

end

text \<open>
  C21: Two controllers on one route do not compose, since each keeps its own saved originals. Take any two
  annotations, any route whose rules route distinct models, and a rule of it with a named backend and no body
  mutation, for whose model neither annotation keeps an original. When the first controller reroutes
  the model to a target that has a backend and the second then blocks it, the rule is on the absent backend;
  the release pass of the first puts the rule back on its original backend although the
  second's block is still recorded; and the release pass of the second leaves the rule on
  the backend of the first one's target although no original is recorded any more. All passes' calls succeed.
\<close>

theorem interplay_of_two_controllers:
  assumes "gateway K C" "key1 \<noteq> key2"
    and "n < length c0" "i < length (route_rules K (c0 ! n))" "distinct_models K (route_rules K (c0 ! n))"
    and "rule = route_rules K (c0 ! n) ! i" "routed K rule" "plain_rule K rule" "m = json_model K rule"
    and "map_of (saved_of C key1 (c0 ! n)) m = None" "map_of (saved_of C key2 (c0 ! n)) m = None"
    and "modelBackends K (Inr c0) = Inr mb" "map_of d m = Some t" "get mb t \<noteq> ''''" "map_of b m = Some True"
    and "c1 = cluster_runs K C IsNoMatch key1 [release_pass\<lparr>ps_reroutes := d\<rparr>] c0"
    and "c2 = cluster_runs K C IsNoMatch key2 [release_pass\<lparr>ps_blocked := b\<rparr>] c1"
    and "c3 = cluster_runs K C IsNoMatch key1 [release_pass] c2"
    and "c4 = cluster_runs K C IsNoMatch key2 [release_pass] c3"
  shows "backend_view K (route_rules K (c2 ! n) ! i) = Some (Some (JStr BlockBackendName), None) \<and>
    route_rules K (c3 ! n) ! i = rule \<and> map_of (saved_of C key2 (c3 ! n)) m = Some (get mb t) \<and>
    backend_view K (route_rules K (c4 ! n) ! i) = Some (Some (JStr (get mb t)), None) \<and>
    map_of (saved_of C key1 (c4 ! n)) m = None \<and> map_of (saved_of C key2 (c4 ! n)) m = None"
proof -
  have U: "unstructured_access K" using assms(1) by (simp add: gateway_def)
  obtain rl b0 bs orig where r: "rule = with_backend rl b0 bs (Some (JStr orig)) None"
      "RuleModel K rl \<noteq> ''''" "m = RuleModel K rl"
    using unstructured_access.plain_routed_cases[OF U assms(7,8)] assms(9) by metis
  have "gateway.two_slots K C key1 key2 n i (with_backend rl b0 bs) m c0 (Some (JStr orig)) None None None"
    using assms(3-6,10,11) r(1) by (simp add: gateway.two_slots_def[OF assms(1)])
  from gateway.two_slots_controls[OF assms(1) this assms(2) r(2,3) assms(12-19)] show ?thesis
    by (simp add: gateway.two_slots_def[OF assms(1)] r(1) unstructured_access.backend_view_with_backend[OF U])
qed

definition interplay_route :: route where
  "interplay_route = example_route [example_rule ''us'' ''us-be'', example_rule ''eu'' ''eu-be'']"

text \<open>The budget fallback reroutes, sovereignty blocks, the fallback ends, the policy ends.\<close>

definition interplay_1 :: "route list" where
  "interplay_1 = cluster_runs json_api example_codec (\<lambda>e. False) budgetRerouteAnnotation
     [release_pass\<lparr>ps_reroutes := [(''us'', ''eu'')]\<rparr>] [interplay_route]"

definition interplay_2 :: "route list" where
  "interplay_2 = cluster_runs json_api example_codec (\<lambda>e. False) sovereigntyRerouteAnnotation
     [release_pass\<lparr>ps_blocked := [(''us'', True)]\<rparr>] interplay_1"

definition interplay_3 :: "route list" where
  "interplay_3 = cluster_runs json_api example_codec (\<lambda>e. False) budgetRerouteAnnotation
     [release_pass] interplay_2"

definition interplay_4 :: "route list" where
  "interplay_4 = cluster_runs json_api example_codec (\<lambda>e. False) sovereigntyRerouteAnnotation
     [release_pass] interplay_3"

theorem interplay_of_two_controllers_witness:
  "backend_view json_api (route_rules json_api (interplay_2 ! 0) ! 0) = Some (Some (JStr BlockBackendName), None) \<and>
   route_rules json_api (interplay_3 ! 0) ! 0 = example_rule ''us'' ''us-be'' \<and>
   map_of (saved_of example_codec sovereigntyRerouteAnnotation (interplay_3 ! 0)) ''us'' = Some ''eu-be'' \<and>
   backend_view json_api (route_rules json_api (interplay_4 ! 0) ! 0) = Some (Some (JStr ''eu-be''), None) \<and>
   map_of (saved_of example_codec budgetRerouteAnnotation (interplay_4 ! 0)) ''us'' = None \<and>
   map_of (saved_of example_codec sovereigntyRerouteAnnotation (interplay_4 ! 0)) ''us'' = None"
proof -
  have mb: "modelBackends json_api (Inr [interplay_route]) = Inr [(''us'', ''us-be''), (''eu'', ''eu-be'')]"
    by (simp add: modelBackends_def interplay_route_def json_api.backend_step_cases BlockBackendName_def)
  have keys: "budgetRerouteAnnotation \<noteq> sovereigntyRerouteAnnotation"
    by (simp add: budgetRerouteAnnotation_def sovereigntyRerouteAnnotation_def)
  have rules: "route_rules json_api interplay_route = [example_rule ''us'' ''us-be'', example_rule ''eu'' ''eu-be'']"
      "saved_of example_codec k interplay_route = []" for k
    by (simp_all add: interplay_route_def)
  have side: "distinct_models json_api (route_rules json_api ([interplay_route] ! 0))"
      "plain_rule json_api (example_rule ''us'' ''us-be'')" "routed json_api (example_rule ''us'' ''us-be'')"
      "get [(''us'', ''us-be''), (''eu'', ''eu-be'')] ''eu'' = ''eu-be''"
    by (simp_all add: rules distinct_models_def plain_rule_def get_def)
  have at: "0 < length [interplay_route]" "0 < length (route_rules json_api ([interplay_route] ! 0))"
      "example_rule ''us'' ''us-be'' = route_rules json_api ([interplay_route] ! 0) ! 0"
      "''us'' = json_model json_api (example_rule ''us'' ''us-be'')"
      "map_of (saved_of example_codec budgetRerouteAnnotation ([interplay_route] ! 0)) ''us'' = None"
      "map_of (saved_of example_codec sovereigntyRerouteAnnotation ([interplay_route] ! 0)) ''us'' = None"
      "map_of [(''us'', ''eu'')] ''us'' = Some ''eu''" "map_of [(''us'', True)] ''us'' = Some True"
      "get [(''us'', ''us-be''), (''eu'', ''eu-be'')] ''eu'' \<noteq> ''''"
    by (simp_all add: rules side(4))
  show ?thesis
    by (rule interplay_of_two_controllers[OF example_gateway.gateway_axioms keys at(1,2) side(1) at(3) side(3,2) at(4,5,6)
      mb at(7,9,8) interplay_1_def interplay_2_def interplay_3_def interplay_4_def, unfolded side(4)])
qed

subsection \<open>A pass after any history\<close>

text \<open>
  A rule and what it is after a pass with reroutes only: the rule of a wanted model leads to its
  target, every other rule is the original.
\<close>

definition only_rerouted ::
  "unstructured_api \<Rightarrow> (string, string) gomap \<Rightarrow> (string, string) gomap \<Rightarrow> json \<Rightarrow> json \<Rightarrow> bool" where
  "only_rerouted K d mb j0 j \<longleftrightarrow>
     json_model K j = json_model K j0 \<and>
     (case (if routed K j0 then map_of d (json_model K j0) else None) of
        None \<Rightarrow> j = j0
      | Some t \<Rightarrow> get mb t = '''' \<or> backend_view K j = Some (Some (JStr (get mb t)), Some (body_mutation t)))"

context gateway begin

lemma tracked_settled:
  assumes "tracked K saved j0 j" "plain_rule K j0" "settled K d [] mb saved j"
  shows "only_rerouted K d mb j0 j"
proof (cases "routed K j0")
  case False
  then show ?thesis using assms(1) by (simp add: only_rerouted_def tracked_def)
next
  case True
  obtain rule b0 bs orig nm bm where r:
    "j0 = with_backend rule b0 bs (Some (JStr orig)) None" "j = with_backend rule b0 bs nm bm"
    "RuleModel K rule \<noteq> ''''" "json_model K j0 = RuleModel K rule"
    "map_of saved (RuleModel K rule) = None \<Longrightarrow> nm = Some (JStr orig) \<and> bm = None"
    using tracked_cases[OF assms(1) True assms(2)] by metis
  have j: "routed K j" "json_model K j = RuleModel K rule" using r(2,3) by (simp_all add: routed_def)
  show ?thesis
    using assms(3) j r True by (auto simp: only_rerouted_def settled_def split: option.splits)
qed

lemma pass_route_only:
  assumes "route_tracked key r0 r" "distinct_models K (route_rules K r0)" "\<forall>j \<in> set (route_rules K r0). plain_rule K j"
  shows "list_all2 (only_rerouted K d mb) (route_rules K r0) (route_rules K (pass_route K C d [] mb key r))"
proof -
  obtain r' res where a: "actuate_route K C d [] mb key r = (r', res)" by fastforce
  obtain rules' saved' where
    ap: "ApplyControls K (route_rules K r) (saved_of C key r) d [] mb = (rules', saved', res)"
    and rs: "rr_Changed res \<Longrightarrow> route_rules K r' = rules' \<and> same_lookup (saved_of C key r') saved'"
      "\<not> rr_Changed res \<Longrightarrow> rules' = route_rules K r \<and> saved' = saved_of C key r"
    using actuate_route_rules[OF a] by metis
  have t: "list_all2 (tracked K saved') (route_rules K r0) rules'"
    using assms ap apply_rules_tracked[of "saved_of C key r" "route_rules K r0" "route_rules K r"]
    by (auto simp: route_tracked_def ApplyControls_def)
  have s: "\<forall>j \<in> set rules'. settled K d [] mb saved' j"
    using apply_rules_settled(1)[OF ap[unfolded ApplyControls_def]]
    unfolding list_all2_conv_all_nth by (auto simp: in_set_conv_nth)
  have "list_all2 (only_rerouted K d mb) (route_rules K r0) rules'"
    by (rule list.rel_mono_strong[OF t]) (use s assms(3) tracked_settled in blast)
  then show ?thesis using rs by (auto simp: pass_route_def a)
qed

lemma pass_after_history:
  assumes "\<forall>r \<in> set rs. distinct_models K (route_rules K r) \<and> (\<forall>j \<in> set (route_rules K r). plain_rule K j) \<and>
      saved_of C key r = []"
    and "rs' = cluster_runs K C nm key ps rs" "modelBackends K (Inr rs') = Inr mb" "\<forall>r. upd r = None"
  shows "list_all2 (\<lambda>r0 r. list_all2 (only_rerouted K d mb) (route_rules K r0) (route_rules K r)) rs
    (fst (actuateRouteControlsWithAnnotation K C nm' upd None None rs' d [] key))"
proof -
  have "list_all2 (route_tracked key) rs rs"
    using assms(1) tracked_start by (intro list.rel_refl_strong) (simp add: route_tracked_def saved_inside_def)
  then have "list_all2 (route_tracked key) rs rs'"
    using cluster_runs_tracked assms(1,2) by simp
  then have "list_all2 (\<lambda>r0 r. list_all2 (only_rerouted K d mb) (route_rules K r0) (route_rules K r)) rs
      (map (pass_route K C d [] mb key) rs')"
    unfolding list.rel_map by (rule list.rel_mono_strong) (use assms(1) pass_route_only in blast)
  then show ?thesis by (simp add: actuate_routes_pass[OF assms(4,3)])
qed

end

end
