(* ===== verification/Apitypes.thy ===== *)
theory Apitypes
  imports GoStrings
begin

section \<open>API objects (api/v1alpha1)\<close>

text \<open>
  The custom resources that the controllers read and write, as records of the fields the modelled
  code uses: metadata keeps name, namespace, UID and generation where they matter. A
  \<open>resource.Quantity\<close> is its canonical text, and its conversion to float64 or to integer units
  is an argument of the functions that use it. A time is a number of nanoseconds.
\<close>

type_synonym quantity = string
type_synonym time = int

subsection \<open>Providers\<close>

definition ProviderPricingUnknown :: string where "ProviderPricingUnknown = ''unknown''"
definition ProviderPricingPartial :: string where "ProviderPricingPartial = ''partial''"
definition ProviderPricingComplete :: string where "ProviderPricingComplete = ''complete''"

definition ProviderBasisInputTokens :: string where "ProviderBasisInputTokens = ''input_tokens''"
definition ProviderBasisCachedInputTokens :: string where "ProviderBasisCachedInputTokens = ''cached_input_tokens''"
definition ProviderBasisOutputTokens :: string where "ProviderBasisOutputTokens = ''output_tokens''"
definition ProviderBasisReasoningTokens :: string where "ProviderBasisReasoningTokens = ''reasoning_tokens''"
definition ProviderBasisRequest :: string where "ProviderBasisRequest = ''request''"
definition ProviderBasisToolCall :: string where "ProviderBasisToolCall = ''tool_call''"
definition ProviderBasisMediaUnit :: string where "ProviderBasisMediaUnit = ''media_unit''"
definition ProviderBasisBillableSecond :: string where "ProviderBasisBillableSecond = ''billable_second''"
definition ProviderBasisCancellation :: string where "ProviderBasisCancellation = ''cancellation''"
definition ProviderBasisRetryAttempt :: string where "ProviderBasisRetryAttempt = ''retry_attempt''"

definition ProviderChargeAlways :: string where "ProviderChargeAlways = ''always''"
definition ProviderChargeRequestDeclared :: string where "ProviderChargeRequestDeclared = ''request_declared''"
definition ProviderChargeProviderResponse :: string where "ProviderChargeProviderResponse = ''provider_response''"

definition ProviderEvidenceCatalog :: string where "ProviderEvidenceCatalog = ''provider_catalog''"
definition ProviderEvidenceAPI :: string where "ProviderEvidenceAPI = ''provider_api''"
definition ProviderEvidenceAdminAttested :: string where "ProviderEvidenceAdminAttested = ''admin_attested''"

record ProviderBillableCharge =
  bc_Basis :: string
  bc_Applicability :: string
  bc_Price :: quantity
  bc_UnitDenominator :: int64
  bc_SettlementUsageField :: string
  bc_IncludedIn :: "string option"
  bc_MaximumQuantity :: "int64 option"
  bc_RequestBoundField :: string
  bc_DisjointUsage :: bool

record AIProviderPricingEvidenceSpec =
  ev_Mode :: string
  ev_SourceVersion :: string
  ev_EvidenceSHA256 :: string
  ev_ValidUntil :: time
  ev_AdapterVersion :: string

record AIProviderGOVARPricingSpec =
  gp_Evidence :: AIProviderPricingEvidenceSpec
  gp_Charges :: "ProviderBillableCharge list"
  gp_InapplicableBases :: "string list"

record ProviderBillableCategory =
  pc_Name :: string
  pc_Unit :: string
  pc_Price :: quantity

record ProviderPricing =
  pp_Currency :: string
  pp_InputTokenPricePerMillion :: quantity
  pp_OutputTokenPricePerMillion :: quantity
  pp_FixedMonthlyCost :: "quantity option"
  pp_Version :: string
  pp_ObservedAt :: "time option"
  pp_Completeness :: string
  pp_BillableCategories :: "ProviderBillableCategory list"

record ProviderCompliance =
  pl_AllowedForSensitiveData :: bool
  pl_AllowedCountries :: "string list"

record AIProviderGatewayRouteBinding =
  rb_Name :: string
  rb_ProviderDeployment :: string
  rb_Cluster :: string
  rb_Authority :: string
  rb_PathMode :: string

record AIProviderGOVARSpec =
  pg_GatewayRoutes :: "AIProviderGatewayRouteBinding list"
  pg_Pricing :: "AIProviderGOVARPricingSpec option"

record AIProviderSpec =
  ps_Type :: string
  ps_Region :: string
  ps_DataResidency :: string
  ps_Managed :: bool
  ps_Pricing :: ProviderPricing
  ps_Compliance :: ProviderCompliance
  ps_GOVAR :: "AIProviderGOVARSpec option"

record AIProvider =
  prov_Name :: string
  prov_UID :: string
  prov_Generation :: int64
  prov_Spec :: AIProviderSpec

subsection \<open>Models\<close>

definition TierLow :: string where "TierLow = ''low''"
definition TierMedium :: string where "TierMedium = ''medium''"
definition TierHigh :: string where "TierHigh = ''high''"

record AIModelRouteSpec =
  mr_ProviderDeployment :: string
  mr_Cluster :: string
  mr_Authority :: string
  mr_PathMode :: string

record AIModelOutputCapEvidenceSpec =
  oc_MaxOutputTokens :: int64
  oc_RequestParameter :: string
  oc_EnforcedByPathAdapter :: bool
  oc_Mode :: string
  oc_SourceVersion :: string
  oc_EvidenceSHA256 :: string
  oc_ValidUntil :: time
  oc_CapabilityAdapterVersion :: string

record AIModelGOVARSpec =
  mg_Routable :: bool
  mg_RouteBindingRef :: string
  mg_Route :: "AIModelRouteSpec option"
  mg_OutputCapEvidence :: "AIModelOutputCapEvidenceSpec option"

record AIModelSpec =
  ms_ProviderRef :: string
  ms_ModelName :: string
  ms_Type :: string
  ms_ContextWindow :: int32
  ms_QualityTier :: string
  ms_CostTier :: string
  ms_SensitiveDataAllowed :: bool
  ms_ServesNamespace :: string
  ms_ServesApplication :: string
  ms_ServesTeam :: string
  ms_GOVAR :: "AIModelGOVARSpec option"

record AIModel =
  model_Name :: string
  model_Spec :: AIModelSpec

subsection \<open>Policies\<close>

record BudgetTarget =
  bt_Namespace :: string
  bt_Team :: string
  bt_Application :: string

record BudgetActions =
  ba_OnWarning :: "string list"
  ba_OnCritical :: "string list"
  ba_OnHardLimit :: "string list"

definition BudgetFallbackOnCritical :: string where "BudgetFallbackOnCritical = ''Critical''"
definition BudgetFallbackOnExceeded :: string where "BudgetFallbackOnExceeded = ''Exceeded''"

definition EnforcementReportOnly :: string where "EnforcementReportOnly = ''reportOnly''"
definition EnforcementWarn :: string where "EnforcementWarn = ''warn''"
definition EnforcementEnforce :: string where "EnforcementEnforce = ''enforce''"

record AIBudgetPolicySpec =
  bp_Target :: BudgetTarget
  bp_Period :: string
  bp_BudgetEUR :: quantity
  bp_WarningThresholdPercent :: int32
  bp_CriticalThresholdPercent :: int32
  bp_HardLimitPercent :: int32
  bp_Actions :: BudgetActions
  bp_FallbackModelRef :: string
  bp_EnforcementMode :: string
  bp_FallbackOnPhase :: string
  bp_MaxFallbackLatencyMillis :: int32
  bp_MaxFallbackErrorPercent :: int32
  bp_MinFallbackQualityTier :: string

record DataResidencyRule =
  dr_AllowedZones :: "string list"
  dr_ForbiddenZones :: "string list"

record SensitiveDataRule =
  sd_ExternalProvidersAllowed :: bool
  sd_RequireAnonymization :: bool

record AuditRule =
  au_RetainLogsDays :: int32
  au_ImmutableLogs :: bool

record AISovereigntyPolicySpec =
  sp_DataResidency :: DataResidencyRule
  sp_SensitiveData :: SensitiveDataRule
  sp_Audit :: AuditRule
  sp_EnforcementMode :: string

subsection \<open>Conditions\<close>

definition ConditionReady :: string where "ConditionReady = ''Ready''"
definition ReasonReconciled :: string where "ReasonReconciled = ''Reconciled''"
definition ReasonReconcileError :: string where "ReasonReconcileError = ''ReconcileError''"
definition ReasonValidationFailed :: string where "ReasonValidationFailed = ''ValidationFailed''"
definition ReasonReferenceNotFound :: string where "ReasonReferenceNotFound = ''ReferenceNotFound''"
definition ReasonReportGenerated :: string where "ReasonReportGenerated = ''ReportGenerated''"
definition ReasonNoTelemetry :: string where "ReasonNoTelemetry = ''NoTelemetrySource''"

text \<open>The status of a condition is \<open>metav1.ConditionTrue\<close> or \<open>ConditionFalse\<close>.\<close>

record Condition =
  cond_Type :: string
  cond_Status :: bool
  cond_Reason :: string
  cond_Message :: string
  cond_ObservedGeneration :: int64

definition readyCondition :: "int64 \<Rightarrow> bool \<Rightarrow> string \<Rightarrow> string \<Rightarrow> Condition" where
  "readyCondition generation status reason message =
     \<lparr>cond_Type = ConditionReady, cond_Status = status, cond_Reason = reason,
      cond_Message = message, cond_ObservedGeneration = generation\<rparr>"

definition readyTrue :: "int64 \<Rightarrow> string \<Rightarrow> Condition" where
  "readyTrue generation message = readyCondition generation True ReasonReconciled message"

definition readyFalse :: "int64 \<Rightarrow> string \<Rightarrow> string \<Rightarrow> Condition" where
  "readyFalse generation reason message = readyCondition generation False reason message"

end
