(* ===== verification/Controllercatalog.thy ===== *)
theory Controllercatalog
  imports Apitypes Catalog Routingscore
begin

section \<open>The cluster's catalog (internal/controller/catalog.go)\<close>

text \<open>
  Providers and models of a namespace, the price book and the zones they give over the built-in
  defaults, the flows for the sovereignty engine, the sample filters and the reroute target. The
  value of a quantity as a float64 (\<open>AsApproximateFloat64\<close>) is the argument \<open>qf\<close>.
\<close>

record catalog =
  cat_providers :: "(string, AIProvider) gomap"
  cat_models :: "AIModel list"

definition loadCatalog :: "AIProvider list result \<Rightarrow> AIModel list result \<Rightarrow> catalog result" where
  "loadCatalog provList modelList =
     (case provList of
        Inl e \<Rightarrow> Inl e
      | Inr provs \<Rightarrow>
          (case modelList of
             Inl e \<Rightarrow> Inl e
           | Inr models \<Rightarrow>
               Inr \<lparr>cat_providers = fold (\<lambda>p. AList.update (prov_Name p) p) provs [],
                    cat_models = models\<rparr>))"

definition orDefault :: "string \<Rightarrow> string \<Rightarrow> string" where
  "orDefault v d = (if v = '''' then d else v)"

definition provider_of :: "catalog \<Rightarrow> string \<Rightarrow> AIProvider option" where
  "provider_of cat ref = map_of (cat_providers cat) ref"

definition provider_pricing :: "(quantity \<Rightarrow> f64) \<Rightarrow> AIProvider \<Rightarrow> TokenPricing" where
  "provider_pricing qf prov =
     (let p = ps_Pricing (prov_Spec prov)
      in \<lparr>tp_Currency = orDefault (pp_Currency p) ''EUR'',
          tp_InputPerMillion = qf (pp_InputTokenPricePerMillion p),
          tp_OutputPerMillion = qf (pp_OutputTokenPricePerMillion p)\<rparr>)"

definition overlay_price ::
  "(quantity \<Rightarrow> f64) \<Rightarrow> catalog \<Rightarrow> AIModel \<Rightarrow> (string, TokenPricing) gomap \<Rightarrow> (string, TokenPricing) gomap" where
  "overlay_price qf cat m pb =
     (case provider_of cat (ms_ProviderRef (model_Spec m)) of
        None \<Rightarrow> pb
      | Some prov \<Rightarrow> AList.update (ms_ModelName (model_Spec m)) (provider_pricing qf prov) pb)"

definition priceBook :: "(quantity \<Rightarrow> f64) \<Rightarrow> catalog \<Rightarrow> (string, TokenPricing) gomap" where
  "priceBook qf cat = fold (overlay_price qf cat) (cat_models cat) DefaultPriceBook"

text \<open>The model list scanned by \<open>zoneForModel\<close>: the first entry of the name with a known provider.\<close>

fun zone_scan :: "catalog \<Rightarrow> string \<Rightarrow> AIModel list \<Rightarrow> string option" where
  "zone_scan cat modelName [] = None"
| "zone_scan cat modelName (m # ms) =
     (if ms_ModelName (model_Spec m) \<noteq> modelName then zone_scan cat modelName ms
      else case provider_of cat (ms_ProviderRef (model_Spec m)) of
             Some prov \<Rightarrow> Some (NormalizeZone (ps_DataResidency (prov_Spec prov)))
           | None \<Rightarrow> zone_scan cat modelName ms)"

definition zoneForModel :: "catalog \<Rightarrow> string \<Rightarrow> string" where
  "zoneForModel cat modelName =
     (case zone_scan cat modelName (cat_models cat) of
        Some z \<Rightarrow> z | None \<Rightarrow> ZoneForModel modelName)"

definition model_info :: "Policy option \<Rightarrow> string \<Rightarrow> string \<Rightarrow> ModelInfo" where
  "model_info pe tier zone =
     \<lparr>mi_QualityTier = tier, mi_SovereigntyChecked = True,
      mi_SovereigntyCompliant = (case pe of None \<Rightarrow> True | Some p \<Rightarrow> IsZoneAllowed p zone)\<rparr>"

definition routingModelInfo :: "catalog \<Rightarrow> Policy option \<Rightarrow> (string, ModelInfo) gomap" where
  "routingModelInfo cat pe =
     fold (\<lambda>m. AList.update (ms_ModelName (model_Spec m))
             (model_info pe (ms_QualityTier (model_Spec m)) (zoneForModel cat (ms_ModelName (model_Spec m)))))
       (cat_models cat)
       (fold (\<lambda>name. AList.update name (model_info pe '''' (ZoneForModel name))) AllModelNames [])"

definition unknown_step :: "catalog \<Rightarrow> UsageSample \<Rightarrow> string list \<times> string list \<Rightarrow> string list \<times> string list" where
  "unknown_step cat s st =
     (let (seen, out) = st
      in if us_Model s = '''' \<or> us_Model s \<in> set seen then st
         else if us_Model s \<in> (\<lambda>m. ms_ModelName (model_Spec m)) ` set (cat_models cat) \<or> Known (us_Model s)
              then (us_Model s # seen, out)
              else (us_Model s # seen, out @ [us_Model s]))"

definition unknownModels :: "catalog \<Rightarrow> UsageSample list \<Rightarrow> string list" where
  "unknownModels cat samples = snd (fold (unknown_step cat) samples ([], []))"

definition modelByName :: "catalog \<Rightarrow> string \<Rightarrow> AIModel option" where
  "modelByName cat name = find (\<lambda>m. model_Name m = name) (cat_models cat)"

text \<open>
  The reroute target. Go ranges over the price book in an unspecified order: the entries come
  in the order \<open>entries\<close>.
\<close>

definition cheapest_step ::
  "catalog \<Rightarrow> Policy \<Rightarrow> string \<times> TokenPricing \<Rightarrow> string \<times> f64 \<Rightarrow> string \<times> f64" where
  "cheapest_step cat pe np st =
     (let (name, p) = np; (best, bestPrice) = st
      in if \<not> IsZoneAllowed pe (zoneForModel cat name) then st
         else let price = fadd (tp_InputPerMillion p) (tp_OutputPerMillion p)
              in if flt price bestPrice then (name, price) else st)"

definition cheapestCompliantModelName ::
  "catalog \<Rightarrow> Policy \<Rightarrow> (string \<times> TokenPricing) list \<Rightarrow> string" where
  "cheapestCompliantModelName cat pe entries =
     fst (fold (cheapest_step cat pe) entries ('''', MaxFloat64))"

definition providerFixedMonthly :: "(quantity \<Rightarrow> f64) \<Rightarrow> catalog \<Rightarrow> string \<Rightarrow> f64" where
  "providerFixedMonthly qf cat providerRef =
     (case provider_of cat providerRef of
        None \<Rightarrow> Fin 0
      | Some p \<Rightarrow> (case pp_FixedMonthlyCost (ps_Pricing (prov_Spec p)) of
                     None \<Rightarrow> Fin 0 | Some q \<Rightarrow> qf q))"

definition filterByNamespace :: "UsageSample list \<Rightarrow> string \<Rightarrow> UsageSample list" where
  "filterByNamespace samples namespace =
     (if namespace = '''' then samples else filter (\<lambda>s. us_Namespace s = namespace) samples)"

definition target_match :: "UsageSample \<Rightarrow> BudgetTarget \<Rightarrow> bool" where
  "target_match s t \<longleftrightarrow>
     \<not> (bt_Namespace t \<noteq> '''' \<and> us_Namespace s \<noteq> bt_Namespace t) \<and>
     \<not> (bt_Team t \<noteq> '''' \<and> us_Team s \<noteq> bt_Team t) \<and>
     \<not> (bt_Application t \<noteq> '''' \<and> us_Application s \<noteq> bt_Application t)"

definition filterByBudgetTarget :: "UsageSample list \<Rightarrow> BudgetTarget \<Rightarrow> UsageSample list" where
  "filterByBudgetTarget samples t = filter (\<lambda>s. target_match s t) samples"

definition modelSensitivity :: "catalog \<Rightarrow> string \<Rightarrow> bool \<times> bool" where
  "modelSensitivity cat modelName =
     (case find (\<lambda>m. ms_ModelName (model_Spec m) = modelName) (cat_models cat) of
        Some m \<Rightarrow> (ms_SensitiveDataAllowed (model_Spec m), True) | None \<Rightarrow> (False, False))"

text \<open>The body of the loop of \<open>flows\<close>: \<open>None\<close> is \<open>continue\<close>.\<close>

definition flow_of :: "catalog \<Rightarrow> UsageSample \<Rightarrow> Flow option" where
  "flow_of cat s =
     (let fl = \<lparr>fl_Namespace = us_Namespace s, fl_Application = us_Application s,
                fl_Model = us_Model s, fl_Provider = us_Provider s, fl_Zone = '''',
                fl_Managed = False, fl_ProviderAllowsSensitive = False,
                fl_ModelAllowsSensitive = False, fl_Requests = us_Requests s\<rparr>;
          fl = (case provider_of cat (us_Provider s) of
                  Some p \<Rightarrow> fl\<lparr>fl_Zone := ps_DataResidency (prov_Spec p),
                    fl_Managed := ps_Managed (prov_Spec p),
                    fl_ProviderAllowsSensitive := pl_AllowedForSensitiveData (ps_Compliance (prov_Spec p))\<rparr>
                | None \<Rightarrow> fl);
          fl = (if NormalizeZone (fl_Zone fl) = '''' then
                  let dz = ZoneForModel (us_Model s)
                  in if dz \<noteq> '''' then
                       let fl = fl\<lparr>fl_Zone := dz, fl_Managed := True\<rparr>
                       in if fl_Provider fl = '''' then fl\<lparr>fl_Provider := ProviderForModel (us_Model s)\<rparr> else fl
                     else fl
                else fl)
      in if NormalizeZone (fl_Zone fl) = '''' \<and> us_Provider s = '''' then None
         else Some (fl\<lparr>fl_ModelAllowsSensitive := fst (modelSensitivity cat (us_Model s))\<rparr>))"

definition flows :: "catalog \<Rightarrow> UsageSample list \<Rightarrow> Flow list" where
  "flows cat samples = List.map_filter (flow_of cat) samples"

definition avgDaysPerMonth :: rat where "avgDaysPerMonth = 304375 / 10000"

definition monthlyFactor :: "string \<Rightarrow> f64" where
  "monthlyFactor period =
     (if period = ''daily'' then flit avgDaysPerMonth
      else if period = ''weekly'' then flit (avgDaysPerMonth / 7)
      else Fin 1)"

subsection \<open>Prices\<close>

lemma map_of_priceBook_fold:
  "map_of (fold (overlay_price qf cat) ms pb) n =
     (case find (\<lambda>m. ms_ModelName (model_Spec m) = n \<and>
          provider_of cat (ms_ProviderRef (model_Spec m)) \<noteq> None) (rev ms) of
        Some m \<Rightarrow> map_option (provider_pricing qf) (provider_of cat (ms_ProviderRef (model_Spec m)))
      | None \<Rightarrow> map_of pb n)"
proof (induction ms arbitrary: pb rule: rev_induct)
  case Nil
  then show ?case by simp
next
  case (snoc m ms)
  then show ?case by (auto simp: overlay_price_def update_conv' split: option.splits)
qed

text \<open>
  A model's price is the cluster's own before the default: it is that of the provider of the
  last model of that name whose provider exists, and only when there is none the built-in price of
  exactly this id, if there is one.
\<close>

theorem priceBook_lookup:
  "map_of (priceBook qf cat) n =
     (case find (\<lambda>m. ms_ModelName (model_Spec m) = n \<and>
          provider_of cat (ms_ProviderRef (model_Spec m)) \<noteq> None) (rev (cat_models cat)) of
        Some m \<Rightarrow> map_option (provider_pricing qf) (provider_of cat (ms_ProviderRef (model_Spec m)))
      | None \<Rightarrow> if n \<in> set AllModelNames then PriceForModel n else None)"
  by (simp add: priceBook_def map_of_priceBook_fold map_of_DefaultPriceBook AllModelNames_def
      split: option.splits)

lemma distinct_priceBook: "distinct (map fst (priceBook qf cat))"
proof -
  have "distinct (map fst (fold (overlay_price qf cat) ms DefaultPriceBook))" for ms
    by (induction ms rule: rev_induct)
       (auto simp: overlay_price_def distinct_update distinct_DefaultPriceBook split: option.splits)
  then show ?thesis by (simp add: priceBook_def)
qed

subsection \<open>The reroute target\<close>

definition entry_price :: "string \<times> TokenPricing \<Rightarrow> f64" where
  "entry_price np = fadd (tp_InputPerMillion (snd np)) (tp_OutputPerMillion (snd np))"

lemma cheapest_step_eq:
  "cheapest_step cat pe np st =
     (if IsZoneAllowed pe (zoneForModel cat (fst np)) \<and> flt (entry_price np) (snd st)
      then (fst np, entry_price np) else st)"
  by (auto simp: cheapest_step_def entry_price_def Let_def split: prod.splits)

lemma fold_cheapest_step:
  assumes "r = fold (cheapest_step cat pe) es st" "snd st \<noteq> NaN"
  shows "fle (snd r) (snd st) \<and>
    (r = st \<or> (\<exists>e \<in> set es. IsZoneAllowed pe (zoneForModel cat (fst e)) \<and> r = (fst e, entry_price e) \<and>
       flt (entry_price e) (snd st))) \<and>
    (\<forall>e \<in> set es. IsZoneAllowed pe (zoneForModel cat (fst e)) \<longrightarrow> \<not> flt (entry_price e) (snd r))"
  using assms
proof (induction es arbitrary: st)
  case Nil
  then show ?case by simp
next
  case (Cons e es)
  let ?st = "cheapest_step cat pe e st"
  have le: "fle (snd ?st) (snd st)" and n: "snd ?st \<noteq> NaN"
    using Cons.prems(2) by (auto simp: cheapest_step_eq flt_imp_fle dest: flt_imp_not_NaN)
  have r: "r = fold (cheapest_step cat pe) es ?st" using Cons.prems(1) by simp
  note IH = Cons.IH[OF r n]
  have rst: "fle (snd r) (snd ?st)" using IH by blast
  have "IsZoneAllowed pe (zoneForModel cat (fst e)) \<longrightarrow> \<not> flt (entry_price e) (snd ?st)"
    by (simp add: cheapest_step_eq)
  then have 1: "IsZoneAllowed pe (zoneForModel cat (fst e)) \<longrightarrow> \<not> flt (entry_price e) (snd r)"
    using flt_fle_trans[OF _ rst] by blast
  have 2: "r = st \<or> (\<exists>e \<in> set (e # es). IsZoneAllowed pe (zoneForModel cat (fst e)) \<and>
      r = (fst e, entry_price e) \<and> flt (entry_price e) (snd st))"
  proof (cases "r = ?st")
    case True
    then show ?thesis by (simp add: cheapest_step_eq)
  next
    case False
    then obtain d where "d \<in> set es" "IsZoneAllowed pe (zoneForModel cat (fst d))"
      "r = (fst d, entry_price d)" "flt (entry_price d) (snd ?st)" using IH by blast
    then show ?thesis using flt_fle_trans[OF _ le] by auto
  qed
  show ?case using 1 2 IH fle_trans[OF rst le] by auto
qed

text \<open>
  C26: Whatever the order in which Go ranges over the price book, the reroute target is a priced
  model in a zone the policy allows and no priced model in an allowed zone is cheaper (input plus
  output price); it is empty only if no allowed model has a price below the largest float64.
\<close>

theorem cheapestCompliant_correct:
  assumes "mset entries = mset (priceBook qf cat)" and "map_of (priceBook qf cat) '''' = None"
    and "t = cheapestCompliantModelName cat pe entries"
  shows "if t = ''''
    then \<forall>e \<in> set (priceBook qf cat). IsZoneAllowed pe (zoneForModel cat (fst e)) \<longrightarrow>
      \<not> flt (entry_price e) MaxFloat64
    else IsZoneAllowed pe (zoneForModel cat t) \<and>
      (\<exists>p. map_of (priceBook qf cat) t = Some p \<and>
        (\<forall>e \<in> set (priceBook qf cat). IsZoneAllowed pe (zoneForModel cat (fst e)) \<longrightarrow>
           \<not> flt (entry_price e) (entry_price (t, p))))"
proof -
  have se: "set entries = set (priceBook qf cat)" by (rule mset_eq_setD[OF assms(1)])
  define r where "r = fold (cheapest_step cat pe) entries ('''', MaxFloat64)"
  have t: "t = fst r" by (simp add: assms(3) cheapestCompliantModelName_def r_def)
  have n: "snd ('''', MaxFloat64) \<noteq> NaN" by (simp add: MaxFloat64_def)
  note f = fold_cheapest_step[OF r_def n]
  show ?thesis
  proof (cases "r = ('''', MaxFloat64)")
    case True
    then show ?thesis using f se t by auto
  next
    case False
    then obtain m p where e: "(m, p) \<in> set entries" "IsZoneAllowed pe (zoneForModel cat m)"
      "r = (m, entry_price (m, p))" using f by (metis fst_conv prod.collapse)
    have l: "map_of (priceBook qf cat) m = Some p"
      using e(1) se distinct_priceBook[of qf cat] by (intro map_of_is_SomeI) auto
    then have "m \<noteq> ''''" using assms(2) by auto
    then show ?thesis using e(2,3) l f se t by auto
  qed
qed

definition example_provider :: "string \<Rightarrow> string \<Rightarrow> AIProvider" where
  "example_provider name zone =
     \<lparr>prov_Name = name, prov_UID = '''', prov_Generation = 0,
      prov_Spec = \<lparr>ps_Type = ''other'', ps_Region = '''', ps_DataResidency = zone, ps_Managed = True,
        ps_Pricing = \<lparr>pp_Currency = '''', pp_InputTokenPricePerMillion = ''1'',
          pp_OutputTokenPricePerMillion = ''1'', pp_FixedMonthlyCost = None, pp_Version = '''',
          pp_ObservedAt = None, pp_Completeness = '''', pp_BillableCategories = []\<rparr>,
        ps_Compliance = \<lparr>pl_AllowedForSensitiveData = False, pl_AllowedCountries = []\<rparr>,
        ps_GOVAR = None\<rparr>\<rparr>"

definition example_model :: "string \<Rightarrow> string \<Rightarrow> AIModel" where
  "example_model name provider =
     \<lparr>model_Name = name, model_Spec = \<lparr>ms_ProviderRef = provider, ms_ModelName = name, ms_Type = ''llm'',
        ms_ContextWindow = 0, ms_QualityTier = '''', ms_CostTier = '''', ms_SensitiveDataAllowed = False,
        ms_ServesNamespace = '''', ms_ServesApplication = '''', ms_ServesTeam = '''', ms_GOVAR = None\<rparr>\<rparr>"

definition example_catalog :: catalog where
  "example_catalog = \<lparr>cat_providers = [(''swiss-ai'', example_provider ''swiss-ai'' ''CH'')],
     cat_models = [example_model ''swiss'' ''swiss-ai'']\<rparr>"

definition swiss_policy :: Policy where
  "swiss_policy = \<lparr>AllowedZones = [''CH''], ForbiddenZones = [], ExternalProvidersAllowed = True,
     RequireAnonymization = False\<rparr>"

theorem cheapestCompliant_correct_witness:
  "let t = cheapestCompliantModelName example_catalog swiss_policy (rev (priceBook (\<lambda>q. Fin 1) example_catalog))
   in t \<noteq> '''' \<and> IsZoneAllowed swiss_policy (zoneForModel example_catalog t)"
proof -
  let ?b = "priceBook (\<lambda>q. Fin 1) example_catalog"
  let ?p = "provider_pricing (\<lambda>q. Fin 1) (example_provider ''swiss-ai'' ''CH'')"
  have l: "map_of ?b n = (if n = ''swiss'' then Some ?p else map_of DefaultPriceBook n)" for n
    by (auto simp: priceBook_def example_catalog_def overlay_price_def provider_of_def example_model_def
        update_conv')
  have "map_of DefaultPriceBook '''' = None" by (simp add: map_of_DefaultPriceBook default_names)
  then have e: "map_of ?b '''' = None" by (simp add: l)
  have m: "(''swiss'', ?p) \<in> set ?b" using l[of "''swiss''"] map_of_SomeD by force
  have "NormalizeZone ''CH'' = ''CH''" by code_simp
  then have a: "IsZoneAllowed swiss_policy (zoneForModel example_catalog ''swiss'')"
    by (simp add: zoneForModel_def example_catalog_def provider_of_def example_model_def
        example_provider_def IsZoneAllowed_iff swiss_policy_def zoneAllowed_def toSet_def)
  have "entry_price (''swiss'', ?p) = Fin 2"
    by (simp add: entry_price_def provider_pricing_def Let_def)
  then have "flt (entry_price (''swiss'', ?p)) MaxFloat64" by (simp add: flt_MaxFloat64)
  then show ?thesis
    using cheapestCompliant_correct[of "rev ?b" "\<lambda>q. Fin 1" example_catalog _ swiss_policy, OF _ e refl] m a
    by (fastforce simp: Let_def split: if_splits)
qed

end
