(* ===== verification/Budgetfallback.thy ===== *)
theory Budgetfallback
  imports Controllercatalog Budgetengine Gatewayactuator
begin

section \<open>Budget fallback (internal/controller/budgetfallback.go)\<close>

text \<open>
  Which models of a budget's target are rerouted to its fallback model, behind the guardrails of
  the policy.
\<close>

record budgetFallbackDecision =
  bd_desired :: "(string, string) gomap"
  bd_activeModel :: string
  bd_reason :: string

record scopedModelUsage =
  su_requests :: int64
  su_inputTokens :: int64
  su_outputTokens :: int64

definition no_fallback :: "string \<Rightarrow> budgetFallbackDecision" where
  "no_fallback reason = \<lparr>bd_desired = [], bd_activeModel = '''', bd_reason = reason\<rparr>"

definition budgetPhaseRank :: "string \<Rightarrow> int" where
  "budgetPhaseRank phase =
     (if phase = ''Exceeded'' then 4 else if phase = ''Critical'' then 3
      else if phase = ''Warning'' then 2 else if phase = ''WithinBudget'' then 1 else 0)"

definition fallbackPhaseOrDefault :: "string \<Rightarrow> string" where
  "fallbackPhaseOrDefault v = (if v = '''' then BudgetFallbackOnExceeded else v)"

definition budgetFallbackPhaseReached :: "string \<Rightarrow> string \<Rightarrow> bool" where
  "budgetFallbackPhaseReached phase threshold \<longleftrightarrow>
     budgetPhaseRank (fallbackPhaseOrDefault threshold) \<le> budgetPhaseRank phase"

definition collectorSupportsLatency :: "string \<Rightarrow> bool" where
  "collectorSupportsLatency name \<longleftrightarrow>
     name = ''configmap'' \<or> name = ''fake'' \<or> name = ''prometheus'' \<or> name = ''aigw''"

definition collectorSupportsErrors :: "string \<Rightarrow> bool" where
  "collectorSupportsErrors name \<longleftrightarrow> name = ''configmap'' \<or> name = ''fake'' \<or> name = ''prometheus''"

definition tierRank :: "string \<Rightarrow> int" where
  "tierRank t =
     (if t = TierHigh then 3 else if t = TierMedium then 2 else if t = TierLow then 1 else 0)"

definition add_usage :: "UsageSample \<Rightarrow> scopedModelUsage option \<Rightarrow> scopedModelUsage" where
  "add_usage s acc =
     (let u = (case acc of None \<Rightarrow> \<lparr>su_requests = 0, su_inputTokens = 0, su_outputTokens = 0\<rparr> | Some u \<Rightarrow> u)
      in \<lparr>su_requests = su_requests u + us_Requests s,
          su_inputTokens = su_inputTokens u + us_InputTokens s,
          su_outputTokens = su_outputTokens u + us_OutputTokens s\<rparr>)"

definition usageByModel :: "UsageSample list \<Rightarrow> (string, scopedModelUsage) gomap" where
  "usageByModel samples = group_by (\<lambda>s. Some (us_Model s)) add_usage samples []"

definition pricedUsage :: "scopedModelUsage \<Rightarrow> TokenPricing \<Rightarrow> f64" where
  "pricedUsage u p =
     fadd (fmul (fdiv (of_i64 (su_inputTokens u)) (Fin 1000000)) (tp_InputPerMillion p))
          (fmul (fdiv (of_i64 (su_outputTokens u)) (Fin 1000000)) (tp_OutputPerMillion p))"

definition perf_step ::
  "string \<Rightarrow> UsageSample \<Rightarrow> int64 \<times> int64 \<times> f64 \<times> bool \<Rightarrow> int64 \<times> int64 \<times> f64 \<times> bool" where
  "perf_step model s st =
     (if us_Model s \<noteq> model then st
      else let (requests, errors, weightedLat, ok) = st
           in (requests + us_Requests s, errors + us_Errors s,
               fadd weightedLat (fmul (us_LatencyMillis s) (of_i64 (us_Requests s))), True))"

definition observedModelPerformance ::
  "UsageSample list \<Rightarrow> string \<Rightarrow> int64 \<times> int64 \<times> f64 \<times> bool" where
  "observedModelPerformance samples model =
     (let (requests, errors, weightedLat, ok) = fold (perf_step model) samples (0, 0, Fin 0, False)
      in (requests, errors, (if 0 < sint requests then fdiv weightedLat (of_i64 requests) else Fin 0), ok))"

definition budgetTargetMatchesSample :: "UsageSample \<Rightarrow> BudgetTarget \<Rightarrow> bool" where
  "budgetTargetMatchesSample s t =
     (if bt_Namespace t \<noteq> '''' \<and> us_Namespace s \<noteq> bt_Namespace t then False
      else if bt_Team t \<noteq> '''' \<and> us_Team s \<noteq> bt_Team t then False
      else if bt_Application t \<noteq> '''' \<and> us_Application s \<noteq> bt_Application t then False
      else True)"

text \<open>Sets of models (maps to true) as lists: the first loop, then the second.\<close>

definition shared_step1 :: "BudgetTarget \<Rightarrow> UsageSample \<Rightarrow> string list \<times> string list \<Rightarrow> string list \<times> string list" where
  "shared_step1 target s st =
     (let (inTarget, shared) = st
      in if budgetTargetMatchesSample s target then (List.insert (us_Model s) inTarget, shared)
         else if us_Model s \<in> set inTarget then (inTarget, List.insert (us_Model s) shared)
         else st)"

definition shared_step2 :: "BudgetTarget \<Rightarrow> string list \<Rightarrow> UsageSample \<Rightarrow> string list \<Rightarrow> string list" where
  "shared_step2 target inTarget s shared =
     (if \<not> budgetTargetMatchesSample s target \<and> us_Model s \<in> set inTarget
      then List.insert (us_Model s) shared else shared)"

definition sharedModelsOutsideTarget :: "UsageSample list \<Rightarrow> BudgetTarget \<Rightarrow> string list" where
  "sharedModelsOutsideTarget samples target =
     (let (inTarget, shared) = fold (shared_step1 target) samples ([], [])
      in fold (shared_step2 target inTarget) samples shared)"

subsection \<open>The decision\<close>

text \<open>
  The guardrails up to the price of the fallback: \<open>Inl\<close> is the reason of an early return,
  \<open>Inr\<close> the fallback model and its price.
\<close>

definition latency_guard :: "UsageSample list \<Rightarrow> AIBudgetPolicySpec \<Rightarrow> string \<Rightarrow> AIModel \<Rightarrow> string option" where
  "latency_guard allSamples spec collectorName f =
     (if 0 < sint (bp_MaxFallbackLatencyMillis spec) then
        if \<not> collectorSupportsLatency collectorName then
          Some (''latency guardrail requires telemetry with latency; collector '' @ fmt_q collectorName @
            '' does not provide it'')
        else
          let (reqs, errs, lat, ok) = observedModelPerformance allSamples (ms_ModelName (model_Spec f))
          in if \<not> ok then
               Some (''fallback model '' @ fmt_q (ms_ModelName (model_Spec f)) @ '' has no observed latency yet'')
             else if flt (of_i32 (bp_MaxFallbackLatencyMillis spec)) lat then
               Some (''fallback latency '' @ fmt_f 0 lat @ ''ms exceeds guardrail '' @
                 show_int (sint (bp_MaxFallbackLatencyMillis spec)) @ ''ms'')
             else None
      else None)"

definition error_guard :: "UsageSample list \<Rightarrow> AIBudgetPolicySpec \<Rightarrow> string \<Rightarrow> AIModel \<Rightarrow> string option" where
  "error_guard allSamples spec collectorName f =
     (if 0 < sint (bp_MaxFallbackErrorPercent spec) then
        if \<not> collectorSupportsErrors collectorName then
          Some (''error-rate guardrail requires telemetry with errors; collector '' @ fmt_q collectorName @
            '' does not provide it'')
        else
          let (reqs, errs, lat, ok) = observedModelPerformance allSamples (ms_ModelName (model_Spec f))
          in if \<not> ok \<or> sint reqs \<le> 0 then
               Some (''fallback model '' @ fmt_q (ms_ModelName (model_Spec f)) @ '' has no observed error rate yet'')
             else
               let errPct = fdiv (fmul (of_i64 errs) (Fin 100)) (of_i64 reqs)
               in if flt (of_i32 (bp_MaxFallbackErrorPercent spec)) errPct then
                    Some (''fallback error rate '' @ fmt_f 1 errPct @ ''% exceeds guardrail '' @
                      show_int (sint (bp_MaxFallbackErrorPercent spec)) @ ''%'')
                  else None
      else None)"

definition fallback_guard ::
  "(quantity \<Rightarrow> f64) \<Rightarrow> catalog \<Rightarrow> UsageSample list \<Rightarrow> AIBudgetPolicySpec \<Rightarrow> string \<Rightarrow> string \<Rightarrow> bool \<Rightarrow>
     string + AIModel \<times> TokenPricing" where
  "fallback_guard qf cat allSamples spec phase collectorName sovereigntyEnforced =
     (if bp_FallbackModelRef spec = '''' then Inl ''no fallback model configured''
      else if bp_EnforcementMode spec \<noteq> EnforcementEnforce then
        Inl (''fallback remains advisory in mode '' @ fmt_q (bp_EnforcementMode spec))
      else if \<not> budgetFallbackPhaseReached phase (bp_FallbackOnPhase spec) then
        Inl (''budget phase '' @ phase @ '' is below fallback threshold '' @
          fallbackPhaseOrDefault (bp_FallbackOnPhase spec))
      else if sovereigntyEnforced then
        Inl ''sovereignty enforcement is active; skip budget fallback to avoid route conflicts''
      else
        case modelByName cat (bp_FallbackModelRef spec) of
          None \<Rightarrow> Inl (''fallback model ref '' @ fmt_q (bp_FallbackModelRef spec) @ '' was not found'')
        | Some f \<Rightarrow>
            (case provider_of cat (ms_ProviderRef (model_Spec f)) of
               None \<Rightarrow> Inl (''fallback provider '' @ fmt_q (ms_ProviderRef (model_Spec f)) @ '' was not found'')
             | Some prov \<Rightarrow>
                 if \<not> ps_Managed (prov_Spec prov) then Inl ''fallback provider is not a managed API''
                 else if bp_MinFallbackQualityTier spec \<noteq> '''' \<and>
                    tierRank (ms_QualityTier (model_Spec f)) < tierRank (bp_MinFallbackQualityTier spec) then
                   Inl (''fallback quality tier '' @ fmt_q (ms_QualityTier (model_Spec f)) @
                     '' is below required '' @ fmt_q (bp_MinFallbackQualityTier spec))
                 else
                   case latency_guard allSamples spec collectorName f of
                     Some r \<Rightarrow> Inl r
                   | None \<Rightarrow>
                       (case error_guard allSamples spec collectorName f of
                          Some r \<Rightarrow> Inl r
                        | None \<Rightarrow>
                            (case map_of (priceBook qf cat) (ms_ModelName (model_Spec f)) of
                               None \<Rightarrow> Inl (''fallback model '' @ fmt_q (ms_ModelName (model_Spec f)) @
                                 '' has no known price'')
                             | Some p \<Rightarrow> Inr (f, p)))))"

text \<open>Whether the loop over the usages puts a model into \<open>desired\<close>.\<close>

definition wants_fallback ::
  "(string, TokenPricing) gomap \<Rightarrow> string list \<Rightarrow> string \<Rightarrow> TokenPricing \<Rightarrow> string \<times> scopedModelUsage \<Rightarrow> bool" where
  "wants_fallback pb shared fallbackName fallbackPrice mu =
     (let (model, u) = mu
      in if model = fallbackName then False
         else if model \<in> set shared then False
         else case map_of pb model of
                None \<Rightarrow> False
              | Some curPrice \<Rightarrow> flt (pricedUsage u fallbackPrice) (pricedUsage u curPrice))"

definition budgetFallbackDesired ::
  "(quantity \<Rightarrow> f64) \<Rightarrow> catalog \<Rightarrow> UsageSample list \<Rightarrow> UsageSample list \<Rightarrow> AIBudgetPolicySpec \<Rightarrow> string \<Rightarrow>
     string \<Rightarrow> bool \<Rightarrow> budgetFallbackDecision" where
  "budgetFallbackDesired qf cat allSamples scopedSamples spec phase collectorName sovereigntyEnforced =
     (case fallback_guard qf cat allSamples spec phase collectorName sovereigntyEnforced of
        Inl r \<Rightarrow> no_fallback r
      | Inr (f, fallbackPrice) \<Rightarrow>
          (let usages = usageByModel scopedSamples
           in if length usages = 0 then no_fallback ''no scoped usage observed for the budget target''
              else
                let shared = sharedModelsOutsideTarget allSamples (bp_Target spec);
                    name = ms_ModelName (model_Spec f);
                    desired = map (\<lambda>(model, u). (model, name))
                      (filter (wants_fallback (priceBook qf cat) shared name fallbackPrice) usages)
                in if length desired = 0
                   then no_fallback ''no dedicated scoped model is more expensive than the fallback''
                   else \<lparr>bd_desired = desired, bd_activeModel = name,
                     bd_reason = ''fallback '' @ fmt_q name @ '' selected for '' @
                       show_int (int (length desired)) @ '' scoped model(s)''\<rparr>))"

subsection \<open>Scope\<close>

lemma budgetTargetMatchesSample_eq: "budgetTargetMatchesSample s t = target_match s t"
  by (simp add: budgetTargetMatchesSample_def target_match_def)

lemma shared_step1_inTarget:
  "set (fst (fold (shared_step1 t) ss st)) =
     set (fst st) \<union> us_Model ` {s \<in> set ss. target_match s t}"
  by (induction ss arbitrary: st)
     (auto simp: shared_step1_def budgetTargetMatchesSample_eq split: prod.splits)

lemma shared_step1_shared:
  "set (snd (fold (shared_step1 t) ss st)) \<subseteq>
     set (snd st) \<union> {m. \<exists>s \<in> set ss. us_Model s = m \<and> \<not> target_match s t \<and>
       m \<in> set (fst (fold (shared_step1 t) ss st))}"
proof (induction ss arbitrary: st)
  case Nil
  then show ?case by simp
next
  case (Cons s ss)
  let ?st = "shared_step1 t s st"
  have sub: "set (fst ?st) \<subseteq> set (fst (fold (shared_step1 t) ss ?st))"
    by (simp add: shared_step1_inTarget)
  have "set (snd ?st) \<subseteq> set (snd st) \<union>
      (if \<not> target_match s t \<and> us_Model s \<in> set (fst ?st) then {us_Model s} else {})"
    by (auto simp: shared_step1_def budgetTargetMatchesSample_eq split: prod.splits if_splits)
  then show ?case using Cons.IH[of ?st] sub by (auto split: if_splits)
qed

lemma shared_step2_set:
  "set (fold (shared_step2 t inT) ss shared) =
     set shared \<union> {m \<in> set inT. \<exists>s \<in> set ss. us_Model s = m \<and> \<not> target_match s t}"
  by (induction ss arbitrary: shared) (auto simp: shared_step2_def budgetTargetMatchesSample_eq)

lemma set_shared:
  "set (sharedModelsOutsideTarget ss t) =
     {m. (\<exists>s \<in> set ss. us_Model s = m \<and> target_match s t) \<and>
         (\<exists>s \<in> set ss. us_Model s = m \<and> \<not> target_match s t)}"
proof -
  have "m \<in> set (sharedModelsOutsideTarget ss t) \<longleftrightarrow>
      m \<in> set (snd (fold (shared_step1 t) ss ([], []))) \<or>
      (\<exists>s \<in> set ss. us_Model s = m \<and> target_match s t) \<and> (\<exists>s \<in> set ss. us_Model s = m \<and> \<not> target_match s t)" for m
    by (auto simp: sharedModelsOutsideTarget_def shared_step2_set shared_step1_inTarget split_def Let_def)
  moreover have "(\<exists>s \<in> set ss. us_Model s = m \<and> target_match s t) \<and>
      (\<exists>s \<in> set ss. us_Model s = m \<and> \<not> target_match s t)"
    if m: "m \<in> set (snd (fold (shared_step1 t) ss ([], [])))" for m
  proof -
    obtain s where s: "s \<in> set ss" "us_Model s = m" "\<not> target_match s t"
      "m \<in> us_Model ` {s \<in> set ss. target_match s t}"
      using subsetD[OF shared_step1_shared m] unfolding shared_step1_inTarget by auto
    then obtain s' where "s' \<in> set ss" "us_Model s' = m" "target_match s' t" by auto
    then show ?thesis using s(1-3) by blast
  qed
  ultimately show ?thesis by blast
qed

lemma usageByModel_lookup:
  "map_of (usageByModel ss) m = group_fold add_usage (filter (\<lambda>s. us_Model s = m) ss) None"
  by (simp add: usageByModel_def map_of_group_by)

lemma distinct_usageByModel [simp]: "distinct (map fst (usageByModel ss))"
  by (simp add: usageByModel_def)

lemma usageByModel_keys: "fst ` set (usageByModel ss) = us_Model ` set ss"
  using keys_group_by[of "\<lambda>s. Some (us_Model s)" add_usage ss "[]"] by (auto simp: usageByModel_def)

lemma group_fold_add_usage:
  "group_fold add_usage ss (Some u) =
     Some \<lparr>su_requests = su_requests u + sum_list (map us_Requests ss),
       su_inputTokens = su_inputTokens u + sum_list (map us_InputTokens ss),
       su_outputTokens = su_outputTokens u + sum_list (map us_OutputTokens ss)\<rparr>"
  by (induction ss arbitrary: u) (simp_all add: add_usage_def add.assoc)

definition total_usage :: "UsageSample list \<Rightarrow> scopedModelUsage" where
  "total_usage ss = \<lparr>su_requests = sum_list (map us_Requests ss),
     su_inputTokens = sum_list (map us_InputTokens ss),
     su_outputTokens = sum_list (map us_OutputTokens ss)\<rparr>"

lemma usageByModel_total:
  "(m, u) \<in> set (usageByModel ss) \<longleftrightarrow>
     m \<in> us_Model ` set ss \<and> u = total_usage (filter (\<lambda>s. us_Model s = m) ss)"
proof -
  have "(m, u) \<in> set (usageByModel ss) \<longleftrightarrow> map_of (usageByModel ss) m = Some u" by simp
  also have "\<dots> \<longleftrightarrow> m \<in> us_Model ` set ss \<and> u = total_usage (filter (\<lambda>s. us_Model s = m) ss)"
  proof (cases "filter (\<lambda>s. us_Model s = m) ss")
    case Nil
    then show ?thesis by (auto simp: usageByModel_lookup filter_empty_conv)
  next
    case (Cons x xs)
    then have "m \<in> us_Model ` set ss" using filter_ConsD[OF Cons] by auto
    then show ?thesis
      unfolding usageByModel_lookup Cons
      by (auto simp: group_fold_add_usage total_usage_def add_usage_def)
  qed
  finally show ?thesis .
qed

lemma budgetFallbackDesired_eq:
  "bd_desired (budgetFallbackDesired qf cat allS scoped spec phase coll sov) =
     (case fallback_guard qf cat allS spec phase coll sov of
        Inl r \<Rightarrow> []
      | Inr (f, p) \<Rightarrow> map (\<lambda>(model, u). (model, ms_ModelName (model_Spec f)))
          (filter (wants_fallback (priceBook qf cat) (sharedModelsOutsideTarget allS (bp_Target spec))
             (ms_ModelName (model_Spec f)) p) (usageByModel scoped)))"
  by (auto simp: budgetFallbackDesired_def no_fallback_def Let_def split: sum.splits)

text \<open>
  C27: The budget fallback touches only what it may: a model is rerouted exactly when the
  guardrails let the fallback through, the model is used inside the budget's target and by nobody
  outside it, it is not the fallback itself, and the target's own token volumes of that model
  cost strictly less at the fallback's price. All reroutes lead to the fallback model.
\<close>

theorem budgetFallback_scope:
  assumes "scoped = filterByBudgetTarget allS (bp_Target spec)"
  shows "(m, t) \<in> set (bd_desired (budgetFallbackDesired qf cat allS scoped spec phase coll sov)) \<longleftrightarrow>
    (\<exists>f p cp. fallback_guard qf cat allS spec phase coll sov = Inr (f, p) \<and>
       t = ms_ModelName (model_Spec f) \<and> m \<noteq> t \<and>
       (\<exists>s \<in> set allS. us_Model s = m \<and> target_match s (bp_Target spec)) \<and>
       \<not> (\<exists>s \<in> set allS. us_Model s = m \<and> \<not> target_match s (bp_Target spec)) \<and>
       map_of (priceBook qf cat) m = Some cp \<and>
       flt (pricedUsage (total_usage (filter (\<lambda>s. us_Model s = m) scoped)) p)
           (pricedUsage (total_usage (filter (\<lambda>s. us_Model s = m) scoped)) cp))"
proof (cases "fallback_guard qf cat allS spec phase coll sov")
  case (Inl r)
  then show ?thesis by (simp add: budgetFallbackDesired_eq)
next
  case (Inr fp)
  obtain f p where fp: "fp = (f, p)" by fastforce
  have sc: "m \<in> us_Model ` set scoped \<longleftrightarrow> (\<exists>s \<in> set allS. us_Model s = m \<and> target_match s (bp_Target spec))"
    by (auto simp: assms filterByBudgetTarget_def)
  let ?sh = "sharedModelsOutsideTarget allS (bp_Target spec)"
  let ?n = "ms_ModelName (model_Spec f)"
  let ?u = "total_usage (filter (\<lambda>s. us_Model s = m) scoped)"
  have "(m, t) \<in> set (bd_desired (budgetFallbackDesired qf cat allS scoped spec phase coll sov)) \<longleftrightarrow>
      (\<exists>u. (m, u) \<in> set (usageByModel scoped) \<and> wants_fallback (priceBook qf cat) ?sh ?n p (m, u) \<and> t = ?n)"
    unfolding budgetFallbackDesired_eq Inr fp by (auto simp: image_iff)
  also have "\<dots> \<longleftrightarrow> m \<in> us_Model ` set scoped \<and> wants_fallback (priceBook qf cat) ?sh ?n p (m, ?u) \<and> t = ?n"
    unfolding usageByModel_total by blast
  also have "wants_fallback (priceBook qf cat) ?sh ?n p (m, ?u) \<longleftrightarrow>
      m \<noteq> ?n \<and> m \<notin> set ?sh \<and>
      (\<exists>cp. map_of (priceBook qf cat) m = Some cp \<and> flt (pricedUsage ?u p) (pricedUsage ?u cp))"
    by (auto simp: wants_fallback_def split: option.splits)
  finally show ?thesis
    unfolding sc set_shared mem_Collect_eq using Inr fp by auto
qed

text \<open>
  C28: Guardrails: whenever the budget fallback wants a reroute, the policy is in enforce mode, the
  phase has reached its threshold, no sovereignty policy is enforced in the namespace, and the
  fallback is a known priced model of a managed provider, of the required quality tier, whose
  observed latency and error rate do not exceed the limits that are set.
\<close>

theorem budgetFallback_guardrails:
  assumes "bd_desired (budgetFallbackDesired qf cat allS scoped spec phase coll sov) \<noteq> []"
  shows "bp_EnforcementMode spec = EnforcementEnforce \<and>
    budgetFallbackPhaseReached phase (bp_FallbackOnPhase spec) \<and> \<not> sov \<and>
    (\<exists>f prov reqs errs lat ok. f \<in> set (cat_models cat) \<and> model_Name f = bp_FallbackModelRef spec \<and>
       provider_of cat (ms_ProviderRef (model_Spec f)) = Some prov \<and> ps_Managed (prov_Spec prov) \<and>
       map_of (priceBook qf cat) (ms_ModelName (model_Spec f)) \<noteq> None \<and>
       (bp_MinFallbackQualityTier spec \<noteq> '''' \<longrightarrow>
          tierRank (bp_MinFallbackQualityTier spec) \<le> tierRank (ms_QualityTier (model_Spec f))) \<and>
       observedModelPerformance allS (ms_ModelName (model_Spec f)) = (reqs, errs, lat, ok) \<and>
       (0 < sint (bp_MaxFallbackLatencyMillis spec) \<longrightarrow>
          ok \<and> \<not> flt (of_i32 (bp_MaxFallbackLatencyMillis spec)) lat) \<and>
       (0 < sint (bp_MaxFallbackErrorPercent spec) \<longrightarrow> ok \<and> 0 < sint reqs \<and>
          \<not> flt (of_i32 (bp_MaxFallbackErrorPercent spec)) (fdiv (fmul (of_i64 errs) (Fin 100)) (of_i64 reqs))))"
proof -
  obtain f p where g: "fallback_guard qf cat allS spec phase coll sov = Inr (f, p)"
    using assms by (auto simp: budgetFallbackDesired_eq split: sum.splits)
  obtain reqs errs lat ok where o: "observedModelPerformance allS (ms_ModelName (model_Spec f)) = (reqs, errs, lat, ok)"
    by (metis prod_cases4)
  have m: "modelByName cat (bp_FallbackModelRef spec) = Some f"
    and c: "bp_EnforcementMode spec = EnforcementEnforce"
      "budgetFallbackPhaseReached phase (bp_FallbackOnPhase spec)" "\<not> sov"
    and pr: "\<exists>prov. provider_of cat (ms_ProviderRef (model_Spec f)) = Some prov \<and> ps_Managed (prov_Spec prov)"
    and pb: "map_of (priceBook qf cat) (ms_ModelName (model_Spec f)) \<noteq> None"
    and q: "bp_MinFallbackQualityTier spec \<noteq> '''' \<longrightarrow>
          tierRank (bp_MinFallbackQualityTier spec) \<le> tierRank (ms_QualityTier (model_Spec f))"
    and l: "latency_guard allS spec coll f = None" and e: "error_guard allS spec coll f = None"
    using g by (auto simp: fallback_guard_def split: if_splits option.splits)
  have l': "0 < sint (bp_MaxFallbackLatencyMillis spec) \<longrightarrow>
      ok \<and> \<not> flt (of_i32 (bp_MaxFallbackLatencyMillis spec)) lat"
    using l o by (auto simp: latency_guard_def Let_def split: if_splits)
  have e': "0 < sint (bp_MaxFallbackErrorPercent spec) \<longrightarrow> ok \<and> 0 < sint reqs \<and>
      \<not> flt (of_i32 (bp_MaxFallbackErrorPercent spec)) (fdiv (fmul (of_i64 errs) (Fin 100)) (of_i64 reqs))"
    using e o by (auto simp: error_guard_def Let_def split: if_splits)
  have "f \<in> set (cat_models cat)" "model_Name f = bp_FallbackModelRef spec"
    using m by (auto simp: modelByName_def find_Some_iff in_set_conv_nth)
  then show ?thesis using c pr pb q o l' e' by blast
qed

definition example_spec :: AIBudgetPolicySpec where
  "example_spec = \<lparr>bp_Target = \<lparr>bt_Namespace = ''shop'', bt_Team = '''', bt_Application = ''''\<rparr>,
     bp_Period = ''monthly'', bp_BudgetEUR = ''10'', bp_WarningThresholdPercent = 70,
     bp_CriticalThresholdPercent = 90, bp_HardLimitPercent = 100,
     bp_Actions = \<lparr>ba_OnWarning = [], ba_OnCritical = [], ba_OnHardLimit = []\<rparr>,
     bp_FallbackModelRef = ''swiss'', bp_EnforcementMode = ''enforce'', bp_FallbackOnPhase = '''',
     bp_MaxFallbackLatencyMillis = 0, bp_MaxFallbackErrorPercent = 0, bp_MinFallbackQualityTier = ''''\<rparr>"

definition example_budget_catalog :: catalog where
  "example_budget_catalog =
    \<lparr>cat_providers = [(''swiss-ai'', example_provider ''swiss-ai'' ''CH''),
       (''dear-ai'', (example_provider ''dear-ai'' ''CH'')\<lparr>prov_Spec :=
          (prov_Spec (example_provider ''dear-ai'' ''CH''))\<lparr>ps_Pricing :=
            (ps_Pricing (prov_Spec (example_provider ''dear-ai'' ''CH'')))\<lparr>pp_InputTokenPricePerMillion := ''3''\<rparr>\<rparr>\<rparr>)],
     cat_models = [example_model ''swiss'' ''swiss-ai'', example_model ''dear'' ''dear-ai'']\<rparr>"

definition example_qf :: "quantity \<Rightarrow> f64" where
  "example_qf q = (if q = ''3'' then Fin 3 else Fin 1)"

definition example_usage_samples :: "UsageSample list" where
  "example_usage_samples =
    [zero_sample\<lparr>us_Namespace := ''shop'', us_Model := ''dear'', us_Requests := 1, us_InputTokens := 1000000\<rparr>]"

lemma example_budget_prices:
  "map_of (priceBook example_qf example_budget_catalog) ''swiss'' =
     Some \<lparr>tp_Currency = ''EUR'', tp_InputPerMillion = Fin 1, tp_OutputPerMillion = Fin 1\<rparr>"
  "map_of (priceBook example_qf example_budget_catalog) ''dear'' =
     Some \<lparr>tp_Currency = ''EUR'', tp_InputPerMillion = Fin 3, tp_OutputPerMillion = Fin 1\<rparr>"
  by (simp_all add: priceBook_def example_budget_catalog_def overlay_price_def provider_of_def
      example_model_def example_provider_def provider_pricing_def orDefault_def example_qf_def
      update_conv' Let_def)

lemma example_fallback_guard:
  "fallback_guard example_qf example_budget_catalog example_usage_samples example_spec ''Exceeded'' ''fake'' False =
     Inr (example_model ''swiss'' ''swiss-ai'',
       \<lparr>tp_Currency = ''EUR'', tp_InputPerMillion = Fin 1, tp_OutputPerMillion = Fin 1\<rparr>)"
proof -
  have m: "modelByName example_budget_catalog ''swiss'' = Some (example_model ''swiss'' ''swiss-ai'')"
    by (simp add: modelByName_def example_budget_catalog_def example_model_def)
  have pr: "provider_of example_budget_catalog ''swiss-ai'' = Some (example_provider ''swiss-ai'' ''CH'')"
    by (simp add: provider_of_def example_budget_catalog_def)
  have f: "ms_ProviderRef (model_Spec (example_model ''swiss'' ''swiss-ai'')) = ''swiss-ai''"
    "ms_ModelName (model_Spec (example_model ''swiss'' ''swiss-ai'')) = ''swiss''"
    by (simp_all add: example_model_def)
  show ?thesis
    by (simp add: fallback_guard_def example_spec_def EnforcementEnforce_def budgetFallbackPhaseReached_def
        fallbackPhaseOrDefault_def BudgetFallbackOnExceeded_def budgetPhaseRank_def m f pr
        example_budget_prices latency_guard_def error_guard_def)
       (simp add: example_provider_def)
qed

theorem budgetFallback_scope_witness:
  "(''dear'', ''swiss'') \<in> set (bd_desired (budgetFallbackDesired example_qf example_budget_catalog
     example_usage_samples (filterByBudgetTarget example_usage_samples (bp_Target example_spec))
     example_spec ''Exceeded'' ''fake'' False))"
  by (subst budgetFallback_scope[OF refl])
     (simp add: example_fallback_guard example_budget_prices, simp add: example_usage_samples_def
        example_model_def target_match_def example_spec_def zero_sample_def filterByBudgetTarget_def
        total_usage_def pricedUsage_def)

lemma example_desired_nonempty:
  "bd_desired (budgetFallbackDesired example_qf example_budget_catalog example_usage_samples
     example_usage_samples example_spec ''Exceeded'' ''fake'' False) \<noteq> []"
proof -
  have "sharedModelsOutsideTarget example_usage_samples (bp_Target example_spec) = []"
    using set_shared[of example_usage_samples "bp_Target example_spec"]
    by (simp add: example_usage_samples_def example_spec_def target_match_def zero_sample_def)
  moreover have "usageByModel example_usage_samples =
      [(''dear'', \<lparr>su_requests = 1, su_inputTokens = 1000000, su_outputTokens = 0\<rparr>)]"
    by (simp add: usageByModel_def example_usage_samples_def group_step_def add_usage_def zero_sample_def)
  ultimately show ?thesis
    unfolding budgetFallbackDesired_eq example_fallback_guard
    by (simp add: wants_fallback_def example_budget_prices example_model_def pricedUsage_def)
qed

theorem budgetFallback_guardrails_witness:
  "bp_EnforcementMode example_spec = EnforcementEnforce \<and>
   budgetFallbackPhaseReached ''Exceeded'' (bp_FallbackOnPhase example_spec)"
  using budgetFallback_guardrails[OF example_desired_nonempty] by blast

end
