(* ===== verification/Metrictracker.thy ===== *)
theory Metrictracker
  imports Prelude
begin

section \<open>Metric series of a policy (enforcementmetrics.go, shadow.go, deleteStale)\<close>

text \<open>
  The label tuples that a gauge vector exports, and the tracker that remembers per UID which
  tuples a policy emitted last, so that it can prune exactly its own.
\<close>

type_synonym series = "string list"

record tracker =
  exported :: "series list"
  byUID :: "(string, series list) gomap"

fun equalTuple :: "series \<Rightarrow> series \<Rightarrow> bool" where
  "equalTuple [] [] = True"
| "equalTuple (a # as) (b # bs) = (if a \<noteq> b then False else equalTuple as bs)"
| "equalTuple _ _ = False"

definition containsTuple :: "series list \<Rightarrow> series \<Rightarrow> bool" where
  "containsTuple st tuple \<longleftrightarrow> list_ex (\<lambda>c. equalTuple c tuple) st"

text \<open>\<open>vec.WithLabelValues(t...).Set\<close> and \<open>vec.DeleteLabelValues(t...)\<close>.\<close>

definition set_series :: "series \<Rightarrow> series list \<Rightarrow> series list" where
  "set_series t vec = List.insert t vec"

definition deleteStale :: "series list \<Rightarrow> series list \<Rightarrow> series list \<Rightarrow> series list" where
  "deleteStale vec prev now =
     fold (\<lambda>tuple v. if containsTuple now tuple then v else removeAll tuple v) prev vec"

definition last_emitted :: "tracker \<Rightarrow> string \<Rightarrow> series list" where
  "last_emitted t uid = (case map_of (byUID t) uid of None \<Rightarrow> [] | Some ss \<Rightarrow> ss)"

definition retire :: "string \<Rightarrow> series list \<Rightarrow> tracker \<Rightarrow> tracker" where
  "retire uid now t =
     t\<lparr>exported := deleteStale (exported t) (last_emitted t uid) now,
       byUID := AList.update uid now (byUID t)\<rparr>"

definition forget :: "string \<Rightarrow> tracker \<Rightarrow> tracker" where
  "forget uid t =
     t\<lparr>exported := deleteStale (exported t) (last_emitted t uid) [],
       byUID := AList.delete uid (byUID t)\<rparr>"

text \<open>What a reconciliation does with the vector: set every series, then retire.\<close>

definition emit :: "string \<Rightarrow> series list \<Rightarrow> tracker \<Rightarrow> tracker" where
  "emit uid now t = retire uid now (t\<lparr>exported := fold set_series now (exported t)\<rparr>)"

lemma equalTuple_iff [simp]: "equalTuple a b \<longleftrightarrow> a = b"
  by (induction a b rule: equalTuple.induct) auto

lemma containsTuple_iff [simp]: "containsTuple st t \<longleftrightarrow> t \<in> set st"
  by (induction st) (auto simp: containsTuple_def)

lemma set_fold_set_series [simp]: "set (fold set_series now vec) = set now \<union> set vec"
  by (induction now arbitrary: vec) (auto simp: set_series_def)

lemma set_deleteStale [simp]: "set (deleteStale vec prev now) = set vec - (set prev - set now)"
  unfolding deleteStale_def
  by (induction prev arbitrary: vec) auto

lemma emit_fields [simp]:
  "set (exported (emit uid now t)) = set now \<union> (set (exported t) - set (last_emitted t uid))"
  "last_emitted (emit uid now t) u = (if u = uid then now else last_emitted t u)"
  by (auto simp: emit_def retire_def last_emitted_def update_conv')

lemma forget_fields [simp]:
  "set (exported (forget uid t)) = set (exported t) - set (last_emitted t uid)"
  "last_emitted (forget uid t) u = (if u = uid then [] else last_emitted t u)"
  by (auto simp: forget_def last_emitted_def delete_conv')

text \<open>A history of reconciliations and deletions of policies.\<close>

datatype tracker_event = Emit string "series list" | Forget string

fun tracker_step :: "tracker_event \<Rightarrow> tracker \<Rightarrow> tracker" where
  "tracker_step (Emit uid now) t = emit uid now t"
| "tracker_step (Forget uid) t = forget uid t"

definition exported_by :: "tracker \<Rightarrow> series set" where
  "exported_by t = (\<Union>uid. set (last_emitted t uid))"

definition no_tracker :: tracker where "no_tracker = \<lparr>exported = [], byUID = []\<rparr>"

text \<open>The series of different policies differ, at every moment of the history.\<close>

fun separate :: "tracker_event list \<Rightarrow> tracker \<Rightarrow> bool" where
  "separate [] t = True"
| "separate (e # es) t =
     ((case e of Emit uid now \<Rightarrow>
         \<forall>(u, ss) \<in> set (byUID t). u \<noteq> uid \<longrightarrow> set ss \<inter> (set now \<union> set (last_emitted t uid)) = {}
       | Forget uid \<Rightarrow> \<forall>(u, ss) \<in> set (byUID t). u \<noteq> uid \<longrightarrow> set ss \<inter> set (last_emitted t uid) = {}) \<and>
      separate es (tracker_step e t))"

lemma no_dead_series_step:
  "set (exported t) \<subseteq> exported_by t \<Longrightarrow> set (exported (tracker_step e t)) \<subseteq> exported_by (tracker_step e t)"
  by (cases e) (auto simp: exported_by_def subset_eq; metis)+

lemma no_dead_series_fold:
  "set (exported t) \<subseteq> exported_by t \<Longrightarrow>
     set (exported (fold tracker_step es t)) \<subseteq> exported_by (fold tracker_step es t)"
proof (induction es arbitrary: t)
  case Nil
  then show ?case by simp
next
  case (Cons e es)
  show ?case using Cons.IH[OF no_dead_series_step[OF Cons.prems]] by simp
qed

lemma last_emitted_mem: "s \<in> set (last_emitted t u) \<Longrightarrow> \<exists>ss. (u, ss) \<in> set (byUID t) \<and> s \<in> set ss"
  by (cases "map_of (byUID t) u") (auto simp: last_emitted_def dest: map_of_SomeD)

lemma nothing_missing_step:
  assumes "exported_by t \<subseteq> set (exported t)" "separate (e # es) t"
  shows "exported_by (tracker_step e t) \<subseteq> set (exported (tracker_step e t))"
proof
  fix s assume "s \<in> exported_by (tracker_step e t)"
  then obtain u where u: "s \<in> set (last_emitted (tracker_step e t) u)" by (auto simp: exported_by_def)
  show "s \<in> set (exported (tracker_step e t))"
  proof (cases e)
    case (Emit uid now)
    show ?thesis
    proof (cases "u = uid")
      case True
      then show ?thesis using u Emit by simp
    next
      case False
      then have s: "s \<in> set (last_emitted t u)" using u Emit by simp
      then obtain ss where "(u, ss) \<in> set (byUID t)" "s \<in> set ss" using last_emitted_mem by blast
      then have "s \<notin> set (last_emitted t uid)" using assms(2) Emit False by fastforce
      then show ?thesis using s assms(1) Emit by (auto simp: exported_by_def)
    qed
  next
    case (Forget uid)
    then have ne: "u \<noteq> uid" "s \<in> set (last_emitted t u)" using u by (auto split: if_splits)
    then obtain ss where "(u, ss) \<in> set (byUID t)" "s \<in> set ss" using last_emitted_mem by blast
    then have "s \<notin> set (last_emitted t uid)" using assms(2) Forget ne by fastforce
    then show ?thesis using ne assms(1) Forget by (auto simp: exported_by_def)
  qed
qed

lemma nothing_missing_fold:
  "exported_by t \<subseteq> set (exported t) \<Longrightarrow> separate es t \<Longrightarrow>
     exported_by (fold tracker_step es t) \<subseteq> set (exported (fold tracker_step es t))"
proof (induction es arbitrary: t)
  case Nil
  then show ?case by simp
next
  case (Cons e es)
  have "exported_by (tracker_step e t) \<subseteq> set (exported (tracker_step e t))"
    by (rule nothing_missing_step[OF Cons.prems])
  then show ?case using Cons by simp
qed



text \<open>
  Distinctness matters: the tuples do not carry the UID, so when two policies emit the same
  tuple and one of them stops, its pruning deletes the series that the other still emits.
\<close>

theorem tracker_shared_series_lost:
  "exported (fold tracker_step [Emit ''a'' [[''x'']], Emit ''b'' [[''x'']], Emit ''b'' []] no_tracker) = [] \<and>
   last_emitted (fold tracker_step [Emit ''a'' [[''x'']], Emit ''b'' [[''x'']], Emit ''b'' []] no_tracker) ''a'' =
     [[''x'']]"
  by (simp add: no_tracker_def emit_def retire_def last_emitted_def deleteStale_def set_series_def
      containsTuple_def)

end
