(* ===== verification/GoTime.thy ===== *)
theory GoTime
  imports Apitypes
begin

section \<open>Times of the standard library (package time)\<close>

text \<open>
  A time is its number of nanoseconds since 1970-01-01 UTC; the zero time of Go is 1 January of
  year 1. \<open>t.UTC().Format(time.RFC3339Nano)\<close> prints the proleptic Gregorian date, computed in
  eras of 400 years, and the fraction of the second without trailing zeros.
\<close>

definition sec_ns :: int where "sec_ns = 1000000000"

definition minute_ns :: int where "minute_ns = 60 * sec_ns"

definition hour_ns :: int where "hour_ns = 3600 * sec_ns"

definition zero_time :: time where "zero_time = - 62135596800 * sec_ns"

text \<open>Year, month and day of the day with the given number.\<close>

definition civil :: "int \<Rightarrow> int \<times> nat \<times> nat" where
  "civil d =
     (let z = d + 719468; era = z div 146097; doe = z mod 146097;
          yoe = (doe - doe div 1460 + doe div 36524 - doe div 146096) div 365;
          doy = doe - (365 * yoe + yoe div 4 - yoe div 100);
          mp = (5 * doy + 2) div 153;
          m = (if mp < 10 then mp + 3 else mp - 9)
      in (yoe + era * 400 + (if m \<le> 2 then 1 else 0), nat m, nat (doy - (153 * mp + 2) div 5 + 1)))"

definition show_width :: "nat \<Rightarrow> int \<Rightarrow> string" where
  "show_width w i = (if i < 0 then ''-'' else []) @ pad_left w (show_nat (nat \<bar>i\<bar>))"

definition nano_fraction :: "nat \<Rightarrow> string" where
  "nano_fraction n =
     (if n = 0 then [] else CHR ''.'' # rev (dropWhile (\<lambda>c. c = CHR ''0'') (rev (pad_left 9 (show_nat n)))))"

definition RFC3339Nano :: "time \<Rightarrow> string" where
  "RFC3339Nano t =
     (let s = t div sec_ns; n = nat (t mod sec_ns); sod = s mod 86400;
          (y, m, d) = civil (s div 86400)
      in show_width 4 y @ ''-'' @ show_width 2 (int m) @ ''-'' @ show_width 2 (int d) @ ''T'' @
         show_width 2 (sod div 3600) @ '':'' @ show_width 2 (sod mod 3600 div 60) @ '':'' @
         show_width 2 (sod mod 60) @ nano_fraction n @ ''Z'')"

end
