(* ===== verification/GoText.thy ===== *)
theory GoText
  imports GoTime
begin

section \<open>Texts of the standard library (encoding/json, fmt, time)\<close>

text \<open>
  \<open>json.Marshal\<close> on strings and on structs given by their fields, messages built with \<open>fmt.Sprintf\<close>
  from a format with \<open>%s\<close>, \<open>%q\<close> and \<open>%w\<close>, \<open>time.ParseDuration\<close> and the time format RFC 3339.
  Strings are valid UTF-8.
\<close>

subsection \<open>JSON text\<close>

definition quotation :: char where "quotation = CHR 0x22"
definition backslash :: char where "backslash = CHR 0x5C"

definition u_escape :: "nat \<Rightarrow> string" where
  "u_escape n = [backslash, CHR ''u'', CHR ''0'', CHR ''0'', hex_char (n div 16), hex_char (n mod 16)]"

definition json_char :: "char \<Rightarrow> string" where
  "json_char c =
     (let n = (of_char c :: nat)
      in if c = quotation \<or> c = backslash then [backslash, c]
         else if n = 8 then [backslash, CHR ''b'']
         else if n = 12 then [backslash, CHR ''f'']
         else if n = 10 then [backslash, CHR ''n'']
         else if n = 13 then [backslash, CHR ''r'']
         else if n = 9 then [backslash, CHR ''t'']
         else if n < 32 \<or> c = CHR ''<'' \<or> c = CHR ''>'' \<or> c = CHR ''&'' then u_escape n
         else [c])"

text \<open>The line separators U+2028 and U+2029 are escaped, every other character on its own.\<close>

fun json_escape :: "string \<Rightarrow> string" where
  "json_escape [] = []"
| "json_escape (c # s) =
     (if c = CHR 0xE2 \<and> take 2 s = [CHR 0x80, CHR 0xA8] then backslash # ''u2028'' @ json_escape (drop 2 s)
      else if c = CHR 0xE2 \<and> take 2 s = [CHR 0x80, CHR 0xA9] then backslash # ''u2029'' @ json_escape (drop 2 s)
      else json_char c @ json_escape s)"

definition json_string :: "string \<Rightarrow> string" where
  "json_string s = quotation # json_escape s @ [quotation]"

definition json_struct :: "(string \<times> string) list \<Rightarrow> string" where
  "json_struct fs = ''{'' @ Join (map (\<lambda>(k, v). json_string k @ '':'' @ v) fs) '','' @ ''}''"

text \<open>\<open>omitempty\<close> on a field of type string.\<close>

definition json_nonempty :: "string \<Rightarrow> string \<Rightarrow> (string \<times> string) list" where
  "json_nonempty k s = (if s = '''' then [] else [(k, json_string s)])"

subsection \<open>Messages\<close>

fun render :: "string \<Rightarrow> string list \<Rightarrow> string" where
  "render (p # v # f) (a # as) =
     (if p = CHR ''%'' then (if v = CHR ''q'' then fmt_q a else a) @ render f as
      else p # render (v # f) (a # as))"
| "render f as = f"

text \<open>The arrow U+2192 between two spaces.\<close>

definition arrow :: string where
  "arrow = CHR '' '' # CHR 0xE2 # CHR 0x86 # CHR 0x92 # '' ''"

fun err_text :: "go_error \<Rightarrow> string" where
  "err_text (Err f as) = render f as"

subsection \<open>Durations\<close>

definition limit63 :: nat where "limit63 = 2 ^ 63"

definition is_digit :: "char \<Rightarrow> bool" where
  "is_digit c \<longleftrightarrow> (let n = (of_char c :: nat) in 48 \<le> n \<and> n \<le> 57)"

text \<open>The leading digits as a number below 2^63 and the rest.\<close>

fun leadingInt :: "nat \<Rightarrow> string \<Rightarrow> (nat \<times> string) option" where
  "leadingInt x [] = Some (x, [])"
| "leadingInt x (c # s) =
     (if \<not> is_digit c then Some (x, c # s)
      else if limit63 div 10 < x then None
      else let x' = x * 10 + read_digit c in if limit63 < x' then None else leadingInt x' s)"

text \<open>The digits of a fraction and their scale; digits that do not fit any more are skipped.\<close>

fun leadingFraction :: "nat \<Rightarrow> f64 \<Rightarrow> bool \<Rightarrow> string \<Rightarrow> nat \<times> f64 \<times> string" where
  "leadingFraction x scale overflow [] = (x, scale, [])"
| "leadingFraction x scale overflow (c # s) =
     (if \<not> is_digit c then (x, scale, c # s)
      else if overflow \<or> (limit63 - 1) div 10 < x then leadingFraction x scale True s
      else
        let y = x * 10 + read_digit c
        in if limit63 < y then leadingFraction x scale True s
           else leadingFraction y (fmul scale (Fin 10)) False s)"

definition unit_ns :: "string \<Rightarrow> nat option" where
  "unit_ns u =
     map_of [(''ns'', 1), (''us'', 1000), ([CHR 0xC2, CHR 0xB5, CHR ''s''], 1000),
       ([CHR 0xCE, CHR 0xBC, CHR ''s''], 1000), (''ms'', 1000000), (''s'', 1000000000),
       (''m'', 60000000000), (''h'', 3600000000000)] u"

definition part_of_unit :: "nat \<Rightarrow> f64 \<Rightarrow> nat \<Rightarrow> nat" where
  "part_of_unit f scale un =
     (case fmul (of_len f) (fdiv (of_len un) scale) of Fin a \<Rightarrow> nat (trunc_rat a) | _ \<Rightarrow> 0)"

text \<open>One number with its unit: the nanoseconds and the rest.\<close>

definition duration_term :: "string \<Rightarrow> (nat \<times> string) option" where
  "duration_term s =
     (case leadingInt 0 s of
        None \<Rightarrow> None
      | Some (v, s1) \<Rightarrow>
          (let pre = length s1 \<noteq> length s;
               (f, scale, post, s2) =
                 (case s1 of
                    c # s' \<Rightarrow>
                      (if c = CHR ''.'' then
                         (let (f, scale, s2) = leadingFraction 0 (Fin 1) False s'
                          in (f, scale, length s2 \<noteq> length s', s2))
                       else (0, Fin 1, False, s1))
                  | [] \<Rightarrow> (0, Fin 1, False, s1));
               u = takeWhile (\<lambda>c. c \<noteq> CHR ''.'' \<and> \<not> is_digit c) s2
           in if \<not> pre \<and> \<not> post \<or> u = [] then None
              else
                (case unit_ns u of
                   None \<Rightarrow> None
                 | Some un \<Rightarrow>
                     if limit63 div un < v then None
                     else
                       (let v' = v * un + (if 0 < f then part_of_unit f scale un else 0)
                        in if limit63 < v' then None else Some (v', drop (length u) s2)))))"

text \<open>The loop; the rest of the text gets shorter each time, which \<open>n\<close> bounds.\<close>

fun duration_terms :: "nat \<Rightarrow> nat \<Rightarrow> string \<Rightarrow> nat option" where
  "duration_terms n d [] = Some d"
| "duration_terms 0 d (c # s) = None"
| "duration_terms (Suc n) d (c # s) =
     (if \<not> (c = CHR ''.'' \<or> is_digit c) then None
      else
        (case duration_term (c # s) of
           None \<Rightarrow> None
         | Some (v, s') \<Rightarrow> if limit63 < d + v then None else duration_terms n (d + v) s'))"

definition ParseDuration :: "string \<Rightarrow> int option" where
  "ParseDuration s0 =
     (let neg = (s0 \<noteq> [] \<and> hd s0 = CHR ''-'');
          s = (if s0 \<noteq> [] \<and> (hd s0 = CHR ''-'' \<or> hd s0 = CHR ''+'') then tl s0 else s0)
      in if s = ''0'' then Some 0
         else if s = [] then None
         else
           (case duration_terms (length s) 0 s of
              None \<Rightarrow> None
            | Some d \<Rightarrow>
                if neg then Some (- int d)
                else if limit63 - 1 < d then None else Some (int d)))"

definition RFC3339 :: "time \<Rightarrow> string" where
  "RFC3339 t = RFC3339Nano (t - t mod sec_ns)"

lemma duration_term_shorter: "duration_term s = Some (v, s') \<Longrightarrow> length s' < length s"
proof -
  have lf: "length (snd (snd (leadingFraction x sc ov t))) \<le> length t" for x sc ov t
    by (induction x sc ov t rule: leadingFraction.induct) (auto simp: Let_def)
  have li: "leadingInt x t = Some (w, t') \<Longrightarrow> length t' \<le> length t" for x t w t'
    by (induction x t rule: leadingInt.induct) (auto simp: Let_def split: if_splits)
  assume "duration_term s = Some (v, s')"
  then obtain w s1 where s1: "leadingInt 0 s = Some (w, s1)"
    by (auto simp: duration_term_def split: option.splits)
  obtain f scale post s2 where s2: "(case s1 of c # t \<Rightarrow>
         (if c = CHR ''.'' then (let (f, scale, s2) = leadingFraction 0 (Fin 1) False t
            in (f, scale, length s2 \<noteq> length t, s2)) else (0, Fin 1, False, s1))
       | [] \<Rightarrow> (0, Fin 1, False, s1)) = (f, scale, post, s2)"
    using prod_cases4 by blast
  have "length s2 \<le> length s1"
  proof (cases s1)
    case (Cons c t)
    then show ?thesis
      using s2 lf[of 0 "Fin 1" False t] by (cases "c = CHR ''.''") (auto simp add: Let_def split_def)
  qed (use s2 in simp)
  moreover have "length s1 \<le> length s" by (rule li[OF s1])
  moreover have "s' = drop (length (takeWhile (\<lambda>c. c \<noteq> CHR ''.'' \<and> \<not> is_digit c) s2)) s2 \<and>
      takeWhile (\<lambda>c. c \<noteq> CHR ''.'' \<and> \<not> is_digit c) s2 \<noteq> []"
    using \<open>duration_term s = Some (v, s')\<close> s1 s2
    by (simp add: duration_term_def Let_def split: if_splits option.splits)
  moreover from this have "s2 \<noteq> []" by auto
  ultimately show ?thesis by (cases s2) (auto split: if_splits)
qed

end
