(* ===== verification/Sovereigntyreconcile.thy ===== *)
theory Sovereigntyreconcile
  imports Controllercatalog Enforcementengine Gatewayactuator Metrictracker GoText
begin

section \<open>Sovereignty reconciliation (aisovereigntypolicy_controller.go, shadow.go)\<close>

text \<open>
  One run of the AISovereigntyPolicy controller. The calls to the API server and to the telemetry
  source are arguments (the record \<open>env\<close>); the world it changes is the routes of the
  namespace, the gauge of the findings, the two metric trackers and the events.
\<close>

subsection \<open>Telemetry source\<close>

definition TelemetryModePrometheus :: string where "TelemetryModePrometheus = ''prometheus''"
definition TelemetryModeFake :: string where "TelemetryModeFake = ''fake''"
definition TelemetryModeAIGW :: string where "TelemetryModeAIGW = ''aigw''"
definition TelemetryModeConfigMap :: string where "TelemetryModeConfigMap = ''configmap''"

lemmas telemetry_modes =
  TelemetryModePrometheus_def TelemetryModeFake_def TelemetryModeAIGW_def TelemetryModeConfigMap_def

record TelemetrySpec =
  te_Mode :: string
  te_MetricsEndpoint :: string
  te_SourceConfigMap :: string

record AIGateway =
  gw_Name :: string
  gw_Endpoint :: string
  gw_Telemetry :: TelemetrySpec

datatype Collector =
    PrometheusCollector string
  | ConfigMapCollector string string
  | AIGWCollector string string
  | FakeCollector

definition collectorFor :: "string \<Rightarrow> AIGateway option \<Rightarrow> string + Collector" where
  "collectorFor namespace gw =
     (case gw of
        None \<Rightarrow> Inl (''no AIGateway / telemetry source configured for namespace '' @ fmt_q namespace @
          ''; set spec.gatewayRef or create an AIGateway with a telemetry mode '' @
          ''(prometheus|configmap|aigw), or mode '' @ fmt_q ''fake'' @
          '' to explicitly opt into demo data'')
      | Some g \<Rightarrow>
          (let mode = te_Mode (gw_Telemetry g); endpoint = gw_Endpoint g @ te_MetricsEndpoint (gw_Telemetry g)
           in if mode = TelemetryModePrometheus then Inr (PrometheusCollector endpoint)
              else if mode = TelemetryModeConfigMap then
                (if te_SourceConfigMap (gw_Telemetry g) = '''' then
                   Inl (''gateway '' @ fmt_q (gw_Name g) @
                     '' uses configmap telemetry but spec.telemetry.sourceConfigMap is empty'')
                 else Inr (ConfigMapCollector namespace (te_SourceConfigMap (gw_Telemetry g))))
              else if mode = TelemetryModeAIGW then Inr (AIGWCollector namespace endpoint)
              else if mode = TelemetryModeFake then Inr FakeCollector
              else Inl (''gateway '' @ fmt_q (gw_Name g) @ '' has unknown telemetry mode '' @ fmt_q mode)))"

subsection \<open>The objects\<close>

record sov_policy =
  so_Name :: string
  so_Namespace :: string
  so_UID :: string
  so_Generation :: int64
  so_Deleting :: bool
  so_Finalizer :: bool
  so_Spec :: AISovereigntyPolicySpec
  so_ObservedGeneration :: int64
  so_FindingsCount :: int32
  so_Ready :: "Condition option"

record world =
  wd_routes :: "route list"
  wd_enforcement :: tracker
  wd_shadow :: tracker
  wd_findings :: "(series, nat) gomap"
  wd_events :: "string list"

record env =
  en_api :: unstructured_api
  en_codec :: saved_codec
  en_qf :: "quantity \<Rightarrow> f64"
  en_IsNoMatch :: "go_error \<Rightarrow> bool"
  en_listErr1 :: "go_error option"
  en_listErr2 :: "go_error option"
  en_updateRoute :: "route \<Rightarrow> go_error option"
  en_updateObject :: "go_error option"
  en_updateStatus :: "go_error option"
  en_catalog :: "catalog result"
  en_egress :: "Egress list result"
  en_gateway :: "AIGateway option"
  en_collect :: "Collector \<Rightarrow> UsageSample list result"
  en_range :: "(string, TokenPricing) gomap \<Rightarrow> (string \<times> TokenPricing) list"

datatype requeue = NoRequeue | RequeueAfterSeconds nat

definition policyToEngine :: "AISovereigntyPolicySpec \<Rightarrow> Policy" where
  "policyToEngine p =
     \<lparr>AllowedZones = dr_AllowedZones (sp_DataResidency p),
      ForbiddenZones = dr_ForbiddenZones (sp_DataResidency p),
      ExternalProvidersAllowed = sd_ExternalProvidersAllowed (sp_SensitiveData p),
      RequireAnonymization = sd_RequireAnonymization (sp_SensitiveData p)\<rparr>"

subsection \<open>Shadow AI\<close>

definition shadow_series :: "ShadowFinding \<Rightarrow> series" where
  "shadow_series f = [sf_Namespace f, sf_Application f, sf_Zone f, sf_Provider f, sf_Severity f]"

definition detectShadowAI ::
  "Egress list result \<Rightarrow> string \<Rightarrow> Policy \<Rightarrow> tracker \<Rightarrow> ShadowFinding list \<times> tracker" where
  "detectShadowAI observed uid policy t =
     (case observed of
        Inl e \<Rightarrow> ([], retire uid [] t)
      | Inr egresses \<Rightarrow>
          (if egresses = [] then ([], retire uid [] t)
           else let findings = Detect policy egresses (Some EndpointToZone)
                in (findings, emit uid (map shadow_series findings) t)))"

subsection \<open>From findings to controls\<close>

definition violation_of :: "Finding \<Rightarrow> Violation option" where
  "violation_of f =
     (if fi_Severity f \<noteq> SeverityCritical then None
      else Some \<lparr>vi_Namespace = fi_Namespace f, vi_Application = fi_Application f,
             vi_Provider = fi_Provider f, vi_Zone = fi_Zone f, vi_Model = fi_Model f,
             vi_Requests = fi_Requests f\<rparr>)"

definition control_step ::
  "Decision \<Rightarrow> (string, string) gomap \<times> (string, bool) gomap \<Rightarrow> (string, string) gomap \<times> (string, bool) gomap" where
  "control_step d st =
     (let (reroutes, blocks) = st;
          reroutes = (if de_Action d = ActionReroute \<and> de_RerouteTo d \<noteq> ''''
                      then AList.update (de_Model d) (de_RerouteTo d) reroutes else reroutes);
          blocks = (if de_Action d = ActionBlock then AList.update (de_Model d) True blocks else blocks)
      in (reroutes, blocks))"

definition desired_controls ::
  "string \<Rightarrow> Decision list \<Rightarrow> (string, string) gomap \<times> (string, bool) gomap" where
  "desired_controls mode decisions =
     (if mode = ModeEnforce then fold control_step decisions ([], []) else ([], []))"

text \<open>The decisions of a policy on the samples, with the reroute target.\<close>

definition policy_decisions ::
  "env \<Rightarrow> catalog \<Rightarrow> AISovereigntyPolicySpec \<Rightarrow> UsageSample list \<Rightarrow> Decision list" where
  "policy_decisions E cat spec samples =
     (let findings = EvaluateFlows (policyToEngine spec) (flows cat samples);
          fallback = cheapestCompliantModelName cat (policyToEngine spec)
            (en_range E (priceBook (en_qf E) cat))
      in DecideSovereignty (sp_EnforcementMode spec) (List.map_filter violation_of findings) fallback)"

definition mark_actuated :: "routeActuationResult \<Rightarrow> Decision \<Rightarrow> Decision" where
  "mark_actuated res d =
     (if de_Action d = ActionReroute then d\<lparr>de_Actuated := de_Model d \<in> set (ra_rerouted res)\<rparr>
      else if de_Action d = ActionBlock then d\<lparr>de_Actuated := de_Model d \<in> set (ra_blocked res)\<rparr>
      else d)"

definition event_message :: "Decision \<Rightarrow> string" where
  "event_message d =
     (if de_Actuated d \<and> de_Action d = ActionReroute then
        ''enforce: '' @ de_Namespace d @ ''/'' @ de_Application d @ '' '' @ emdash @ '' rerouted '' @
        fmt_q (de_Model d) @ '' to compliant '' @ fmt_q (de_RerouteTo d) @ '' at the Envoy AI Gateway''
      else if de_Actuated d \<and> de_Action d = ActionBlock then
        ''enforce: '' @ de_Namespace d @ ''/'' @ de_Application d @ '' '' @ emdash @ '' blocked model '' @
        fmt_q (de_Model d) @ '' at the Envoy AI Gateway (no compliant fallback)''
      else de_Message d)"

definition enforcement_series :: "string \<Rightarrow> Decision \<Rightarrow> series" where
  "enforcement_series policyName d =
     [policyName, de_Namespace d, de_Application d, de_Mode d, action_string (de_Action d),
      if de_Actuated d then ''true'' else ''false'']"

definition count :: "('k, nat) gomap \<Rightarrow> 'k \<Rightarrow> string" where
  "count m k = show_nat (case map_of m k of None \<Rightarrow> 0 | Some n \<Rightarrow> n)"

definition evaluated_message :: "AISovereigntyPolicySpec \<Rightarrow> Finding list \<Rightarrow> Decision list \<Rightarrow> string" where
  "evaluated_message spec findings decisions =
     (let counts = CountBySeverity findings; actionCounts = CountByAction decisions
      in ''Evaluated ('' @ sp_EnforcementMode spec @ ''): '' @ show_nat (length findings) @
         '' finding(s) '' @ emdash @ '' '' @ count counts SeverityCritical @ '' critical, '' @
         count counts SeverityWarning @ '' warning; enforcement: '' @
         count actionCounts ActionWarn @ '' warn, '' @ count actionCounts ActionReroute @ '' reroute, '' @
         count actionCounts ActionBlock @ '' block'')"

subsection \<open>Reconcile\<close>

definition actuate_sov ::
  "env \<Rightarrow> route list \<Rightarrow> (string, string) gomap \<Rightarrow> (string, bool) gomap \<Rightarrow>
     route list \<times> routeActuationResult \<times> go_error option" where
  "actuate_sov E routes reroutes blocks =
     actuateSovereigntyControls (en_api E) (en_codec E) (en_IsNoMatch E) (en_updateRoute E)
       (en_listErr1 E) (en_listErr2 E) routes reroutes blocks"

text \<open>The gauge of the findings per application and severity is set, and never pruned.\<close>

definition perApp :: "Finding list \<Rightarrow> (string \<times> string \<times> string, nat) gomap" where
  "perApp findings =
     group_by (\<lambda>f. Some (fi_Namespace f, fi_Application f, fi_Severity f))
       (\<lambda>f acc. case acc of None \<Rightarrow> 1 | Some n \<Rightarrow> n + 1) findings []"

definition set_findings :: "string \<Rightarrow> Finding list \<Rightarrow> (series, nat) gomap \<Rightarrow> (series, nat) gomap" where
  "set_findings policyName findings gauge =
     fold (\<lambda>(k, n) g. case k of (ns, app, sev) \<Rightarrow> AList.update [ns, app, policyName, sev] n g)
       (perApp findings) gauge"

text \<open>The part after the samples have been collected.\<close>

definition enforce_samples ::
  "env \<Rightarrow> catalog \<Rightarrow> UsageSample list \<Rightarrow> sov_policy \<Rightarrow> world \<Rightarrow> sov_policy \<times> world" where
  "enforce_samples E cat samples p w =
     (let findings = EvaluateFlows (policyToEngine (so_Spec p)) (flows cat samples);
          decisions = policy_decisions E cat (so_Spec p) samples;
          (reroutes, blocks) = desired_controls (sp_EnforcementMode (so_Spec p)) decisions;
          (routes', res, err) = actuate_sov E (wd_routes w) reroutes blocks;
          marked = map (mark_actuated res) decisions
      in (p\<lparr>so_FindingsCount := of_nat (length findings),
            so_Ready := Some (readyTrue (so_Generation p) (evaluated_message (so_Spec p) findings decisions))\<rparr>,
          w\<lparr>wd_routes := routes',
            wd_findings := set_findings (so_Name p) findings (wd_findings w),
            wd_events := wd_events w @ map event_message (filter (\<lambda>d. de_Action d \<noteq> ActionReport) marked),
            wd_enforcement := emit (so_UID p) (map (enforcement_series (so_Name p)) marked) (wd_enforcement w)\<rparr>))"

definition not_ready :: "sov_policy \<Rightarrow> string \<Rightarrow> string \<Rightarrow> sov_policy" where
  "not_ready p reason message = p\<lparr>so_Ready := Some (readyFalse (so_Generation p) reason message)\<rparr>"

text \<open>A status update that fails leaves the stored status as it was; its error is only returned at the end.\<close>

definition stored :: "env \<Rightarrow> sov_policy \<Rightarrow> sov_policy \<Rightarrow> sov_policy" where
  "stored E old new = (if en_updateStatus E = None then new else old)"

definition reconcile_live :: "env \<Rightarrow> sov_policy \<Rightarrow> world \<Rightarrow> sov_policy \<times> world \<times> requeue \<times> go_error option" where
  "reconcile_live E p w =
     (let p1 = p\<lparr>so_ObservedGeneration := so_Generation p\<rparr>
      in case en_catalog E of
           Inl e \<Rightarrow> (p, w, NoRequeue, Some e)
         | Inr cat \<Rightarrow>
             (let (sf, sh) = detectShadowAI (en_egress E) (so_UID p) (policyToEngine (so_Spec p)) (wd_shadow w);
                  w1 = w\<lparr>wd_shadow := sh, wd_events := wd_events w @ map sf_Message sf\<rparr>
              in case collectorFor (so_Namespace p) (en_gateway E) of
                   Inl m \<Rightarrow> (stored E p (not_ready p1 ReasonNoTelemetry m), w1, RequeueAfterSeconds 60, None)
                 | Inr c \<Rightarrow>
                     (case en_collect E c of
                        Inl e \<Rightarrow> (stored E p (not_ready p1 ReasonReconcileError (err_text e)), w1,
                                  RequeueAfterSeconds 60, None)
                      | Inr samples \<Rightarrow>
                          (let (p2, w2) = enforce_samples E cat samples p1 w1
                           in case en_updateStatus E of
                                Some e \<Rightarrow> (p, w2, NoRequeue, Some e)
                              | None \<Rightarrow> (p2, w2, RequeueAfterSeconds 60, None)))))"

definition reconcile_deletion :: "env \<Rightarrow> sov_policy \<Rightarrow> world \<Rightarrow> sov_policy \<times> world \<times> requeue \<times> go_error option" where
  "reconcile_deletion E p w =
     (if so_Finalizer p then
        (let (routes', rerouted, err) =
               actuateReroutes (en_api E) (en_codec E) (en_IsNoMatch E) (en_updateRoute E)
                 (en_listErr1 E) (en_listErr2 E) (wd_routes w) [];
             w' = w\<lparr>wd_routes := routes', wd_enforcement := forget (so_UID p) (wd_enforcement w),
                    wd_shadow := forget (so_UID p) (wd_shadow w)\<rparr>
         in case en_updateObject E of
              Some e \<Rightarrow> (p, w', NoRequeue, Some e)
            | None \<Rightarrow> (p\<lparr>so_Finalizer := False\<rparr>, w', NoRequeue, None))
      else (p, w, NoRequeue, None))"

definition Reconcile_sovereignty :: "env \<Rightarrow> sov_policy \<Rightarrow> world \<Rightarrow> sov_policy \<times> world \<times> requeue \<times> go_error option" where
  "Reconcile_sovereignty E p w =
     (if so_Deleting p then reconcile_deletion E p w
      else if \<not> so_Finalizer p then
        (case en_updateObject E of
           Some e \<Rightarrow> (p, w, NoRequeue, Some e)
         | None \<Rightarrow> reconcile_live E (p\<lparr>so_Finalizer := True\<rparr>) w)
      else reconcile_live E p w)"

subsection \<open>What a run does to the routes\<close>

lemma cheapest_allowed:
  assumes "cheapestCompliantModelName cat pe entries \<noteq> ''''"
  shows "IsZoneAllowed pe (zoneForModel cat (cheapestCompliantModelName cat pe entries))"
  using fold_cheapest_step[OF refl, of "('''', MaxFloat64)" cat pe entries] assms
  by (auto simp: cheapestCompliantModelName_def MaxFloat64_def)

lemma control_steps_reroute:
  "t \<noteq> '''' \<Longrightarrow> fold control_step (map (decide_one ModeEnforce t) vs) (d, b) =
     (fold (\<lambda>v. AList.update (vi_Model v) t) vs d, b)"
  by (induction vs arbitrary: d) (simp_all add: control_step_def decide_one_def mode_defs)

lemma control_steps_block:
  "fold control_step (map (decide_one ModeEnforce '''') vs) (d, b) =
     (d, fold (\<lambda>v. AList.update (vi_Model v) True) vs b)"
  by (induction vs arbitrary: b) (simp_all add: control_step_def decide_one_def mode_defs)

lemma map_of_fold_update:
  "map_of (fold (\<lambda>v. AList.update (vi_Model v) x) vs m) k =
     (if k \<in> vi_Model ` set vs then Some x else map_of m k)"
  by (induction vs arbitrary: m) (auto simp: update_conv')

lemma desired_controls_enforce:
  assumes "desired_controls ModeEnforce (DecideSovereignty ModeEnforce vs t) = (reroutes, blocks)"
    and "v \<in> set vs"
  shows "if t = '''' then map_of reroutes (vi_Model v) = None \<and> map_of blocks (vi_Model v) = Some True
    else map_of reroutes (vi_Model v) = Some t"
  using assms
  by (cases "t = ''''")
     (auto simp: desired_controls_def DecideSovereignty_def control_steps_block control_steps_reroute
       map_of_fold_update)

lemma violations_of_critical:
  assumes "f \<in> set fs" "fi_Severity f = SeverityCritical"
  shows "\<exists>v \<in> set (List.map_filter violation_of fs). vi_Model v = fi_Model f"
  using assms by (force simp: map_filter_mem violation_of_def)

lemma actuate_sov_fst:
  "fst (actuate_sov E routes d b) =
     fst (actuateRouteControlsWithAnnotation (en_api E) (en_codec E) nm (en_updateRoute E)
       (en_listErr1 E) (en_listErr2 E) routes d b sovereigntyRerouteAnnotation)"
  by (simp add: actuate_sov_def actuateSovereigntyControls_def
      actuateRouteControlsWithAnnotation_def Let_def split: sum.splits option.splits)

lemma run_routes:
  "\<exists>ps. wd_routes (fst (snd (Reconcile_sovereignty E p w))) =
     cluster_runs (en_api E) (en_codec E) nm sovereigntyRerouteAnnotation ps (wd_routes w)"
proof -
  have one: "\<exists>ps. fst (actuate_sov E routes d b) =
      cluster_runs (en_api E) (en_codec E) nm sovereigntyRerouteAnnotation ps routes" for routes d b
    by (rule exI[of _ "[\<lparr>ps_reroutes = d, ps_blocked = b, ps_update = en_updateRoute E,
          ps_listErr1 = en_listErr1 E, ps_listErr2 = en_listErr2 E\<rparr>]"])
       (simp add: actuate_sov_fst[of _ _ _ _ nm])
  have del: "fst (actuateReroutes (en_api E) (en_codec E) (en_IsNoMatch E) (en_updateRoute E)
       (en_listErr1 E) (en_listErr2 E) routes []) = fst (actuate_sov E routes [] [])" for routes
    by (simp add: actuateReroutes_def actuateReroutesWithAnnotation_def actuate_sov_def
        actuateSovereigntyControls_def split_def Let_def)
  have none: "\<exists>ps. r = cluster_runs (en_api E) (en_codec E) nm sovereigntyRerouteAnnotation ps r" for r
    by (rule exI[of _ "[]"]) simp
  have "\<exists>d b. wd_routes (fst (snd (reconcile_live E q w))) = wd_routes w \<or>
      wd_routes (fst (snd (reconcile_live E q w))) = fst (actuate_sov E (wd_routes w) d b)" for q
    by (simp add: reconcile_live_def enforce_samples_def Let_def split_def split: sum.splits option.splits)
       auto
  then have live: "\<exists>ps. wd_routes (fst (snd (reconcile_live E q w))) =
      cluster_runs (en_api E) (en_codec E) nm sovereigntyRerouteAnnotation ps (wd_routes w)" for q
    using none one by metis
  show ?thesis
    using live none one del
    by (simp add: Reconcile_sovereignty_def reconcile_deletion_def Let_def split_def split: option.splits)
qed

text \<open>What one enforcing run must do to a rule: the model m with target t.\<close>

definition enforced_rule ::
  "unstructured_api \<Rightarrow> (string, string) gomap \<Rightarrow> string \<Rightarrow> string \<Rightarrow> json \<Rightarrow> json \<Rightarrow> bool" where
  "enforced_rule K mb m t j j' \<longleftrightarrow>
     json_model K j' = json_model K j \<and>
     (routed K j \<and> json_model K j = m \<longrightarrow>
        (if t = '''' then backend_view K j' = Some (Some (JStr BlockBackendName), None)
         else if get mb t = '''' then j' = j
         else backend_view K j' = Some (Some (JStr (get mb t)), Some (body_mutation t))))"

lemma obeys_enforced_rule:
  assumes "obeys K d b mb j j'"
    and "if t = '''' then map_of d m = None \<and> map_of b m = Some True else map_of d m = Some t"
  shows "enforced_rule K mb m t j j'"
  using assms by (auto simp: obeys_def enforced_rule_def split: if_splits)

lemma actuate_sov_enforces:
  assumes "gateway (en_api E) (en_codec E)" "en_listErr1 E = None" "en_listErr2 E = None"
    and "en_updateRoute E = (\<lambda>r. None)" "modelBackends (en_api E) (Inr routes) = Inr mb"
    and "if t = '''' then map_of d m = None \<and> map_of b m = Some True else map_of d m = Some t"
  shows "list_all2 (\<lambda>r r'. list_all2 (enforced_rule (en_api E) mb m t)
      (route_rules (en_api E) r) (route_rules (en_api E) r')) routes (fst (actuate_sov E routes d b))"
proof -
  let ?K = "en_api E" and ?C = "en_codec E"
  obtain rs' out' where a: "actuate_routes ?K ?C (\<lambda>r. None) d b mb sovereigntyRerouteAnnotation routes
      emptyRouteActuationResult = (rs', out', None)"
    using actuate_routes_no_error[of "\<lambda>r. None"] by (metis prod.collapse)
  then have "fst (actuate_sov E routes d b) = rs'"
    using assms(2-5) by (simp add: actuate_sov_def actuateSovereigntyControls_def
        actuateRouteControlsWithAnnotation_def)
  moreover have "list_all2 (\<lambda>r r'. list_all2 (obeys ?K d b mb) (route_rules ?K r) (route_rules ?K r')) routes rs'"
    by (rule gateway.actuate_routes_obeys[OF assms(1) a])
  ultimately show ?thesis
    using obeys_enforced_rule[OF _ assms(6)] by (auto elim!: list_all2_mono)
qed

lemma live_routes:
  assumes "\<not> so_Deleting p" "so_Finalizer p" "en_catalog E = Inr cat"
    and "collectorFor (so_Namespace p) (en_gateway E) = Inr c" "en_collect E c = Inr samples"
    and "desired_controls (sp_EnforcementMode (so_Spec p)) (policy_decisions E cat (so_Spec p) samples) = (d, b)"
  shows "wd_routes (fst (snd (Reconcile_sovereignty E p w))) = fst (actuate_sov E (wd_routes w) d b)"
  using assms
  by (simp add: Reconcile_sovereignty_def reconcile_live_def enforce_samples_def Let_def split_def
      split: option.splits)

text \<open>
  C15: Enforcement reaches the gateway: when a live policy in enforce mode is reconciled and its
  calls succeed, every rule that routes the model of a critical finding ends up as one target t
  says, which is the cheapest compliant model: without a target the rule points to the reserved
  absent backend, with a target it points to the backend that serves t and rewrites the body to
  t, and a rule is left as it was only if t has no serving backend. A target lies in a zone that
  the policy allows.
\<close>

theorem sovereignty_enforced:
  assumes "gateway (en_api E) (en_codec E)" "en_listErr1 E = None" "en_listErr2 E = None"
    and "en_updateRoute E = (\<lambda>r. None)" "modelBackends (en_api E) (Inr (wd_routes w)) = Inr mb"
    and "\<not> so_Deleting p" "so_Finalizer p" "sp_EnforcementMode (so_Spec p) = ModeEnforce"
    and "en_catalog E = Inr cat" "collectorFor (so_Namespace p) (en_gateway E) = Inr c"
    and "en_collect E c = Inr samples"
    and "f \<in> set (EvaluateFlows (policyToEngine (so_Spec p)) (flows cat samples))"
      "fi_Severity f = SeverityCritical"
    and "t = cheapestCompliantModelName cat (policyToEngine (so_Spec p))
      (en_range E (priceBook (en_qf E) cat))"
  shows "list_all2 (\<lambda>r r'. list_all2 (enforced_rule (en_api E) mb (fi_Model f) t)
      (route_rules (en_api E) r) (route_rules (en_api E) r'))
      (wd_routes w) (wd_routes (fst (snd (Reconcile_sovereignty E p w)))) \<and>
    (t \<noteq> '''' \<longrightarrow> IsZoneAllowed (policyToEngine (so_Spec p)) (zoneForModel cat t))"
proof -
  let ?vs = "List.map_filter violation_of (EvaluateFlows (policyToEngine (so_Spec p)) (flows cat samples))"
  obtain v where v: "v \<in> set ?vs" "vi_Model v = fi_Model f"
    using violations_of_critical[OF assms(12,13)] by blast
  have pd: "policy_decisions E cat (so_Spec p) samples = DecideSovereignty ModeEnforce ?vs t"
    by (simp add: policy_decisions_def Let_def assms(8,14))
  obtain d b where db: "desired_controls ModeEnforce (DecideSovereignty ModeEnforce ?vs t) = (d, b)"
    by fastforce
  have "if t = '''' then map_of d (fi_Model f) = None \<and> map_of b (fi_Model f) = Some True
      else map_of d (fi_Model f) = Some t"
    using desired_controls_enforce[OF db v(1)] unfolding v(2) .
  note enf = actuate_sov_enforces[OF assms(1-5) this]
  have "wd_routes (fst (snd (Reconcile_sovereignty E p w))) = fst (actuate_sov E (wd_routes w) d b)"
    using db pd assms(8) by (intro live_routes[OF assms(6,7,9,10,11)]) simp
  then show ?thesis using enf cheapest_allowed assms(14) by simp
qed

definition example_spec_enforce :: AISovereigntyPolicySpec where
  "example_spec_enforce = \<lparr>sp_DataResidency = \<lparr>dr_AllowedZones = [''EU''], dr_ForbiddenZones = [''US'']\<rparr>,
     sp_SensitiveData = \<lparr>sd_ExternalProvidersAllowed = True, sd_RequireAnonymization = False\<rparr>,
     sp_Audit = \<lparr>au_RetainLogsDays = 0, au_ImmutableLogs = False\<rparr>, sp_EnforcementMode = ''enforce''\<rparr>"

definition example_sov_policy :: "bool \<Rightarrow> sov_policy" where
  "example_sov_policy deleting = \<lparr>so_Name = ''eu-only'', so_Namespace = ''prod'', so_UID = ''u1'',
     so_Generation = 1, so_Deleting = deleting, so_Finalizer = True, so_Spec = example_spec_enforce,
     so_ObservedGeneration = 0, so_FindingsCount = 0, so_Ready = None\<rparr>"

definition us_catalog :: catalog where
  "us_catalog = \<lparr>cat_providers = [(''openai'', example_provider ''openai'' ''US'')], cat_models = []\<rparr>"

definition us_sample :: UsageSample where
  "us_sample = zero_sample\<lparr>us_Model := ''gpt-4o'', us_Provider := ''openai''\<rparr>"

definition example_env :: "go_error option \<Rightarrow> env" where
  "example_env listErr = \<lparr>en_api = json_api, en_codec = example_codec, en_qf = \<lambda>q. Fin 1,
     en_IsNoMatch = \<lambda>e. False, en_listErr1 = listErr, en_listErr2 = None, en_updateRoute = \<lambda>r. None,
     en_updateObject = None, en_updateStatus = None, en_catalog = Inr us_catalog, en_egress = Inr [],
     en_gateway = Some \<lparr>gw_Name = ''gw'', gw_Endpoint = ''http://gw'',
        gw_Telemetry = \<lparr>te_Mode = ''fake'', te_MetricsEndpoint = '''', te_SourceConfigMap = ''''\<rparr>\<rparr>,
     en_collect = \<lambda>c. Inr [us_sample], en_range = \<lambda>pb. pb\<rparr>"

definition example_world :: world where
  "example_world = \<lparr>wd_routes = [example_route [example_rule ''gpt-4o'' ''openai'', example_rule ''eu'' ''eu-be'']],
     wd_enforcement = no_tracker, wd_shadow = no_tracker, wd_findings = [], wd_events = []\<rparr>"

lemma example_policyToEngine: "policyToEngine example_spec_enforce = example_policy"
  by (simp add: policyToEngine_def example_spec_enforce_def example_policy_def)

lemma example_flows: "flows us_catalog [us_sample] = [\<lparr>fl_Namespace = '''', fl_Application = '''',
     fl_Model = ''gpt-4o'', fl_Provider = ''openai'', fl_Zone = ''US'', fl_Managed = True,
     fl_ProviderAllowsSensitive = False, fl_ModelAllowsSensitive = False, fl_Requests = 0\<rparr>]"
  by (simp add: flows_def flow_of_def us_catalog_def us_sample_def zero_sample_def provider_of_def
      example_provider_def example_zones modelSensitivity_def List.map_filter_simps Let_def)

lemma example_critical:
  "\<exists>f \<in> set (EvaluateFlows (policyToEngine example_spec_enforce) (flows us_catalog [us_sample])).
     fi_Severity f = SeverityCritical \<and> fi_Model f = ''gpt-4o''"
  using critical_of_forbidden[of "flows us_catalog [us_sample]" "hd (flows us_catalog [us_sample])" example_policy]
  by (auto simp: example_flows example_policyToEngine clean_flow_def unit_sep_def is_forbidden_def
      flow_id_def finding_id_def example_policy_def example_zones set_EvaluateFlows)

theorem sovereignty_enforced_witness:
  "\<exists>t mb. list_all2 (\<lambda>r r'. list_all2 (enforced_rule json_api mb ''gpt-4o'' t)
      (route_rules json_api r) (route_rules json_api r'))
    [example_route [example_rule ''gpt-4o'' ''openai'', example_rule ''eu'' ''eu-be'']]
    (wd_routes (fst (snd (Reconcile_sovereignty (example_env None) (example_sov_policy False) example_world))))"
proof -
  obtain mb where mb: "modelBackends json_api (Inr (wd_routes example_world)) = Inr mb"
    by (simp add: modelBackends_def)
  obtain f where f: "f \<in> set (EvaluateFlows (policyToEngine example_spec_enforce) (flows us_catalog [us_sample]))"
    "fi_Severity f = SeverityCritical" "fi_Model f = ''gpt-4o''" using example_critical by blast
  have c: "collectorFor ''prod'' (en_gateway (example_env None)) = Inr FakeCollector"
    by (simp add: collectorFor_def example_env_def telemetry_modes Let_def)
  show ?thesis
    using sovereignty_enforced[of "example_env None" example_world mb "example_sov_policy False"
        us_catalog FakeCollector "[us_sample]" f, OF _ _ _ _ _ _ _ _ _ _ _ _ _ refl] mb f c
      example_gateway.gateway_axioms
    by (simp add: example_env_def example_sov_policy_def mode_defs) 
       (auto simp: example_spec_enforce_def example_world_def)
qed

subsection \<open>The end of a policy\<close>

definition sov_runs :: "(env \<times> sov_policy) list \<Rightarrow> world \<Rightarrow> world" where
  "sov_runs history w = fold (\<lambda>(E, p) w. fst (snd (Reconcile_sovereignty E p w))) history w"

lemma sov_runs_routes:
  assumes "\<forall>(E, p) \<in> set history. en_api E = K \<and> en_codec E = C"
  shows "\<exists>ps. wd_routes (sov_runs history w) = cluster_runs K C nm sovereigntyRerouteAnnotation ps (wd_routes w)"
  using assms
proof (induction history rule: rev_induct)
  case Nil
  show ?case by (rule exI[of _ "[]"]) (simp add: sov_runs_def)
next
  case (snoc Ep history)
  obtain E p where Ep: "Ep = (E, p)" by fastforce
  obtain ps where "wd_routes (sov_runs history w) = cluster_runs K C nm sovereigntyRerouteAnnotation ps (wd_routes w)"
    using snoc by auto
  moreover have "sov_runs (history @ [Ep]) w = fst (snd (Reconcile_sovereignty E p (sov_runs history w)))"
    by (simp add: sov_runs_def Ep)
  moreover have "en_api E = K \<and> en_codec E = C" using snoc.prems Ep by simp
  ultimately show ?case
    using run_routes[of E p "sov_runs history w" nm] by (metis cluster_runs_append)
qed

lemma deletion_routes:
  assumes "so_Deleting p" "so_Finalizer p"
  shows "wd_routes (fst (snd (Reconcile_sovereignty E p w))) = fst (actuate_sov E (wd_routes w) [] [])"
  using assms
  by (simp add: Reconcile_sovereignty_def reconcile_deletion_def actuateReroutes_def
      actuateReroutesWithAnnotation_def actuate_sov_def actuateSovereigntyControls_def split_def Let_def
      split: option.splits)

text \<open>
  C16: A policy leaves no trace on plain routes: after any history of reconciliations of policies of the
  namespace under any outcome of their calls, the reconciliation of a policy under deletion (with its
  finalizer) whose calls on routes succeed restores the rules of every route to what they were before the
  history. It is assumed of every route before the history that its rules route distinct models, that
  their first backends have a name and no body mutation, and that it keeps no originals in the
  sovereignty annotation; with two rules for one model it fails
  (\<open>ApplyControls_duplicate_model_stays_blocked\<close>).
\<close>

theorem sovereignty_deletion_restores:
  assumes "gateway K C" "\<forall>(E, p) \<in> set history. en_api E = K \<and> en_codec E = C"
    and "\<forall>r \<in> set (wd_routes w). distinct_models K (route_rules K r) \<and>
      (\<forall>j \<in> set (route_rules K r). plain_rule K j) \<and> saved_of C sovereigntyRerouteAnnotation r = []"
    and "so_Deleting p" "so_Finalizer p" "en_api E = K" "en_codec E = C"
    and "en_listErr1 E = None" "en_listErr2 E = None" "en_updateRoute E = (\<lambda>r. None)"
  shows "map (route_rules K) (wd_routes (fst (snd (Reconcile_sovereignty E p (sov_runs history w))))) =
    map (route_rules K) (wd_routes w)"
proof -
  obtain ps where ps: "wd_routes (sov_runs history w) =
      cluster_runs K C (\<lambda>e. False) sovereigntyRerouteAnnotation ps (wd_routes w)"
    using sov_runs_routes[OF assms(2)] by blast
  have "wd_routes (fst (snd (Reconcile_sovereignty E p (sov_runs history w)))) =
      cluster_runs K C (\<lambda>e. False) sovereigntyRerouteAnnotation (ps @ [release_pass]) (wd_routes w)"
    using assms(6-10)
    by (simp add: deletion_routes[OF assms(4,5)] actuate_sov_fst[of _ _ _ _ "\<lambda>e. False"] ps
        cluster_runs_append release_pass_def)
  then show ?thesis using gateway.cluster_runs_release[OF assms(1,3)] by simp
qed

theorem sovereignty_deletion_restores_witness:
  "map (route_rules json_api) (wd_routes (fst (snd (Reconcile_sovereignty (example_env None)
     (example_sov_policy True)
     (sov_runs [(example_env (Some (Err ''timeout'' [])), example_sov_policy False),
                (example_env None, example_sov_policy False)] example_world))))) =
   [[example_rule ''gpt-4o'' ''openai'', example_rule ''eu'' ''eu-be'']]"
  by (subst sovereignty_deletion_restores[OF example_gateway.gateway_axioms])
     (simp_all add: example_env_def example_world_def example_sov_policy_def distinct_models_def plain_rule_def)

text \<open>
  The error of reverting the routes is dropped: when the routes cannot be listed while a
  policy is deleted, the routes keep all its controls, and yet the finalizer is removed and the
  run reports success, so nothing reverts them later.
\<close>

theorem sovereignty_deletion_drops_error:
  assumes "so_Deleting p" "so_Finalizer p" "en_listErr1 E = Some e" "en_updateObject E = None"
  shows "\<exists>w'. Reconcile_sovereignty E p w = (p\<lparr>so_Finalizer := False\<rparr>, w', NoRequeue, None) \<and>
    wd_routes w' = wd_routes w"
  using assms
  by (simp add: Reconcile_sovereignty_def reconcile_deletion_def actuateReroutes_def
      actuateReroutesWithAnnotation_def actuateRouteControlsWithAnnotation_def modelBackends_def Let_def)

theorem sovereignty_deletion_drops_error_witness:
  "\<exists>w'. Reconcile_sovereignty (example_env (Some (Err ''timeout'' []))) (example_sov_policy True) example_world =
     ((example_sov_policy True)\<lparr>so_Finalizer := False\<rparr>, w', NoRequeue, None) \<and>
     wd_routes w' = wd_routes example_world"
  by (rule sovereignty_deletion_drops_error) (simp_all add: example_sov_policy_def example_env_def)

subsection \<open>The gauge of the findings\<close>

definition findings_of :: "string \<Rightarrow> string \<Rightarrow> string \<Rightarrow> Finding list \<Rightarrow> Finding list" where
  "findings_of ns app sev findings =
     filter (\<lambda>f. fi_Namespace f = ns \<and> fi_Application f = app \<and> fi_Severity f = sev) findings"

lemma perApp_lookup:
  "map_of (perApp findings) (ns, app, sev) =
     (let n = length (findings_of ns app sev findings) in if n = 0 then None else Some n)"
  by (cases "findings_of ns app sev findings")
     (simp_all add: perApp_def map_of_group_by findings_of_def count_fold)

lemma set_findings_fold:
  assumes "distinct (map fst ps)"
  shows "map_of (fold (\<lambda>(k, n) g. case k of (ns, app, sev) \<Rightarrow> AList.update [ns, app, pn, sev] n g) ps g)
      [ns, app, pn', sev] =
    (if pn' = pn \<and> map_of ps (ns, app, sev) \<noteq> None then map_of ps (ns, app, sev)
     else map_of g [ns, app, pn', sev])"
  using assms
proof (induction ps arbitrary: g)
  case (Cons kn ps)
  obtain a b c n where kn: "kn = ((a, b, c), n)" by (metis prod_cases3 prod.exhaust)
  have "map_of ps (a, b, c) = None" using Cons.prems by (simp add: kn map_of_eq_None_iff)
  then show ?case using Cons by (auto simp: kn update_conv')
qed simp

lemma set_findings_lookup:
  "map_of (set_findings pn fs g) [ns, app, pn', sev] =
     (if pn' = pn \<and> findings_of ns app sev fs \<noteq> [] then Some (length (findings_of ns app sev fs))
      else map_of g [ns, app, pn', sev])"
proof -
  have "distinct (map fst (perApp fs))" by (simp add: perApp_def)
  then show ?thesis
    unfolding set_findings_def by (subst set_findings_fold) (simp_all add: perApp_lookup Let_def)
qed

text \<open>
  The gauge of the findings is set for what a run found and pruned for nothing: a run sets
  the series of a workload and severity to the number of its findings if there are any, and
  leaves every other series, also one of its own policy whose findings have disappeared, at its
  old value.
\<close>

theorem findings_gauge:
  "map_of (wd_findings (snd (enforce_samples E cat samples p w))) [ns, app, pn, sev] =
     (let n = length (findings_of ns app sev (EvaluateFlows (policyToEngine (so_Spec p)) (flows cat samples)))
      in if pn = so_Name p \<and> n > 0 then Some n else map_of (wd_findings w) [ns, app, pn, sev])"
  by (simp add: enforce_samples_def Let_def split_def set_findings_lookup)

end
