(* ===== verification/GoMath.thy ===== *)
theory GoMath
  imports GoFloat "HOL-Library.Signed_Division"
begin

section \<open>Square root and integer division\<close>

text \<open>
  \<open>math.Sqrt\<close> is the correctly rounded square root, computed on integers. The division of int64
  values truncates toward zero.
\<close>

subsection \<open>math.Sqrt\<close>

fun isqrt :: "nat \<Rightarrow> nat" where
  "isqrt n =
     (if n = 0 then 0
      else let r = 2 * isqrt (n div 4) in if (r + 1) * (r + 1) \<le> n then r + 1 else r)"

declare isqrt.simps [simp del]

lemma isqrt_bounds: "isqrt n * isqrt n \<le> n \<and> n < (isqrt n + 1) * (isqrt n + 1)"
proof (induction n rule: isqrt.induct)
  case (1 n)
  show ?case
  proof (cases "n = 0")
    case True
    then show ?thesis by (simp add: isqrt.simps)
  next
    case False
    define r where "r = isqrt (n div 4)"
    have IH: "r * r \<le> n div 4" "n div 4 < (r + 1) * (r + 1)" using 1 False by (simp_all add: r_def)
    then have "4 * (r * r) \<le> n" "n < 4 * ((r + 1) * (r + 1))" by linarith+
    moreover have "isqrt n = (if (2 * r + 1) * (2 * r + 1) \<le> n then 2 * r + 1 else 2 * r)"
      using False by (subst isqrt.simps) (simp add: r_def Let_def)
    ultimately show ?thesis by (auto simp: algebra_simps)
  qed
qed

text \<open>
  A positive a is scaled by an even power of two so that the root has at least 60 bits; the
  half unit stands for the digits that are cut off, and the sum is rounded once.
\<close>

definition scaled_root :: "rat \<Rightarrow> rat" where
  "scaled_root a =
     (let k = ilog2 a div 2 - 60; r = isqrt (nat \<lfloor>a / pow2 (2 * k)\<rfloor>)
      in (of_nat r + (if of_nat (r * r) * pow2 (2 * k) = a then 0 else 1 / 2)) * pow2 k)"

fun math_Sqrt :: "f64 \<Rightarrow> f64" where
  "math_Sqrt (Fin a) = (if a < 0 then NaN else if a = 0 then Fin 0 else rnd (scaled_root a))"
| "math_Sqrt PInf = PInf"
| "math_Sqrt _ = NaN"

lemma math_Sqrt_nonneg: "math_Sqrt x \<noteq> NaN \<Longrightarrow> fle (Fin 0) (math_Sqrt x)"
  by (cases x) (auto simp: scaled_root_def Let_def intro!: rnd_nonneg)

subsection \<open>Division of int64\<close>

definition i64_div :: "int64 \<Rightarrow> int64 \<Rightarrow> int64" where
  "i64_div a b = of_int (sint a sdiv sint b)"

lemma sint_i64_div:
  assumes "0 \<le> sint a" "0 < sint b"
  shows "sint (i64_div a b) = sint a div sint b"
proof -
  have "sint a sdiv sint b = sint a div sint b" using assms by (simp add: signed_divide_int_def sgn_if)
  moreover have "sint a div sint b \<le> sint a" using assms zdiv_mono2[of "sint a" 1 "sint b"] by simp
  moreover have "0 \<le> sint a div sint b" using assms by (simp add: pos_imp_zdiv_nonneg_iff)
  moreover have "sint a < 2 ^ 63" by (rule sint64_bounds)
  ultimately show ?thesis unfolding i64_div_def by (simp add: sint64_of_int)
qed

end
