(* ===== verification/Qualitystats.thy ===== *)
theory Qualitystats
  imports GoMath
begin

section \<open>Quality statistics (pkg/qualitystats)\<close>

text \<open>
  The statistics behind a quality gate: a non-inferiority test on two success rates, a weighted
  composite score, and the hysteresis that turns a score into a verdict. A Go \<open>int\<close> is 64 bits
  wide.
\<close>

subsection \<open>Types and defaults\<close>

definition QVerdictCandidateSafe :: string where "QVerdictCandidateSafe = ''candidate-safe''"
definition QVerdictCandidateRisk :: string where "QVerdictCandidateRisk = ''candidate-risk''"
definition QVerdictInsufficientData :: string where "QVerdictInsufficientData = ''insufficient-data''"

lemmas qverdicts = QVerdictCandidateSafe_def QVerdictCandidateRisk_def QVerdictInsufficientData_def

record BernoulliSample =
  be_Successes :: int64
  be_Total :: int64

record NonInferiorityConfig =
  ni_Delta :: f64
  ni_ConfidenceLevel :: f64
  ni_Power :: f64
  ni_BaselineSuccessRate :: f64

record NonInferiorityResult =
  nr_Verdict :: string
  nr_RequiredSamplesPerArm :: int64
  nr_ObservedSourceSamples :: int64
  nr_ObservedCandidateSlots :: int64
  nr_SourceRate :: f64
  nr_CandidateRate :: f64
  nr_Difference :: f64
  nr_LowerConfidenceBound :: f64
  nr_Delta :: f64

record CompositeWeights =
  cw_Quality :: f64
  cw_ErrorRate :: f64
  cw_LatencyP95 :: f64
  cw_Cost :: f64

record CompositeInput =
  ci_Quality :: f64
  ci_ErrorRate :: f64
  ci_LatencyP95 :: f64
  ci_Cost :: f64

record CompositeResult =
  cr_Score :: f64
  cr_Normalized :: CompositeWeights
  cr_Components :: CompositeInput

record HysteresisConfig =
  hy_EnterSafe :: f64
  hy_ExitSafe :: f64

definition DefaultNonInferiorityConfig :: NonInferiorityConfig where
  "DefaultNonInferiorityConfig = \<lparr>ni_Delta = flit (5 / 100), ni_ConfidenceLevel = flit (95 / 100),
     ni_Power = flit (80 / 100), ni_BaselineSuccessRate = flit (90 / 100)\<rparr>"

definition DefaultCompositeWeights :: CompositeWeights where
  "DefaultCompositeWeights = \<lparr>cw_Quality = flit (40 / 100), cw_ErrorRate = flit (20 / 100),
     cw_LatencyP95 = flit (20 / 100), cw_Cost = flit (20 / 100)\<rparr>"

definition DefaultHysteresisConfig :: HysteresisConfig where
  "DefaultHysteresisConfig = \<lparr>hy_EnterSafe = flit (80 / 100), hy_ExitSafe = flit (70 / 100)\<rparr>"

subsection \<open>Helpers\<close>

definition qs_clamp01 :: "f64 \<Rightarrow> f64" where
  "qs_clamp01 v = math_Max (Fin 0) (math_Min (Fin 1) v)"

definition zForConfidence :: "f64 \<Rightarrow> f64" where
  "zForConfidence c =
     (if fle (flit (995 / 1000)) c then flit (2576 / 1000)
      else if fle (flit (99 / 100)) c then flit (2326 / 1000)
      else if fle (flit (95 / 100)) c then flit (1645 / 1000)
      else if fle (flit (90 / 100)) c then flit (1282 / 1000)
      else flit (1645 / 1000))"

definition zForPower :: "f64 \<Rightarrow> f64" where
  "zForPower p =
     (if fle (flit (90 / 100)) p then flit (1282 / 1000)
      else if fle (flit (80 / 100)) p then flit (842 / 1000)
      else if fle (flit (70 / 100)) p then flit (524 / 1000)
      else flit (842 / 1000))"

definition variance :: "f64 \<Rightarrow> int64 \<Rightarrow> f64" where
  "variance p n =
     (if sint n \<le> 0 then Fin 0 else fdiv (fmul p (fsub (Fin 1) p)) (of_i64 n))"

definition normalizeNonInferiorityConfig :: "NonInferiorityConfig \<Rightarrow> NonInferiorityConfig" where
  "normalizeNonInferiorityConfig cfg =
     (let d = DefaultNonInferiorityConfig;
          cfg = (if fle (ni_Delta cfg) (Fin 0) then cfg\<lparr>ni_Delta := ni_Delta d\<rparr> else cfg);
          cfg = (if fle (ni_ConfidenceLevel cfg) (Fin 0)
                 then cfg\<lparr>ni_ConfidenceLevel := ni_ConfidenceLevel d\<rparr> else cfg);
          cfg = (if fle (ni_Power cfg) (Fin 0) then cfg\<lparr>ni_Power := ni_Power d\<rparr> else cfg)
      in if fle (ni_BaselineSuccessRate cfg) (Fin 0)
         then cfg\<lparr>ni_BaselineSuccessRate := ni_BaselineSuccessRate d\<rparr> else cfg)"

definition normalizeHysteresis :: "HysteresisConfig \<Rightarrow> HysteresisConfig" where
  "normalizeHysteresis cfg =
     (let d = DefaultHysteresisConfig;
          cfg = (if fle (hy_EnterSafe cfg) (Fin 0) then cfg\<lparr>hy_EnterSafe := hy_EnterSafe d\<rparr> else cfg);
          cfg = (if fle (hy_ExitSafe cfg) (Fin 0) then cfg\<lparr>hy_ExitSafe := hy_ExitSafe d\<rparr> else cfg)
      in if flt (hy_EnterSafe cfg) (hy_ExitSafe cfg)
         then cfg\<lparr>hy_ExitSafe := hy_EnterSafe cfg\<rparr> else cfg)"

subsection \<open>Non-inferiority\<close>

text \<open>
  \<open>oor\<close> is the result of converting a float64 that does not fit an int (Go leaves it to the
  implementation).
\<close>

definition RequiredSampleSize :: "(f64 \<Rightarrow> int64) \<Rightarrow> NonInferiorityConfig \<Rightarrow> int64" where
  "RequiredSampleSize oor cfg0 =
     (let cfg = normalizeNonInferiorityConfig cfg0;
          p = qs_clamp01 (ni_BaselineSuccessRate cfg);
          z = fadd (zForConfidence (ni_ConfidenceLevel cfg)) (zForPower (ni_Power cfg));
          n = fdiv (fmul (fmul (fmul (fmul (Fin 2) z) z) p) (fsub (Fin 1) p))
                (fmul (ni_Delta cfg) (ni_Delta cfg))
      in to_i64 oor (math_Ceil n))"

definition success_rate :: "BernoulliSample \<Rightarrow> f64" where
  "success_rate s =
     (if 0 < sint (be_Total s) then fdiv (of_i64 (be_Successes s)) (of_i64 (be_Total s)) else Fin 0)"

definition EvaluateNonInferiority ::
  "(f64 \<Rightarrow> int64) \<Rightarrow> NonInferiorityConfig \<Rightarrow> BernoulliSample \<Rightarrow> BernoulliSample \<Rightarrow> NonInferiorityResult" where
  "EvaluateNonInferiority oor cfg0 source candidate =
     (let cfg = normalizeNonInferiorityConfig cfg0;
          required = RequiredSampleSize oor cfg;
          sr = success_rate source; cr = success_rate candidate;
          result = \<lparr>nr_Verdict = '''', nr_RequiredSamplesPerArm = required,
            nr_ObservedSourceSamples = be_Total source, nr_ObservedCandidateSlots = be_Total candidate,
            nr_SourceRate = sr, nr_CandidateRate = cr, nr_Difference = fsub cr sr,
            nr_LowerConfidenceBound = Fin 0, nr_Delta = ni_Delta cfg\<rparr>
      in if sint (be_Total source) < sint required \<or> sint (be_Total candidate) < sint required \<or>
            be_Total source = 0 \<or> be_Total candidate = 0
         then result\<lparr>nr_Verdict := QVerdictInsufficientData\<rparr>
         else
           let se = math_Sqrt (fadd (variance sr (be_Total source)) (variance cr (be_Total candidate)));
               lower = fsub (nr_Difference result) (fmul (zForConfidence (ni_ConfidenceLevel cfg)) se);
               result = result\<lparr>nr_LowerConfidenceBound := lower\<rparr>
           in if fle (fneg (ni_Delta cfg)) lower
              then result\<lparr>nr_Verdict := QVerdictCandidateSafe\<rparr>
              else result\<lparr>nr_Verdict := QVerdictCandidateRisk\<rparr>)"

subsection \<open>Composite score and hysteresis\<close>

definition NormalizeCompositeWeights :: "CompositeWeights \<Rightarrow> CompositeWeights" where
  "NormalizeCompositeWeights w0 =
     (let q = math_Max (Fin 0) (cw_Quality w0); e = math_Max (Fin 0) (cw_ErrorRate w0);
          l = math_Max (Fin 0) (cw_LatencyP95 w0); c = math_Max (Fin 0) (cw_Cost w0);
          sum = fadd (fadd (fadd q e) l) c
      in if feq sum (Fin 0) then DefaultCompositeWeights
         else \<lparr>cw_Quality = fdiv q sum, cw_ErrorRate = fdiv e sum, cw_LatencyP95 = fdiv l sum,
                cw_Cost = fdiv c sum\<rparr>)"

definition EvaluateComposite :: "CompositeWeights \<Rightarrow> CompositeInput \<Rightarrow> CompositeResult" where
  "EvaluateComposite weights0 in0 =
     (let w = NormalizeCompositeWeights weights0;
          i = \<lparr>ci_Quality = qs_clamp01 (ci_Quality in0), ci_ErrorRate = qs_clamp01 (ci_ErrorRate in0),
               ci_LatencyP95 = qs_clamp01 (ci_LatencyP95 in0), ci_Cost = qs_clamp01 (ci_Cost in0)\<rparr>;
          score = fadd (fadd (fadd (fmul (cw_Quality w) (ci_Quality i))
              (fmul (cw_ErrorRate w) (ci_ErrorRate i))) (fmul (cw_LatencyP95 w) (ci_LatencyP95 i)))
              (fmul (cw_Cost w) (ci_Cost i))
      in \<lparr>cr_Score = qs_clamp01 score, cr_Normalized = w, cr_Components = i\<rparr>)"

definition ApplyHysteresis :: "string \<Rightarrow> f64 \<Rightarrow> HysteresisConfig \<Rightarrow> string" where
  "ApplyHysteresis previousVerdict score0 cfg0 =
     (let cfg = normalizeHysteresis cfg0; score = qs_clamp01 score0;
          wasSafe = (previousVerdict = QVerdictCandidateSafe)
      in if wasSafe \<and> fle (hy_ExitSafe cfg) score then QVerdictCandidateSafe
         else if wasSafe \<and> flt score (hy_ExitSafe cfg) then QVerdictCandidateRisk
         else if \<not> wasSafe \<and> fle (hy_EnterSafe cfg) score then QVerdictCandidateSafe
         else QVerdictCandidateRisk)"

definition PercentileScore :: "f64 \<Rightarrow> f64 \<Rightarrow> f64 \<Rightarrow> f64" where
  "PercentileScore source candidate maxRegressionRatio0 =
     (if fle source (Fin 0) \<or> fle candidate (Fin 0) then Fin 0
      else
        let mx = (if fle maxRegressionRatio0 (Fin 1) then flit (125 / 100) else maxRegressionRatio0);
            ratio = fdiv candidate source
        in if fle ratio (Fin 1) then Fin 1
           else if fle mx ratio then Fin 0
           else fsub (Fin 1) (fdiv (fsub ratio (Fin 1)) (fsub mx (Fin 1))))"

definition ErrorRateScore :: "int64 \<Rightarrow> int64 \<Rightarrow> int64 \<Rightarrow> int64 \<Rightarrow> f64" where
  "ErrorRateScore sourceErrors sourceRequests candidateErrors candidateRequests =
     (if sint sourceRequests \<le> 0 \<or> sint candidateRequests \<le> 0 then Fin 0
      else
        let sourceRate = fdiv (of_i64 sourceErrors) (of_i64 sourceRequests);
            candidateRate = fdiv (of_i64 candidateErrors) (of_i64 candidateRequests)
        in if fle candidateRate sourceRate then Fin 1
           else if fle (Fin 1) candidateRate then Fin 0
           else qs_clamp01 (fsub (Fin 1) candidateRate))"

definition CostScore :: "f64 \<Rightarrow> f64 \<Rightarrow> f64" where
  "CostScore sourceCost candidateCost =
     (if fle sourceCost (Fin 0) \<or> fle candidateCost (Fin 0) then Fin 0
      else if fle candidateCost sourceCost then Fin 1
      else qs_clamp01 (fdiv sourceCost candidateCost))"

subsection \<open>A safe verdict\<close>

lemma z_pos: "\<exists>a. zForConfidence c = Fin a \<and> 0 < a"
proof -
  have "\<exists>a. flit x = Fin a \<and> 0 < a" if x: "1 \<le> x" "x \<le> 3" for x
  proof -
    have "1 \<le> round_rat x" "\<bar>x\<bar> \<le> 3" using x round_rat_mono[of 1 x] by simp_all
    moreover have "(3 :: rat) < pow2 1024" using pow2_strict_mono[of 2 1024] by (simp add: pow2_def)
    ultimately show ?thesis using rnd_bounded(1)[of x 3] by (simp add: flit_def)
  qed
  then show ?thesis by (auto simp: zForConfidence_def)
qed

lemma fsub_0 [simp]: "fsub (fsub x y) (Fin 0) = fsub x y"
proof -
  have "rnd a = Fin b \<Longrightarrow> rnd b = Fin b" for a b by (auto simp: rnd_Fin)
  then show ?thesis by (cases "fsub x y"; cases x; cases y) (auto simp: fsub_def)
qed

lemma lower_le_difference:
  assumes "fsub (fsub x y) (fmul (zForConfidence c) (math_Sqrt v)) \<noteq> NaN"
  shows "fle (fsub (fsub x y) (fmul (zForConfidence c) (math_Sqrt v))) (fsub x y)"
proof -
  obtain a where a: "zForConfidence c = Fin a" "0 < a" using z_pos by blast
  have n: "fsub x y \<noteq> NaN" "math_Sqrt v \<noteq> NaN" "fmul (zForConfidence c) (math_Sqrt v) \<noteq> NaN"
    using fsub_NaN[OF assms] fmul_NaN by blast+
  have "fle (fmul (Fin a) (Fin 0)) (fmul (Fin a) (math_Sqrt v))"
    using a n math_Sqrt_nonneg[OF n(2)] by (intro fle_fmul_nonneg) simp_all
  then have "fle (Fin 0) (fmul (zForConfidence c) (math_Sqrt v))" using a by simp
  from fle_fsub_right[OF this, of "fsub x y"] show ?thesis using n assms by simp
qed



subsection \<open>Hysteresis\<close>

lemma normalizeHysteresis_order:
  "hy_ExitSafe cfg \<noteq> NaN \<Longrightarrow> fle (hy_EnterSafe (normalizeHysteresis cfg)) x \<Longrightarrow>
     fle (hy_ExitSafe (normalizeHysteresis cfg)) x"
proof -
  have d: "hy_ExitSafe DefaultHysteresisConfig \<noteq> NaN"
    by (simp add: DefaultHysteresisConfig_def flit_def)
  assume n: "hy_ExitSafe cfg \<noteq> NaN"
    and e: "fle (hy_EnterSafe (normalizeHysteresis cfg)) x"
  then have "hy_EnterSafe (normalizeHysteresis cfg) \<noteq> NaN" by auto
  moreover have "hy_ExitSafe (normalizeHysteresis cfg) \<noteq> NaN"
    using n d by (auto simp: normalizeHysteresis_def Let_def flt_def)
  moreover have "\<not> flt (hy_EnterSafe (normalizeHysteresis cfg)) (hy_ExitSafe (normalizeHysteresis cfg))"
    by (auto simp: normalizeHysteresis_def Let_def)
  ultimately have "fle (hy_ExitSafe (normalizeHysteresis cfg)) (hy_EnterSafe (normalizeHysteresis cfg))"
    by (simp add: not_flt)
  then show ?thesis using e by (rule fle_trans)
qed

lemma ApplyHysteresis_iff:
  "ApplyHysteresis v s cfg = QVerdictCandidateSafe \<longleftrightarrow>
     fle (if v = QVerdictCandidateSafe then hy_ExitSafe (normalizeHysteresis cfg)
          else hy_EnterSafe (normalizeHysteresis cfg)) (qs_clamp01 s)"
  by (auto simp: ApplyHysteresis_def Let_def qverdicts)

text \<open>The verdict after a history of scores.\<close>

definition hysteresis_run :: "HysteresisConfig \<Rightarrow> f64 list \<Rightarrow> string \<Rightarrow> string" where
  "hysteresis_run cfg scores v = fold (\<lambda>s v. ApplyHysteresis v s cfg) scores v"

lemma snoc_since:
  "(\<exists>before s since. xs @ [x] = before @ s # since \<and> P s \<and> list_all Q since) \<longleftrightarrow>
     P x \<or> (Q x \<and> (\<exists>before s since. xs = before @ s # since \<and> P s \<and> list_all Q since))"
    (is "?l \<longleftrightarrow> P x \<or> (Q x \<and> ?r)")
proof
  assume ?l
  then obtain before s since where "xs @ [x] = before @ s # since" "P s" "list_all Q since" by blast
  then show "P x \<or> (Q x \<and> ?r)" by (cases since rule: rev_cases) auto
next
  have "P x \<Longrightarrow> ?l" by (rule exI[of _ xs], rule exI[of _ x], rule exI[of _ "[]"]) simp
  moreover have ?l if Q: "Q x" and r: ?r
  proof -
    obtain before s since where "xs = before @ s # since" "P s" "list_all Q since" using r by blast
    then show ?l
      using Q by (intro exI[of _ before] exI[of _ s] exI[of _ "since @ [x]"]) simp
  qed
  ultimately show "P x \<or> (Q x \<and> ?r) \<Longrightarrow> ?l" by blast
qed

text \<open>
  C33: The verdict has memory but no more than this: after any history of scores a model is safe
  exactly if some score reached the entry threshold (or it was safe at the start) and no score
  since then has fallen below the exit threshold. So scores between the two thresholds never
  change a verdict.
\<close>

theorem hysteresis_safe_since:
  assumes "hy_ExitSafe cfg \<noteq> NaN"
    and "enter = hy_EnterSafe (normalizeHysteresis cfg)" "exit = hy_ExitSafe (normalizeHysteresis cfg)"
  shows "hysteresis_run cfg scores v = QVerdictCandidateSafe \<longleftrightarrow>
    v = QVerdictCandidateSafe \<and> list_all (\<lambda>s. fle exit (qs_clamp01 s)) scores \<or>
    (\<exists>before s since. scores = before @ s # since \<and> fle enter (qs_clamp01 s) \<and>
       list_all (\<lambda>s. fle exit (qs_clamp01 s)) since)"
proof (induction scores rule: rev_induct)
  case Nil
  then show ?case by (simp add: hysteresis_run_def)
next
  case (snoc x xs)
  let ?run = "hysteresis_run cfg xs v = QVerdictCandidateSafe"
  have step: "hysteresis_run cfg (xs @ [x]) v = QVerdictCandidateSafe \<longleftrightarrow>
      ?run \<and> fle exit (qs_clamp01 x) \<or> \<not> ?run \<and> fle enter (qs_clamp01 x)"
    by (simp add: hysteresis_run_def ApplyHysteresis_iff assms(2,3))
  have mono: "fle enter (qs_clamp01 x) \<Longrightarrow> fle exit (qs_clamp01 x)"
    using normalizeHysteresis_order[OF assms(1)] assms(2,3) by blast
  show ?case
    unfolding step snoc_since[of xs x "\<lambda>s. fle enter (qs_clamp01 s)" "\<lambda>s. fle exit (qs_clamp01 s)"]
      list_all_append list.pred_inject(2) using snoc.IH mono list.pred_inject(1) by blast
qed

theorem hysteresis_safe_since_witness:
  "hysteresis_run \<lparr>hy_EnterSafe = Fin (3 / 4), hy_ExitSafe = Fin (1 / 2)\<rparr> [Fin 1, Fin (1 / 2)] '''' =
     QVerdictCandidateSafe"
proof -
  let ?c = "\<lparr>hy_EnterSafe = Fin (3 / 4), hy_ExitSafe = Fin (1 / 2)\<rparr>"
  have n: "normalizeHysteresis ?c = ?c" by (simp add: normalizeHysteresis_def)
  have "\<exists>before s since. [Fin 1, Fin (1 / 2)] = before @ s # since \<and> fle (Fin (3 / 4)) (qs_clamp01 s) \<and>
      list_all (\<lambda>s. fle (Fin (1 / 2)) (qs_clamp01 s)) since"
    by (rule exI[of _ "[]"]) (simp add: qs_clamp01_def math_Max_def math_Min_def)
  then show ?thesis
    using hysteresis_safe_since[of ?c "Fin (3 / 4)" "Fin (1 / 2)" "[Fin 1, Fin (1 / 2)]" "''''"]
    unfolding n by simp
qed

subsection \<open>Composite score\<close>

lemma qs_clamp01_NaN [simp]: "qs_clamp01 x = NaN \<longleftrightarrow> x = NaN"
  by (cases x) (auto simp: qs_clamp01_def math_Max_def math_Min_def)

lemma qs_clamp01_mono: "fle x y \<Longrightarrow> fle (qs_clamp01 x) (qs_clamp01 y)"
  by (cases x; cases y) (auto simp: qs_clamp01_def math_Max_def math_Min_def)

lemma qs_clamp01_range: "x \<noteq> NaN \<Longrightarrow> fle (Fin 0) (qs_clamp01 x) \<and> fle (qs_clamp01 x) (Fin 1)"
  by (cases x) (auto simp: qs_clamp01_def math_Max_def math_Min_def)

lemma math_Max_0: "math_Max (Fin 0) x \<noteq> NaN \<Longrightarrow> fle (Fin 0) (math_Max (Fin 0) x)"
  by (cases x) (auto simp: math_Max_def)

lemma fdiv_nonneg: "fle (Fin 0) x \<Longrightarrow> fle (Fin 0) y \<Longrightarrow> fdiv x y \<noteq> NaN \<Longrightarrow> fle (Fin 0) (fdiv x y)"
  by (cases x; cases y) (auto simp: finf_of_def intro!: rnd_nonneg split: if_splits)

lemma fadd_nonneg: "fle (Fin 0) x \<Longrightarrow> fle (Fin 0) y \<Longrightarrow> fle (Fin 0) (fadd x y)"
  by (cases x; cases y) (auto intro: rnd_nonneg)

lemma DefaultCompositeWeights_nonneg:
  "fle (Fin 0) (cw_Quality DefaultCompositeWeights)" "fle (Fin 0) (cw_ErrorRate DefaultCompositeWeights)"
  "fle (Fin 0) (cw_LatencyP95 DefaultCompositeWeights)" "fle (Fin 0) (cw_Cost DefaultCompositeWeights)"
  by (simp_all add: DefaultCompositeWeights_def flit_def rnd_nonneg)

lemma NormalizeCompositeWeights_nonneg:
  fixes w defines "n \<equiv> NormalizeCompositeWeights w"
  shows "cw_Quality n \<noteq> NaN \<Longrightarrow> fle (Fin 0) (cw_Quality n)"
    and "cw_ErrorRate n \<noteq> NaN \<Longrightarrow> fle (Fin 0) (cw_ErrorRate n)"
    and "cw_LatencyP95 n \<noteq> NaN \<Longrightarrow> fle (Fin 0) (cw_LatencyP95 n)"
    and "cw_Cost n \<noteq> NaN \<Longrightarrow> fle (Fin 0) (cw_Cost n)"
proof -
  let ?m = "math_Max (Fin 0)"
  have s: "fle (Fin 0) (fadd (fadd (fadd (?m a) (?m b)) (?m c)) (?m d))"
    if "fadd (fadd (fadd (?m a) (?m b)) (?m c)) (?m d) \<noteq> NaN" for a b c d
    using fadd_NaN[OF that] fadd_NaN math_Max_0 by (blast intro: fadd_nonneg)
  have d: "fle (Fin 0) (fdiv (?m x) (fadd (fadd (fadd (?m a) (?m b)) (?m c)) (?m d)))"
    if "fdiv (?m x) (fadd (fadd (fadd (?m a) (?m b)) (?m c)) (?m d)) \<noteq> NaN" for x a b c d
    using fdiv_NaN[OF that] that s math_Max_0 by (blast intro: fdiv_nonneg)
  show "cw_Quality n \<noteq> NaN \<Longrightarrow> fle (Fin 0) (cw_Quality n)"
    and "cw_ErrorRate n \<noteq> NaN \<Longrightarrow> fle (Fin 0) (cw_ErrorRate n)"
    and "cw_LatencyP95 n \<noteq> NaN \<Longrightarrow> fle (Fin 0) (cw_LatencyP95 n)"
    and "cw_Cost n \<noteq> NaN \<Longrightarrow> fle (Fin 0) (cw_Cost n)"
    by (simp_all add: n_def NormalizeCompositeWeights_def Let_def DefaultCompositeWeights_nonneg d
        split: if_splits)
qed

lemma weighted_mono:
  assumes "w \<noteq> NaN \<Longrightarrow> fle (Fin 0) w" "fle x y"
    and "fmul w (qs_clamp01 x) \<noteq> NaN" "fmul w (qs_clamp01 y) \<noteq> NaN"
  shows "fle (fmul w (qs_clamp01 x)) (fmul w (qs_clamp01 y))"
  using fmul_NaN[OF assms(3)] assms by (intro fle_fmul_nonneg qs_clamp01_mono) simp_all

text \<open>
  A better input never lowers the composite score: with the same weights, an input whose
  components are all at least as large scores at least as high, and a score lies between 0 and 1
  (as long as the scores are numbers).
\<close>

theorem EvaluateComposite_mono:
  assumes "fle (ci_Quality i) (ci_Quality i')" "fle (ci_ErrorRate i) (ci_ErrorRate i')"
    and "fle (ci_LatencyP95 i) (ci_LatencyP95 i')" "fle (ci_Cost i) (ci_Cost i')"
    and "cr_Score (EvaluateComposite w i) \<noteq> NaN" "cr_Score (EvaluateComposite w i') \<noteq> NaN"
  shows "fle (cr_Score (EvaluateComposite w i)) (cr_Score (EvaluateComposite w i')) \<and>
    fle (Fin 0) (cr_Score (EvaluateComposite w i)) \<and> fle (cr_Score (EvaluateComposite w i')) (Fin 1)"
proof -
  note d = EvaluateComposite_def Let_def CompositeInput.simps CompositeResult.simps qs_clamp01_NaN
  note n = NormalizeCompositeWeights_nonneg[of w]
  note z = assms(5,6)[unfolded d]
  have a: "fadd x y \<noteq> NaN \<longleftrightarrow> fadd x y \<noteq> NaN \<and> x \<noteq> NaN \<and> y \<noteq> NaN" for x y
    using fadd_NaN by blast
  show ?thesis
    unfolding d using z qs_clamp01_range
    by (intro conjI qs_clamp01_mono fle_fadd_mono weighted_mono n assms(1-4))
       (use fadd_NaN fmul_NaN in blast)+
qed

theorem EvaluateComposite_mono_witness:
  "let w = \<lparr>cw_Quality = Fin 1, cw_ErrorRate = Fin 1, cw_LatencyP95 = Fin 0, cw_Cost = Fin (- 1)\<rparr>;
       i = \<lparr>ci_Quality = Fin (1 / 2), ci_ErrorRate = Fin 1, ci_LatencyP95 = Fin 1, ci_Cost = Fin 0\<rparr>
   in fle (cr_Score (EvaluateComposite w i)) (cr_Score (EvaluateComposite w (i\<lparr>ci_Quality := Fin 1\<rparr>)))"
  unfolding Let_def
  by (rule EvaluateComposite_mono[THEN conjunct1])
     (simp_all add: EvaluateComposite_def NormalizeCompositeWeights_def Let_def qs_clamp01_def
       math_Max_def math_Min_def)

end
