(* ===== verification/Sequences.thy ===== *)
theory Sequences
  imports Main "HOL-Library.Sublist"
begin

section \<open>Edit distance and common subsequences of lists\<close>

text \<open>
  The specifications that the tables of the quality engine are checked against: single edits and
  the least number of them between two lists, and the length of a longest common subsequence.
\<close>

subsection \<open>Single edits\<close>

inductive edit1 :: "'a list \<Rightarrow> 'a list \<Rightarrow> bool" where
  Insert: "edit1 (us @ vs) (us @ c # vs)"
| Delete: "edit1 (us @ c # vs) (us @ vs)"
| Substitute: "edit1 (us @ c # vs) (us @ d # vs)"

fun lev :: "'a list \<Rightarrow> 'a list \<Rightarrow> nat" where
  "lev [] ys = length ys"
| "lev xs [] = length xs"
| "lev (x # xs) (y # ys) =
     min (lev (x # xs) ys + 1) (min (lev xs (y # ys) + 1) (lev xs ys + (if x = y then 0 else 1)))"

lemma lev_Nil [simp]: "lev xs [] = length xs"
  by (cases xs) simp_all

lemma edit1_Cons: "edit1 xs ys \<Longrightarrow> edit1 (c # xs) (c # ys)"
proof (induction rule: edit1.induct)
  case (Insert us vs d)
  then show ?case using edit1.Insert[of "c # us" vs d] by simp
next
  case (Delete us d vs)
  then show ?case using edit1.Delete[of "c # us" d vs] by simp
next
  case (Substitute us d vs e)
  then show ?case using edit1.Substitute[of "c # us" d vs e] by simp
qed

lemma edits_Cons: "(edit1 ^^ n) xs ys \<Longrightarrow> (edit1 ^^ n) (c # xs) (c # ys)"
proof (induction n arbitrary: ys)
  case (Suc n)
  then show ?case by (auto intro: edit1_Cons relcomppI)
qed simp

lemma edit1_first: "edit1 vs (c # vs)" "edit1 (c # vs) vs" "edit1 (c # vs) (d # vs)"
  using edit1.Insert[of "[]" vs c] edit1.Delete[of "[]" c vs] edit1.Substitute[of "[]" c vs d]
  by simp_all

lemma edits_step:
  "edit1 xs ys \<Longrightarrow> (edit1 ^^ n) ys zs \<Longrightarrow> (edit1 ^^ (n + 1)) xs zs"
  by (simp add: relpowp_Suc_I2 del: relpowp.simps)

lemma edits_last:
  "(edit1 ^^ n) xs ys \<Longrightarrow> edit1 ys zs \<Longrightarrow> (edit1 ^^ (n + 1)) xs zs"
  by auto

text \<open>The distance is attained.\<close>

lemma edits_lev: "(edit1 ^^ lev xs ys) xs ys"
proof (induction xs ys rule: lev.induct)
  case (1 ys)
  show ?case
  proof (induction ys)
    case (Cons y ys)
    then show ?case using edits_last[OF _ edit1_first(1)] by fastforce
  qed simp
next
  case (2 x xs)
  have "(edit1 ^^ length xs) xs []" for xs :: "'a list"
  proof (induction xs)
    case (Cons x xs)
    then show ?case using edits_step[OF edit1_first(2)] by fastforce
  qed simp
  from this[of "x # xs"] show ?case by (simp del: relpowp.simps)
next
  case (3 x xs y ys)
  consider "lev (x # xs) (y # ys) = lev (x # xs) ys + 1" | "lev (x # xs) (y # ys) = lev xs (y # ys) + 1"
    | "lev (x # xs) (y # ys) = lev xs ys + (if x = y then 0 else 1)"
    by (metis lev.simps(3) min_def)
  then show ?case
  proof cases
    case 1
    then show ?thesis using edits_last[OF 3(1) edit1_first(1)] by simp
  next
    case 2
    then show ?thesis using edits_step[OF edit1_first(2) 3(2)] by simp
  next
    case _: 3
    then show ?thesis
      using edits_Cons[OF 3(3), of y] edits_step[OF edit1_first(3)[of x xs y] edits_Cons[OF 3(3), of y]]
      by (cases "x = y") simp_all
  qed
qed

text \<open>A single edit changes the distance by at most one.\<close>

lemma lev_Cons_right: "lev xs (y # ys) \<le> lev xs ys + 1"
  by (cases xs) simp_all

lemma lev_Cons_left: "lev (x # xs) ys \<le> lev xs ys + 1"
  by (cases ys) simp_all

lemma lev_drop: "lev xs ys \<le> lev (x # xs) ys + 1"
proof (induction ys)
  case (Cons y ys)
  then show ?case using lev_Cons_right[of xs y ys] by simp
qed simp

lemma lev_change: "lev (x # xs) ys \<le> lev (z # xs) ys + 1"
proof (induction ys)
  case (Cons y ys)
  then show ?case
    unfolding lev.simps by (cases "x = y"; cases "z = y") (simp_all, linarith+)
qed simp

lemma lev_cong:
  assumes "\<And>ys. lev xs ys \<le> lev zs ys + 1"
  shows "lev (c # xs) ys \<le> lev (c # zs) ys + 1"
proof (induction ys)
  case Nil
  then show ?case using assms[of "[]"] by simp
next
  case (Cons y ys)
  then show ?case using assms[of ys] assms[of "y # ys"] by (simp split: if_split)
qed

lemma lev_edit1: "edit1 xs zs \<Longrightarrow> lev xs ys \<le> lev zs ys + 1"
proof (induction arbitrary: ys rule: edit1.induct)
  case (Insert us vs c)
  show ?case
    by (induction us arbitrary: ys) (auto intro: lev_cong[simplified] lev_drop[simplified])
next
  case (Delete us c vs)
  show ?case
    by (induction us arbitrary: ys) (auto intro: lev_cong[simplified] lev_Cons_left[simplified])
next
  case (Substitute us c vs d)
  show ?case
    by (induction us arbitrary: ys) (auto intro: lev_cong[simplified] lev_change[simplified])
qed

lemma lev_self [simp]: "lev xs xs = 0"
  by (induction xs) simp_all

lemma lev_le_edits: "(edit1 ^^ n) xs ys \<Longrightarrow> lev xs ys \<le> n"
proof (induction n arbitrary: xs)
  case (Suc n)
  then obtain zs where "edit1 xs zs" "(edit1 ^^ n) zs ys" by (metis relpowp_Suc_D2)
  then show ?case using Suc.IH lev_edit1[of xs zs ys] by fastforce
qed simp

lemma lev_least: "lev xs ys = (LEAST n. (edit1 ^^ n) xs ys)"
  by (rule Least_equality[symmetric]) (simp_all add: edits_lev lev_le_edits)

lemma edit1_rev: "edit1 xs ys \<Longrightarrow> edit1 (rev xs) (rev ys)"
  by (induction rule: edit1.induct) (simp_all add: edit1.intros)

lemma edits_rev: "(edit1 ^^ n) xs ys \<Longrightarrow> (edit1 ^^ n) (rev xs) (rev ys)"
proof (induction n arbitrary: ys)
  case (Suc n)
  then show ?case by (auto intro: edit1_rev relcomppI)
qed simp

lemma lev_rev [simp]: "lev (rev xs) (rev ys) = lev xs ys"
  using lev_le_edits[OF edits_rev[OF edits_lev[of xs ys]]]
    lev_le_edits[OF edits_rev[OF edits_lev[of "rev xs" "rev ys"]]] by simp

subsection \<open>Longest common subsequence\<close>

definition common_subseq :: "'a list \<Rightarrow> 'a list \<Rightarrow> 'a list \<Rightarrow> bool" where
  "common_subseq zs xs ys \<longleftrightarrow> subseq zs xs \<and> subseq zs ys"

fun lcs :: "'a list \<Rightarrow> 'a list \<Rightarrow> nat" where
  "lcs [] ys = 0"
| "lcs xs [] = 0"
| "lcs (x # xs) (y # ys) = (if x = y then lcs xs ys + 1 else max (lcs xs (y # ys)) (lcs (x # xs) ys))"

lemma lcs_Nil [simp]: "lcs xs [] = 0"
  by (cases xs) simp_all

lemma lcs_attained: "\<exists>zs. common_subseq zs xs ys \<and> length zs = lcs xs ys"
proof (induction xs ys rule: lcs.induct)
  case (3 x xs y ys)
  show ?case
  proof (cases "x = y")
    case True
    then obtain zs where "common_subseq zs xs ys" "length zs = lcs xs ys" using 3(1) by blast
    then show ?thesis using True by (intro exI[of _ "x # zs"]) (simp add: common_subseq_def)
  next
    case False
    obtain zs where "common_subseq zs xs (y # ys)" "length zs = lcs xs (y # ys)" using 3(2) False by blast
    moreover obtain us where "common_subseq us (x # xs) ys" "length us = lcs (x # xs) ys"
      using 3(3) False by blast
    ultimately show ?thesis
      using False by (simp add: common_subseq_def max_def) (metis list_emb_Cons)
  qed
qed (auto simp: common_subseq_def)

lemma subseq_tl: "subseq (z # zs) (x # xs) \<Longrightarrow> subseq zs xs"
  by (metis subseq_Cons' subseq_Cons2_iff)

lemma lcs_upper: "common_subseq zs xs ys \<Longrightarrow> length zs \<le> lcs xs ys"
proof (induction xs ys arbitrary: zs rule: lcs.induct)
  case (3 x xs y ys)
  show ?case
  proof (cases zs)
    case (Cons z zs')
    show ?thesis
    proof (cases "x = y")
      case True
      have "common_subseq zs' xs ys"
        using "3.prems" unfolding Cons common_subseq_def by (blast intro: subseq_tl)
      from "3.IH"(1)[OF True this] show ?thesis using True Cons by simp
    next
      case False
      have "common_subseq zs xs (y # ys) \<or> common_subseq zs (x # xs) ys"
        using "3.prems" False unfolding Cons common_subseq_def by (cases "z = x") simp_all
      then show ?thesis using "3.IH"(2,3)[OF False] False by fastforce
    qed
  qed simp
qed (auto simp: common_subseq_def)

lemma subseq_reverse: "subseq xs ys \<Longrightarrow> subseq (rev xs) (rev ys)"
proof (induction rule: list_emb.induct)
  case (list_emb_Cons xs ys y)
  then show ?case by (simp add: subseq_rev_drop_many)
next
  case (list_emb_Cons2 x y xs ys)
  then show ?case by (simp add: list_emb_append_mono)
qed simp

lemma common_subseq_rev: "common_subseq zs xs ys \<Longrightarrow> common_subseq (rev zs) (rev xs) (rev ys)"
  by (simp add: common_subseq_def subseq_reverse)

lemma lcs_rev [simp]: "lcs (rev xs) (rev ys) = lcs xs ys"
proof -
  have le: "lcs xs ys \<le> lcs (rev xs) (rev ys)" for xs ys :: "'a list"
    using lcs_attained[of xs ys] lcs_upper common_subseq_rev by (metis length_rev)
  then show ?thesis using le[of "rev xs" "rev ys"] le[of xs ys] by simp
qed

lemma lcs_is_longest:
  "(\<exists>zs. common_subseq zs xs ys \<and> length zs = lcs xs ys) \<and>
   (\<forall>zs. common_subseq zs xs ys \<longrightarrow> length zs \<le> lcs xs ys)"
  using lcs_attained lcs_upper by blast

subsection \<open>Prefixes, the way a table is filled\<close>

lemma rev_take_Suc: "i < length xs \<Longrightarrow> rev (take (Suc i) xs) = xs ! i # rev (take i xs)"
  by (simp add: take_Suc_conv_app_nth)

end
