(* ===== verification/Qualityengine.thy ===== *)
theory Qualityengine
  imports GoFloat GoStrings Sequences
begin

section \<open>Quality engine (internal/qualityengine)\<close>

text \<open>
  The scores of a model from golden evidence and telemetry. A text is the list of its runes, so
  that the multi-byte letters of \<open>foldLatin\<close> are single elements; the classification of runes by
  the tables of the unicode package is an argument (\<open>unicode_tables\<close>), and so is the validity
  of a JSON text. A Go map of fields is an association list with distinct keys.
\<close>

type_synonym rune = nat
type_synonym rtext = "rune list"

record unicode_tables =
  IsLetter :: "rune \<Rightarrow> bool"
  IsDigit :: "rune \<Rightarrow> bool"
  IsSpace :: "rune \<Rightarrow> bool"
  LowerRune :: "rune \<Rightarrow> rune"

definition runes :: "string \<Rightarrow> rtext" where
  "runes s = map of_char s"

definition rune_len :: "rune \<Rightarrow> nat" where
  "rune_len r = (if r < 128 then 1 else if r < 2048 then 2 else if r < 65536 then 3 else 4)"

text \<open>\<open>len\<close> of a Go string counts the bytes of its UTF-8 text.\<close>

definition byte_len :: "rtext \<Rightarrow> nat" where
  "byte_len s = sum_list (map rune_len s)"

subsection \<open>Types\<close>

definition VerdictCandidateSafe :: string where "VerdictCandidateSafe = ''candidate-safe''"
definition VerdictCandidateRisk :: string where "VerdictCandidateRisk = ''candidate-risk''"
definition VerdictInsufficientData :: string where "VerdictInsufficientData = ''insufficient-data''"

lemmas verdict_defs = VerdictCandidateSafe_def VerdictCandidateRisk_def VerdictInsufficientData_def

record QWeights =
  qw_Correctness :: f64
  qw_Reliability :: f64
  qw_Latency :: f64
  qw_Semantic :: f64
  qw_Judged :: f64

record Telemetry =
  qt_Requests :: int64
  qt_Errors :: int64
  qt_Timeouts :: int64
  qt_InvalidJSON :: int64
  qt_LatencyMillis :: f64
  qt_LatencyObserved :: bool

record EvidenceSample =
  es_ID :: rtext
  es_Expected :: rtext
  es_Actual :: rtext
  es_MustBeJSON :: bool
  es_ExpectedFields :: "(rtext, rtext) gomap"
  es_ActualFields :: "(rtext, rtext) gomap"
  es_RequiredKeywordsPresent :: "bool option"
  es_SemanticScore :: "f64 option"
  es_JudgedScore :: "f64 option"

record DimensionScores =
  ds_Correctness :: f64
  ds_Reliability :: f64
  ds_Latency :: f64
  ds_Semantic :: f64
  ds_Judged :: f64

record ModelResult =
  qm_Overall :: f64
  qm_Breakdown :: DimensionScores
  qm_WeightsUsed :: QWeights
  qm_Samples :: nat
  qm_MissingSignals :: "string list"
  qm_Insufficient :: bool

record Comparison =
  co_Source :: ModelResult
  co_Candidate :: ModelResult
  co_Verdict :: string
  co_Reason :: string
  co_MinSamples :: int64
  co_Tolerance :: f64
  co_WeightsUsed :: QWeights
  co_MissingInput :: "string list"

record EvaluateInput =
  in_SourceSamples :: "EvidenceSample list"
  in_CandidateSamples :: "EvidenceSample list"
  in_SourceTelemetry :: Telemetry
  in_CandidateTelemetry :: Telemetry
  in_Weights :: QWeights
  in_MinSamples :: int64
  in_TolerancePoints :: f64
  in_LatencyThresholdMs :: f64
  in_JudgeEnabled :: bool

definition DefaultQWeights :: QWeights where
  "DefaultQWeights = \<lparr>qw_Correctness = flit (40 / 100), qw_Reliability = flit (20 / 100),
     qw_Latency = flit (15 / 100), qw_Semantic = flit (15 / 100), qw_Judged = flit (10 / 100)\<rparr>"

definition NormalizeQWeights :: "QWeights \<Rightarrow> QWeights" where
  "NormalizeQWeights w0 =
     (let c = math_Max (Fin 0) (qw_Correctness w0); r = math_Max (Fin 0) (qw_Reliability w0);
          l = math_Max (Fin 0) (qw_Latency w0); s = math_Max (Fin 0) (qw_Semantic w0);
          j = math_Max (Fin 0) (qw_Judged w0);
          sum = fadd (fadd (fadd (fadd c r) l) s) j
      in if fle sum (Fin 0) then DefaultQWeights
         else \<lparr>qw_Correctness = fdiv c sum, qw_Reliability = fdiv r sum, qw_Latency = fdiv l sum,
                qw_Semantic = fdiv s sum, qw_Judged = fdiv j sum\<rparr>)"

definition clamp100 :: "f64 \<Rightarrow> f64" where
  "clamp100 v = (if flt v (Fin 0) then Fin 0 else if flt (Fin 100) v then Fin 100 else v)"

definition min3 :: "nat \<Rightarrow> nat \<Rightarrow> nat \<Rightarrow> nat" where
  "min3 a b c = (if a \<le> b \<and> a \<le> c then a else if b \<le> a \<and> b \<le> c then b else c)"

definition boolScore :: "bool \<Rightarrow> f64" where
  "boolScore v = (if v then Fin 100 else Fin 0)"

subsection \<open>Tokens\<close>

definition fold_rune :: "rune \<Rightarrow> rune" where
  "fold_rune r =
     (if r = 0xE0 \<or> r = 0xE2 \<or> r = 0xE4 then of_char CHR ''a''
      else if r = 0xE7 then of_char CHR ''c''
      else if r = 0xE9 \<or> r = 0xE8 \<or> r = 0xEA \<or> r = 0xEB then of_char CHR ''e''
      else if r = 0xEE \<or> r = 0xEF then of_char CHR ''i''
      else if r = 0xF4 \<or> r = 0xF6 then of_char CHR ''o''
      else if r = 0xF9 \<or> r = 0xFB \<or> r = 0xFC then of_char CHR ''u''
      else r)"

definition foldLatin :: "rtext \<Rightarrow> rtext" where
  "foldLatin s = map fold_rune s"

definition TrimSpaceR :: "unicode_tables \<Rightarrow> rtext \<Rightarrow> rtext" where
  "TrimSpaceR U s = rev (dropWhile (IsSpace U) (rev (dropWhile (IsSpace U) s)))"

definition word_rune :: "unicode_tables \<Rightarrow> rune \<Rightarrow> bool" where
  "word_rune U r \<longleftrightarrow> IsLetter U r \<or> IsDigit U r"

text \<open>The loop that copies letters and digits and one space for what stands between them.\<close>

definition token_step :: "unicode_tables \<Rightarrow> rune \<Rightarrow> rtext \<times> bool \<Rightarrow> rtext \<times> bool" where
  "token_step U r st =
     (let (b, lastSpace) = st
      in if word_rune U r then (b @ [r], False)
         else if \<not> lastSpace then (b @ [32], True) else (b, lastSpace))"

text \<open>\<open>strings.Fields\<close>: the maximal runs of runes that are not spaces.\<close>

fun fields_from :: "unicode_tables \<Rightarrow> rtext \<Rightarrow> rtext \<Rightarrow> rtext list" where
  "fields_from U cur [] = (if cur = [] then [] else [cur])"
| "fields_from U cur (r # rs) =
     (if IsSpace U r then (if cur = [] then fields_from U [] rs else cur # fields_from U [] rs)
      else fields_from U (cur @ [r]) rs)"

definition Fields :: "unicode_tables \<Rightarrow> rtext \<Rightarrow> rtext list" where
  "Fields U s = fields_from U [] s"

definition tokenize :: "unicode_tables \<Rightarrow> rtext \<Rightarrow> rtext list" where
  "tokenize U s0 =
     (let s = foldLatin (map (LowerRune U) (TrimSpaceR U s0))
      in if s = [] then [] else Fields U (fst (fold (token_step U) s ([], True))))"

fun join_words :: "rtext list \<Rightarrow> rtext" where
  "join_words [] = []"
| "join_words [w] = w"
| "join_words (w # ws) = w @ 32 # join_words ws"

definition normalizeText :: "unicode_tables \<Rightarrow> rtext \<Rightarrow> rtext" where
  "normalizeText U s = join_words (tokenize U s)"

definition stopwords :: "string list" where
  "stopwords = [''the'', ''and'', ''for'', ''with'', ''that'', ''this'', ''from'', ''into'', ''are'',
     ''was'', ''were'', ''has'', ''have'', ''had'', ''should'', ''must'', ''answer'', ''mention'',
     ''mentions'', ''a'', ''an'', ''of'', ''to'', ''in'', ''on'', ''at'', ''by'', ''or'', ''is'', ''be'',
     ''as'', ''le'', ''la'', ''les'', ''des'', ''une'', ''un'', ''du'', ''de'', ''et'', ''ou'', ''est'',
     ''sont'', ''dans'', ''pour'', ''avec'', ''sur'', ''par'', ''que'', ''qui'', ''aux'', ''au'',
     ''doit'', ''mentionner'']"

definition stopword :: "rtext \<Rightarrow> bool" where
  "stopword token \<longleftrightarrow> token \<in> runes ` set stopwords"

definition contentTokens :: "unicode_tables \<Rightarrow> rtext \<Rightarrow> rtext list" where
  "contentTokens U s =
     (let tokens = tokenize U s;
          out = filter (\<lambda>token. \<not> (length token \<le> 2 \<or> stopword token)) tokens
      in if out \<noteq> [] then out else tokens)"

fun unique_from :: "rtext list \<Rightarrow> rtext list \<Rightarrow> rtext list" where
  "unique_from seen [] = []"
| "unique_from seen (t # ts) =
     (if t \<in> set seen then unique_from seen ts else t # unique_from (t # seen) ts)"

definition uniqueTokens :: "rtext list \<Rightarrow> rtext list" where
  "uniqueTokens tokens = unique_from [] tokens"

definition has_prefix :: "rtext \<Rightarrow> rtext \<Rightarrow> bool" where
  "has_prefix s p \<longleftrightarrow> take (length p) s = p"

definition similarToken :: "rtext \<Rightarrow> rtext \<Rightarrow> bool" where
  "similarToken a b =
     (if a = b then True
      else if byte_len a < 4 \<or> byte_len b < 4 then False
      else has_prefix a b \<or> has_prefix b a)"

definition containsSimilarToken :: "rtext list \<Rightarrow> rtext \<Rightarrow> bool" where
  "containsSimilarToken tokens want \<longleftrightarrow> list_ex (\<lambda>token. similarToken want token) tokens"

subsection \<open>Edit distance and longest common subsequence\<close>

text \<open>The inner loop fills the row \<open>row\<close> from the row \<open>prev\<close>; the outer one swaps them.\<close>

definition ed_cell :: "rtext \<Rightarrow> rtext \<Rightarrow> nat \<Rightarrow> nat list \<Rightarrow> nat \<Rightarrow> nat list \<Rightarrow> nat list" where
  "ed_cell ra rb i prev j row =
     (let cost = (if ra ! (i - 1) \<noteq> rb ! (j - 1) then 1 else 0)
      in row[j := min3 (row ! (j - 1) + 1) (prev ! j + 1) (prev ! (j - 1) + cost)])"

definition ed_row :: "rtext \<Rightarrow> rtext \<Rightarrow> nat \<Rightarrow> nat list \<times> nat list \<Rightarrow> nat list \<times> nat list" where
  "ed_row ra rb i st =
     (let (prev, row) = st;
          row = fold (ed_cell ra rb i prev) [1..<length rb + 1] (row[0 := i])
      in (row, prev))"

definition ed_table :: "rtext \<Rightarrow> rtext \<Rightarrow> nat" where
  "ed_table ra rb =
     (if ra = [] then length rb
      else if rb = [] then length ra
      else fst (fold (ed_row ra rb) [1..<length ra + 1]
             ([0..<length rb + 1], replicate (length rb + 1) 0)) ! length rb)"

definition EditDistance :: "unicode_tables \<Rightarrow> rtext \<Rightarrow> rtext \<Rightarrow> nat" where
  "EditDistance U a b = ed_table (normalizeText U a) (normalizeText U b)"

definition lcs_cell :: "rtext list \<Rightarrow> rtext list \<Rightarrow> nat \<Rightarrow> nat \<Rightarrow> nat list list \<Rightarrow> nat list list" where
  "lcs_cell a b i j dp =
     (let v = (if a ! (i - 1) = b ! (j - 1) then dp ! (i - 1) ! (j - 1) + 1
               else if dp ! i ! (j - 1) \<le> dp ! (i - 1) ! j then dp ! (i - 1) ! j
               else dp ! i ! (j - 1))
      in dp[i := (dp ! i)[j := v]])"

definition lcsLen :: "rtext list \<Rightarrow> rtext list \<Rightarrow> nat" where
  "lcsLen a b =
     fold (\<lambda>i. fold (lcs_cell a b i) [1..<length b + 1]) [1..<length a + 1]
       (replicate (length a + 1) (replicate (length b + 1) 0)) ! length a ! length b"

subsection \<open>Text scores\<close>

text \<open>The harmonic mean of precision and recall that three scores compute.\<close>

definition f1 :: "nat \<Rightarrow> nat \<Rightarrow> nat \<Rightarrow> f64" where
  "f1 hits candidates references =
     (let precision = fdiv (of_len hits) (of_len candidates); recall = fdiv (of_len hits) (of_len references)
      in if feq (fadd precision recall) (Fin 0) then Fin 0
         else clamp100 (fmul (Fin 100)
           (fdiv (fmul (fmul (Fin 2) precision) recall) (fadd precision recall))))"

definition ExactMatchScore :: "unicode_tables \<Rightarrow> rtext \<Rightarrow> rtext \<Rightarrow> f64" where
  "ExactMatchScore U expected actual =
     (if normalizeText U expected = normalizeText U actual then Fin 100 else Fin 0)"

definition ContentTokenCoverageScore :: "unicode_tables \<Rightarrow> rtext \<Rightarrow> rtext \<Rightarrow> f64" where
  "ContentTokenCoverageScore U reference candidate =
     (let ref = contentTokens U reference; cand = contentTokens U candidate
      in if ref = [] \<and> cand = [] then Fin 100
         else if ref = [] \<or> cand = [] then Fin 0
         else
           let overlap = length (filter (containsSimilarToken cand) (uniqueTokens ref))
           in clamp100 (fdiv (fmul (Fin 100) (of_len overlap)) (of_len (length (uniqueTokens ref)))))"

text \<open>Each reference token takes the first similar candidate token that is not taken.\<close>

fun take_match :: "rtext \<Rightarrow> (rtext \<times> bool) list \<Rightarrow> ((rtext \<times> bool) list) option" where
  "take_match token [] = None"
| "take_match token ((c, matched) # cs) =
     (if matched \<or> \<not> similarToken token c then map_option ((#) (c, matched)) (take_match token cs)
      else Some ((c, True) # cs))"

definition match_step :: "rtext \<Rightarrow> (rtext \<times> bool) list \<times> nat \<Rightarrow> (rtext \<times> bool) list \<times> nat" where
  "match_step token st =
     (let (cand, overlap) = st
      in case take_match token cand of None \<Rightarrow> st | Some cand' \<Rightarrow> (cand', overlap + 1))"

definition TokenF1Score :: "unicode_tables \<Rightarrow> rtext \<Rightarrow> rtext \<Rightarrow> f64" where
  "TokenF1Score U reference candidate =
     (let ref = uniqueTokens (contentTokens U reference); cand = uniqueTokens (contentTokens U candidate)
      in if ref = [] \<and> cand = [] then Fin 100
         else if ref = [] \<or> cand = [] then Fin 0
         else f1 (snd (fold match_step ref (map (\<lambda>c. (c, False)) cand, 0))) (length cand) (length ref))"

definition RougeLScore :: "unicode_tables \<Rightarrow> rtext \<Rightarrow> rtext \<Rightarrow> f64" where
  "RougeLScore U reference candidate =
     (let ref = tokenize U reference; cand = tokenize U candidate
      in if ref = [] \<and> cand = [] then Fin 100
         else if ref = [] \<or> cand = [] then Fin 0
         else f1 (lcsLen ref cand) (length cand) (length ref))"

definition EditSimilarityScore :: "unicode_tables \<Rightarrow> rtext \<Rightarrow> rtext \<Rightarrow> f64" where
  "EditSimilarityScore U a b =
     (let maxLen = max (length (normalizeText U a)) (length (normalizeText U b))
      in if maxLen = 0 then Fin 100
         else clamp100 (fmul (Fin 100)
           (fsub (Fin 1) (fdiv (of_len (EditDistance U a b)) (of_len maxLen)))))"

definition ReferenceCorrectnessScore :: "unicode_tables \<Rightarrow> rtext \<Rightarrow> rtext \<Rightarrow> f64" where
  "ReferenceCorrectnessScore U reference candidate =
     (if feq (ExactMatchScore U reference candidate) (Fin 100) then Fin 100
      else clamp100
        (fadd (fadd (fmul (flit (60 / 100)) (ContentTokenCoverageScore U reference candidate))
            (fmul (flit (25 / 100)) (TokenF1Score U reference candidate)))
          (fmul (flit (15 / 100)) (RougeLScore U reference candidate))))"

definition SemanticSimilarityScore :: "unicode_tables \<Rightarrow> rtext \<Rightarrow> rtext \<Rightarrow> f64" where
  "SemanticSimilarityScore U reference candidate =
     (if feq (ExactMatchScore U reference candidate) (Fin 100) then Fin 100
      else clamp100
        (fadd (fadd (fmul (flit (70 / 100)) (ContentTokenCoverageScore U reference candidate))
            (fmul (flit (20 / 100)) (TokenF1Score U reference candidate)))
          (fmul (flit (10 / 100)) (RougeLScore U reference candidate))))"

definition JSONValidityScore :: "(rtext \<Rightarrow> bool) \<Rightarrow> rtext \<Rightarrow> f64" where
  "JSONValidityScore validJSON raw = (if validJSON raw then Fin 100 else Fin 0)"

definition FieldF1Score :: "unicode_tables \<Rightarrow> (rtext, rtext) gomap \<Rightarrow> (rtext, rtext) gomap \<Rightarrow> f64" where
  "FieldF1Score U expected actual =
     (if expected = [] \<and> actual = [] then Fin 100
      else if expected = [] \<or> actual = [] then Fin 0
      else f1 (length (filter (\<lambda>(k, exp). case map_of actual k of None \<Rightarrow> False
               | Some got \<Rightarrow> normalizeText U got = normalizeText U exp) expected))
           (length actual) (length expected))"

definition looksLikeJSON :: "unicode_tables \<Rightarrow> rtext \<Rightarrow> bool" where
  "looksLikeJSON U raw0 =
     (let raw = TrimSpaceR U raw0 in has_prefix raw (runes ''{'') \<or> has_prefix raw (runes ''[''))"

subsection \<open>Scores of a model\<close>

text \<open>The checks of one sample: the sum and the number of those that apply.\<close>

definition sample_score :: "unicode_tables \<Rightarrow> (rtext \<Rightarrow> bool) \<Rightarrow> EvidenceSample \<Rightarrow> f64 \<times> nat" where
  "sample_score U validJSON s =
     (let st = (Fin 0, 0);
          add = (\<lambda>v (t, n). (fadd t v, n + 1));
          st = (if TrimSpaceR U (es_Expected s) \<noteq> [] \<or> TrimSpaceR U (es_Actual s) \<noteq> []
                then add (ReferenceCorrectnessScore U (es_Expected s) (es_Actual s)) st else st);
          st = (case es_RequiredKeywordsPresent s of None \<Rightarrow> st | Some p \<Rightarrow> add (boolScore p) st);
          st = (if es_MustBeJSON s \<or> looksLikeJSON U (es_Actual s)
                then add (JSONValidityScore validJSON (es_Actual s)) st else st);
          st = (if es_ExpectedFields s \<noteq> [] \<or> es_ActualFields s \<noteq> []
                then add (FieldF1Score U (es_ExpectedFields s) (es_ActualFields s)) st else st)
      in st)"

definition correctness_step ::
  "unicode_tables \<Rightarrow> (rtext \<Rightarrow> bool) \<Rightarrow> EvidenceSample \<Rightarrow> f64 \<times> nat \<Rightarrow> f64 \<times> nat" where
  "correctness_step U validJSON s st =
     (let (sampleTotal, sampleCount) = sample_score U validJSON s; (total, count) = st
      in if sampleCount = 0 then st
         else (fadd total (fdiv sampleTotal (of_len sampleCount)), count + 1))"

definition CorrectnessScore ::
  "unicode_tables \<Rightarrow> (rtext \<Rightarrow> bool) \<Rightarrow> EvidenceSample list \<Rightarrow> f64 \<times> bool" where
  "CorrectnessScore U validJSON samples =
     (let (total, count) = fold (correctness_step U validJSON) samples (Fin 0, 0)
      in if count = 0 then (Fin 0, False) else (clamp100 (fdiv total (of_len count)), True))"

definition ReliabilityScore :: "Telemetry \<Rightarrow> f64 \<times> bool" where
  "ReliabilityScore t =
     (if sint (qt_Requests t) \<le> 0 then (Fin 0, False)
      else
        let bad = qt_Errors t + qt_Timeouts t + qt_InvalidJSON t
        in (clamp100 (fmul (Fin 100) (fsub (Fin 1) (fdiv (of_i64 bad) (of_i64 (qt_Requests t))))), True))"

definition LatencyScore :: "Telemetry \<Rightarrow> f64 \<Rightarrow> f64 \<times> bool" where
  "LatencyScore t thresholdMs =
     (if \<not> qt_LatencyObserved t \<or> fle (qt_LatencyMillis t) (Fin 0) \<or> fle thresholdMs (Fin 0) then (Fin 0, False)
      else
        let half = fdiv thresholdMs (Fin 2); dbl = fmul thresholdMs (Fin 2); l = qt_LatencyMillis t
        in if fle l half then (Fin 100, True)
           else if fle dbl l then (Fin 0, True)
           else if fle l thresholdMs then
             (clamp100 (fsub (Fin 100) (fmul (fdiv (fsub l half) (fsub thresholdMs half)) (Fin 50))), True)
           else
             (clamp100 (fsub (Fin 50) (fmul (fdiv (fsub l thresholdMs) (fsub dbl thresholdMs)) (Fin 50))), True))"

definition average_step :: "f64 option \<Rightarrow> f64 \<times> nat \<Rightarrow> f64 \<times> nat" where
  "average_step v st =
     (case v of None \<Rightarrow> st | Some x \<Rightarrow> (fadd (fst st) (clamp100 x), snd st + 1))"

definition averageOptional :: "EvidenceSample list \<Rightarrow> (EvidenceSample \<Rightarrow> f64 option) \<Rightarrow> f64 \<times> bool" where
  "averageOptional samples pick =
     (let (total, count) = fold (\<lambda>s. average_step (pick s)) samples (Fin 0, 0)
      in if count = 0 then (Fin 0, False) else (fdiv total (of_len count), True))"

definition SemanticScore :: "EvidenceSample list \<Rightarrow> f64 \<times> bool" where
  "SemanticScore samples = averageOptional samples es_SemanticScore"

definition JudgedScore :: "EvidenceSample list \<Rightarrow> f64 \<times> bool" where
  "JudgedScore samples = averageOptional samples es_JudgedScore"

text \<open>One dimension: its score if there is one, or its signal if its weight asks for one.\<close>

definition dimension :: "f64 \<times> bool \<Rightarrow> f64 \<Rightarrow> string \<Rightarrow> f64 \<times> string list" where
  "dimension so w msg =
     (let (score, found) = so
      in if found then (score, []) else (Fin 0, if flt (Fin 0) w then [msg] else []))"

definition EvaluateModel ::
  "unicode_tables \<Rightarrow> (rtext \<Rightarrow> bool) \<Rightarrow> EvidenceSample list \<Rightarrow> Telemetry \<Rightarrow> QWeights \<Rightarrow> f64 \<Rightarrow> ModelResult" where
  "EvaluateModel U validJSON samples telemetry weights0 latencyThresholdMs =
     (let w = NormalizeQWeights weights0;
          (c, mc) = dimension (CorrectnessScore U validJSON samples) (qw_Correctness w)
             ''correctness evidence missing'';
          (r, mr) = dimension (ReliabilityScore telemetry) (qw_Reliability w)
             ''real reliability telemetry missing'';
          (l, ml) = dimension (LatencyScore telemetry latencyThresholdMs) (qw_Latency w)
             ''real latency telemetry missing'';
          (s, ms) = dimension (SemanticScore samples) (qw_Semantic w) ''semantic score missing'';
          (j, mj) = dimension (JudgedScore samples) (qw_Judged w) ''judge score missing'';
          missing = mc @ mr @ ml @ ms @ mj;
          out = \<lparr>qm_Overall = Fin 0,
            qm_Breakdown = \<lparr>ds_Correctness = c, ds_Reliability = r, ds_Latency = l, ds_Semantic = s, ds_Judged = j\<rparr>,
            qm_WeightsUsed = w, qm_Samples = length samples, qm_MissingSignals = missing, qm_Insufficient = False\<rparr>
      in if missing \<noteq> [] then out\<lparr>qm_Insufficient := True\<rparr>
         else out\<lparr>qm_Overall := clamp100
           (fadd (fadd (fadd (fadd (fmul (qw_Correctness w) c) (fmul (qw_Reliability w) r))
              (fmul (qw_Latency w) l)) (fmul (qw_Semantic w) s)) (fmul (qw_Judged w) j))\<rparr>)"

definition prefixSignals :: "string \<Rightarrow> string list \<Rightarrow> string list" where
  "prefixSignals pre xs = map (\<lambda>s. pre @ '': '' @ s) xs"

definition zeroQWeights :: "QWeights \<Rightarrow> bool" where
  "zeroQWeights w \<longleftrightarrow> feq (qw_Correctness w) (Fin 0) \<and> feq (qw_Reliability w) (Fin 0) \<and>
     feq (qw_Latency w) (Fin 0) \<and> feq (qw_Semantic w) (Fin 0) \<and> feq (qw_Judged w) (Fin 0)"

text \<open>A length is compared with \<open>MinSamples\<close> as the int it is.\<close>

definition gather_evidence ::
  "unicode_tables \<Rightarrow> (rtext \<Rightarrow> bool) \<Rightarrow> EvaluateInput \<Rightarrow> Comparison" where
  "gather_evidence U validJSON i =
     (let minSamples = (if sint (in_MinSamples i) \<le> 0 then 1 else in_MinSamples i);
          tolerance = (if feq (in_TolerancePoints i) (Fin 0) then Fin 3 else in_TolerancePoints i);
          w = (if zeroQWeights (in_Weights i) then DefaultQWeights else in_Weights i);
          w = (if \<not> in_JudgeEnabled i then w\<lparr>qw_Judged := Fin 0\<rparr> else w);
          w = NormalizeQWeights w;
          few = (if int (length (in_SourceSamples i)) < sint minSamples
                 then [''source golden evidence below minSamples''] else []) @
                (if int (length (in_CandidateSamples i)) < sint minSamples
                 then [''candidate golden evidence below minSamples''] else []);
          source = EvaluateModel U validJSON (in_SourceSamples i) (in_SourceTelemetry i) w (in_LatencyThresholdMs i);
          candidate = EvaluateModel U validJSON (in_CandidateSamples i) (in_CandidateTelemetry i) w (in_LatencyThresholdMs i)
      in \<lparr>co_Source = source, co_Candidate = candidate, co_Verdict = '''', co_Reason = '''',
          co_MinSamples = minSamples, co_Tolerance = tolerance, co_WeightsUsed = w,
          co_MissingInput = few @
            (if qm_Insufficient source then prefixSignals ''source'' (qm_MissingSignals source) else []) @
            (if qm_Insufficient candidate then prefixSignals ''candidate'' (qm_MissingSignals candidate) else [])\<rparr>)"

definition Evaluate_quality ::
  "unicode_tables \<Rightarrow> (rtext \<Rightarrow> bool) \<Rightarrow> EvaluateInput \<Rightarrow> Comparison" where
  "Evaluate_quality U validJSON i =
     (let out = gather_evidence U validJSON i
      in if co_MissingInput out \<noteq> [] then
           out\<lparr>co_Verdict := VerdictInsufficientData, co_Reason := Join (co_MissingInput out) ''; ''\<rparr>
         else if fle (fsub (qm_Overall (co_Source out)) (co_Tolerance out)) (qm_Overall (co_Candidate out)) then
           out\<lparr>co_Verdict := VerdictCandidateSafe,
               co_Reason := ''candidate score is within tolerance of source''\<rparr>
         else
           out\<lparr>co_Verdict := VerdictCandidateRisk,
               co_Reason := ''candidate score is below source tolerance''\<rparr>)"

subsection \<open>The tables compute the distances\<close>

definition prefix_lev :: "'a list \<Rightarrow> 'a list \<Rightarrow> nat \<Rightarrow> nat \<Rightarrow> nat" where
  "prefix_lev ra rb i j = lev (rev (take i ra)) (rev (take j rb))"

lemma prefix_lev_0 [simp]:
  "j \<le> length rb \<Longrightarrow> prefix_lev ra rb 0 j = j" "i \<le> length ra \<Longrightarrow> prefix_lev ra rb i 0 = i"
  by (simp_all add: prefix_lev_def)

lemma min3_min: "min3 a b c = min a (min b c)"
  by (auto simp: min3_def min_def)

lemma prefix_lev_Suc:
  "i < length ra \<Longrightarrow> j < length rb \<Longrightarrow> prefix_lev ra rb (Suc i) (Suc j) =
     min3 (prefix_lev ra rb (Suc i) j + 1) (prefix_lev ra rb i (Suc j) + 1)
       (prefix_lev ra rb i j + (if ra ! i \<noteq> rb ! j then 1 else 0))"
  by (simp add: prefix_lev_def rev_take_Suc min3_min)

lemma upt_1_Suc: "[Suc 0..<Suc (Suc m)] = [Suc 0..<Suc m] @ [Suc m]"
  by simp

lemma ed_inner:
  assumes "i < length ra" "\<forall>k \<le> length rb. prev ! k = prefix_lev ra rb i k"
    and "length row = length rb + 1" "row ! 0 = Suc i" "m \<le> length rb"
  shows "length (fold (ed_cell ra rb (Suc i) prev) [1..<Suc m] row) = length rb + 1 \<and>
    (\<forall>k \<le> m. fold (ed_cell ra rb (Suc i) prev) [1..<Suc m] row ! k = prefix_lev ra rb (Suc i) k)"
  using assms(5)
proof (induction m)
  case 0
  then show ?case using assms by simp
next
  case (Suc m)
  let ?r = "fold (ed_cell ra rb (Suc i) prev) [1..<Suc m] row"
  have IH: "length ?r = length rb + 1" "\<forall>k \<le> m. ?r ! k = prefix_lev ra rb (Suc i) k"
    using Suc by simp_all
  have "fold (ed_cell ra rb (Suc i) prev) [1..<Suc (Suc m)] row = ed_cell ra rb (Suc i) prev (Suc m) ?r"
    using upt_1_Suc[of m] by simp
  also have "\<dots> = ?r[Suc m := prefix_lev ra rb (Suc i) (Suc m)]"
    using Suc.prems IH assms by (simp add: ed_cell_def prefix_lev_Suc Let_def)
  finally show ?case using IH Suc.prems by (auto simp: nth_list_update le_Suc_eq)
qed

lemma ed_row_inv:
  assumes "i < length ra" "\<forall>k \<le> length rb. prev ! k = prefix_lev ra rb i k"
    and "length prev = length rb + 1" "length row = length rb + 1"
    and "ed_row ra rb (Suc i) (prev, row) = (prev', row')"
  shows "(\<forall>k \<le> length rb. prev' ! k = prefix_lev ra rb (Suc i) k) \<and>
    length prev' = length rb + 1 \<and> length row' = length rb + 1"
  using ed_inner[OF assms(1,2), of "row[0 := Suc i]" "length rb"] assms(3-5)
  by (auto simp: ed_row_def)

lemma ed_outer:
  assumes "n \<le> length ra"
  shows "\<exists>prev row. fold (ed_row ra rb) [1..<Suc n] ([0..<length rb + 1], replicate (length rb + 1) 0) =
      (prev, row) \<and> (\<forall>k \<le> length rb. prev ! k = prefix_lev ra rb n k) \<and>
      length prev = length rb + 1 \<and> length row = length rb + 1"
  using assms
proof (induction n)
  case 0
  have "[0..<length rb + 1] ! k = k" if "k \<le> length rb" for k
    using that nth_upt[of 0 k "length rb + 1"] by simp
  then show ?case by simp
next
  case (Suc n)
  obtain prev row where IH: "fold (ed_row ra rb) [1..<Suc n] ([0..<length rb + 1], replicate (length rb + 1) 0) =
      (prev, row)" "\<forall>k \<le> length rb. prev ! k = prefix_lev ra rb n k"
      "length prev = length rb + 1" "length row = length rb + 1"
    using Suc by auto
  obtain prev' row' where r: "ed_row ra rb (Suc n) (prev, row) = (prev', row')" by fastforce
  have "fold (ed_row ra rb) [1..<Suc (Suc n)] ([0..<length rb + 1], replicate (length rb + 1) 0) = (prev', row')"
    using IH(1) r upt_1_Suc[of n] by simp
  then show ?case using ed_row_inv[OF _ IH(2-4) r] Suc.prems by simp
qed

lemma ed_table_lev: "ed_table ra rb = lev ra rb"
proof (cases "ra = [] \<or> rb = []")
  case False
  obtain prev row where "fold (ed_row ra rb) [1..<Suc (length ra)]
      ([0..<length rb + 1], replicate (length rb + 1) 0) = (prev, row)"
    "\<forall>k \<le> length rb. prev ! k = prefix_lev ra rb (length ra) k"
    using ed_outer[of "length ra" ra rb] by auto
  then show ?thesis using False by (simp add: ed_table_def prefix_lev_def)
qed (auto simp: ed_table_def)

text \<open>
  C31: \<open>EditDistance\<close> is the edit distance: the two rows that its loops fill and swap yield the
  least number of insertions, deletions and substitutions of single runes that turn one
  normalised text into the other; so it is zero exactly for texts with the same normal form, and
  symmetric.
\<close>

theorem EditDistance_least_edits:
  "EditDistance U a b = (LEAST n. (edit1 ^^ n) (normalizeText U a) (normalizeText U b)) \<and>
   (EditDistance U a b = 0 \<longleftrightarrow> normalizeText U a = normalizeText U b)"
proof -
  have "lev xs ys = 0 \<longleftrightarrow> xs = ys" for xs ys :: rtext
    using edits_lev[of xs ys] by auto
  then show ?thesis by (simp add: EditDistance_def ed_table_lev lev_least)
qed

definition prefix_lcs :: "'a list \<Rightarrow> 'a list \<Rightarrow> nat \<Rightarrow> nat \<Rightarrow> nat" where
  "prefix_lcs a b i j = lcs (rev (take i a)) (rev (take j b))"

lemma prefix_lcs_0 [simp]: "prefix_lcs a b 0 j = 0" "prefix_lcs a b i 0 = 0"
  by (simp_all add: prefix_lcs_def)

lemma prefix_lcs_Suc:
  "i < length a \<Longrightarrow> j < length b \<Longrightarrow> prefix_lcs a b (Suc i) (Suc j) =
     (if a ! i = b ! j then prefix_lcs a b i j + 1
      else if prefix_lcs a b (Suc i) j \<le> prefix_lcs a b i (Suc j) then prefix_lcs a b i (Suc j)
      else prefix_lcs a b (Suc i) j)"
  by (simp add: prefix_lcs_def rev_take_Suc max_def)

text \<open>The table when the rows before i and the cells of row i up to j are filled.\<close>

definition lcs_filled :: "rtext list \<Rightarrow> rtext list \<Rightarrow> nat \<Rightarrow> nat \<Rightarrow> nat list list \<Rightarrow> bool" where
  "lcs_filled a b i j dp \<longleftrightarrow>
     length dp = length a + 1 \<and> (\<forall>k \<le> length a. length (dp ! k) = length b + 1) \<and>
     (\<forall>k \<le> length a. \<forall>l \<le> length b. k < i \<or> (k = i \<and> l \<le> j) \<or> l = 0 \<longrightarrow> dp ! k ! l = prefix_lcs a b k l)"

lemma lcs_filledD:
  "lcs_filled a b i j dp \<Longrightarrow> k \<le> length a \<Longrightarrow> l \<le> length b \<Longrightarrow> k < i \<or> (k = i \<and> l \<le> j) \<or> l = 0 \<Longrightarrow>
     dp ! k ! l = prefix_lcs a b k l"
  unfolding lcs_filled_def by blast

lemma lcs_cell_filled:
  assumes "lcs_filled a b (Suc i) j dp" "i < length a" "j < length b"
  shows "lcs_filled a b (Suc i) (Suc j) (lcs_cell a b (Suc i) (Suc j) dp)"
proof -
  have v: "dp ! i ! j = prefix_lcs a b i j" "dp ! i ! Suc j = prefix_lcs a b i (Suc j)"
    "dp ! Suc i ! j = prefix_lcs a b (Suc i) j" "length dp = length a + 1"
    "length (dp ! Suc i) = length b + 1"
    using lcs_filledD[OF assms(1)] assms by (simp_all add: lcs_filled_def)
  have len: "\<forall>k \<le> length a. length (dp ! k) = length b + 1" using assms by (simp add: lcs_filled_def)
  have c: "lcs_cell a b (Suc i) (Suc j) dp = dp[Suc i := (dp ! Suc i)[Suc j := prefix_lcs a b (Suc i) (Suc j)]]"
    using assms(2,3) by (simp add: lcs_cell_def v prefix_lcs_Suc Let_def)
  show ?thesis
    unfolding c using assms(2,3) v len lcs_filledD[OF assms(1)]
    by (auto simp: lcs_filled_def[of a b "Suc i" "Suc j"] nth_list_update le_Suc_eq)
qed

lemma lcs_row_filled:
  assumes "lcs_filled a b (Suc i) 0 dp" "i < length a" "m \<le> length b"
  shows "lcs_filled a b (Suc i) m (fold (lcs_cell a b (Suc i)) [1..<Suc m] dp)"
  using assms(3)
proof (induction m)
  case (Suc m)
  then show ?case using upt_1_Suc[of m] lcs_cell_filled assms(2) by simp
qed (use assms in simp)

lemma lcs_filled_next: "lcs_filled a b i (length b) dp \<Longrightarrow> lcs_filled a b (Suc i) 0 dp"
  unfolding lcs_filled_def by (auto simp: less_Suc_eq)

lemma lcs_table_filled:
  assumes "n \<le> length a"
  shows "lcs_filled a b n (length b) (fold (\<lambda>i. fold (lcs_cell a b i) [1..<length b + 1]) [1..<Suc n]
      (replicate (length a + 1) (replicate (length b + 1) 0)))"
  using assms
proof (induction n)
  case 0
  have "replicate (length b) 0 ! (l - 1) = (0 :: nat)" if "0 < l" "l \<le> length b" for l using that by simp
  then show ?case by (auto simp: lcs_filled_def nth_Cons' simp flip: replicate_Suc)
next
  case (Suc n)
  then show ?case
    using upt_1_Suc[of n] lcs_row_filled[OF lcs_filled_next, of a b n] by simp
qed

lemma lcs_filled_last: "lcs_filled a b (length a) (length b) dp \<Longrightarrow> dp ! length a ! length b = lcs a b"
  using lcs_filledD[of a b "length a" "length b" dp "length a" "length b"] by (simp add: prefix_lcs_def)

lemma lcsLen_lcs: "lcsLen a b = lcs a b"
  unfolding lcsLen_def
  by (rule lcs_filled_last) (use lcs_table_filled[of "length a" a b] in \<open>simp only: Suc_eq_plus1\<close>)

text \<open>
  \<open>lcsLen\<close> is the length of a longest common subsequence of the two lists of tokens: one of
  this length exists and none is longer.
\<close>

theorem lcsLen_longest:
  "(\<exists>zs. common_subseq zs a b \<and> length zs = lcsLen a b) \<and>
   \<not> (\<exists>zs. common_subseq zs a b \<and> lcsLen a b < length zs)"
  using lcs_is_longest[of a b] by (auto simp: lcsLen_lcs not_less)

subsection \<open>The verdict\<close>

text \<open>Every dimension that carries weight has a signal.\<close>

definition evidenced ::
  "unicode_tables \<Rightarrow> (rtext \<Rightarrow> bool) \<Rightarrow> EvidenceSample list \<Rightarrow> Telemetry \<Rightarrow> f64 \<Rightarrow> QWeights \<Rightarrow> bool" where
  "evidenced U validJSON samples t threshold w \<longleftrightarrow>
     (flt (Fin 0) (qw_Correctness w) \<longrightarrow> snd (CorrectnessScore U validJSON samples)) \<and>
     (flt (Fin 0) (qw_Reliability w) \<longrightarrow> snd (ReliabilityScore t)) \<and>
     (flt (Fin 0) (qw_Latency w) \<longrightarrow> snd (LatencyScore t threshold)) \<and>
     (flt (Fin 0) (qw_Semantic w) \<longrightarrow> snd (SemanticScore samples)) \<and>
     (flt (Fin 0) (qw_Judged w) \<longrightarrow> snd (JudgedScore samples))"

lemma snd_dimension: "snd (dimension so w msg) = [] \<longleftrightarrow> (flt (Fin 0) w \<longrightarrow> snd so)"
  by (auto simp: dimension_def split: prod.splits)

lemma EvaluateModel_fields:
  fixes U J samples t w0 th defines "m \<equiv> EvaluateModel U J samples t w0 th" and "w \<equiv> NormalizeQWeights w0"
  shows "qm_WeightsUsed m = w" and "qm_Insufficient m \<longleftrightarrow> qm_MissingSignals m \<noteq> []"
    and "qm_MissingSignals m =
      snd (dimension (CorrectnessScore U J samples) (qw_Correctness w) ''correctness evidence missing'') @
      snd (dimension (ReliabilityScore t) (qw_Reliability w) ''real reliability telemetry missing'') @
      snd (dimension (LatencyScore t th) (qw_Latency w) ''real latency telemetry missing'') @
      snd (dimension (SemanticScore samples) (qw_Semantic w) ''semantic score missing'') @
      snd (dimension (JudgedScore samples) (qw_Judged w) ''judge score missing'')"
  unfolding m_def w_def EvaluateModel_def Let_def split_def by (simp_all add: if_distrib[of qm_MissingSignals] cong: if_cong)

lemma EvaluateModel_signals:
  "qm_MissingSignals (EvaluateModel U J samples t w0 th) = [] \<longleftrightarrow>
     evidenced U J samples t th (qm_WeightsUsed (EvaluateModel U J samples t w0 th))"
  unfolding EvaluateModel_fields(1,3) evidenced_def append_is_Nil_conv snd_dimension ..

text \<open>The inputs of a comparison with the defaults filled in, and everything that is missing in it.\<close>

definition required_samples :: "EvaluateInput \<Rightarrow> int" where
  "required_samples i = max 1 (sint (in_MinSamples i))"

definition effective_tolerance :: "EvaluateInput \<Rightarrow> f64" where
  "effective_tolerance i = (if feq (in_TolerancePoints i) (Fin 0) then Fin 3 else in_TolerancePoints i)"

definition effective_weights :: "EvaluateInput \<Rightarrow> QWeights" where
  "effective_weights i =
     (let w = (if zeroQWeights (in_Weights i) then DefaultQWeights else in_Weights i)
      in NormalizeQWeights (if in_JudgeEnabled i then w else w\<lparr>qw_Judged := Fin 0\<rparr>))"

definition unmet :: "(bool \<times> string) list \<Rightarrow> string list" where
  "unmet demands = map snd (filter (\<lambda>(met, _). \<not> met) demands)"

definition signals_missing ::
  "unicode_tables \<Rightarrow> (rtext \<Rightarrow> bool) \<Rightarrow> EvidenceSample list \<Rightarrow> Telemetry \<Rightarrow> f64 \<Rightarrow> QWeights \<Rightarrow> string list" where
  "signals_missing U validJSON samples t threshold w = unmet
     [(flt (Fin 0) (qw_Correctness w) \<longrightarrow> snd (CorrectnessScore U validJSON samples), ''correctness evidence missing''),
      (flt (Fin 0) (qw_Reliability w) \<longrightarrow> snd (ReliabilityScore t), ''real reliability telemetry missing''),
      (flt (Fin 0) (qw_Latency w) \<longrightarrow> snd (LatencyScore t threshold), ''real latency telemetry missing''),
      (flt (Fin 0) (qw_Semantic w) \<longrightarrow> snd (SemanticScore samples), ''semantic score missing''),
      (flt (Fin 0) (qw_Judged w) \<longrightarrow> snd (JudgedScore samples), ''judge score missing'')]"

definition missing_reasons :: "unicode_tables \<Rightarrow> (rtext \<Rightarrow> bool) \<Rightarrow> EvaluateInput \<Rightarrow> string list" where
  "missing_reasons U validJSON i =
     (let w = NormalizeQWeights (effective_weights i); th = in_LatencyThresholdMs i
      in unmet [(required_samples i \<le> int (length (in_SourceSamples i)), ''source golden evidence below minSamples''),
                (required_samples i \<le> int (length (in_CandidateSamples i)), ''candidate golden evidence below minSamples'')] @
         map (\<lambda>s. ''source: '' @ s) (signals_missing U validJSON (in_SourceSamples i) (in_SourceTelemetry i) th w) @
         map (\<lambda>s. ''candidate: '' @ s) (signals_missing U validJSON (in_CandidateSamples i) (in_CandidateTelemetry i) th w))"

lemma unmet_Nil: "unmet demands = [] \<longleftrightarrow> (\<forall>(met, _) \<in> set demands. met)"
  by (auto simp: unmet_def filter_empty_conv)

lemma signals_missing_Nil:
  "signals_missing U J samples t th w = [] \<longleftrightarrow> evidenced U J samples t th w"
  by (simp add: signals_missing_def evidenced_def unmet_Nil)

lemma unmet_simps [simp]:
  "unmet [] = []" "unmet ((met, msg) # ds) = (if met then [] else [msg]) @ unmet ds"
  by (simp_all add: unmet_def)

lemma snd_dimension_eq: "snd (dimension so w msg) = (if flt (Fin 0) w \<longrightarrow> snd so then [] else [msg])"
  by (auto simp: dimension_def split: prod.splits)

lemma EvaluateModel_missing:
  "qm_MissingSignals (EvaluateModel U J samples t w0 th) =
     signals_missing U J samples t th (NormalizeQWeights w0)"
  unfolding EvaluateModel_fields(3) snd_dimension_eq signals_missing_def unmet_simps by simp

lemma gather_evidence_fields:
  fixes U J i defines "e \<equiv> gather_evidence U J i"
  shows "co_Source e = EvaluateModel U J (in_SourceSamples i) (in_SourceTelemetry i) (effective_weights i) (in_LatencyThresholdMs i)"
    and "co_Candidate e = EvaluateModel U J (in_CandidateSamples i) (in_CandidateTelemetry i) (effective_weights i) (in_LatencyThresholdMs i)"
    and "sint (co_MinSamples e) = required_samples i" and "co_Tolerance e = effective_tolerance i"
    and "co_WeightsUsed e = effective_weights i"
    and "co_MissingInput e = missing_reasons U J i"
proof -
  have w: "NormalizeQWeights (if \<not> in_JudgeEnabled i
      then (if zeroQWeights (in_Weights i) then DefaultQWeights else in_Weights i)\<lparr>qw_Judged := Fin 0\<rparr>
      else (if zeroQWeights (in_Weights i) then DefaultQWeights else in_Weights i)) = effective_weights i"
    by (simp add: effective_weights_def Let_def)
  have m: "sint (if sint (in_MinSamples i) \<le> 0 then 1 else in_MinSamples i) = required_samples i"
    by (simp add: required_samples_def)
  note g = gather_evidence_def Let_def w m Comparison.simps
  show "co_Source e = EvaluateModel U J (in_SourceSamples i) (in_SourceTelemetry i) (effective_weights i) (in_LatencyThresholdMs i)"
    "co_Candidate e = EvaluateModel U J (in_CandidateSamples i) (in_CandidateTelemetry i) (effective_weights i) (in_LatencyThresholdMs i)"
    "sint (co_MinSamples e) = required_samples i" "co_Tolerance e = effective_tolerance i"
    "co_WeightsUsed e = effective_weights i"
    unfolding e_def g by (simp_all add: effective_tolerance_def)
  have "(if qm_Insufficient (EvaluateModel U J ss t (effective_weights i) th)
      then prefixSignals pre (qm_MissingSignals (EvaluateModel U J ss t (effective_weights i) th)) else []) =
      map (\<lambda>s. pre @ '': '' @ s) (signals_missing U J ss t th (NormalizeQWeights (effective_weights i)))" for ss t th pre
    by (simp add: EvaluateModel_fields(2) EvaluateModel_missing prefixSignals_def)
  then show "co_MissingInput e = missing_reasons U J i"
    unfolding e_def g missing_reasons_def unmet_simps by (simp add: not_le[symmetric])
qed

text \<open>
  C30: A model is called safe exactly on complete evidence: both sides have at least the required number
  of samples (the minimum asked for, at least one), every dimension that carries weight has a signal on both
  sides, and the overall score of the candidate is within the tolerance (3 points unless set) of that of the
  source. When evidence is missing the verdict is insufficient data, and the reason lists exactly what is
  missing: too few samples of a side, and each signal that a side lacks; otherwise
  the verdict is safe or risk by the scores. The weights are the ones asked for (or the defaults), without
  the judge unless it is enabled, normalised.
\<close>

theorem Evaluate_quality_safe:
  fixes U J i
  defines "r \<equiv> Evaluate_quality U J i" and "w \<equiv> NormalizeQWeights (effective_weights i)"
    and "src \<equiv> EvaluateModel U J (in_SourceSamples i) (in_SourceTelemetry i) (effective_weights i) (in_LatencyThresholdMs i)"
    and "cand \<equiv> EvaluateModel U J (in_CandidateSamples i) (in_CandidateTelemetry i) (effective_weights i) (in_LatencyThresholdMs i)"
  shows "(co_Verdict r = VerdictCandidateSafe \<longleftrightarrow>
       required_samples i \<le> int (length (in_SourceSamples i)) \<and>
       required_samples i \<le> int (length (in_CandidateSamples i)) \<and>
       evidenced U J (in_SourceSamples i) (in_SourceTelemetry i) (in_LatencyThresholdMs i) w \<and>
       evidenced U J (in_CandidateSamples i) (in_CandidateTelemetry i) (in_LatencyThresholdMs i) w \<and>
       fle (fsub (qm_Overall src) (effective_tolerance i)) (qm_Overall cand)) \<and>
    (co_Verdict r, co_Reason r) =
      (if missing_reasons U J i \<noteq> [] then (VerdictInsufficientData, Join (missing_reasons U J i) ''; '')
       else if fle (fsub (qm_Overall src) (effective_tolerance i)) (qm_Overall cand)
       then (VerdictCandidateSafe, ''candidate score is within tolerance of source'')
       else (VerdictCandidateRisk, ''candidate score is below source tolerance'')) \<and>
    co_MissingInput r = missing_reasons U J i \<and> co_Source r = src \<and> co_Candidate r = cand \<and>
    sint (co_MinSamples r) = required_samples i \<and> co_Tolerance r = effective_tolerance i"
proof -
  note e = gather_evidence_fields[of U J i]
  have v: "(co_Verdict r, co_Reason r) =
      (if missing_reasons U J i \<noteq> [] then (VerdictInsufficientData, Join (missing_reasons U J i) ''; '')
       else if fle (fsub (qm_Overall src) (effective_tolerance i)) (qm_Overall cand)
       then (VerdictCandidateSafe, ''candidate score is within tolerance of source'')
       else (VerdictCandidateRisk, ''candidate score is below source tolerance''))"
    by (simp add: r_def Evaluate_quality_def Let_def e src_def cand_def)
  have f: "co_MissingInput r = missing_reasons U J i \<and> co_Source r = src \<and> co_Candidate r = cand \<and>
      sint (co_MinSamples r) = required_samples i \<and> co_Tolerance r = effective_tolerance i"
    by (simp add: r_def Evaluate_quality_def Let_def e src_def cand_def)
  have "missing_reasons U J i = [] \<longleftrightarrow>
      required_samples i \<le> int (length (in_SourceSamples i)) \<and>
      required_samples i \<le> int (length (in_CandidateSamples i)) \<and>
      evidenced U J (in_SourceSamples i) (in_SourceTelemetry i) (in_LatencyThresholdMs i) w \<and>
      evidenced U J (in_CandidateSamples i) (in_CandidateTelemetry i) (in_LatencyThresholdMs i) w"
    by (simp add: missing_reasons_def w_def Let_def signals_missing_Nil del: unmet_simps) (auto simp: unmet_Nil)
  moreover have "co_Verdict r = VerdictCandidateSafe \<longleftrightarrow> missing_reasons U J i = [] \<and>
      fle (fsub (qm_Overall src) (effective_tolerance i)) (qm_Overall cand)"
    using v by (auto simp: verdict_defs split: if_splits)
  ultimately show ?thesis using v f by blast
qed

subsection \<open>Normal forms of texts\<close>

text \<open>The maximal runs of runes with a property.\<close>

fun runs :: "(rune \<Rightarrow> bool) \<Rightarrow> rtext \<Rightarrow> rtext \<Rightarrow> rtext list" where
  "runs P cur [] = (if cur = [] then [] else [cur])"
| "runs P cur (r # rs) =
     (if P r then runs P (cur @ [r]) rs else if cur = [] then runs P [] rs else cur # runs P [] rs)"

fun spaced :: "(rune \<Rightarrow> bool) \<Rightarrow> rtext \<Rightarrow> bool \<Rightarrow> rtext" where
  "spaced P [] ls = []"
| "spaced P (r # rs) ls =
     (if P r then r # spaced P rs False else if \<not> ls then 32 # spaced P rs True else spaced P rs ls)"

lemma token_steps: "fst (fold (token_step U) s (b, ls)) = b @ spaced (word_rune U) s ls"
  by (induction s arbitrary: b ls) (simp_all add: token_step_def)

text \<open>What the normal form relies on in the tables of the unicode package.\<close>

locale unicode_laws =
  fixes U :: unicode_tables
  assumes space: "IsSpace U 32"
    and word_not_space: "IsLetter U r \<or> IsDigit U r \<Longrightarrow> \<not> IsSpace U r"
    and lower_idem: "LowerRune U (LowerRune U r) = LowerRune U r"
    and lower_ascii: "r < 128 \<Longrightarrow> r < 65 \<or> 90 < r \<Longrightarrow> LowerRune U r = r"
begin

lemma fields_render:
  "fields_from U cur (spaced (word_rune U) s (cur = [])) = runs (word_rune U) cur s"
  by (induction "word_rune U" cur s rule: runs.induct)
     (use space word_not_space in \<open>auto simp: word_rune_def\<close>)

lemma tokenize_runs:
  "tokenize U s = runs (word_rune U) [] (map (fold_rune \<circ> LowerRune U) (TrimSpaceR U s))"
  using fields_render[of "[]"] by (simp add: tokenize_def foldLatin_def token_steps Fields_def Let_def)

definition normal_word :: "rtext \<Rightarrow> bool" where
  "normal_word w \<longleftrightarrow> w \<noteq> [] \<and> (\<forall>r \<in> set w. word_rune U r \<and> fold_rune (LowerRune U r) = r)"

lemma fold_rune_cases: "fold_rune r = r \<or> (97 \<le> fold_rune r \<and> fold_rune r \<le> 122)"
  by (auto simp: fold_rune_def)

lemma fold_rune_idem: "fold_rune (fold_rune r) = fold_rune r"
  by (auto simp: fold_rune_def)

lemma fold_lower_idem:
  "fold_rune (LowerRune U (fold_rune (LowerRune U r))) = fold_rune (LowerRune U r)"
  using fold_rune_cases[of "LowerRune U r"] lower_ascii[of "fold_rune (LowerRune U r)"]
  by (auto simp: fold_rune_idem lower_idem)

lemma runs_normal:
  assumes "w \<in> set (runs (word_rune U) cur s)" "\<forall>r \<in> set s \<union> set cur. fold_rune (LowerRune U r) = r"
    and "\<forall>r \<in> set cur. word_rune U r"
  shows "normal_word w"
  using assms
proof (induction s arbitrary: cur)
  case Nil
  then show ?case by (simp add: normal_word_def split: if_splits)
next
  case (Cons r rs)
  show ?case
  proof (cases "word_rune U r")
    case True
    show ?thesis by (rule Cons.IH[of "cur @ [r]"]) (use Cons.prems True in auto)
  next
    case False
    then have "w = cur \<and> cur \<noteq> [] \<or> w \<in> set (runs (word_rune U) [] rs)"
      using Cons.prems(1) by (auto split: if_splits)
    then show ?thesis using Cons.IH[of "[]"] Cons.prems by (auto simp: normal_word_def)
  qed
qed

lemma tokenize_normal: "w \<in> set (tokenize U s) \<Longrightarrow> normal_word w"
  unfolding tokenize_runs by (rule runs_normal) (auto simp: fold_lower_idem)

lemma runs_word: "\<forall>r \<in> set w. word_rune U r \<Longrightarrow> runs (word_rune U) cur (w @ s) = runs (word_rune U) (cur @ w) s"
  by (induction w arbitrary: cur) simp_all

lemma not_word_space: "\<not> word_rune U 32"
  using space word_not_space by (auto simp: word_rune_def)

lemma runs_join: "\<forall>w \<in> set ws. normal_word w \<Longrightarrow> runs (word_rune U) [] (join_words ws) = ws"
proof (induction ws rule: join_words.induct)
  case (2 w)
  then show ?case using runs_word[of w "[]" "[]"] by (simp add: normal_word_def)
next
  case (3 w v ws)
  then show ?case using runs_word[of w "[]"] not_word_space by (simp add: normal_word_def)
qed simp

lemma map_join:
  "\<forall>w \<in> set ws. normal_word w \<Longrightarrow> map (fold_rune \<circ> LowerRune U) (join_words ws) = join_words ws"
proof (induction ws rule: join_words.induct)
  case (2 w)
  then show ?case by (auto simp: normal_word_def intro: map_idI)
next
  case (3 w v ws)
  have "fold_rune (LowerRune U 32) = 32" using lower_ascii[of 32] by (simp add: fold_rune_def)
  then show ?case using 3 by (auto simp: normal_word_def intro: map_idI)
qed simp

lemma join_words_ends:
  assumes "\<forall>w \<in> set ws. normal_word w" "ws \<noteq> []"
  shows "join_words ws \<noteq> [] \<and> word_rune U (hd (join_words ws)) \<and> word_rune U (last (join_words ws))"
  using assms
proof (induction ws rule: join_words.induct)
  case (2 w)
  then show ?case by (simp add: normal_word_def)
next
  case (3 w v ws)
  then show ?case by (simp add: normal_word_def)
qed simp

lemma trim_join:
  assumes "\<forall>w \<in> set ws. normal_word w"
  shows "TrimSpaceR U (join_words ws) = join_words ws"
proof (cases "ws = []")
  case False
  have keep: "dropWhile (IsSpace U) s = s" if "s \<noteq> []" "word_rune U (hd s)" for s
    using that word_not_space by (cases s) (auto simp: word_rune_def)
  note e = join_words_ends[OF assms False]
  show ?thesis
    using keep[of "join_words ws"] keep[of "rev (join_words ws)"] e
    by (simp add: TrimSpaceR_def hd_rev)
qed (simp add: TrimSpaceR_def)

lemma tokenize_join:
  assumes "\<forall>w \<in> set ws. normal_word w"
  shows "tokenize U (join_words ws) = ws"
  unfolding tokenize_runs trim_join[OF assms] map_join[OF assms] by (rule runs_join[OF assms])

lemma tokenize_twice: "tokenize U (normalizeText U s) = tokenize U s"
  unfolding normalizeText_def using tokenize_normal tokenize_join by blast

end

text \<open>The tables restricted to ASCII.\<close>

definition ascii_tables :: unicode_tables where
  "ascii_tables = \<lparr>IsLetter = \<lambda>r. (65 \<le> r \<and> r \<le> 90) \<or> (97 \<le> r \<and> r \<le> 122),
     IsDigit = \<lambda>r. 48 \<le> r \<and> r \<le> 57, IsSpace = \<lambda>r. r = 32 \<or> (9 \<le> r \<and> r \<le> 13),
     LowerRune = \<lambda>r. if 65 \<le> r \<and> r \<le> 90 then r + 32 else r\<rparr>"

interpretation ascii: unicode_laws ascii_tables
  by unfold_locales (auto simp: ascii_tables_def)

text \<open>
  The normal form is one: the tokens of a normalised text are those of the text, so
  normalising twice changes nothing, an exact match is a match of the normal forms, and a text
  scores 100 against its own normal form.
\<close>

theorem normalizeText_normal:
  assumes "unicode_laws U"
  shows "normalizeText U (normalizeText U s) = normalizeText U s \<and>
    tokenize U (normalizeText U s) = tokenize U s \<and>
    ReferenceCorrectnessScore U s (normalizeText U s) = Fin 100 \<and>
    EditDistance U s (normalizeText U s) = 0"
proof -
  have t: "tokenize U (normalizeText U s) = tokenize U s" by (rule unicode_laws.tokenize_twice[OF assms])
  then have "normalizeText U (normalizeText U s) = normalizeText U s"
    by (simp add: normalizeText_def[of U "normalizeText U s"]) (simp add: normalizeText_def)
  then show ?thesis
    using t by (simp add: ReferenceCorrectnessScore_def ExactMatchScore_def EditDistance_def ed_table_lev)
qed

theorem normalizeText_normal_witness:
  "normalizeText ascii_tables (normalizeText ascii_tables (runes ''  Le CHAT, 2x  '')) = runes ''le chat 2x''"
proof -
  have "normalizeText ascii_tables (runes ''  Le CHAT, 2x  '') = runes ''le chat 2x''" by code_simp
  then show ?thesis
    using normalizeText_normal[OF ascii.unicode_laws_axioms, of "runes ''  Le CHAT, 2x  ''"] by simp
qed

end
