(* ===== verification/Govartypes.thy ===== *)
theory Govartypes
  imports Apitypes
begin

section \<open>Routing safety objects (api/v1alpha1)\<close>

text \<open>
  The statuses that the provider and model controllers produce for the route admission: the
  normalised pricing snapshot of a provider, and the verified output cap and the latency of a model.
\<close>

definition GOVARRouteOpenAIBody :: string where "GOVARRouteOpenAIBody = ''openai-body''"
definition GOVARRouteAzureDeploymentPath :: string where "GOVARRouteAzureDeploymentPath = ''azure-deployment-path''"
definition GOVARRouteAnthropicBody :: string where "GOVARRouteAnthropicBody = ''anthropic-body''"
definition GOVARRouteGoogleGeneratePath :: string where "GOVARRouteGoogleGeneratePath = ''google-generate-path''"

lemmas path_modes = GOVARRouteOpenAIBody_def GOVARRouteAzureDeploymentPath_def
  GOVARRouteAnthropicBody_def GOVARRouteGoogleGeneratePath_def

record AIProviderNormalizedChargeStatus =
  nc_Basis :: string
  nc_Applicability :: string
  nc_PriceMicrosPerUnit :: int64
  nc_UnitDenominator :: int64
  nc_SettlementUsageField :: string
  nc_IncludedIn :: "string option"
  nc_MaximumQuantity :: "int64 option"
  nc_RequestBoundField :: string
  nc_DisjointUsage :: bool

record AIProviderPricingSnapshotStatus =
  sn_SpecGeneration :: int64
  sn_Version :: string
  sn_ObservedAt :: time
  sn_ValidUntil :: time
  sn_Currency :: string
  sn_Completeness :: string
  sn_SnapshotSHA256 :: string
  sn_AdapterVersion :: string
  sn_EvidenceMode :: string
  sn_EvidenceSHA256 :: string
  sn_SourceVersion :: string
  sn_Charges :: "AIProviderNormalizedChargeStatus list"
  sn_InapplicableBases :: "string list"

record AIProviderGOVARStatus =
  pgs_PricingSnapshot :: "AIProviderPricingSnapshotStatus option"

record AIProviderStatus =
  pst_ObservedGeneration :: int64
  pst_Conditions :: "Condition list"
  pst_GOVAR :: "AIProviderGOVARStatus option"

record AIModelVerifiedOutputCapStatus =
  vc_Verified :: bool
  vc_MaxOutputTokens :: int64
  vc_ObservedAt :: time
  vc_SourceVersion :: string
  vc_ProviderUID :: string
  vc_ProviderGeneration :: int64
  vc_ProviderDeployment :: string
  vc_ModelVersion :: string
  vc_CapabilityAdapterVersion :: string
  vc_EvidenceMode :: string
  vc_EvidenceSHA256 :: string
  vc_PricingSnapshotSHA256 :: string
  vc_ValidUntil :: time
  vc_RequestParameter :: string
  vc_EnforcedByPathAdapter :: bool

record AIModelLatencyObservation =
  lo_MeanMillis :: int64
  lo_P95Millis :: int64
  lo_P99Millis :: int64
  lo_SampleCount :: int64
  lo_ObservedAt :: time

record AIModelGOVARStatus =
  mgs_VerifiedOutputCap :: "AIModelVerifiedOutputCapStatus option"
  mgs_Latency :: "AIModelLatencyObservation option"

record AIModelStatus =
  mst_ObservedGeneration :: int64
  mst_ResolvedProvider :: string
  mst_LastQualityScore :: f64
  mst_LastEvaluatedAt :: "time option"
  mst_Conditions :: "Condition list"
  mst_GOVAR :: "AIModelGOVARStatus option"

end
