(* ===== verification/Sha256.thy ===== *)
theory Sha256
  imports GoStrings "HOL-Library.Word"
begin

section \<open>The SHA-256 of the standard library (crypto/sha256)\<close>

text \<open>
  \<open>sha256.New\<close>, \<open>Write\<close> and \<open>Sum\<close> as one function of the bytes written: the message is padded to
  blocks of 64 bytes, each block is expanded to 64 words of 32 bits and mixed into eight words of
  state. A byte is a \<open>char\<close>. The lemmas give the shape of a digest printed with \<open>%x\<close>.
\<close>

unbundle bit_operations_syntax

type_synonym w32 = "32 word"

definition sha_K :: "w32 list" where
  "sha_K = [0x428A2F98, 0x71374491, 0xB5C0FBCF, 0xE9B5DBA5, 0x3956C25B, 0x59F111F1, 0x923F82A4,
     0xAB1C5ED5, 0xD807AA98, 0x12835B01, 0x243185BE, 0x550C7DC3, 0x72BE5D74, 0x80DEB1FE,
     0x9BDC06A7, 0xC19BF174, 0xE49B69C1, 0xEFBE4786, 0x0FC19DC6, 0x240CA1CC, 0x2DE92C6F,
     0x4A7484AA, 0x5CB0A9DC, 0x76F988DA, 0x983E5152, 0xA831C66D, 0xB00327C8, 0xBF597FC7,
     0xC6E00BF3, 0xD5A79147, 0x06CA6351, 0x14292967, 0x27B70A85, 0x2E1B2138, 0x4D2C6DFC,
     0x53380D13, 0x650A7354, 0x766A0ABB, 0x81C2C92E, 0x92722C85, 0xA2BFE8A1, 0xA81A664B,
     0xC24B8B70, 0xC76C51A3, 0xD192E819, 0xD6990624, 0xF40E3585, 0x106AA070, 0x19A4C116,
     0x1E376C08, 0x2748774C, 0x34B0BCB5, 0x391C0CB3, 0x4ED8AA4A, 0x5B9CCA4F, 0x682E6FF3,
     0x748F82EE, 0x78A5636F, 0x84C87814, 0x8CC70208, 0x90BEFFFA, 0xA4506CEB, 0xBEF9A3F7,
     0xC67178F2]"

definition sha_init :: "w32 list" where
  "sha_init = [0x6A09E667, 0xBB67AE85, 0x3C6EF372, 0xA54FF53A, 0x510E527F, 0x9B05688C, 0x1F83D9AB,
     0x5BE0CD19]"

definition rotr :: "nat \<Rightarrow> w32 \<Rightarrow> w32" where
  "rotr n x = drop_bit n x OR push_bit (32 - n) x"

definition low_sigma0 :: "w32 \<Rightarrow> w32" where
  "low_sigma0 x = (rotr 7 x XOR rotr 18 x) XOR drop_bit 3 x"

definition low_sigma1 :: "w32 \<Rightarrow> w32" where
  "low_sigma1 x = (rotr 17 x XOR rotr 19 x) XOR drop_bit 10 x"

definition big_sigma0 :: "w32 \<Rightarrow> w32" where
  "big_sigma0 x = (rotr 2 x XOR rotr 13 x) XOR rotr 22 x"

definition big_sigma1 :: "w32 \<Rightarrow> w32" where
  "big_sigma1 x = (rotr 6 x XOR rotr 11 x) XOR rotr 25 x"

text \<open>The next word of the schedule from the last sixteen, latest first.\<close>

definition sched_next :: "w32 list \<Rightarrow> w32" where
  "sched_next ws = low_sigma1 (ws ! 1) + ws ! 6 + low_sigma0 (ws ! 14) + ws ! 15"

definition schedule :: "w32 list \<Rightarrow> w32 list" where
  "schedule block = rev (fold (\<lambda>_ ws. sched_next ws # ws) [16..<64] (rev block))"

fun sha_round :: "w32 \<times> w32 \<Rightarrow> w32 list \<Rightarrow> w32 list" where
  "sha_round (k, w) [a, b, c, d, e, f, g, h] =
     (let t1 = h + big_sigma1 e + ((e AND f) XOR (NOT e AND g)) + k + w;
          t2 = big_sigma0 a + (((a AND b) XOR (a AND c)) XOR (b AND c))
      in [t1 + t2, a, b, c, d + t1, e, f, g])"
| "sha_round _ st = st"

definition compress :: "w32 list \<Rightarrow> w32 list \<Rightarrow> w32 list" where
  "compress block st = map2 (+) st (fold sha_round (zip sha_K (schedule block)) st)"

text \<open>A number as bytes, most significant first, and bytes as words.\<close>

fun be_bytes :: "nat \<Rightarrow> nat \<Rightarrow> string" where
  "be_bytes 0 n = []"
| "be_bytes (Suc k) n = be_bytes k (n div 256) @ [char_of (n mod 256)]"

definition sha_pad :: "string \<Rightarrow> string" where
  "sha_pad m = m @ [CHR 0x80] @ replicate (63 - (length m + 8) mod 64) (CHR 0x00) @ be_bytes 8 (8 * length m)"

fun words_of :: "string \<Rightarrow> w32 list" where
  "words_of (a # b # c # d # bs) =
     word_of_nat (((of_char a * 256 + of_char b) * 256 + of_char c) * 256 + of_char d) # words_of bs"
| "words_of _ = []"

fun blocks_of :: "w32 list \<Rightarrow> w32 list list" where
  "blocks_of ws = (if length ws < 16 then [] else take 16 ws # blocks_of (drop 16 ws))"

declare blocks_of.simps [simp del]

definition sha256 :: "string \<Rightarrow> w32 list" where
  "sha256 m = fold compress (blocks_of (words_of (sha_pad m))) sha_init"

text \<open>\<open>fmt.Sprintf("%x", h.Sum(nil))\<close>: eight lower-case hexadecimal digits per word.\<close>

fun hex_digits :: "nat \<Rightarrow> nat \<Rightarrow> string" where
  "hex_digits 0 n = []"
| "hex_digits (Suc k) n = hex_digits k (n div 16) @ [hex_char (n mod 16)]"

definition sha256_hex :: "string \<Rightarrow> string" where
  "sha256_hex m = concat (map (\<lambda>w. hex_digits 8 (unat w)) (sha256 m))"

subsection \<open>The shape of a digest\<close>

lemma be_bytes_length [simp]: "length (be_bytes k n) = k"
  by (induction k arbitrary: n) simp_all

lemma hex_digits_length [simp]: "length (hex_digits k n) = k"
  by (induction k arbitrary: n) simp_all

lemma hex_char_hex: "n < 16 \<Longrightarrow> hex_char n \<in> set ''0123456789abcdef''"
proof -
  assume "n < 16"
  moreover have "\<forall>n \<in> set [0..<16]. hex_char n \<in> set ''0123456789abcdef''" by code_simp
  ultimately show ?thesis by (simp only: set_upt) (metis atLeastLessThan_iff le0)
qed

lemma hex_digits_hex: "set (hex_digits k n) \<subseteq> set ''0123456789abcdef''"
proof (induction k arbitrary: n)
  case (Suc k)
  have "set [hex_char (n mod 16)] \<subseteq> set ''0123456789abcdef''"
    using hex_char_hex[of "n mod 16"] by (simp only: list.set Un_insert_left) simp
  then show ?case unfolding hex_digits.simps set_append using Suc[of "n div 16"] by (rule Un_least[rotated])
qed simp

lemma sha_round_length [simp]: "length (sha_round kw st) = length st"
  by (cases "(kw, st)" rule: sha_round.cases) (simp_all add: Let_def)

lemma fold_length: "(\<And>x st. length (f x st) = length st) \<Longrightarrow> length (fold f xs st) = length st"
  by (induction xs arbitrary: st) simp_all

lemma compress_length [simp]: "length (compress block st) = length st"
  by (simp add: compress_def fold_length)

lemma sha256_length: "length (sha256 m) = 8"
  by (simp add: sha256_def fold_length sha_init_def)

lemma sha256_hex_length: "length (sha256_hex m) = 64"
  by (simp add: sha256_hex_def length_concat comp_def sum_list_triv sha256_length)

lemma sha256_hex_hex: "set (sha256_hex m) \<subseteq> set ''0123456789abcdef''"
  using hex_digits_hex by (fastforce simp: sha256_hex_def)


subsection \<open>SHA-1 (crypto/sha1)\<close>

text \<open>The same padding and blocks, five words of state and eighty rounds.\<close>

definition sha1_init :: "w32 list" where
  "sha1_init = [0x67452301, 0xEFCDAB89, 0x98BADCFE, 0x10325476, 0xC3D2E1F0]"

definition sha1_next :: "w32 list \<Rightarrow> w32" where
  "sha1_next ws = rotr 31 (((ws ! 2 XOR ws ! 7) XOR ws ! 13) XOR ws ! 15)"

definition sha1_schedule :: "w32 list \<Rightarrow> w32 list" where
  "sha1_schedule block = rev (fold (\<lambda>_ ws. sha1_next ws # ws) [16..<80] (rev block))"

definition sha1_fk :: "nat \<Rightarrow> w32 \<Rightarrow> w32 \<Rightarrow> w32 \<Rightarrow> w32 \<times> w32" where
  "sha1_fk t b c d =
     (if t < 20 then ((b AND c) OR (NOT b AND d), 0x5A827999)
      else if t < 40 then ((b XOR c) XOR d, 0x6ED9EBA1)
      else if t < 60 then (((b AND c) OR (b AND d)) OR (c AND d), 0x8F1BBCDC)
      else ((b XOR c) XOR d, 0xCA62C1D6))"

fun sha1_round :: "nat \<times> w32 \<Rightarrow> w32 list \<Rightarrow> w32 list" where
  "sha1_round (t, w) [a, b, c, d, e] =
     (let (f, k) = sha1_fk t b c d in [rotr 27 a + f + e + k + w, a, rotr 2 b, c, d])"
| "sha1_round _ st = st"

definition sha1_compress :: "w32 list \<Rightarrow> w32 list \<Rightarrow> w32 list" where
  "sha1_compress block st = map2 (+) st (fold sha1_round (zip [0..<80] (sha1_schedule block)) st)"

definition sha1 :: "string \<Rightarrow> w32 list" where
  "sha1 m = fold sha1_compress (blocks_of (words_of (sha_pad m))) sha1_init"

definition sha1_hex :: "string \<Rightarrow> string" where
  "sha1_hex m = concat (map (\<lambda>w. hex_digits 8 (unat w)) (sha1 m))"

lemma sha1_round_length [simp]: "length (sha1_round kw st) = length st"
  by (cases "(kw, st)" rule: sha1_round.cases) (simp_all add: Let_def split_def)

lemma sha1_hex_length: "length (sha1_hex m) = 40"
proof -
  have "length (sha1 m) = 5"
    by (simp add: sha1_def sha1_compress_def fold_length sha1_init_def)
  then show ?thesis by (simp add: sha1_hex_def length_concat comp_def sum_list_triv)
qed

lemma sha1_hex_hex: "set (sha1_hex m) \<subseteq> set ''0123456789abcdef''"
  unfolding sha1_hex_def set_concat set_map using hex_digits_hex by blast


end
