(* ===== verification/Govarpricing.thy ===== *)
theory Govarpricing
  imports Govartypes GoTime Sha256
begin

section \<open>Normalised pricing (internal/govarpricing)\<close>

text \<open>
  The monetary authority of the route admission: a provider's typed prices become a snapshot that
  partitions the closed set of billable bases into charged and inapplicable ones; a request is
  reserved against the snapshot, and settled from the provider's usage against the same frozen
  snapshot. Amounts are int64 micros and computed exactly or refused. The value of a
  \<open>resource.Quantity\<close> is the argument \<open>qv\<close>.
\<close>

subsection \<open>Types\<close>

definition CurrentAdapterVersion :: string where "CurrentAdapterVersion = ''govar-pricing-v1''"

definition AllBases :: "string list" where
  "AllBases =
     [ProviderBasisInputTokens, ProviderBasisCachedInputTokens, ProviderBasisOutputTokens,
      ProviderBasisReasoningTokens, ProviderBasisRequest, ProviderBasisToolCall,
      ProviderBasisMediaUnit, ProviderBasisBillableSecond, ProviderBasisCancellation,
      ProviderBasisRetryAttempt]"

type_synonym NormalizedCharge = AIProviderNormalizedChargeStatus
type_synonym NormalizedPricingSnapshot = AIProviderPricingSnapshotStatus

record Evidence =
  evd_Mode :: string
  evd_SHA256 :: string
  evd_SourceVersion :: string

record UsageQuantity =
  uq_Basis :: string
  uq_Quantity :: int64

record RequestChargeContext =
  rc_InputTokens :: int64
  rc_OutputTokens :: int64
  rc_MaxToolCalls :: int64
  rc_MaxMediaUnits :: int64
  rc_TimeoutSeconds :: int64
  rc_MaxRetryAttempts :: int64
  rc_CancellationPossible :: bool
  rc_DeclaredBounds :: "UsageQuantity list"

record ChargeComponent =
  cc_Basis :: string
  cc_Quantity :: int64
  cc_PriceMicrosPerUnit :: int64
  cc_UnitDenominator :: int64
  cc_ReservedMicros :: int64

record ActualChargeComponent =
  ac_Basis :: string
  ac_Quantity :: int64
  ac_PriceMicrosPerUnit :: int64
  ac_UnitDenominator :: int64
  ac_ActualMicros :: int64
  ac_ReservedQuantity :: int64
  ac_ExceededBound :: bool

lemmas basis_defs = ProviderBasisInputTokens_def ProviderBasisCachedInputTokens_def
  ProviderBasisOutputTokens_def ProviderBasisReasoningTokens_def ProviderBasisRequest_def
  ProviderBasisToolCall_def ProviderBasisMediaUnit_def ProviderBasisBillableSecond_def
  ProviderBasisCancellation_def ProviderBasisRetryAttempt_def

lemmas charge_defs = ProviderChargeAlways_def ProviderChargeRequestDeclared_def
  ProviderChargeProviderResponse_def

lemmas mode_defs = ProviderEvidenceCatalog_def ProviderEvidenceAPI_def ProviderEvidenceAdminAttested_def

subsection \<open>Closed sets and exact amounts\<close>

definition validEvidenceMode :: "string \<Rightarrow> bool" where
  "validEvidenceMode m \<longleftrightarrow>
     m = ProviderEvidenceCatalog \<or> m = ProviderEvidenceAPI \<or> m = ProviderEvidenceAdminAttested"

definition validApplicability :: "string \<Rightarrow> bool" where
  "validApplicability a \<longleftrightarrow>
     a = ProviderChargeAlways \<or> a = ProviderChargeRequestDeclared \<or> a = ProviderChargeProviderResponse"

definition isBasis :: "string \<Rightarrow> bool" where
  "isBasis b \<longleftrightarrow> list_ex (\<lambda>candidate. b = candidate) AllBases"

definition isSHA256 :: "string \<Rightarrow> bool" where
  "isSHA256 s \<longleftrightarrow> length s = 64 \<and> list_all (\<lambda>c. c \<in> set ''0123456789abcdef'') s"

definition legalIncludedPair :: "string \<Rightarrow> string \<Rightarrow> bool" where
  "legalIncludedPair detail rootBasis \<longleftrightarrow>
     detail = ProviderBasisCachedInputTokens \<and> rootBasis = ProviderBasisInputTokens \<or>
     detail = ProviderBasisReasoningTokens \<and> rootBasis = ProviderBasisOutputTokens"

definition validRequestBound :: "string \<Rightarrow> string \<Rightarrow> bool" where
  "validRequestBound basis field \<longleftrightarrow>
     basis = ProviderBasisInputTokens \<and> field = ''input_tokens'' \<or>
     basis = ProviderBasisCachedInputTokens \<and> field = ''max_cached_input_tokens'' \<or>
     basis = ProviderBasisOutputTokens \<and> field = ''max_output_tokens'' \<or>
     basis = ProviderBasisReasoningTokens \<and> field = ''max_reasoning_tokens'' \<or>
     basis = ProviderBasisToolCall \<and> field = ''max_tool_calls'' \<or>
     basis = ProviderBasisMediaUnit \<and> field = ''max_media_units'' \<or>
     basis = ProviderBasisBillableSecond \<and> field = ''timeout_seconds'' \<or>
     basis = ProviderBasisRetryAttempt \<and> field = ''max_retry_attempts'' \<or>
     basis = ProviderBasisCancellation \<and> field = ''cancellation_possible''"

definition IsInt64 :: "int \<Rightarrow> bool" where
  "IsInt64 i \<longleftrightarrow> - (2 ^ 63) \<le> i \<and> i < 2 ^ 63"

text \<open>Big integers are \<open>int\<close>; the quotient truncates, which is \<open>div\<close> on operands that are not negative.\<close>

definition ceilingProduct :: "int64 \<Rightarrow> int64 \<Rightarrow> int64 \<Rightarrow> int64 result" where
  "ceilingProduct price quantity denominator =
     (if sint price < 0 \<or> sint quantity < 0 \<or> sint denominator \<le> 0 then
        Inl (Err ''invalid price, quantity, or denominator'' [])
      else
        let n = sint price * sint quantity;
            q = n div sint denominator; r = n mod sint denominator;
            q = (if r \<noteq> 0 then q + 1 else q)
        in if \<not> IsInt64 q then Inl (Err ''charge overflows int64'' []) else Inr (word_of_int q))"

definition exactMicros :: "(quantity \<Rightarrow> rat) \<Rightarrow> quantity \<Rightarrow> int64 result" where
  "exactMicros qv q =
     (let r = qv q
      in if r < 0 then Inl (Err ''price must be non-negative decimal'' [])
         else
           let r = r * 1000000; quotient = \<lfloor>r\<rfloor>
           in if r \<noteq> of_int quotient then Inl (Err ''price is not exactly representable in micros'' [])
              else if \<not> IsInt64 quotient then Inl (Err ''price exceeds int64'' [])
              else Inr (word_of_int quotient))"

text \<open>\<open>fmt.Errorf("pre: %w", err)\<close>: the wrapped message after the prefix.\<close>

fun wrap_err :: "string \<Rightarrow> string list \<Rightarrow> go_error \<Rightarrow> go_error" where
  "wrap_err pre args (Err f as) = Err (pre @ f) (args @ as)"

fun add_checked :: "go_error \<Rightarrow> int64 \<Rightarrow> int64 list \<Rightarrow> int64 result" where
  "add_checked e s [] = Inr s"
| "add_checked e s (c # cs) =
     (if sint c < 0 \<or> sint s > sint (9223372036854775807 - c) then Inl e else add_checked e (s + c) cs)"

definition SumActualComponents :: "ActualChargeComponent list \<Rightarrow> int64 result" where
  "SumActualComponents components =
     add_checked (Err ''actual component sum overflows int64'' []) 0 (map ac_ActualMicros components)"

definition SumComponents :: "ChargeComponent list \<Rightarrow> int64 result" where
  "SumComponents components =
     add_checked (Err ''component sum overflows int64'' []) 0 (map cc_ReservedMicros components)"

subsection \<open>The digest of a snapshot\<close>

text \<open>Every part is preceded by its length in eight bytes.\<close>

definition hash_frame :: "string list \<Rightarrow> string" where
  "hash_frame parts = concat (map (\<lambda>p. be_bytes 8 (length p) @ p) parts)"

definition fixedHash :: "string list \<Rightarrow> string" where
  "fixedHash parts = sha256_hex (hash_frame parts)"

definition basis_before :: "NormalizedCharge \<Rightarrow> NormalizedCharge \<Rightarrow> bool" where
  "basis_before a b \<longleftrightarrow> nc_Basis a < nc_Basis b"

definition fmt_bool :: "bool \<Rightarrow> string" where
  "fmt_bool b = (if b then ''true'' else ''false'')"

definition charge_parts :: "NormalizedCharge \<Rightarrow> string list" where
  "charge_parts r =
     [nc_Basis r, nc_Applicability r, fmt_d (nc_PriceMicrosPerUnit r), fmt_d (nc_UnitDenominator r),
      nc_SettlementUsageField r, case nc_IncludedIn r of None \<Rightarrow> '''' | Some b \<Rightarrow> b,
      case nc_MaximumQuantity r of None \<Rightarrow> '''' | Some q \<Rightarrow> fmt_d q, nc_RequestBoundField r,
      fmt_bool (nc_DisjointUsage r)]"

definition snapshot_parts :: "NormalizedPricingSnapshot \<Rightarrow> string list" where
  "snapshot_parts s =
     [''govar-normalized-pricing-v1'', fmt_d (sn_SpecGeneration s), sn_Version s,
      RFC3339Nano (sn_ObservedAt s), RFC3339Nano (sn_ValidUntil s), ToUpper (sn_Currency s),
      sn_Completeness s, sn_AdapterVersion s, sn_EvidenceMode s, sn_EvidenceSHA256 s, sn_SourceVersion s] @
     concat (map charge_parts (sort_by basis_before (sn_Charges s))) @
     concat (map (\<lambda>b. [''inapplicable'', b]) (sort_strings (sn_InapplicableBases s)))"

definition SnapshotDigest :: "NormalizedPricingSnapshot \<Rightarrow> string" where
  "SnapshotDigest s = fixedHash (snapshot_parts s)"

subsection \<open>The included-charge graph\<close>

text \<open>\<open>charged\<close>: the row of a basis; a later row of the same basis replaces an earlier one.\<close>

definition charged :: "NormalizedCharge list \<Rightarrow> string \<Rightarrow> NormalizedCharge option" where
  "charged rows = map_of (rev (map (\<lambda>r. (nc_Basis r, r)) rows))"

lemma charged_mem: "charged rows b = Some p \<Longrightarrow> p \<in> set rows \<and> nc_Basis p = b"
  unfolding charged_def by (drule map_of_SomeD) auto

text \<open>The loop that follows \<open>IncludedIn\<close> from a row until it reaches a root.\<close>

function walk_included ::
  "NormalizedCharge list \<Rightarrow> string \<Rightarrow> string list \<Rightarrow> NormalizedCharge \<Rightarrow> NormalizedCharge result" where
  "walk_included rows start visited row =
     (case nc_IncludedIn row of
        None \<Rightarrow> Inr row
      | Some parentBasis \<Rightarrow>
          if parentBasis \<in> set visited then
            Inl (Err ''included-charge cycle reaches %q from %q'' [parentBasis, start])
          else
            (case charged rows parentBasis of
               None \<Rightarrow> Inl (Err ''included basis %s has no charged parent %s'' [nc_Basis row, parentBasis])
             | Some parent \<Rightarrow> walk_included rows start (parentBasis # visited) parent))"
  by pat_completeness auto

termination
proof (relation "measure (\<lambda>(rows, start, visited, row). card (nc_Basis ` set rows - set visited))")
  fix rows :: "NormalizedCharge list" and start visited row parentBasis parent
  assume "parentBasis \<notin> set visited" "charged rows parentBasis = Some parent"
  then have "parentBasis \<in> nc_Basis ` set rows - set visited" using charged_mem by fastforce
  then have "card (nc_Basis ` set rows - set (parentBasis # visited)) < card (nc_Basis ` set rows - set visited)"
    by (intro psubset_card_mono) auto
  then show "((rows, start, parentBasis # visited, parent), (rows, start, visited, row))
      \<in> measure (\<lambda>(rows, start, visited, row). card (nc_Basis ` set rows - set visited))"
    by simp
qed simp

declare walk_included.simps [simp del]

definition included_error :: "NormalizedCharge list \<Rightarrow> NormalizedCharge \<Rightarrow> go_error option" where
  "included_error rows row =
     (if nc_IncludedIn row = None then None
      else
        (case walk_included rows (nc_Basis row) [nc_Basis row] row of
           Inl e \<Rightarrow> Some e
         | Inr rt \<Rightarrow>
             if \<not> legalIncludedPair (nc_Basis row) (nc_Basis rt) then
               Some (Err ''included basis %s cannot resolve to charged root %s'' [nc_Basis row, nc_Basis rt])
             else None))"

definition validateIncludedChargeGraph :: "NormalizedCharge list \<Rightarrow> string list \<Rightarrow> go_error option" where
  "validateIncludedChargeGraph rows inapplicable =
     (case check_all (\<lambda>basis. if charged rows basis \<noteq> None then
             Some (Err ''included-charge graph contains contradictory inapplicable basis %q'' [basis])
           else None) inapplicable of
        Some e \<Rightarrow> Some e
      | None \<Rightarrow> check_all (included_error rows) rows)"


subsection \<open>Adapters\<close>

record closedAdapter =
  ca_family :: string

definition adapter_Family :: "closedAdapter \<Rightarrow> string" where
  "adapter_Family a = ca_family a"

definition ForProviderType :: "string \<Rightarrow> closedAdapter result" where
  "ForProviderType providerType =
     (let t = ToLower (TrimSpace providerType)
      in if t = ''openai'' \<or> t = ''azure-openai'' then Inr \<lparr>ca_family = t\<rparr>
         else Inl (Err ''no closed GOV-AR pricing and authoritative-usage adapter for provider type %q''
           [providerType]))"

definition OutputCapRequestParameter :: "string \<Rightarrow> string \<Rightarrow> string \<times> bool" where
  "OutputCapRequestParameter providerType pathMode =
     (let t = ToLower (TrimSpace providerType)
      in if t = ''openai'' \<and> pathMode = GOVARRouteOpenAIBody \<or>
            t = ''azure-openai'' \<and> pathMode = GOVARRouteAzureDeploymentPath
         then (''max_output_tokens'', True) else ('''', False))"

subsection \<open>Normalisation\<close>

text \<open>The tests before any price is read, in their order.\<close>

definition pricing_guard :: "AIProvider \<Rightarrow> AIProviderGOVARPricingSpec \<Rightarrow> time \<Rightarrow> go_error option" where
  "pricing_guard provider pricing now =
     (let pp = ps_Pricing (prov_Spec provider); evidence = gp_Evidence pricing
      in if sint (prov_Generation provider) \<le> 0 \<or> TrimSpace (pp_Version pp) = '''' \<or>
            pp_Completeness pp \<noteq> ProviderPricingComplete then
           Some (Err ''pricing version, generation, or completeness is invalid'' [])
         else if ToLower (TrimSpace (pp_Currency pp)) \<noteq> ToLower ''EUR'' then
           Some (Err ''only EUR integer-micro snapshots are supported'' [])
         else if ev_AdapterVersion evidence \<noteq> CurrentAdapterVersion \<or> \<not> validEvidenceMode (ev_Mode evidence) \<or>
            \<not> isSHA256 (ev_EvidenceSHA256 evidence) \<or> TrimSpace (ev_SourceVersion evidence) = '''' then
           Some (Err ''pricing evidence is incomplete'' [])
         else if ev_Mode evidence \<noteq> ProviderEvidenceAdminAttested then
           Some (Err ''spec-supplied pricing evidence must be admin_attested; provider catalog/API modes require a provider-owned producer'' [])
         else if \<not> now < ev_ValidUntil evidence then Some (Err ''pricing evidence is stale'' [])
         else
           (case pp_ObservedAt pp of
              None \<Rightarrow> Some (Err ''pricing observation is stale or in the future'' [])
            | Some observedAt \<Rightarrow>
                if now + minute_ns < observedAt \<or> 24 * hour_ns < now - observedAt then
                  Some (Err ''pricing observation is stale or in the future'' [])
                else None))"

text \<open>One pass of the loop over the typed charges.\<close>

definition normalize_charge ::
  "(quantity \<Rightarrow> rat) \<Rightarrow> string list \<Rightarrow> ProviderBillableCharge \<Rightarrow> NormalizedCharge result" where
  "normalize_charge qv seen charge =
     (let basis = bc_Basis charge
      in if \<not> isBasis basis \<or> basis \<in> set seen \<or> \<not> validApplicability (bc_Applicability charge) \<or>
            bc_SettlementUsageField charge \<noteq> basis \<or> sint (bc_UnitDenominator charge) \<le> 0 then
           Inl (Err ''invalid or duplicate charge basis %q'' [basis])
         else
           (case exactMicros qv (bc_Price charge) of
              Inl e \<Rightarrow> Inl (wrap_err ''charge %s: '' [basis] e)
            | Inr price \<Rightarrow>
                if (case bc_IncludedIn charge of None \<Rightarrow> False
                    | Some b \<Rightarrow> \<not> isBasis b \<or> b = basis \<or> price \<noteq> 0) then
                  Inl (Err ''invalid included-in semantics for %s'' [basis])
                else if bc_IncludedIn charge = None \<and> bc_MaximumQuantity charge = None \<and>
                    bc_RequestBoundField charge = '''' then
                  Inl (Err ''charge %s has no pre-dispatch bound'' [basis])
                else if bc_Applicability charge = ProviderChargeProviderResponse \<and>
                    bc_MaximumQuantity charge = None then
                  Inl (Err ''response-only charge %s has no enforced maximum'' [basis])
                else if (basis = ProviderBasisCachedInputTokens \<or> basis = ProviderBasisReasoningTokens) \<and>
                    bc_IncludedIn charge = None \<and> \<not> bc_DisjointUsage charge then
                  Inl (Err ''separately priced %s must have disjoint usage semantics'' [basis])
                else if bc_Applicability charge = ProviderChargeRequestDeclared \<and>
                    bc_IncludedIn charge = None \<and> bc_RequestBoundField charge = '''' then
                  Inl (Err ''request-declared charge %s has no mapped request bound'' [basis])
                else
                  Inr \<lparr>nc_Basis = basis, nc_Applicability = bc_Applicability charge,
                    nc_PriceMicrosPerUnit = price, nc_UnitDenominator = bc_UnitDenominator charge,
                    nc_SettlementUsageField = bc_SettlementUsageField charge,
                    nc_IncludedIn = bc_IncludedIn charge, nc_MaximumQuantity = bc_MaximumQuantity charge,
                    nc_RequestBoundField = bc_RequestBoundField charge,
                    nc_DisjointUsage = bc_DisjointUsage charge\<rparr>))"

fun normalize_charges ::
  "(quantity \<Rightarrow> rat) \<Rightarrow> NormalizedCharge list \<times> string list \<Rightarrow> ProviderBillableCharge list \<Rightarrow>
    (NormalizedCharge list \<times> string list) result" where
  "normalize_charges qv st [] = Inr st"
| "normalize_charges qv (rows, seen) (charge # charges) =
     (case normalize_charge qv seen charge of
        Inl e \<Rightarrow> Inl e
      | Inr row \<Rightarrow> normalize_charges qv (rows @ [row], bc_Basis charge # seen) charges)"

text \<open>The loop that claims the inapplicable bases; its message differs between the two callers.\<close>

fun mark_bases :: "string \<Rightarrow> string list \<Rightarrow> string list \<Rightarrow> string list result" where
  "mark_bases msg seen [] = Inr seen"
| "mark_bases msg seen (basis # bases) =
     (if \<not> isBasis basis \<or> basis \<in> set seen then Inl (Err msg [basis])
      else mark_bases msg (basis # seen) bases)"

definition unpartitioned :: "string \<Rightarrow> string list \<Rightarrow> go_error option" where
  "unpartitioned msg seen =
     check_all (\<lambda>basis. if basis \<notin> set seen then Some (Err msg [basis]) else None) AllBases"

definition base_row :: "string \<Rightarrow> int64 \<Rightarrow> string \<Rightarrow> NormalizedCharge" where
  "base_row basis price bound =
     \<lparr>nc_Basis = basis, nc_Applicability = ProviderChargeRequestDeclared, nc_PriceMicrosPerUnit = price,
      nc_UnitDenominator = 1000000, nc_SettlementUsageField = basis, nc_IncludedIn = None,
      nc_MaximumQuantity = None, nc_RequestBoundField = bound, nc_DisjointUsage = False\<rparr>"

definition bound_error :: "NormalizedCharge \<Rightarrow> go_error option" where
  "bound_error row =
     (if nc_RequestBoundField row \<noteq> '''' \<and> \<not> validRequestBound (nc_Basis row) (nc_RequestBoundField row) then
        Some (Err ''request bound %s is invalid for %s'' [nc_RequestBoundField row, nc_Basis row])
      else None)"

text \<open>From the two token prices to the rows of all charges, before they are sorted.\<close>

definition normalize_rows ::
  "(quantity \<Rightarrow> rat) \<Rightarrow> AIProviderGOVARPricingSpec \<Rightarrow> int64 \<Rightarrow> int64 \<Rightarrow> NormalizedCharge list result" where
  "normalize_rows qv pricing input output =
     (case normalize_charges qv
         ([base_row ProviderBasisInputTokens input ''input_tokens'',
           base_row ProviderBasisOutputTokens output ''max_output_tokens''],
          [ProviderBasisInputTokens, ProviderBasisOutputTokens]) (gp_Charges pricing) of
        Inl e \<Rightarrow> Inl e
      | Inr (rows, seen) \<Rightarrow>
          (case mark_bases ''duplicate/contradictory inapplicable basis %q'' seen (gp_InapplicableBases pricing) of
             Inl e \<Rightarrow> Inl e
           | Inr seen \<Rightarrow>
               (case unpartitioned ''basis %s is neither priced nor explicitly inapplicable'' seen of
                  Some e \<Rightarrow> Inl e
                | None \<Rightarrow>
                    (case validateIncludedChargeGraph rows (gp_InapplicableBases pricing) of
                       Some e \<Rightarrow> Inl e
                     | None \<Rightarrow>
                         (case check_all bound_error rows of Some e \<Rightarrow> Inl e | None \<Rightarrow> Inr rows)))))"

definition snapshot_of :: "AIProvider \<Rightarrow> AIProviderGOVARPricingSpec \<Rightarrow> NormalizedCharge list \<Rightarrow> NormalizedPricingSnapshot" where
  "snapshot_of provider pricing rows =
     (let pp = ps_Pricing (prov_Spec provider); evidence = gp_Evidence pricing;
          s = \<lparr>sn_SpecGeneration = prov_Generation provider, sn_Version = TrimSpace (pp_Version pp),
            sn_ObservedAt = (case pp_ObservedAt pp of Some t \<Rightarrow> t | None \<Rightarrow> zero_time),
            sn_ValidUntil = ev_ValidUntil evidence, sn_Currency = ''EUR'',
            sn_Completeness = ProviderPricingComplete, sn_SnapshotSHA256 = '''',
            sn_AdapterVersion = CurrentAdapterVersion, sn_EvidenceMode = ev_Mode evidence,
            sn_EvidenceSHA256 = ev_EvidenceSHA256 evidence, sn_SourceVersion = ev_SourceVersion evidence,
            sn_Charges = sort_by basis_before rows,
            sn_InapplicableBases = sort_strings (gp_InapplicableBases pricing)\<rparr>
      in s\<lparr>sn_SnapshotSHA256 := SnapshotDigest s\<rparr>)"

definition Normalize ::
  "(quantity \<Rightarrow> rat) \<Rightarrow> AIProvider \<Rightarrow> time \<Rightarrow> (NormalizedPricingSnapshot \<times> Evidence) result" where
  "Normalize qv provider now =
     (let spec = prov_Spec provider; pp = ps_Pricing spec
      in case ForProviderType (ps_Type spec) of
           Inl e \<Rightarrow> Inl e
         | Inr _ \<Rightarrow>
             (case Option.bind (ps_GOVAR spec) pg_Pricing of
                None \<Rightarrow> Inl (Err ''typed GOV-AR pricing is absent'' [])
              | Some pricing \<Rightarrow>
                  if pp_BillableCategories pp \<noteq> [] then
                    Inl (Err ''legacy free-form billable categories are not GOV-AR authority'' [])
                  else
                    (case pricing_guard provider pricing now of
                       Some e \<Rightarrow> Inl e
                     | None \<Rightarrow>
                         (case exactMicros qv (pp_InputTokenPricePerMillion pp) of
                            Inl e \<Rightarrow> Inl (wrap_err ''input price: '' [] e)
                          | Inr input \<Rightarrow>
                              (case exactMicros qv (pp_OutputTokenPricePerMillion pp) of
                                 Inl e \<Rightarrow> Inl (wrap_err ''output price: '' [] e)
                               | Inr output \<Rightarrow>
                                   (case normalize_rows qv pricing input output of
                                      Inl e \<Rightarrow> Inl e
                                    | Inr rows \<Rightarrow>
                                        Inr (snapshot_of provider pricing rows,
                                          \<lparr>evd_Mode = ev_Mode (gp_Evidence pricing),
                                           evd_SHA256 = ev_EvidenceSHA256 (gp_Evidence pricing),
                                           evd_SourceVersion = ev_SourceVersion (gp_Evidence pricing)\<rparr>)))))))"

definition adapter_Normalize ::
  "(quantity \<Rightarrow> rat) \<Rightarrow> closedAdapter \<Rightarrow> AIProvider \<Rightarrow> time \<Rightarrow> (NormalizedPricingSnapshot \<times> Evidence) result" where
  "adapter_Normalize qv a p now = Normalize qv p now"


subsection \<open>Validation\<close>

text \<open>The tests of one charge of a snapshot, given the bases seen before it.\<close>

definition row_error :: "string list \<Rightarrow> NormalizedCharge \<Rightarrow> go_error option" where
  "row_error seen row =
     (if \<not> isBasis (nc_Basis row) \<or> nc_Basis row \<in> set seen \<or> \<not> validApplicability (nc_Applicability row) \<or>
         nc_SettlementUsageField row \<noteq> nc_Basis row \<or> sint (nc_PriceMicrosPerUnit row) < 0 \<or>
         sint (nc_UnitDenominator row) \<le> 0 then
        Some (Err ''invalid normalized charge %q'' [nc_Basis row])
      else
        (case nc_IncludedIn row of
           Some b \<Rightarrow>
             if \<not> isBasis b \<or> b = nc_Basis row \<or> nc_PriceMicrosPerUnit row \<noteq> 0 then
               Some (Err ''invalid included charge %q'' [nc_Basis row])
             else None
         | None \<Rightarrow>
             if (nc_Basis row = ProviderBasisCachedInputTokens \<or> nc_Basis row = ProviderBasisReasoningTokens) \<and>
                 \<not> nc_DisjointUsage row then
               Some (Err ''overlapping detail charge %q'' [nc_Basis row])
             else if nc_Applicability row = ProviderChargeRequestDeclared \<and>
                 \<not> validRequestBound (nc_Basis row) (nc_RequestBoundField row) then
               Some (Err ''unmapped request charge %q'' [nc_Basis row])
             else if nc_Applicability row \<noteq> ProviderChargeRequestDeclared \<and> nc_MaximumQuantity row = None then
               Some (Err ''unbounded non-request charge %q'' [nc_Basis row])
             else None))"

fun check_rows :: "string list \<Rightarrow> NormalizedCharge list \<Rightarrow> string list result" where
  "check_rows seen [] = Inr seen"
| "check_rows seen (row # rows) =
     (case row_error seen row of Some e \<Rightarrow> Inl e | None \<Rightarrow> check_rows (nc_Basis row # seen) rows)"

definition header_valid :: "NormalizedPricingSnapshot \<Rightarrow> bool" where
  "header_valid s \<longleftrightarrow>
     \<not> (sint (sn_SpecGeneration s) \<le> 0 \<or> TrimSpace (sn_Version s) = '''' \<or>
        sn_Completeness s \<noteq> ProviderPricingComplete \<or> ToUpper (sn_Currency s) \<noteq> ''EUR'' \<or>
        sn_AdapterVersion s \<noteq> CurrentAdapterVersion \<or> \<not> validEvidenceMode (sn_EvidenceMode s) \<or>
        \<not> isSHA256 (sn_EvidenceSHA256 s) \<or> TrimSpace (sn_SourceVersion s) = '''' \<or>
        \<not> sn_ObservedAt s < sn_ValidUntil s \<or> \<not> isSHA256 (sn_SnapshotSHA256 s) \<or>
        sn_SnapshotSHA256 s \<noteq> SnapshotDigest s)"

definition ValidateSnapshotIntegrity :: "NormalizedPricingSnapshot \<Rightarrow> go_error option" where
  "ValidateSnapshotIntegrity s =
     (if \<not> header_valid s then Some (Err ''pricing snapshot digest or completeness is invalid'' [])
      else
        (case check_rows [] (sn_Charges s) of
           Inl e \<Rightarrow> Some e
         | Inr seen \<Rightarrow>
             (case mark_bases ''invalid inapplicable basis %q'' seen (sn_InapplicableBases s) of
                Inl e \<Rightarrow> Some e
              | Inr seen \<Rightarrow>
                  (case unpartitioned ''unpartitioned basis %q'' seen of
                     Some e \<Rightarrow> Some e
                   | None \<Rightarrow> validateIncludedChargeGraph (sn_Charges s) (sn_InapplicableBases s)))))"

definition ValidateSnapshot :: "NormalizedPricingSnapshot \<Rightarrow> int64 \<Rightarrow> time \<Rightarrow> go_error option" where
  "ValidateSnapshot s generation t =
     (if ValidateSnapshotIntegrity s \<noteq> None \<or> sn_SpecGeneration s \<noteq> generation \<or> t = zero_time \<or>
         \<not> t < sn_ValidUntil s \<or> t + minute_ns < sn_ObservedAt s then
        Some (Err ''normalized pricing snapshot is stale, incomplete, or has an invalid digest'' [])
      else None)"

subsection \<open>Reservation\<close>

text \<open>A usage vector as a map; later entries are in front, and no basis occurs twice.\<close>

fun canonical_from :: "(string, int64) gomap \<Rightarrow> UsageQuantity list \<Rightarrow> (string, int64) gomap result" where
  "canonical_from out [] = Inr out"
| "canonical_from out (v # vs) =
     (if \<not> isBasis (uq_Basis v) \<or> sint (uq_Quantity v) < 0 then
        Inl (Err ''invalid usage quantity for %q'' [uq_Basis v])
      else if map_of out (uq_Basis v) \<noteq> None then Inl (Err ''duplicate usage basis %q'' [uq_Basis v])
      else canonical_from ((uq_Basis v, uq_Quantity v) # out) vs)"

definition canonicalUsage :: "UsageQuantity list \<Rightarrow> (string, int64) gomap result" where
  "canonicalUsage values = canonical_from [] values"

definition requiredDeclared :: "string \<Rightarrow> (string, int64) gomap \<Rightarrow> int64 result" where
  "requiredDeclared basis declared =
     (case map_of declared basis of
        None \<Rightarrow> Inl (Err ''request-declared charge %s has no proven bound'' [basis])
      | Some q \<Rightarrow> Inr q)"

definition requestQuantity ::
  "NormalizedCharge \<Rightarrow> RequestChargeContext \<Rightarrow> (string, int64) gomap \<Rightarrow> int64 result" where
  "requestQuantity row ctx declared =
     (let field = nc_RequestBoundField row
      in if nc_Applicability row = ProviderChargeAlways \<or> nc_Applicability row = ProviderChargeProviderResponse then
           (case nc_MaximumQuantity row of
              None \<Rightarrow> Inl (Err ''charge %s lacks an enforced maximum'' [nc_Basis row])
            | Some q \<Rightarrow> Inr q)
         else if field = ''input_tokens'' then Inr (rc_InputTokens ctx)
         else if field = ''max_cached_input_tokens'' then requiredDeclared (nc_Basis row) declared
         else if field = ''max_output_tokens'' then Inr (rc_OutputTokens ctx)
         else if field = ''max_reasoning_tokens'' then requiredDeclared (nc_Basis row) declared
         else if field \<in> set [''max_tool_calls'', ''max_media_units'', ''timeout_seconds'',
             ''max_retry_attempts'', ''cancellation_possible''] then
           requiredDeclared (nc_Basis row) declared
         else if field = '''' then Inl (Err ''charge %s has no request-bound mapping'' [nc_Basis row])
         else Inl (Err ''unknown request bound field %q'' [field]))"

definition reserve_row ::
  "RequestChargeContext \<Rightarrow> (string, int64) gomap \<Rightarrow> NormalizedCharge \<Rightarrow> ChargeComponent result" where
  "reserve_row ctx declared row =
     (case requestQuantity row ctx declared of
        Inl e \<Rightarrow> Inl e
      | Inr q0 \<Rightarrow>
          (let q = (case nc_MaximumQuantity row of None \<Rightarrow> q0 | Some m \<Rightarrow> m)
           in if sint q < 0 then Inl (Err ''negative quantity for %s'' [nc_Basis row])
              else
                (case ceilingProduct (nc_PriceMicrosPerUnit row) q (nc_UnitDenominator row) of
                   Inl e \<Rightarrow> Inl (wrap_err ''charge %s: '' [nc_Basis row] e)
                 | Inr cost \<Rightarrow>
                     Inr \<lparr>cc_Basis = nc_Basis row, cc_Quantity = q,
                       cc_PriceMicrosPerUnit = nc_PriceMicrosPerUnit row,
                       cc_UnitDenominator = nc_UnitDenominator row, cc_ReservedMicros = cost\<rparr>)))"

text \<open>Rows that are included in another are skipped.\<close>

definition separate_rows :: "NormalizedPricingSnapshot \<Rightarrow> NormalizedCharge list" where
  "separate_rows s = filter (\<lambda>row. nc_IncludedIn row = None) (sn_Charges s)"

definition ReserveComponents ::
  "NormalizedPricingSnapshot \<Rightarrow> RequestChargeContext \<Rightarrow> time \<Rightarrow> ChargeComponent list result" where
  "ReserveComponents s ctx t =
     (case ValidateSnapshot s (sn_SpecGeneration s) t of
        Some e \<Rightarrow> Inl e
      | None \<Rightarrow>
          (case canonicalUsage (rc_DeclaredBounds ctx) of
             Inl e \<Rightarrow> Inl e
           | Inr declared \<Rightarrow> map_result (reserve_row ctx declared) (separate_rows s)))"

definition adapter_ApplicableCharges ::
  "closedAdapter \<Rightarrow> NormalizedPricingSnapshot \<Rightarrow> RequestChargeContext \<Rightarrow> time \<Rightarrow> ChargeComponent list result" where
  "adapter_ApplicableCharges a s c t = ReserveComponents s c t"

subsection \<open>Settlement\<close>

record settle_state =
  se_quantities :: "(string, int64) gomap"
  se_actual :: "ActualChargeComponent list"
  se_missing :: "string list"
  se_exceeded :: bool

fun index_reserved :: "(string, ChargeComponent) gomap \<Rightarrow> ChargeComponent list \<Rightarrow> (string, ChargeComponent) gomap result" where
  "index_reserved m [] = Inr m"
| "index_reserved m (c # cs) =
     (if map_of m (cc_Basis c) \<noteq> None then Inl (Err ''duplicate reserved component %s'' [cc_Basis c])
      else index_reserved ((cc_Basis c, c) # m) cs)"

definition settle_row ::
  "(string, ChargeComponent) gomap \<Rightarrow> NormalizedCharge \<Rightarrow> settle_state \<Rightarrow> settle_state result" where
  "settle_row reservedByBasis row st =
     (let mismatch = Inl (Err ''reserved component does not match frozen row %s'' [nc_Basis row])
      in case map_of reservedByBasis (nc_Basis row) of
           None \<Rightarrow> mismatch
         | Some bound \<Rightarrow>
             if cc_PriceMicrosPerUnit bound \<noteq> nc_PriceMicrosPerUnit row \<or>
                cc_UnitDenominator bound \<noteq> nc_UnitDenominator row then mismatch
             else
               (case map_of (se_quantities st) (nc_SettlementUsageField row) of
                  None \<Rightarrow> Inr (st\<lparr>se_missing := se_missing st @ [nc_Basis row]\<rparr>)
                | Some q \<Rightarrow>
                    (case ceilingProduct (nc_PriceMicrosPerUnit row) q (nc_UnitDenominator row) of
                       Inl e \<Rightarrow> Inl (wrap_err ''actual charge %s: '' [nc_Basis row] e)
                     | Inr cost \<Rightarrow>
                         (let over = sint (cc_Quantity bound) < sint q
                          in Inr \<lparr>se_quantities = AList.delete (nc_SettlementUsageField row) (se_quantities st),
                               se_actual = se_actual st @
                                 [\<lparr>ac_Basis = nc_Basis row, ac_Quantity = q,
                                   ac_PriceMicrosPerUnit = nc_PriceMicrosPerUnit row,
                                   ac_UnitDenominator = nc_UnitDenominator row, ac_ActualMicros = cost,
                                   ac_ReservedQuantity = cc_Quantity bound, ac_ExceededBound = over\<rparr>],
                               se_missing = se_missing st, se_exceeded = (se_exceeded st \<or> over)\<rparr>))))"

fun settle_rows ::
  "(string, ChargeComponent) gomap \<Rightarrow> NormalizedCharge list \<Rightarrow> settle_state \<Rightarrow> settle_state result" where
  "settle_rows reservedByBasis [] st = Inr st"
| "settle_rows reservedByBasis (row # rows) st =
     (case settle_row reservedByBasis row st of
        Inl e \<Rightarrow> Inl e
      | Inr st' \<Rightarrow> settle_rows reservedByBasis rows st')"

definition actual_before :: "ActualChargeComponent \<Rightarrow> ActualChargeComponent \<Rightarrow> bool" where
  "actual_before a b \<longleftrightarrow> ac_Basis a < ac_Basis b"

definition SettleComponents ::
  "NormalizedPricingSnapshot \<Rightarrow> ChargeComponent list \<Rightarrow> UsageQuantity list \<Rightarrow>
    (ActualChargeComponent list \<times> string list \<times> bool) result" where
  "SettleComponents s reserved usage =
     (case ValidateSnapshotIntegrity s of
        Some e \<Rightarrow> Inl e
      | None \<Rightarrow>
          (case canonicalUsage usage of
             Inl e \<Rightarrow> Inl e
           | Inr quantities \<Rightarrow>
               (case index_reserved [] reserved of
                  Inl e \<Rightarrow> Inl e
                | Inr reservedByBasis \<Rightarrow>
                    (case settle_rows reservedByBasis (separate_rows s)
                        \<lparr>se_quantities = quantities, se_actual = [], se_missing = [], se_exceeded = False\<rparr> of
                       Inl e \<Rightarrow> Inl e
                     | Inr st \<Rightarrow>
                         if se_quantities st \<noteq> [] then
                           Inl (Err ''provider usage contains an unlisted billable category'' [])
                         else Inr (sort_by actual_before (se_actual st), sort_strings (se_missing st),
                           se_exceeded st)))))"


section \<open>Amounts\<close>

lemma sint_of_IsInt64: "IsInt64 i \<Longrightarrow> sint (word_of_int i :: int64) = i"
  by (simp add: IsInt64_def sint_sbintrunc' signed_take_bit_int_eq_self)

lemma sint64_IsInt64 [simp]: "IsInt64 (sint (x :: int64))"
  using sint_greater_eq[of x] sint_less[of x] by (simp add: IsInt64_def)

lemma sint64_inject: "sint (a :: int64) = sint b \<longleftrightarrow> a = b"
  using signed_word_eqI by blast

lemma word_of_sint_eq: "IsInt64 i \<Longrightarrow> (word_of_int i :: int64) = c \<longleftrightarrow> sint c = i"
  using sint_of_IsInt64[of i] sint64_inject[of "word_of_int i" c] by auto

lemma ceiling_divide:
  assumes "0 < d"
  shows "\<lceil>rat_of_int n / rat_of_int d\<rceil> = (if n mod d = 0 then n div d else n div d + 1)"
proof -
  have f: "\<lfloor>rat_of_int n / rat_of_int d\<rfloor> = n div d" by (rule floor_divide_of_int_eq)
  have "rat_of_int n / rat_of_int d = rat_of_int (n div d) \<longleftrightarrow> n mod d = 0"
  proof -
    have "rat_of_int n / rat_of_int d = rat_of_int (n div d) \<longleftrightarrow> rat_of_int n = rat_of_int (n div d * d)"
      using assms by (simp add: field_simps)
    also have "\<dots> \<longleftrightarrow> n = n div d * d" by (simp only: of_int_eq_iff)
    also have "\<dots> \<longleftrightarrow> n mod d = 0" using minus_div_mult_eq_mod[of n d] by linarith
    finally show ?thesis .
  qed
  then show ?thesis unfolding ceiling_altdef f by metis
qed

lemma checked_int64_iff:
  "(if \<not> IsInt64 i then Inl e else Inr (word_of_int i)) = (Inr c :: int64 result) \<longleftrightarrow> sint c = i"
  using word_of_sint_eq[of i c] sint64_IsInt64[of c] by auto

lemma ceilingProduct_ceiling:
  assumes "0 < sint d"
  shows "ceilingProduct p q d =
    (if sint p < 0 \<or> sint q < 0 then Inl (Err ''invalid price, quantity, or denominator'' [])
     else
       let c = \<lceil>rat_of_int (sint p * sint q) / rat_of_int (sint d)\<rceil>
       in if \<not> IsInt64 c then Inl (Err ''charge overflows int64'' []) else Inr (word_of_int c))"
  unfolding ceiling_divide[OF assms] ceilingProduct_def Let_def using assms by auto

text \<open>
  The price of a quantity is exact: \<open>ceilingProduct\<close> returns an amount exactly when price and
  quantity are not negative, the denominator is positive and the exact quotient rounded up fits an
  int64, and then it is that rounded quotient; in all other cases it returns an error.
\<close>

theorem ceilingProduct_exact:
  "ceilingProduct p q d = Inr c \<longleftrightarrow>
     0 \<le> sint p \<and> 0 \<le> sint q \<and> 0 < sint d \<and>
     sint c = \<lceil>rat_of_int (sint p * sint q) / rat_of_int (sint d)\<rceil>"
  proof (cases "0 < sint d")
  case True
  then show ?thesis unfolding ceilingProduct_ceiling[OF True] Let_def by (auto simp only: checked_int64_iff not_less split: if_splits)
qed (simp add: ceilingProduct_def)

lemma ceilingProductD:
  assumes "ceilingProduct p q d = Inr c"
  shows "0 \<le> sint p" "0 \<le> sint q" "0 < sint d"
    and "sint c = \<lceil>rat_of_int (sint p * sint q) / rat_of_int (sint d)\<rceil>"
proof -
  have d: "0 < sint d" using assms by (auto simp: ceilingProduct_def split: if_splits)
  from d show "0 < sint d" .
  show "0 \<le> sint p" "0 \<le> sint q" using assms by (auto simp: ceilingProduct_def split: if_splits)
  show "sint c = \<lceil>rat_of_int (sint p * sint q) / rat_of_int (sint d)\<rceil>"
    using assms unfolding ceilingProduct_ceiling[OF d] Let_def
    by (simp only: checked_int64_iff split: if_splits) simp_all
qed

lemma ceilingProduct_mono:
  assumes "ceilingProduct p q d = Inr c" "ceilingProduct p q' d = Inr c'" "sint q \<le> sint q'"
  shows "0 \<le> sint c \<and> sint c \<le> sint c'"
proof -
  note c = ceilingProductD[OF assms(1)] and c' = ceilingProductD[OF assms(2)]
  have le: "sint p * sint q \<le> sint p * sint q'" using c(1) assms(3) by (rule mult_left_mono[rotated])
  have "rat_of_int (sint p * sint q) / rat_of_int (sint d) \<le> rat_of_int (sint p * sint q') / rat_of_int (sint d)"
    using c(3) le by (intro divide_right_mono) (simp_all only: of_int_le_iff of_int_0_le_iff)
  moreover have "0 \<le> rat_of_int (sint p * sint q) / rat_of_int (sint d)"
    using c(1,2,3) by (intro divide_nonneg_nonneg) simp_all
  ultimately show ?thesis unfolding c(4) c'(4) using ceiling_mono[of 0] by (auto intro: ceiling_mono)
qed

lemma sint_max_minus: "0 \<le> sint (c :: int64) \<Longrightarrow> sint (9223372036854775807 - c) = 9223372036854775807 - sint c"
proof -
  assume c: "0 \<le> sint c"
  have "(9223372036854775807 :: int64) = word_of_int 9223372036854775807" by simp
  then have "9223372036854775807 - c = word_of_int (9223372036854775807 - sint c)"
    by (simp add: of_int_sint)
  moreover have "IsInt64 (9223372036854775807 - sint c)"
    using c sint64_bounds[of c] by (simp add: IsInt64_def)
  ultimately show ?thesis by (simp only: sint_of_IsInt64)
qed

lemma sint_plus_fits: "IsInt64 (sint a + sint b) \<Longrightarrow> sint (a + b :: int64) = sint a + sint b"
proof -
  assume "IsInt64 (sint a + sint b)"
  moreover have "a + b = word_of_int (sint a + sint b)" by (simp add: of_int_sint)
  ultimately show ?thesis by (simp only: sint_of_IsInt64)
qed

lemma add_checked_iff:
  assumes "0 \<le> sint s"
  shows "add_checked e s cs = Inr r \<longleftrightarrow>
    list_all (\<lambda>c. 0 \<le> sint c) cs \<and> sint r = sint s + (\<Sum>c\<leftarrow>cs. sint c)"
  using assms
proof (induction cs arbitrary: s)
  case Nil
  have "s = r \<longleftrightarrow> sint r = sint s" using sint64_inject[of s r] by auto
  then show ?case by simp
next
  case (Cons c cs)
  have pos: "list_all (\<lambda>c. 0 \<le> sint c) cs \<Longrightarrow> 0 \<le> (\<Sum>c\<leftarrow>cs. sint c)"
    by (auto simp: list_all_iff intro!: sum_list_nonneg)
  show ?case
  proof (cases "0 \<le> sint c \<and> sint s + sint c < 2 ^ 63")
    case True
    then have "sint (s + c) = sint s + sint c"
      using Cons.prems by (intro sint_plus_fits) (simp add: IsInt64_def)
    then show ?thesis using True Cons by (simp add: sint_max_minus add.assoc)
  next
    case False
    moreover have "sint r < 2 ^ 63" by (rule sint64_bounds)
    ultimately show ?thesis using pos by (auto simp: sint_max_minus)
  qed
qed

lemma add_checked_some:
  assumes "0 \<le> sint s" "list_all (\<lambda>c. 0 \<le> sint c) cs" "sint s + (\<Sum>c\<leftarrow>cs. sint c) < 2 ^ 63"
  shows "\<exists>r. add_checked e s cs = Inr r"
proof -
  have "0 \<le> (\<Sum>c\<leftarrow>cs. sint c)" using assms(2) by (auto simp: list_all_iff intro!: sum_list_nonneg)
  then have "IsInt64 (sint s + (\<Sum>c\<leftarrow>cs. sint c))" using assms by (simp add: IsInt64_def)
  then show ?thesis using add_checked_iff[OF assms(1)] assms(2) sint_of_IsInt64 by metis
qed

text \<open>
  Sums do not wrap: \<open>SumComponents\<close> and \<open>SumActualComponents\<close> return a sum exactly when no
  amount is negative and the true sum is the int64 they return.
\<close>

theorem sums_exact:
  "(SumComponents cs = Inr r \<longleftrightarrow>
      list_all (\<lambda>c. 0 \<le> sint (cc_ReservedMicros c)) cs \<and> sint r = (\<Sum>c\<leftarrow>cs. sint (cc_ReservedMicros c))) \<and>
   (SumActualComponents as = Inr r \<longleftrightarrow>
      list_all (\<lambda>c. 0 \<le> sint (ac_ActualMicros c)) as \<and> sint r = (\<Sum>c\<leftarrow>as. sint (ac_ActualMicros c)))"
  by (simp add: SumComponents_def SumActualComponents_def add_checked_iff list_all_iff comp_def)


section \<open>The included-charge graph\<close>

text \<open>The specification: following \<open>IncludedIn\<close> from a row ends at a charged root.\<close>

inductive rooted :: "NormalizedCharge list \<Rightarrow> NormalizedCharge \<Rightarrow> NormalizedCharge \<Rightarrow> bool" for rows where
  rooted_root: "nc_IncludedIn row = None \<Longrightarrow> rooted rows row row"
| rooted_parent: "nc_IncludedIn row = Some b \<Longrightarrow> charged rows b = Some p \<Longrightarrow> rooted rows p t \<Longrightarrow> rooted rows row t"

inductive_cases rooted_includedE: "rooted rows row t"

definition included_edge :: "NormalizedCharge list \<Rightarrow> (NormalizedCharge \<times> NormalizedCharge) set" where
  "included_edge rows = {(c, p). \<exists>b. nc_IncludedIn c = Some b \<and> charged rows b = Some p}"

lemma rooted_acyclic: "rooted rows c t \<Longrightarrow> (c, c) \<notin> (included_edge rows)\<^sup>+"
proof (induction rule: rooted.induct)
  case (rooted_root row)
  then show ?case by (auto simp: included_edge_def dest: tranclD)
next
  case (rooted_parent row b p t)
  have e: "(row, p) \<in> included_edge rows" using rooted_parent.hyps(1,2) by (auto simp: included_edge_def)
  show ?case
  proof
    assume "(row, row) \<in> (included_edge rows)\<^sup>+"
    then obtain z where z: "(row, z) \<in> included_edge rows" "(z, row) \<in> (included_edge rows)\<^sup>*"
      using tranclD by metis
    have "z = p" using z(1) rooted_parent.hyps(1,2) by (auto simp: included_edge_def)
    then show False using rooted_parent.IH rtrancl_into_trancl1[OF z(2) e] by simp
  qed
qed

lemma walk_rooted: "walk_included rows start visited row = Inr t \<Longrightarrow> rooted rows row t"
proof (induction rows start visited row rule: walk_included.induct)
  case (1 rows start visited row)
  show ?case
  proof (cases "nc_IncludedIn row")
    case None
    then show ?thesis using 1(2) by (auto simp: walk_included.simps intro: rooted_root)
  next
    case (Some b)
    then obtain p where p: "b \<notin> set visited" "charged rows b = Some p"
        "walk_included rows start (b # visited) p = Inr t"
      using 1(2) by (subst (asm) walk_included.simps) (auto split: if_splits option.splits)
    show ?thesis using 1(1)[OF Some p(1,2) p(3)] by (rule rooted_parent[OF Some p(2)])
  qed
qed

lemma rooted_walk:
  "rooted rows row t \<Longrightarrow>
   \<forall>v \<in> set visited. \<exists>r. charged rows v = Some r \<and> (r, row) \<in> (included_edge rows)\<^sup>* \<Longrightarrow>
   walk_included rows start visited row = Inr t"
proof (induction arbitrary: visited rule: rooted.induct)
  case (rooted_root row)
  then show ?case by (simp add: walk_included.simps)
next
  case (rooted_parent row b p t)
  have e: "(row, p) \<in> included_edge rows" using rooted_parent.hyps(1,2) by (auto simp: included_edge_def)
  have fresh: "b \<notin> set visited"
  proof
    assume "b \<in> set visited"
    then obtain r where "charged rows b = Some r" "(r, row) \<in> (included_edge rows)\<^sup>*"
      using rooted_parent.prems by blast
    then have "(p, p) \<in> (included_edge rows)\<^sup>+"
      using rooted_parent.hyps(2) e by (auto intro: rtrancl_into_trancl1)
    then show False using rooted_acyclic rooted_parent.hyps(3) by blast
  qed
  have "walk_included rows start (b # visited) p = Inr t"
  proof (rule rooted_parent.IH, intro ballI)
    fix v assume "v \<in> set (b # visited)"
    then consider "v = b" | "v \<in> set visited" by auto
    then show "\<exists>r. charged rows v = Some r \<and> (r, p) \<in> (included_edge rows)\<^sup>*"
      using rooted_parent.prems rooted_parent.hyps(2) e by cases (auto intro: rtrancl_into_rtrancl)
  qed
  then show ?case
    using rooted_parent.hyps(1,2) fresh by (subst walk_included.simps) simp
qed

lemma first_error_None:
  "(case x of Some e \<Rightarrow> Some e | None \<Rightarrow> y) = None \<longleftrightarrow> x = None \<and> y = None"
  by (cases x) simp_all

lemma charged_None_iff: "charged rows b = None \<longleftrightarrow> b \<notin> nc_Basis ` set rows"
  unfolding charged_def by (auto simp: map_of_eq_None_iff image_image)

lemma charged_distinct:
  "distinct (map nc_Basis rows) \<Longrightarrow> r \<in> set rows \<Longrightarrow> charged rows (nc_Basis r) = Some r"
  unfolding charged_def by (rule map_of_is_SomeI) (auto simp: rev_map[symmetric] comp_def)

lemma included_error_iff:
  assumes "distinct (map nc_Basis rows)" "row \<in> set rows"
  shows "included_error rows row = None \<longleftrightarrow>
    nc_IncludedIn row = None \<or> (\<exists>t. rooted rows row t \<and> legalIncludedPair (nc_Basis row) (nc_Basis t))"
proof -
  have "rooted rows row t \<longleftrightarrow> walk_included rows (nc_Basis row) [nc_Basis row] row = Inr t" for t
    using walk_rooted[of rows "nc_Basis row" "[nc_Basis row]" row t]
      rooted_walk[of rows row t "[nc_Basis row]" "nc_Basis row"] charged_distinct[OF assms] by auto
  then show ?thesis by (auto simp: included_error_def split: sum.splits)
qed

text \<open>
  C36: The walk along the included charges always ends, and it decides the specification: on rows of
  distinct bases the graph is accepted exactly when no inapplicable basis is charged and every row
  that is included in another one reaches, after finitely many steps through charged rows, a charged
  root that it may legally be part of. Cycles and missing parents are therefore always rejected.
\<close>

theorem included_graph_rooted:
  assumes "distinct (map nc_Basis rows)"
  shows "validateIncludedChargeGraph rows inapplicable = None \<longleftrightarrow>
    (\<forall>b \<in> set inapplicable. b \<notin> nc_Basis ` set rows) \<and>
    (\<forall>row \<in> set rows. nc_IncludedIn row = None \<or>
      (\<exists>t. rooted rows row t \<and> legalIncludedPair (nc_Basis row) (nc_Basis t)))"
proof -
  have "validateIncludedChargeGraph rows inapplicable = None \<longleftrightarrow>
      (\<forall>b \<in> set inapplicable. charged rows b = None) \<and> (\<forall>row \<in> set rows. included_error rows row = None)"
    by (simp only: validateIncludedChargeGraph_def first_error_None check_all_None) simp
  then show ?thesis using included_error_iff[OF assms] by (simp add: charged_None_iff)
qed

definition example_included :: "NormalizedCharge list" where
  "example_included =
     [base_row ProviderBasisInputTokens 3 ''input_tokens'',
      base_row ProviderBasisOutputTokens 5 ''max_output_tokens'',
      (base_row ProviderBasisCachedInputTokens 0 '''')\<lparr>nc_IncludedIn := Some ProviderBasisInputTokens\<rparr>]"

theorem included_graph_rooted_witness:
  "validateIncludedChargeGraph example_included [ProviderBasisRequest] = None \<longleftrightarrow>
    (\<forall>b \<in> set [ProviderBasisRequest]. b \<notin> nc_Basis ` set example_included) \<and>
    (\<forall>row \<in> set example_included. nc_IncludedIn row = None \<or>
      (\<exists>t. rooted example_included row t \<and> legalIncludedPair (nc_Basis row) (nc_Basis t)))"
  by (rule included_graph_rooted) (simp add: example_included_def base_row_def basis_defs)


section \<open>Validated snapshots\<close>

lemma isBasis_iff: "isBasis b \<longleftrightarrow> b \<in> set AllBases"
  by (auto simp: isBasis_def list_ex_iff)

lemma distinct_AllBases: "distinct AllBases"
  by (simp add: AllBases_def basis_defs)

lemma isSHA256_fixedHash [simp]: "isSHA256 (fixedHash ps)"
  using sha256_hex_length sha256_hex_hex
  unfolding isSHA256_def fixedHash_def list_all_iff by blast

lemma isSHA256_SnapshotDigest [simp]: "isSHA256 (SnapshotDigest s)"
  by (simp add: SnapshotDigest_def)

lemma SnapshotDigest_update [simp]: "SnapshotDigest (s\<lparr>sn_SnapshotSHA256 := d\<rparr>) = SnapshotDigest s"
  by (simp add: SnapshotDigest_def snapshot_parts_def)

definition row_ok :: "NormalizedCharge \<Rightarrow> bool" where
  "row_ok row \<longleftrightarrow> row_error [] row = None"

lemma row_error_None: "row_error seen row = None \<longleftrightarrow> row_ok row \<and> nc_Basis row \<notin> set seen"
  unfolding row_ok_def row_error_def by (cases "nc_Basis row \<in> set seen") simp_all

lemma row_okD:
  assumes "row_ok row"
  shows "isBasis (nc_Basis row)" "nc_SettlementUsageField row = nc_Basis row"
    and "0 \<le> sint (nc_PriceMicrosPerUnit row)" "0 < sint (nc_UnitDenominator row)"
  using assms unfolding row_ok_def row_error_def by (simp_all split: if_splits)

lemma check_rows_Inr:
  "check_rows seen rows = Inr seen' \<longleftrightarrow>
    list_all row_ok rows \<and> distinct (map nc_Basis rows) \<and> set (map nc_Basis rows) \<inter> set seen = {} \<and>
    seen' = rev (map nc_Basis rows) @ seen"
proof (induction rows arbitrary: seen)
  case Nil
  then show ?case by auto
next
  case (Cons row rows)
  show ?case
  proof (cases "row_error seen row")
    case None
    then have ok: "row_ok row \<and> nc_Basis row \<notin> set seen" using row_error_None by blast
    have "check_rows seen (row # rows) = check_rows (nc_Basis row # seen) rows" using None by simp
    then show ?thesis using Cons[of "nc_Basis row # seen"] ok by auto
  next
    case (Some e)
    then have "\<not> (row_ok row \<and> nc_Basis row \<notin> set seen)" using row_error_None[of seen row] by simp
    then show ?thesis using Some by auto
  qed
qed

lemma mark_bases_Inr:
  "mark_bases msg seen bs = Inr seen' \<longleftrightarrow>
    list_all isBasis bs \<and> distinct bs \<and> set bs \<inter> set seen = {} \<and> seen' = rev bs @ seen"
  by (induction bs arbitrary: seen) auto

lemma unpartitioned_None: "unpartitioned msg seen = None \<longleftrightarrow> set AllBases \<subseteq> set seen"
  by (auto simp: unpartitioned_def)

lemma partition_iff:
  "distinct xs \<and> list_all isBasis xs \<and> distinct ys \<and> list_all isBasis ys \<and> set ys \<inter> set xs = {} \<and>
     set AllBases \<subseteq> set (rev ys @ rev xs) \<longleftrightarrow> mset xs + mset ys = mset AllBases"
proof
  assume h: "distinct xs \<and> list_all isBasis xs \<and> distinct ys \<and> list_all isBasis ys \<and> set ys \<inter> set xs = {} \<and>
     set AllBases \<subseteq> set (rev ys @ rev xs)"
  have "distinct (xs @ ys)" using h by auto
  moreover have "set (xs @ ys) = set AllBases" using h by (auto simp: list_all_iff isBasis_iff)
  ultimately show "mset xs + mset ys = mset AllBases"
    using distinct_AllBases set_eq_iff_mset_eq_distinct[of "xs @ ys" AllBases] by simp
next
  assume m: "mset xs + mset ys = mset AllBases"
  then have e: "mset (xs @ ys) = mset AllBases" by simp
  have "distinct (xs @ ys)" using mset_eq_imp_distinct_iff[OF e] distinct_AllBases by simp
  moreover have "set (xs @ ys) = set AllBases" using mset_eq_setD[OF e] .
  ultimately show "distinct xs \<and> list_all isBasis xs \<and> distinct ys \<and> list_all isBasis ys \<and> set ys \<inter> set xs = {} \<and>
     set AllBases \<subseteq> set (rev ys @ rev xs)"
    by (auto simp: list_all_iff isBasis_iff)
qed

text \<open>
  What a validated snapshot is: its header and digest are valid, every charge is well formed, and
  the bases of its charges and its inapplicable bases together are exactly the ten closed bases,
  each once, with a legal included-charge graph.
\<close>

lemma ValidateSnapshotIntegrity_iff:
  "ValidateSnapshotIntegrity s = None \<longleftrightarrow>
    header_valid s \<and> list_all row_ok (sn_Charges s) \<and>
    mset (map nc_Basis (sn_Charges s)) + mset (sn_InapplicableBases s) = mset AllBases \<and>
    validateIncludedChargeGraph (sn_Charges s) (sn_InapplicableBases s) = None"
proof -
  let ?bs = "map nc_Basis (sn_Charges s)"
  have b: "list_all row_ok rows \<Longrightarrow> list_all isBasis (map nc_Basis rows)" for rows
    by (auto simp: list_all_iff row_okD)
  have "ValidateSnapshotIntegrity s = None \<longleftrightarrow>
      header_valid s \<and> (\<exists>seen seen'. check_rows [] (sn_Charges s) = Inr seen \<and>
        mark_bases ''invalid inapplicable basis %q'' seen (sn_InapplicableBases s) = Inr seen' \<and>
        unpartitioned ''unpartitioned basis %q'' seen' = None \<and>
        validateIncludedChargeGraph (sn_Charges s) (sn_InapplicableBases s) = None)"
    unfolding ValidateSnapshotIntegrity_def by (auto split: sum.splits option.splits)
  also have "\<dots> \<longleftrightarrow> header_valid s \<and> list_all row_ok (sn_Charges s) \<and>
      (distinct ?bs \<and> list_all isBasis ?bs \<and> distinct (sn_InapplicableBases s) \<and>
       list_all isBasis (sn_InapplicableBases s) \<and> set (sn_InapplicableBases s) \<inter> set ?bs = {} \<and>
       set AllBases \<subseteq> set (rev (sn_InapplicableBases s) @ rev ?bs)) \<and>
      validateIncludedChargeGraph (sn_Charges s) (sn_InapplicableBases s) = None"
    using b[of "sn_Charges s"] by (auto simp: check_rows_Inr mark_bases_Inr unpartitioned_None)
  finally show ?thesis unfolding partition_iff .
qed


section \<open>Settlement against a reservation\<close>

text \<open>A reserved component that belongs to a row of the frozen snapshot.\<close>

definition reserved_for :: "NormalizedCharge \<Rightarrow> ChargeComponent \<Rightarrow> bool" where
  "reserved_for row c \<longleftrightarrow>
     cc_Basis c = nc_Basis row \<and> cc_PriceMicrosPerUnit c = nc_PriceMicrosPerUnit row \<and>
     cc_UnitDenominator c = nc_UnitDenominator row \<and>
     ceilingProduct (nc_PriceMicrosPerUnit row) (cc_Quantity c) (nc_UnitDenominator row) = Inr (cc_ReservedMicros c)"

lemma reserve_row_reserved: "reserve_row ctx declared row = Inr c \<Longrightarrow> reserved_for row c"
  by (auto simp: reserve_row_def reserved_for_def Let_def split: sum.splits if_splits)

lemma map_result_list_all2:
  "map_result f xs = Inr ys \<Longrightarrow> (\<And>x y. f x = Inr y \<Longrightarrow> P x y) \<Longrightarrow> list_all2 P xs ys"
  by (induction xs arbitrary: ys) (auto split: sum.splits)

lemma ReserveComponentsD:
  assumes "ReserveComponents s ctx t = Inr cs"
  shows "ValidateSnapshot s (sn_SpecGeneration s) t = None" "list_all2 reserved_for (separate_rows s) cs"
  using assms reserve_row_reserved
  by (auto simp: ReserveComponents_def split: option.splits sum.splits intro: map_result_list_all2)

lemma reserved_for_bases: "list_all2 reserved_for rows cs \<Longrightarrow> map cc_Basis cs = map nc_Basis rows"
  by (induction rule: list_all2_induct) (simp_all add: reserved_for_def)

lemma index_reserved_Inr:
  "index_reserved m cs = Inr m' \<Longrightarrow> m' = rev (map (\<lambda>c. (cc_Basis c, c)) cs) @ m \<and>
    distinct (map cc_Basis cs) \<and> (\<forall>c \<in> set cs. map_of m (cc_Basis c) = None)"
proof (induction cs arbitrary: m)
  case (Cons c cs)
  then have "map_of m (cc_Basis c) = None" "index_reserved ((cc_Basis c, c) # m) cs = Inr m'"
    by (auto split: if_splits)
  with Cons.IH[OF this(2)] show ?case by (auto split: if_splits)
qed simp

lemma index_reserved_lookup:
  assumes "index_reserved [] cs = Inr m" "c \<in> set cs"
  shows "map_of m (cc_Basis c) = Some c"
proof -
  have m: "m = rev (map (\<lambda>c. (cc_Basis c, c)) cs)" "distinct (map cc_Basis cs)"
    using index_reserved_Inr[OF assms(1)] by simp_all
  then have "distinct (map fst m)" by (simp add: rev_map[symmetric] comp_def)
  then show ?thesis using assms(2) m(1) by (intro map_of_is_SomeI) auto
qed

text \<open>One row settles into a missing basis or into an amount, which is within the reserved one unless the bound is exceeded.\<close>

lemma settle_row_cases:
  assumes "settle_row m row st = Inr st'" "map_of m (nc_Basis row) = Some c" "reserved_for row c"
  obtains
    (missing) "se_actual st' = se_actual st" "se_missing st' = se_missing st @ [nc_Basis row]"
      "se_exceeded st' = se_exceeded st"
  | (settled) a where "se_actual st' = se_actual st @ [a]" "se_missing st' = se_missing st"
      "ac_Basis a = nc_Basis row" "0 \<le> sint (ac_ActualMicros a)" "se_exceeded st \<Longrightarrow> se_exceeded st'"
      "\<not> se_exceeded st' \<Longrightarrow> sint (ac_ActualMicros a) \<le> sint (cc_ReservedMicros c)"
proof (cases "map_of (se_quantities st) (nc_SettlementUsageField row)")
  case None
  then show thesis
    using assms by (intro missing) (auto simp: settle_row_def Let_def split: if_splits)
next
  case (Some q)
  obtain cost where cost: "ceilingProduct (nc_PriceMicrosPerUnit row) q (nc_UnitDenominator row) = Inr cost"
    using Some assms by (auto simp: settle_row_def Let_def reserved_for_def split: sum.splits)
  have st': "se_actual st' = se_actual st @
      [\<lparr>ac_Basis = nc_Basis row, ac_Quantity = q, ac_PriceMicrosPerUnit = nc_PriceMicrosPerUnit row,
        ac_UnitDenominator = nc_UnitDenominator row, ac_ActualMicros = cost,
        ac_ReservedQuantity = cc_Quantity c, ac_ExceededBound = sint (cc_Quantity c) < sint q\<rparr>]"
    "se_missing st' = se_missing st" "se_exceeded st' \<longleftrightarrow> se_exceeded st \<or> sint (cc_Quantity c) < sint q"
    using Some cost assms by (auto simp: settle_row_def Let_def reserved_for_def)
  have r: "ceilingProduct (nc_PriceMicrosPerUnit row) (cc_Quantity c) (nc_UnitDenominator row) = Inr (cc_ReservedMicros c)"
    using assms(3) by (simp add: reserved_for_def)
  show thesis
    by (rule settled[OF st'(1,2)])
       (use st'(3) ceilingProduct_mono[OF cost cost] ceilingProduct_mono[OF cost r] in simp_all)
qed

definition settled_within :: "ChargeComponent list \<Rightarrow> ActualChargeComponent \<Rightarrow> bool" where
  "settled_within cs a \<longleftrightarrow> list_ex (\<lambda>c. cc_Basis c = ac_Basis a \<and> 0 \<le> sint (ac_ActualMicros a) \<and>
     sint (ac_ActualMicros a) \<le> sint (cc_ReservedMicros c)) cs"

lemma settle_rows_exceeded:
  assumes "settle_rows m rows st = Inr st'" "list_all2 reserved_for rows cs"
    and "\<forall>c \<in> set cs. map_of m (cc_Basis c) = Some c" "se_exceeded st"
  shows "se_exceeded st'"
  using assms
proof (induction rows arbitrary: st cs)
  case (Cons row rows)
  obtain c cs' where cs: "cs = c # cs'" "reserved_for row c" "list_all2 reserved_for rows cs'"
    using Cons.prems(2) by (auto simp: list_all2_Cons1)
  obtain st1 where s: "settle_row m row st = Inr st1" "settle_rows m rows st1 = Inr st'"
    using Cons.prems(1) by (auto split: sum.splits)
  have "map_of m (nc_Basis row) = Some c" using Cons.prems(3) cs by (auto simp: reserved_for_def)
  then have "se_exceeded st1" using Cons.prems(4) by (cases rule: settle_row_cases[OF s(1) _ cs(2)]) auto
  then show ?case using Cons.IH[OF s(2) cs(3)] Cons.prems(3) cs(1) by simp
qed simp

lemma settle_rows_within:
  assumes "settle_rows m rows st = Inr st'" "list_all2 reserved_for rows cs"
    and "\<forall>c \<in> set cs. map_of m (cc_Basis c) = Some c" "\<not> se_exceeded st'"
  obtains as ms where "se_actual st' = se_actual st @ as" "se_missing st' = se_missing st @ ms"
    "list_all (settled_within cs) as" "mset (map ac_Basis as) + mset ms = mset (map nc_Basis rows)"
    "(\<Sum>a\<leftarrow>as. sint (ac_ActualMicros a)) \<le> (\<Sum>c\<leftarrow>cs. sint (cc_ReservedMicros c))"
  using assms
proof (induction rows arbitrary: st cs thesis)
  case Nil
  then show thesis by (intro Nil(1)[of "[]" "[]"]) simp_all
next
  case (Cons row rows)
  obtain c cs' where cs: "cs = c # cs'" "reserved_for row c" "list_all2 reserved_for rows cs'"
    using Cons.prems(3) by (auto simp: list_all2_Cons1)
  obtain st1 where s: "settle_row m row st = Inr st1" "settle_rows m rows st1 = Inr st'"
    using Cons.prems(2) by (auto split: sum.splits)
  have c: "map_of m (nc_Basis row) = Some c" using Cons.prems(4) cs by (auto simp: reserved_for_def)
  have pos: "0 \<le> sint (cc_ReservedMicros c)"
    using cs(2) ceilingProduct_mono by (auto simp: reserved_for_def)
  obtain as ms where IH: "se_actual st' = se_actual st1 @ as" "se_missing st' = se_missing st1 @ ms"
    "list_all (settled_within cs') as" "mset (map ac_Basis as) + mset ms = mset (map nc_Basis rows)"
    "(\<Sum>a\<leftarrow>as. sint (ac_ActualMicros a)) \<le> (\<Sum>c\<leftarrow>cs'. sint (cc_ReservedMicros c))"
    using Cons.IH[OF _ s(2) cs(3)] Cons.prems(4,5) cs(1) by auto
  have mono: "list_all (settled_within cs) as" using IH(3) cs(1) by (auto simp: list_all_iff settled_within_def)
  have "se_exceeded st1 \<Longrightarrow> se_exceeded st'"
    using settle_rows_exceeded[OF s(2) cs(3)] Cons.prems(4) cs(1) by simp
  then have ne: "\<not> se_exceeded st1" using Cons.prems(5) by blast
  from s(1) c cs(2) show thesis
  proof (cases rule: settle_row_cases)
    case missing
    then show thesis using IH mono pos cs(1) by (intro Cons.prems(1)[of as "nc_Basis row # ms"]) simp_all
  next
    case (settled a)
    have "settled_within cs a"
      using settled ne cs by (auto simp: settled_within_def reserved_for_def)
    then show thesis using IH mono settled ne cs(1) by (intro Cons.prems(1)[of "a # as" ms]) simp_all
  qed
qed


text \<open>
  C34: A settlement within the bounds never costs more than what was reserved. If a request was
  reserved against a snapshot and the provider's usage is settled against the same snapshot and
  reservation without exceeding a bound, then every priced row is either settled or reported missing,
  each settled amount is at most the amount reserved for its basis, and when the reserved amounts can
  be summed the actual ones can be too, with a sum that is not larger.
\<close>

theorem settle_within_reservation:
  assumes "ReserveComponents s ctx t = Inr reserved"
    and "SettleComponents s reserved usage = Inr (actual, missing, False)"
    and "SumComponents reserved = Inr r"
  shows "mset (map ac_Basis actual) + mset missing = mset (map nc_Basis (separate_rows s)) \<and>
    list_all (settled_within reserved) actual \<and>
    (\<exists>a. SumActualComponents actual = Inr a \<and> 0 \<le> sint a \<and> sint a \<le> sint r)"
proof -
  note rf = ReserveComponentsD(2)[OF assms(1)]
  obtain q m st where q: "index_reserved [] reserved = Inr m"
      "settle_rows m (separate_rows s) \<lparr>se_quantities = q, se_actual = [], se_missing = [], se_exceeded = False\<rparr> = Inr st"
      "actual = sort_by actual_before (se_actual st)" "missing = sort_strings (se_missing st)" "\<not> se_exceeded st"
    using assms(2) by (auto simp: SettleComponents_def split: option.splits sum.splits if_splits)
  obtain as ms where as: "se_actual st = as" "se_missing st = ms" "list_all (settled_within reserved) as"
      "mset (map ac_Basis as) + mset ms = mset (map nc_Basis (separate_rows s))"
      "(\<Sum>a\<leftarrow>as. sint (ac_ActualMicros a)) \<le> (\<Sum>c\<leftarrow>reserved. sint (cc_ReservedMicros c))"
    using settle_rows_within[OF q(2) rf _ q(5)] index_reserved_lookup[OF q(1)] by auto
  have within: "list_all (settled_within reserved) actual" using as(1,3) q(3) by (simp add: list_all_iff)
  have r: "sint r = (\<Sum>c\<leftarrow>reserved. sint (cc_ReservedMicros c))"
    using assms(3) by (simp add: SumComponents_def add_checked_iff comp_def)
  have pos: "list_all (\<lambda>c. 0 \<le> sint c) (map ac_ActualMicros actual)"
    using within by (auto simp: list_all_iff list_ex_iff settled_within_def)
  have le: "(\<Sum>c\<leftarrow>map ac_ActualMicros actual. sint c) \<le> sint r"
    using as(1,5) q(3) r by (simp add: comp_def)
  then obtain a where a: "SumActualComponents actual = Inr a"
    unfolding SumActualComponents_def
    using add_checked_some[of 0 _ "Err ''actual component sum overflows int64'' []", OF _ pos] sint64_bounds(2)[of r] by auto
  then have "sint a = (\<Sum>c\<leftarrow>map ac_ActualMicros actual. sint c)"
    by (simp add: SumActualComponents_def add_checked_iff)
  moreover have "0 \<le> (\<Sum>c\<leftarrow>map ac_ActualMicros actual. sint c)"
    using pos by (auto simp: list_all_iff intro!: sum_list_nonneg)
  moreover have "mset (map ac_Basis actual) + mset missing = mset (map nc_Basis (separate_rows s))"
    using as(1,2,4) q(3,4) by (metis mset_map mset_sort_by mset_sort_strings)
  ultimately show ?thesis using a le within by simp
qed

definition example_raw :: "int64 \<Rightarrow> NormalizedPricingSnapshot" where
  "example_raw g =
     \<lparr>sn_SpecGeneration = g, sn_Version = ''v1'', sn_ObservedAt = 0, sn_ValidUntil = hour_ns,
      sn_Currency = ''EUR'', sn_Completeness = ProviderPricingComplete, sn_SnapshotSHA256 = '''',
      sn_AdapterVersion = CurrentAdapterVersion, sn_EvidenceMode = ProviderEvidenceAdminAttested,
      sn_EvidenceSHA256 = replicate 64 CHR ''0'', sn_SourceVersion = ''2026-01'',
      sn_Charges = [base_row ProviderBasisInputTokens 2500000 ''input_tokens'',
        base_row ProviderBasisOutputTokens 10000000 ''max_output_tokens''],
      sn_InapplicableBases = filter (\<lambda>b. b \<noteq> ProviderBasisInputTokens \<and> b \<noteq> ProviderBasisOutputTokens) AllBases\<rparr>"

definition example_signed :: "int64 \<Rightarrow> NormalizedPricingSnapshot" where
  "example_signed g = (example_raw g)\<lparr>sn_SnapshotSHA256 := SnapshotDigest (example_raw g)\<rparr>"

abbreviation example_snapshot :: NormalizedPricingSnapshot where
  "example_snapshot \<equiv> example_signed 1"

lemma header_valid_digest:
  "header_valid (s\<lparr>sn_SnapshotSHA256 := SnapshotDigest s\<rparr>) \<longleftrightarrow>
     0 < sint (sn_SpecGeneration s) \<and> TrimSpace (sn_Version s) \<noteq> '''' \<and>
     sn_Completeness s = ProviderPricingComplete \<and> ToUpper (sn_Currency s) = ''EUR'' \<and>
     sn_AdapterVersion s = CurrentAdapterVersion \<and> validEvidenceMode (sn_EvidenceMode s) \<and>
     isSHA256 (sn_EvidenceSHA256 s) \<and> TrimSpace (sn_SourceVersion s) \<noteq> '''' \<and>
     sn_ObservedAt s < sn_ValidUntil s"
  by (auto simp: header_valid_def)

lemma example_signed_valid: "0 < sint g \<Longrightarrow> ValidateSnapshotIntegrity (example_signed g) = None"
proof -
  assume g: "0 < sint g"
  let ?s = "example_signed g"
  note d = example_raw_def
  have "isSHA256 (replicate 64 CHR ''0'')" by (simp add: isSHA256_def list_all_iff)
  then have "header_valid ?s"
    unfolding example_signed_def header_valid_digest using g
    by (simp add: d validEvidenceMode_def hour_ns_def sec_ns_def
        TrimSpace_def is_space_def ToUpper_def upper_char_def)
  moreover have "list_all row_ok (sn_Charges ?s)"
    by (simp add: example_signed_def d row_ok_def row_error_def base_row_def isBasis_def AllBases_def basis_defs
        charge_defs validApplicability_def validRequestBound_def)
  moreover have "mset (map nc_Basis (sn_Charges ?s)) + mset (sn_InapplicableBases ?s) = mset AllBases"
    by (simp add: example_signed_def d AllBases_def basis_defs base_row_def)
  moreover have "validateIncludedChargeGraph (sn_Charges ?s) (sn_InapplicableBases ?s) = None"
    by (simp add: example_signed_def d validateIncludedChargeGraph_def AllBases_def basis_defs base_row_def charged_def
        included_error_def)
  ultimately show ?thesis by (simp add: ValidateSnapshotIntegrity_iff)
qed

lemma example_snapshot_valid: "ValidateSnapshotIntegrity example_snapshot = None"
  by (rule example_signed_valid) simp

definition example_request :: RequestChargeContext where
  "example_request = \<lparr>rc_InputTokens = 1000, rc_OutputTokens = 300, rc_MaxToolCalls = 0, rc_MaxMediaUnits = 0,
     rc_TimeoutSeconds = 0, rc_MaxRetryAttempts = 0, rc_CancellationPossible = False, rc_DeclaredBounds = []\<rparr>"

definition example_component :: "string \<Rightarrow> int64 \<Rightarrow> int64 \<Rightarrow> int64 \<Rightarrow> ChargeComponent" where
  "example_component basis q price micros =
     \<lparr>cc_Basis = basis, cc_Quantity = q, cc_PriceMicrosPerUnit = price, cc_UnitDenominator = 1000000,
      cc_ReservedMicros = micros\<rparr>"

lemma example_separate_rows: "separate_rows example_snapshot =
    [base_row ProviderBasisInputTokens 2500000 ''input_tokens'',
     base_row ProviderBasisOutputTokens 10000000 ''max_output_tokens'']"
  by (simp add: separate_rows_def example_signed_def example_raw_def base_row_def)

lemma example_reserved:
  "ReserveComponents example_snapshot example_request 1 =
     Inr [example_component ProviderBasisInputTokens 1000 2500000 2500,
          example_component ProviderBasisOutputTokens 300 10000000 3000]"
proof -
  have "ValidateSnapshot example_snapshot (sn_SpecGeneration example_snapshot) 1 = None"
    by (simp add: ValidateSnapshot_def example_snapshot_valid)
       (simp add: example_signed_def example_raw_def zero_time_def sec_ns_def hour_ns_def minute_ns_def)
  then show ?thesis
    by (simp add: ReserveComponents_def example_request_def canonicalUsage_def example_separate_rows
        reserve_row_def requestQuantity_def base_row_def charge_defs ceilingProduct_def IsInt64_def
        example_component_def)
qed

lemma example_settled:
  "SettleComponents example_snapshot
     [example_component ProviderBasisInputTokens 1000 2500000 2500,
      example_component ProviderBasisOutputTokens 300 10000000 3000]
     [\<lparr>uq_Basis = ProviderBasisInputTokens, uq_Quantity = 999\<rparr>] =
   Inr ([\<lparr>ac_Basis = ProviderBasisInputTokens, ac_Quantity = 999, ac_PriceMicrosPerUnit = 2500000,
          ac_UnitDenominator = 1000000, ac_ActualMicros = 2498, ac_ReservedQuantity = 1000,
          ac_ExceededBound = False\<rparr>], [ProviderBasisOutputTokens], False)"
  by (simp add: SettleComponents_def example_snapshot_valid canonicalUsage_def example_separate_rows
      isBasis_def AllBases_def basis_defs example_component_def base_row_def settle_row_def
      ceilingProduct_def IsInt64_def sort_strings_def)

theorem settle_within_reservation_witness:
  "\<exists>a. SumActualComponents
       [\<lparr>ac_Basis = ProviderBasisInputTokens, ac_Quantity = 999, ac_PriceMicrosPerUnit = 2500000,
         ac_UnitDenominator = 1000000, ac_ActualMicros = 2498, ac_ReservedQuantity = 1000,
         ac_ExceededBound = False\<rparr>] = Inr a \<and> 0 \<le> sint a \<and> sint a \<le> sint (5500 :: int64)"
  by (rule settle_within_reservation[OF example_reserved example_settled, THEN conjunct2, THEN conjunct2])
     (simp add: SumComponents_def example_component_def)


section \<open>Normalised snapshots\<close>

lemma exactMicros_nonneg: "exactMicros qv q = Inr p \<Longrightarrow> 0 \<le> sint p"
proof -
  assume a: "exactMicros qv q = Inr p"
  let ?i = "\<lfloor>qv q * 1000000\<rfloor>"
  have "0 \<le> ?i \<and> IsInt64 ?i \<and> p = word_of_int ?i"
    using a by (auto simp: exactMicros_def Let_def split: if_splits)
  then show ?thesis by (simp add: sint_of_IsInt64)
qed

text \<open>What the loop over the charges ensures of a row.\<close>

definition normalized_row :: "NormalizedCharge \<Rightarrow> bool" where
  "normalized_row row \<longleftrightarrow>
     isBasis (nc_Basis row) \<and> validApplicability (nc_Applicability row) \<and>
     nc_SettlementUsageField row = nc_Basis row \<and> 0 \<le> sint (nc_PriceMicrosPerUnit row) \<and>
     0 < sint (nc_UnitDenominator row) \<and>
     (case nc_IncludedIn row of
        Some b \<Rightarrow> isBasis b \<and> b \<noteq> nc_Basis row \<and> nc_PriceMicrosPerUnit row = 0
      | None \<Rightarrow>
          (nc_Basis row = ProviderBasisCachedInputTokens \<or> nc_Basis row = ProviderBasisReasoningTokens \<longrightarrow>
             nc_DisjointUsage row) \<and>
          (nc_Applicability row = ProviderChargeRequestDeclared \<longrightarrow> nc_RequestBoundField row \<noteq> ''''))"

text \<open>What the validator asks of a row in addition.\<close>

definition capped_row :: "NormalizedCharge \<Rightarrow> bool" where
  "capped_row row \<longleftrightarrow>
     nc_IncludedIn row \<noteq> None \<or> nc_Applicability row = ProviderChargeRequestDeclared \<or>
     nc_MaximumQuantity row \<noteq> None"

lemma row_ok_iff_capped:
  "normalized_row row \<Longrightarrow> bound_error row = None \<Longrightarrow> row_ok row \<longleftrightarrow> capped_row row"
  unfolding normalized_row_def bound_error_def row_ok_def row_error_def capped_row_def
  by (cases "nc_IncludedIn row") (auto split: if_splits)

lemma normalize_charge_row:
  assumes "normalize_charge qv seen c = Inr row"
  shows "normalized_row row" "nc_Basis row = bc_Basis c" "bc_Basis c \<notin> set seen"
proof -
  obtain p where p: "exactMicros qv (bc_Price c) = Inr p"
    using assms by (auto simp: normalize_charge_def Let_def split: if_splits sum.splits)
  note d = assms[unfolded normalize_charge_def Let_def p sum.case]
  show "nc_Basis row = bc_Basis c" "bc_Basis c \<notin> set seen" using d by (auto split: if_splits)
  show "normalized_row row"
    using d exactMicros_nonneg[OF p]
    by (cases "bc_IncludedIn c") (auto simp: normalized_row_def split: if_splits)
qed

definition rows_inv :: "NormalizedCharge list \<Rightarrow> string list \<Rightarrow> bool" where
  "rows_inv rows seen \<longleftrightarrow>
     list_all normalized_row rows \<and> distinct (map nc_Basis rows) \<and> set seen = nc_Basis ` set rows"

lemma normalize_charges_inv:
  "normalize_charges qv (rows, seen) cs = Inr (rows', seen') \<Longrightarrow> rows_inv rows seen \<Longrightarrow> rows_inv rows' seen'"
proof (induction cs arbitrary: rows seen)
  case (Cons c cs)
  obtain row where row: "normalize_charge qv seen c = Inr row"
      "normalize_charges qv (rows @ [row], bc_Basis c # seen) cs = Inr (rows', seen')"
    using Cons.prems(1) by (auto split: sum.splits)
  have "rows_inv (rows @ [row]) (bc_Basis c # seen)"
    using Cons.prems(2) normalize_charge_row[OF row(1)] by (auto simp: rows_inv_def)
  with Cons.IH[OF row(2)] show ?case .
qed simp

lemma base_rows_inv:
  assumes "0 \<le> sint input" "0 \<le> sint output"
  shows "rows_inv [base_row ProviderBasisInputTokens input ''input_tokens'',
      base_row ProviderBasisOutputTokens output ''max_output_tokens'']
    [ProviderBasisInputTokens, ProviderBasisOutputTokens]"
  using assms
  by (auto simp: rows_inv_def normalized_row_def base_row_def isBasis_def AllBases_def basis_defs
      validApplicability_def charge_defs)

lemma normalize_rowsD:
  assumes "normalize_rows qv pricing input output = Inr rows" "0 \<le> sint input" "0 \<le> sint output"
  shows "list_all normalized_row rows" "list_all (\<lambda>row. bound_error row = None) rows"
    and "mset (map nc_Basis rows) + mset (gp_InapplicableBases pricing) = mset AllBases"
    and "validateIncludedChargeGraph rows (gp_InapplicableBases pricing) = None"
proof -
  obtain seen seen' where n: "normalize_charges qv
      ([base_row ProviderBasisInputTokens input ''input_tokens'',
        base_row ProviderBasisOutputTokens output ''max_output_tokens''],
       [ProviderBasisInputTokens, ProviderBasisOutputTokens]) (gp_Charges pricing) = Inr (rows, seen)"
    "mark_bases ''duplicate/contradictory inapplicable basis %q'' seen (gp_InapplicableBases pricing) = Inr seen'"
    "unpartitioned ''basis %s is neither priced nor explicitly inapplicable'' seen' = None"
    "validateIncludedChargeGraph rows (gp_InapplicableBases pricing) = None" "check_all bound_error rows = None"
    using assms(1) by (auto simp: normalize_rows_def split: sum.splits option.splits)
  have inv: "rows_inv rows seen" by (rule normalize_charges_inv[OF n(1) base_rows_inv[OF assms(2,3)]])
  then show ok: "list_all normalized_row rows" by (simp add: rows_inv_def)
  show "list_all (\<lambda>row. bound_error row = None) rows" using n(5) by (simp add: list_all_iff)
  show "validateIncludedChargeGraph rows (gp_InapplicableBases pricing) = None" by (rule n(4))
  have "list_all isBasis (map nc_Basis rows)" using ok by (auto simp: list_all_iff normalized_row_def)
  then show "mset (map nc_Basis rows) + mset (gp_InapplicableBases pricing) = mset AllBases"
    using inv n(2,3) partition_iff[of "map nc_Basis rows" "gp_InapplicableBases pricing"]
    by (simp add: rows_inv_def mark_bases_Inr unpartitioned_None)
qed

text \<open>The order of the rows does not matter to the graph.\<close>

lemma charged_perm:
  assumes "distinct (map nc_Basis rows)" "mset rows = mset rows'"
  shows "charged rows = charged rows'"
proof
  fix b
  have s: "set rows = set rows'" using mset_eq_setD[OF assms(2)] .
  have "distinct (map nc_Basis rows')"
    using assms mset_eq_imp_distinct_iff[of "map nc_Basis rows" "map nc_Basis rows'"] by simp
  then show "charged rows b = charged rows' b"
    using charged_distinct[OF assms(1)] charged_distinct[of rows'] charged_None_iff s
    by (cases "b \<in> nc_Basis ` set rows") (auto, metis)
qed

lemma walk_included_cong:
  "charged rows = charged rows' \<Longrightarrow> walk_included rows start visited row = walk_included rows' start visited row"
proof (induction rows start visited row rule: walk_included.induct)
  case (1 rows start visited row)
  have "walk_included rows start (b # visited) p = walk_included rows' start (b # visited) p"
    if "nc_IncludedIn row = Some b" "b \<notin> set visited" "charged rows b = Some p" for b p
    by (rule 1(1)[OF that 1(2)])
  then show ?case
    by (subst (1 2) walk_included.simps) (auto simp: 1(2) split: option.splits)
qed

lemma included_graph_perm:
  assumes "distinct (map nc_Basis rows)" "mset rows = mset rows'" "set is = set is'"
  shows "validateIncludedChargeGraph rows is = None \<longleftrightarrow> validateIncludedChargeGraph rows' is' = None"
proof -
  have c: "charged rows = charged rows'" by (rule charged_perm[OF assms(1,2)])
  have "included_error rows = included_error rows'"
    by (rule ext) (simp add: included_error_def walk_included_cong[OF c])
  then show ?thesis
    using mset_eq_setD[OF assms(2)] assms(3)
    by (simp only: validateIncludedChargeGraph_def first_error_None check_all_None c)
qed


lemma pricing_guardD:
  assumes "pricing_guard p pricing now = None"
  obtains t where "pp_ObservedAt (ps_Pricing (prov_Spec p)) = Some t" "t \<le> now + minute_ns"
    "0 < sint (prov_Generation p)" "TrimSpace (pp_Version (ps_Pricing (prov_Spec p))) \<noteq> ''''"
    "ev_Mode (gp_Evidence pricing) = ProviderEvidenceAdminAttested" "isSHA256 (ev_EvidenceSHA256 (gp_Evidence pricing))"
    "TrimSpace (ev_SourceVersion (gp_Evidence pricing)) \<noteq> ''''" "now < ev_ValidUntil (gp_Evidence pricing)"
  using assms by (auto simp: pricing_guard_def Let_def split: if_splits option.splits)

lemma NormalizeD:
  assumes "Normalize qv p now = Inr (s, e)"
  obtains pricing pi po rows where "pricing_guard p pricing now = None"
    "0 \<le> sint pi" "0 \<le> sint po" "normalize_rows qv pricing pi po = Inr rows"
    "s = snapshot_of p pricing rows"
proof -
  let ?pp = "ps_Pricing (prov_Spec p)"
  obtain pricing pi po rows where d: "pricing_guard p pricing now = None"
      "exactMicros qv (pp_InputTokenPricePerMillion ?pp) = Inr pi"
      "exactMicros qv (pp_OutputTokenPricePerMillion ?pp) = Inr po"
      "normalize_rows qv pricing pi po = Inr rows" "s = snapshot_of p pricing rows"
    using assms by (auto simp: Normalize_def Let_def split: sum.splits option.splits if_splits)
  show thesis by (rule that[OF d(1) exactMicros_nonneg[OF d(2)] exactMicros_nonneg[OF d(3)] d(4,5)])
qed

lemma header_valid_snapshot_of:
  assumes "pricing_guard p pricing now = None"
  shows "header_valid (snapshot_of p pricing rows) \<longleftrightarrow>
    sn_ObservedAt (snapshot_of p pricing rows) < sn_ValidUntil (snapshot_of p pricing rows)"
proof (cases rule: pricing_guardD[OF assms])
  case (1 t)
  then show ?thesis
    by (simp only: snapshot_of_def Let_def header_valid_digest)
       (simp add: validEvidenceMode_def ToUpper_def upper_char_def)
qed

text \<open>
  C35: What \<open>Normalize\<close> hands out: a snapshot it returns passes \<open>ValidateSnapshot\<close> for the generation
  of its provider at the time of normalisation exactly when the price was observed before its evidence
  ends and every separately priced charge that is not declared by the request has a maximum quantity.
  Everything else the validator asks for (digest, header, partition of the bases, well-formed rows,
  included-charge graph) always holds.
\<close>

theorem Normalize_valid:
  assumes "Normalize qv p now = Inr (s, e)" "now \<noteq> zero_time"
  shows "ValidateSnapshot s (prov_Generation p) now = None \<longleftrightarrow>
    sn_ObservedAt s < sn_ValidUntil s \<and> list_all capped_row (sn_Charges s)"
proof (cases rule: NormalizeD[OF assms(1)])
  case (1 pricing pi po rows)
  note rows = normalize_rowsD[OF 1(4,2,3)]
  have f: "sn_Charges s = sort_by basis_before rows" "sn_InapplicableBases s = sort_strings (gp_InapplicableBases pricing)"
    "sn_SpecGeneration s = prov_Generation p" "sn_ValidUntil s = ev_ValidUntil (gp_Evidence pricing)"
    by (simp_all add: 1(5) snapshot_of_def Let_def)
  have "mset (map nc_Basis rows) + mset (gp_InapplicableBases pricing) = mset AllBases" by (rule rows(3))
  then have d: "distinct (map nc_Basis rows)" using partition_iff by blast
  have graph: "validateIncludedChargeGraph (sn_Charges s) (sn_InapplicableBases s) = None"
    using included_graph_perm[OF d, of "sn_Charges s" "gp_InapplicableBases pricing" "sn_InapplicableBases s"] rows(4)
    by (simp add: f)
  have "mset (map nc_Basis (sn_Charges s)) + mset (sn_InapplicableBases s) = mset AllBases"
    using rows(3) by (simp only: f mset_map mset_sort_by mset_sort_strings)
  moreover have "list_all row_ok (sn_Charges s) \<longleftrightarrow> list_all capped_row (sn_Charges s)"
    using rows(1,2) row_ok_iff_capped by (auto simp: f list_all_iff)
  ultimately have "ValidateSnapshotIntegrity s = None \<longleftrightarrow>
      sn_ObservedAt s < sn_ValidUntil s \<and> list_all capped_row (sn_Charges s)"
    using header_valid_snapshot_of[OF 1(1)] graph by (simp add: ValidateSnapshotIntegrity_iff 1(5))
  moreover have "sn_ObservedAt s \<le> now + minute_ns" "now < sn_ValidUntil s"
    by (cases rule: pricing_guardD[OF 1(1)]; simp add: 1(5) snapshot_of_def Let_def)+
  ultimately show ?thesis using assms(2) f(3) by (auto simp: ValidateSnapshot_def)
qed

text \<open>
  A provider whose tool calls are always charged, bounded only by a field of the request: it is
  normalised, and the result is not valid.
\<close>

definition example_pricing :: AIProviderGOVARPricingSpec where
  "example_pricing =
     \<lparr>gp_Evidence = \<lparr>ev_Mode = ProviderEvidenceAdminAttested, ev_SourceVersion = ''2026-01'',
        ev_EvidenceSHA256 = replicate 64 CHR ''0'', ev_ValidUntil = hour_ns, ev_AdapterVersion = CurrentAdapterVersion\<rparr>,
      gp_Charges = [\<lparr>bc_Basis = ProviderBasisToolCall, bc_Applicability = ProviderChargeAlways, bc_Price = ''1'',
        bc_UnitDenominator = 1, bc_SettlementUsageField = ProviderBasisToolCall, bc_IncludedIn = None,
        bc_MaximumQuantity = None, bc_RequestBoundField = ''max_tool_calls'', bc_DisjointUsage = False\<rparr>],
      gp_InapplicableBases = filter (\<lambda>b. b \<notin> set [ProviderBasisInputTokens, ProviderBasisOutputTokens,
        ProviderBasisToolCall]) AllBases\<rparr>"

definition example_provider :: AIProvider where
  "example_provider =
     \<lparr>prov_Name = ''openai-eu'', prov_UID = ''u1'', prov_Generation = 1,
      prov_Spec = \<lparr>ps_Type = ''openai'', ps_Region = '''', ps_DataResidency = ''eu'', ps_Managed = True,
        ps_Pricing = \<lparr>pp_Currency = ''EUR'', pp_InputTokenPricePerMillion = ''2'', pp_OutputTokenPricePerMillion = ''8'',
          pp_FixedMonthlyCost = None, pp_Version = ''v1'', pp_ObservedAt = Some 0,
          pp_Completeness = ProviderPricingComplete, pp_BillableCategories = []\<rparr>,
        ps_Compliance = \<lparr>pl_AllowedForSensitiveData = False, pl_AllowedCountries = []\<rparr>,
        ps_GOVAR = Some \<lparr>pg_GatewayRoutes = [], pg_Pricing = Some example_pricing\<rparr>\<rparr>\<rparr>"

definition example_quantity :: "quantity \<Rightarrow> rat" where
  "example_quantity q = of_nat (read_nat q)"

definition example_rows :: "NormalizedCharge list" where
  "example_rows =
     [base_row ProviderBasisInputTokens 2000000 ''input_tokens'',
      base_row ProviderBasisOutputTokens 8000000 ''max_output_tokens'',
      (base_row ProviderBasisToolCall 1000000 ''max_tool_calls'')
        \<lparr>nc_Applicability := ProviderChargeAlways, nc_UnitDenominator := 1\<rparr>]"

lemma example_Normalize:
  "Normalize example_quantity example_provider 1 =
     Inr (snapshot_of example_provider example_pricing example_rows,
          \<lparr>evd_Mode = ProviderEvidenceAdminAttested, evd_SHA256 = replicate 64 CHR ''0'', evd_SourceVersion = ''2026-01''\<rparr>)"
proof -
  have sha: "isSHA256 (replicate 64 CHR ''0'')" by (simp add: isSHA256_def list_all_iff)
  have "pricing_guard example_provider example_pricing 1 = None"
    using sha by (simp add: pricing_guard_def Let_def example_provider_def example_pricing_def validEvidenceMode_def
        TrimSpace_def is_space_def ToLower_def lower_char_def hour_ns_def minute_ns_def sec_ns_def)
  moreover have "exactMicros example_quantity ''1'' = Inr 1000000" "exactMicros example_quantity ''2'' = Inr 2000000"
    "exactMicros example_quantity ''8'' = Inr 8000000"
    by (simp_all add: exactMicros_def example_quantity_def read_nat_def read_digit_def IsInt64_def)
  moreover have "normalize_rows example_quantity example_pricing 2000000 8000000 = Inr example_rows"
    using calculation
    by (simp add: normalize_rows_def Let_def example_pricing_def normalize_charge_def isBasis_def AllBases_def basis_defs
        validApplicability_def charge_defs unpartitioned_def validateIncludedChargeGraph_def charged_def
        included_error_def bound_error_def validRequestBound_def base_row_def example_rows_def)
  ultimately show ?thesis
    by (simp add: Normalize_def example_provider_def ForProviderType_def TrimSpace_def is_space_def
        ToLower_def lower_char_def) (simp add: example_pricing_def)
qed

theorem Normalize_valid_witness:
  "ValidateSnapshot (snapshot_of example_provider example_pricing example_rows) (prov_Generation example_provider) 1 \<noteq> None"
  by (simp only: Normalize_valid[OF example_Normalize] zero_time_def sec_ns_def)
     (simp add: snapshot_of_def Let_def example_rows_def capped_row_def charge_defs base_row_def)


section \<open>What the digest covers\<close>

lemma be_bytes_inject:
  "a < 256 ^ k \<Longrightarrow> b < 256 ^ k \<Longrightarrow> be_bytes k a = be_bytes k b \<Longrightarrow> a = b"
proof (induction k arbitrary: a b)
  case (Suc k)
  have "a div 256 < 256 ^ k" "b div 256 < 256 ^ k"
    using Suc.prems(1,2) by (simp_all add: less_mult_imp_div_less mult.commute)
  moreover have "be_bytes k (a div 256) = be_bytes k (b div 256)"
    "(char_of (a mod 256) :: char) = char_of (b mod 256)"
    using Suc.prems(3) by simp_all
  moreover from this(2) have "a mod 256 = b mod 256"
    by (metis char_of_mod_256 mod_mod_trivial of_char_of)
  ultimately have "a div 256 = b div 256" using Suc.IH by blast
  with \<open>a mod 256 = b mod 256\<close> show ?case by (metis div_mult_mod_eq)
qed simp

definition frameable :: "string list \<Rightarrow> bool" where
  "frameable ps \<longleftrightarrow> list_all (\<lambda>p. length p < 2 ^ 64) ps"

lemma hash_frame_inject:
  "frameable ps \<Longrightarrow> frameable qs \<Longrightarrow> hash_frame ps = hash_frame qs \<Longrightarrow> ps = qs"
proof (induction ps arbitrary: qs)
  case Nil
  then show ?case by (cases qs) (auto simp: hash_frame_def dest: arg_cong[of _ _ length])
next
  case (Cons p ps)
  obtain q qs' where qs: "qs = q # qs'"
    using Cons.prems(3) by (cases qs) (auto simp: hash_frame_def dest: arg_cong[of _ _ length])
  have e: "be_bytes 8 (length p) @ p @ hash_frame ps = be_bytes 8 (length q) @ q @ hash_frame qs'"
    using Cons.prems(3) by (simp add: qs hash_frame_def del: be_bytes.simps)
  have "be_bytes 8 (length p) = be_bytes 8 (length q) \<and> p @ hash_frame ps = q @ hash_frame qs'"
    by (rule append_eq_append_conv[THEN iffD1, OF _ e]) simp
  then have l: "be_bytes 8 (length p) = be_bytes 8 (length q)" and r: "p @ hash_frame ps = q @ hash_frame qs'"
    by blast+
  have "length p = length q"
    by (rule be_bytes_inject[OF _ _ l]) (use Cons.prems(1,2) in \<open>simp_all add: qs frameable_def\<close>)
  then have "p = q" "hash_frame ps = hash_frame qs'" using r by simp_all
  then show ?case using Cons.IH[of qs'] Cons.prems(1,2) by (simp add: qs frameable_def)
qed

lemma show_nat_no_minus: "CHR ''-'' \<notin> set (show_nat n)"
proof
  assume "CHR ''-'' \<in> set (show_nat n)"
  then obtain d where "d < 10" "CHR ''-'' = digit_char d" using show_nat_digits by blast
  moreover have "\<forall>d \<in> set [0..<10]. CHR ''-'' \<noteq> digit_char d" by code_simp
  ultimately show False by (simp only: set_upt) (metis atLeastLessThan_iff le0)
qed

lemma show_int_inject: "show_int a = show_int b \<longleftrightarrow> a = b"
proof
  have n: "show_nat m \<noteq> CHR ''-'' # xs" for m xs using show_nat_no_minus[of m] by (metis list.set_intros(1))
  assume "show_int a = show_int b"
  then show "a = b" using n n[symmetric] by (auto simp: show_int_def split: if_splits)
qed simp

lemma fmt_d_inject [simp]: "fmt_d a = fmt_d b \<longleftrightarrow> a = b"
  by (simp add: fmt_d_def show_int_inject sint64_inject)

lemma fmt_d_not_Nil [simp]: "fmt_d a \<noteq> []" "[] \<noteq> fmt_d a"
  by (simp_all add: fmt_d_def show_int_def eq_commute[of "[]"])

lemma charge_parts_inject:
  assumes "row_ok a" "row_ok b" "charge_parts a = charge_parts b"
  shows "a = b"
proof -
  have ne: "row_ok r \<Longrightarrow> nc_IncludedIn r \<noteq> Some ''''" for r
    by (auto simp: row_ok_def row_error_def isBasis_def AllBases_def basis_defs split: if_splits)
  have "nc_IncludedIn a = nc_IncludedIn b"
    using assms(3) ne[OF assms(1)] ne[OF assms(2)] by (auto simp: charge_parts_def split: option.splits)
  moreover have "nc_MaximumQuantity a = nc_MaximumQuantity b"
    using assms(3) by (auto simp: charge_parts_def split: option.splits)
  moreover have "nc_DisjointUsage a = nc_DisjointUsage b"
    using assms(3) by (auto simp: charge_parts_def fmt_bool_def split: if_splits)
  ultimately show ?thesis using assms(3) by (simp add: charge_parts_def)
qed

lemma body_parts_inject:
  fixes body
  defines "body \<equiv> \<lambda>rs bs. concat (map charge_parts rs) @ concat (map (\<lambda>b. [''inapplicable'', b]) bs)"
  shows "list_all row_ok rs \<Longrightarrow> list_all row_ok rs' \<Longrightarrow> body rs bs = body rs' bs' \<Longrightarrow> rs = rs' \<and> bs = bs'"
proof (induction rs arbitrary: rs')
  have basis: "row_ok r \<Longrightarrow> nc_Basis r \<noteq> ''inapplicable''" for r
    using row_okD(1)[of r] by (auto simp: isBasis_def AllBases_def basis_defs)
  have no_row: "body [] bs \<noteq> body (r # rs) bs'" if "row_ok r" for r rs bs bs'
    using basis[OF that] by (cases bs) (simp_all add: body_def charge_parts_def)
  have bases: "concat (map (\<lambda>b. [''inapplicable'', b]) bs) = concat (map (\<lambda>b. [''inapplicable'', b]) bs') \<Longrightarrow> bs = bs'"
    for bs bs' :: "string list"
    by (induction bs arbitrary: bs') (case_tac bs', simp_all)+
  {
    case Nil
    then show ?case using no_row bases by (cases rs') (auto simp: body_def)
  next
    case (Cons r rs)
    obtain r' rs1 where rs': "rs' = r' # rs1"
      using Cons.prems no_row[of r bs' rs bs] by (cases rs') (auto simp: eq_commute[of "body [] bs'"])
    have e: "charge_parts r @ body rs bs = charge_parts r' @ body rs1 bs'"
      using Cons.prems(3) by (simp add: body_def rs')
    have "length (charge_parts r) = length (charge_parts r')" by (simp add: charge_parts_def)
    then have "charge_parts r = charge_parts r'" "body rs bs = body rs1 bs'" using e by simp_all
    then show ?case using Cons.IH[of rs1] Cons.prems charge_parts_inject[of r r'] by (simp add: rs')
  }
qed


interpretation charges: sort_order basis_before "\<lambda>_. True"
  unfolding basis_before_def[abs_def] by (rule sort_order_key)

lemma basis_before_total:
  "distinct (map nc_Basis rows) \<Longrightarrow> a \<in> set rows \<Longrightarrow> b \<in> set rows \<Longrightarrow> a \<noteq> b \<Longrightarrow> basis_before a b \<or> basis_before b a"
  by (metis basis_before_def distinct_map inj_onD linorder_neq_iff)

lemma sorted_charges_cong:
  assumes "distinct (map nc_Basis rows)"
  shows "sort_by basis_before rows = sort_by basis_before rows' \<longleftrightarrow> mset rows = mset rows'"
proof
  assume "sort_by basis_before rows = sort_by basis_before rows'"
  then show "mset rows = mset rows'" by (metis mset_sort_by)
qed (rule charges.sort_by_unique, use basis_before_total[OF assms] in auto)

lemma sort_strings_eq_iff: "sort_strings xs = sort_strings ys \<longleftrightarrow> mset xs = mset ys"
  using sort_strings_cong by (metis mset_sort_strings)

text \<open>
  C37: The digest covers the whole snapshot and not the order of its rows. For two valid snapshots
  (with parts of less than 2^64 bytes) the byte strings that are hashed are equal exactly when
  generation, version, evidence and source are equal, the times agree to the nanosecond as printed, and
  charges and inapplicable bases agree up to order: no other field can be changed, and no two fields
  can be confused, without changing what is hashed.
\<close>

theorem digest_covers_snapshot:
  assumes "ValidateSnapshotIntegrity s = None" "ValidateSnapshotIntegrity t = None"
    and "frameable (snapshot_parts s)" "frameable (snapshot_parts t)"
  shows "hash_frame (snapshot_parts s) = hash_frame (snapshot_parts t) \<longleftrightarrow>
    sn_SpecGeneration s = sn_SpecGeneration t \<and> sn_Version s = sn_Version t \<and>
    RFC3339Nano (sn_ObservedAt s) = RFC3339Nano (sn_ObservedAt t) \<and>
    RFC3339Nano (sn_ValidUntil s) = RFC3339Nano (sn_ValidUntil t) \<and>
    sn_EvidenceMode s = sn_EvidenceMode t \<and> sn_EvidenceSHA256 s = sn_EvidenceSHA256 t \<and>
    sn_SourceVersion s = sn_SourceVersion t \<and> mset (sn_Charges s) = mset (sn_Charges t) \<and>
    mset (sn_InapplicableBases s) = mset (sn_InapplicableBases t)"
proof -
  note vs = assms(1)[unfolded ValidateSnapshotIntegrity_iff] and vt = assms(2)[unfolded ValidateSnapshotIntegrity_iff]
  define body where "body u = concat (map charge_parts (sort_by basis_before (sn_Charges u))) @
       concat (map (\<lambda>b. [''inapplicable'', b]) (sort_strings (sn_InapplicableBases u)))" for u :: NormalizedPricingSnapshot
  have parts: "snapshot_parts u =
     [''govar-normalized-pricing-v1'', fmt_d (sn_SpecGeneration u), sn_Version u,
      RFC3339Nano (sn_ObservedAt u), RFC3339Nano (sn_ValidUntil u), ToUpper (sn_Currency u),
      sn_Completeness u, sn_AdapterVersion u, sn_EvidenceMode u, sn_EvidenceSHA256 u, sn_SourceVersion u] @ body u" for u
    by (simp only: snapshot_parts_def body_def)
  have d: "distinct (map nc_Basis (sn_Charges s))" using vs partition_iff by blast
  have ok: "list_all row_ok (sort_by basis_before (sn_Charges u))" if "list_all row_ok (sn_Charges u)" for u
    using that by (simp add: list_all_iff)
  have "body s = body t \<longleftrightarrow> sort_by basis_before (sn_Charges s) = sort_by basis_before (sn_Charges t) \<and>
     sort_strings (sn_InapplicableBases s) = sort_strings (sn_InapplicableBases t)"
    using body_parts_inject[of "sort_by basis_before (sn_Charges s)" "sort_by basis_before (sn_Charges t)"
        "sort_strings (sn_InapplicableBases s)" "sort_strings (sn_InapplicableBases t)"] ok vs vt
    unfolding body_def by metis
  then have body: "body s = body t \<longleftrightarrow> mset (sn_Charges s) = mset (sn_Charges t) \<and>
     mset (sn_InapplicableBases s) = mset (sn_InapplicableBases t)"
    by (simp only: sorted_charges_cong[OF d] sort_strings_eq_iff)
  have "ToUpper (sn_Currency s) = ToUpper (sn_Currency t)" "sn_Completeness s = sn_Completeness t"
    "sn_AdapterVersion s = sn_AdapterVersion t"
    using vs vt by (simp_all add: header_valid_def)
  moreover have "hash_frame (snapshot_parts s) = hash_frame (snapshot_parts t) \<longleftrightarrow> snapshot_parts s = snapshot_parts t"
    using hash_frame_inject[OF assms(3,4)] by auto
  ultimately show ?thesis by (simp add: parts body)
qed

lemma example_frameable: "frameable (snapshot_parts (example_raw 1))" "frameable (snapshot_parts (example_raw 2))"
proof -
  have c: "char_of (48 :: nat) = CHR ''0''" "char_of (49 :: nat) = CHR ''1''" "char_of (50 :: nat) = CHR ''2''"
    "char_of (53 :: nat) = CHR ''5''" "char_of (55 :: nat) = CHR ''7''" "char_of (57 :: nat) = CHR ''9''"
    by code_simp+
  note n = fmt_d_def show_int_def show_nat.simps digit_char_def c
  have "fmt_d 1 = ''1''" "fmt_d 2 = ''2''" "fmt_d 2500000 = ''2500000''" "fmt_d 10000000 = ''10000000''"
    "fmt_d 1000000 = ''1000000''"
    by (simp_all add: n)
  moreover have "RFC3339Nano 0 = ''1970-01-01T00:00:00Z''" "RFC3339Nano hour_ns = ''1970-01-01T01:00:00Z''"
    by code_simp+
  ultimately show "frameable (snapshot_parts (example_raw 1))" "frameable (snapshot_parts (example_raw 2))"
    by (simp_all add: frameable_def snapshot_parts_def example_raw_def charge_parts_def base_row_def
        basis_before_def AllBases_def basis_defs sort_strings_def fmt_bool_def charge_defs
        ProviderPricingComplete_def CurrentAdapterVersion_def mode_defs ToUpper_def)
qed

theorem digest_covers_snapshot_witness:
  "hash_frame (snapshot_parts (example_signed 1)) \<noteq> hash_frame (snapshot_parts (example_signed 2))"
proof -
  have "snapshot_parts (example_signed g) = snapshot_parts (example_raw g)" for g
    by (simp add: example_signed_def snapshot_parts_def)
  then have f: "frameable (snapshot_parts (example_signed 1))" "frameable (snapshot_parts (example_signed 2))"
    using example_frameable by simp_all
  show ?thesis
    unfolding digest_covers_snapshot[OF example_signed_valid example_signed_valid f, simplified]
    by (simp add: example_signed_def example_raw_def)
qed

end
