(* ===== verification/Changerequest.thy ===== *)
theory Changerequest
  imports GoText Sha256 Gatewayactuator Govartypes
begin

section \<open>Change requests (aichangerequest_types.go, aichangerequest_controller.go)\<close>

text \<open>
  A proposed change that needs a human decision: a reroute of a model, or a bounded authorization of a
  route. The theory models the object with its digests, the validation of a recorded decision, the
  rules by which the API server admits edits of the object, and the controller: one reconcile from the
  stored object and the routes of the namespace to those after it. Client calls, the clock (its n-th
  reading in a reconcile is \<open>ce_now n\<close>) and the JSON text of a \<open>metav1.Time\<close> are the environment.
\<close>

subsection \<open>Types\<close>

definition AIChangeRequestActionReroute :: string where "AIChangeRequestActionReroute = ''reroute''"
definition AIChangeRequestActionAuthorizeGOVARRoute :: string where
  "AIChangeRequestActionAuthorizeGOVARRoute = ''authorize-gov-ar-route''"

definition AIChangeRequestApprovalPending :: string where "AIChangeRequestApprovalPending = ''Pending''"
definition AIChangeRequestApprovalApproved :: string where "AIChangeRequestApprovalApproved = ''Approved''"
definition AIChangeRequestApprovalRejected :: string where "AIChangeRequestApprovalRejected = ''Rejected''"

definition AIChangeRequestPhasePending :: string where "AIChangeRequestPhasePending = ''Pending''"
definition AIChangeRequestPhaseApproved :: string where "AIChangeRequestPhaseApproved = ''Approved''"
definition AIChangeRequestPhaseActuated :: string where "AIChangeRequestPhaseActuated = ''Actuated''"
definition AIChangeRequestPhaseRejected :: string where "AIChangeRequestPhaseRejected = ''Rejected''"
definition AIChangeRequestPhaseExpired :: string where "AIChangeRequestPhaseExpired = ''Expired''"
definition AIChangeRequestPhaseFailed :: string where "AIChangeRequestPhaseFailed = ''Failed''"

lemmas cr_actions = AIChangeRequestActionReroute_def AIChangeRequestActionAuthorizeGOVARRoute_def
lemmas cr_approvals = AIChangeRequestApprovalPending_def AIChangeRequestApprovalApproved_def
  AIChangeRequestApprovalRejected_def
lemmas cr_phases = AIChangeRequestPhasePending_def AIChangeRequestPhaseApproved_def
  AIChangeRequestPhaseActuated_def AIChangeRequestPhaseRejected_def AIChangeRequestPhaseExpired_def
  AIChangeRequestPhaseFailed_def

definition GOVARApprovalReviewerGroup :: string where
  "GOVARApprovalReviewerGroup = ''aiops.imperium.io:gov-ar-approval-reviewers''"

record AIWorkloadBindingResolvedReference =
  rf_Name :: string
  rf_UID :: string
  rf_Generation :: int64

record GOVARRouteApprovalScope =
  sc_RoutingPolicy :: AIWorkloadBindingResolvedReference
  sc_Model :: AIWorkloadBindingResolvedReference
  sc_Provider :: AIWorkloadBindingResolvedReference
  sc_RouteSnapshotDigest :: string
  sc_ValidUntil :: time
  sc_ScopeDigest :: string

record GOVARRouteApprovalDecision =
  dc_Outcome :: string
  dc_ReviewerIdentity :: string
  dc_ReviewerGroup :: string
  dc_DecidedAt :: time
  dc_ValidUntil :: time
  dc_RequestUID :: string
  dc_AdmissionUID :: string
  dc_ProposalDigest :: string
  dc_ScopeDigest :: string
  dc_DecisionDigest :: string

record AIChangeRequestSpec =
  cs_Action :: string
  cs_SourceModel :: string
  cs_TargetModel :: string
  cs_GOVARRouteApproval :: "GOVARRouteApprovalScope option"
  cs_RequestedBy :: string
  cs_ProposalDigest :: string
  cs_GOVARDecision :: "GOVARRouteApprovalDecision option"
  cs_Reason :: string
  cs_ExpectedSavingEUR :: string
  cs_QualityScore :: string
  cs_LatencyImpact :: string
  cs_RiskLevel :: string
  cs_ExpiresAfter :: string
  cs_Approval :: string

record AIChangeRequestStatus =
  ct_ObservedGeneration :: int64
  ct_Phase :: string
  ct_Message :: string
  ct_ActuatedAt :: "time option"
  ct_ApprovedAt :: "time option"
  ct_ApprovedScopeDigest :: string
  ct_ApprovedDecisionDigest :: string
  ct_ApprovedBy :: string
  ct_ExpiresAt :: "time option"
  ct_ActuatedRoutes :: "string list"
  ct_Ready :: "Condition option"

record AIChangeRequest =
  crq_Name :: string
  crq_Namespace :: string
  crq_UID :: string
  crq_Generation :: int64
  crq_CreationTimestamp :: time
  crq_Spec :: AIChangeRequestSpec
  crq_Status :: AIChangeRequestStatus

subsection \<open>Digests\<close>

definition json_ref :: "AIWorkloadBindingResolvedReference \<Rightarrow> string" where
  "json_ref r = json_struct [(''name'', json_string (rf_Name r)), (''uid'', json_string (rf_UID r)),
     (''generation'', fmt_d (rf_Generation r))]"

definition json_scope :: "(time \<Rightarrow> string) \<Rightarrow> GOVARRouteApprovalScope \<Rightarrow> string" where
  "json_scope T s = json_struct
     [(''routingPolicy'', json_ref (sc_RoutingPolicy s)), (''model'', json_ref (sc_Model s)),
      (''provider'', json_ref (sc_Provider s)), (''routeSnapshotDigest'', json_string (sc_RouteSnapshotDigest s)),
      (''validUntil'', T (sc_ValidUntil s)), (''scopeDigest'', json_string (sc_ScopeDigest s))]"

definition ComputeScopeDigest :: "(time \<Rightarrow> string) \<Rightarrow> GOVARRouteApprovalScope \<Rightarrow> string" where
  "ComputeScopeDigest T s =
     sha256_hex (''govar-route-approval-scope-v1'' @ [CHR 0x00] @ json_scope T (s\<lparr>sc_ScopeDigest := ''''\<rparr>))"

definition json_decision :: "(time \<Rightarrow> string) \<Rightarrow> GOVARRouteApprovalDecision \<Rightarrow> string" where
  "json_decision T d = json_struct
     [(''outcome'', json_string (dc_Outcome d)), (''reviewerIdentity'', json_string (dc_ReviewerIdentity d)),
      (''reviewerGroup'', json_string (dc_ReviewerGroup d)), (''decidedAt'', T (dc_DecidedAt d)),
      (''validUntil'', T (dc_ValidUntil d)), (''requestUID'', json_string (dc_RequestUID d)),
      (''admissionUID'', json_string (dc_AdmissionUID d)), (''proposalDigest'', json_string (dc_ProposalDigest d)),
      (''scopeDigest'', json_string (dc_ScopeDigest d)), (''decisionDigest'', json_string (dc_DecisionDigest d))]"

definition ComputeDecisionDigest ::
  "(time \<Rightarrow> string) \<Rightarrow> GOVARRouteApprovalDecision \<Rightarrow> string \<Rightarrow> string \<Rightarrow> string \<Rightarrow> string" where
  "ComputeDecisionDigest T d namespace name requestedBy =
     sha256_hex (''govar-route-approval-decision-v1'' @ [CHR 0x00] @ json_struct
       [(''namespace'', json_string namespace), (''name'', json_string name),
        (''requestedBy'', json_string requestedBy),
        (''decision'', json_decision T (d\<lparr>dc_DecisionDigest := ''''\<rparr>))])"

definition ComputeProposalDigest :: "(time \<Rightarrow> string) \<Rightarrow> AIChangeRequestSpec \<Rightarrow> string \<Rightarrow> string \<Rightarrow> string" where
  "ComputeProposalDigest T s namespace name =
     sha256_hex (''govar-route-approval-proposal-v1'' @ [CHR 0x00] @ json_struct
       ([(''namespace'', json_string namespace), (''name'', json_string name),
         (''action'', json_string (cs_Action s))] @
        json_nonempty ''sourceModel'' (cs_SourceModel s) @ json_nonempty ''targetModel'' (cs_TargetModel s) @
        (case cs_GOVARRouteApproval s of None \<Rightarrow> [] | Some sc \<Rightarrow> [(''govarRouteApproval'', json_scope T sc)]) @
        json_nonempty ''reason'' (cs_Reason s) @ json_nonempty ''expectedSavingEUR'' (cs_ExpectedSavingEUR s) @
        json_nonempty ''qualityScore'' (cs_QualityScore s) @ json_nonempty ''latencyImpact'' (cs_LatencyImpact s) @
        json_nonempty ''riskLevel'' (cs_RiskLevel s) @ json_nonempty ''expiresAfter'' (cs_ExpiresAfter s) @
        [(''requestedBy'', json_string (cs_RequestedBy s))]))"

subsection \<open>The recorded decision\<close>

definition ValidateGOVARDecision :: "(time \<Rightarrow> string) \<Rightarrow> AIChangeRequest \<Rightarrow> time \<Rightarrow> go_error option" where
  "ValidateGOVARDecision T c now =
     (let s = crq_Spec c
      in if cs_Action s \<noteq> AIChangeRequestActionAuthorizeGOVARRoute then
           Some (Err ''GOV-AR route approval scope is absent'' [])
         else case cs_GOVARRouteApproval s of
           None \<Rightarrow> Some (Err ''GOV-AR route approval scope is absent'' [])
         | Some scope \<Rightarrow>
             if TrimSpace (cs_RequestedBy s) = '''' \<or>
                cs_ProposalDigest s \<noteq> ComputeProposalDigest T s (crq_Namespace c) (crq_Name c) then
               Some (Err ''GOV-AR proposal identity or digest is invalid'' [])
             else case cs_GOVARDecision s of
               None \<Rightarrow> Some (Err ''GOV-AR decision is absent or inconsistent'' [])
             | Some d \<Rightarrow>
                 if dc_Outcome d \<noteq> cs_Approval s \<or>
                    dc_Outcome d \<noteq> AIChangeRequestApprovalApproved \<and> dc_Outcome d \<noteq> AIChangeRequestApprovalRejected then
                   Some (Err ''GOV-AR decision is absent or inconsistent'' [])
                 else if TrimSpace (dc_ReviewerIdentity d) = '''' \<or> dc_ReviewerIdentity d = cs_RequestedBy s \<or>
                    dc_ReviewerGroup d \<noteq> GOVARApprovalReviewerGroup then
                   Some (Err ''GOV-AR requester and authorized reviewer are not distinct'' [])
                 else if crq_UID c = '''' \<or> dc_RequestUID d \<noteq> crq_UID c \<or> dc_AdmissionUID d = '''' \<or>
                    dc_ProposalDigest d \<noteq> cs_ProposalDigest s \<or> dc_ScopeDigest d \<noteq> sc_ScopeDigest scope \<or>
                    dc_ValidUntil d \<noteq> sc_ValidUntil scope then
                   Some (Err ''GOV-AR decision object, proposal, scope, or expiry binding is invalid'' [])
                 else if dc_DecisionDigest d \<noteq>
                    ComputeDecisionDigest T d (crq_Namespace c) (crq_Name c) (cs_RequestedBy s) then
                   Some (Err ''GOV-AR decision digest is invalid'' [])
                 else if dc_DecidedAt d = zero_time \<or> now + 5 * sec_ns < dc_DecidedAt d \<or>
                    \<not> dc_DecidedAt d < dc_ValidUntil d \<or> \<not> now < dc_ValidUntil d then
                   Some (Err ''GOV-AR decision time or expiry is invalid'' [])
                 else None)"

subsection \<open>Edits the API server admits\<close>

text \<open>
  The validation rules in the markers of the spec, which the API server evaluates on every update:
  the first two on the new object, the others against the old one. \<open>has\<close> is false on an absent field.
\<close>

definition spec_valid :: "AIChangeRequestSpec \<Rightarrow> bool" where
  "spec_valid s \<longleftrightarrow>
     cs_Approval s \<in> {AIChangeRequestApprovalPending, AIChangeRequestApprovalApproved, AIChangeRequestApprovalRejected} \<and>
     (cs_Action s \<noteq> AIChangeRequestActionReroute \<or> cs_SourceModel s \<noteq> '''' \<and> cs_TargetModel s \<noteq> '''') \<and>
     (cs_Action s \<noteq> AIChangeRequestActionAuthorizeGOVARRoute \<or> cs_GOVARRouteApproval s \<noteq> None) \<and>
     (cs_Action s \<noteq> AIChangeRequestActionAuthorizeGOVARRoute \<or> cs_Approval s \<noteq> AIChangeRequestApprovalPending \<or>
        cs_GOVARDecision s = None) \<and>
     (cs_Action s \<noteq> AIChangeRequestActionAuthorizeGOVARRoute \<or> cs_Approval s = AIChangeRequestApprovalPending \<or>
        cs_RequestedBy s = '''' \<and> cs_ProposalDigest s = '''' \<and> cs_GOVARDecision s = None \<or>
        cs_RequestedBy s \<noteq> '''' \<and> cs_ProposalDigest s \<noteq> '''' \<and>
        (case (cs_GOVARDecision s, cs_GOVARRouteApproval s) of
           (Some d, Some sc) \<Rightarrow>
             dc_Outcome d = cs_Approval s \<and> dc_ProposalDigest d = cs_ProposalDigest s \<and>
             dc_ScopeDigest d = sc_ScopeDigest sc \<and> dc_ValidUntil d = sc_ValidUntil sc \<and>
             dc_ReviewerIdentity d \<noteq> cs_RequestedBy s
         | _ \<Rightarrow> False))"

definition edit_admitted :: "AIChangeRequestSpec \<Rightarrow> AIChangeRequestSpec \<Rightarrow> bool" where
  "edit_admitted old new \<longleftrightarrow>
     spec_valid new \<and> cs_Action new = cs_Action old \<and>
     (cs_GOVARRouteApproval old = None \<or> cs_GOVARRouteApproval new = cs_GOVARRouteApproval old) \<and>
     (cs_RequestedBy old = '''' \<or> cs_RequestedBy new = cs_RequestedBy old) \<and>
     (cs_ProposalDigest old = '''' \<or> cs_ProposalDigest new = cs_ProposalDigest old) \<and>
     (cs_GOVARDecision old = None \<or> cs_GOVARDecision new = cs_GOVARDecision old) \<and>
     (cs_Approval old = AIChangeRequestApprovalPending \<or> cs_Approval new = cs_Approval old)"


subsection \<open>The environment and the world of a reconcile\<close>

definition changeRequestAnnotation :: string where
  "changeRequestAnnotation = ''aiops.imperium.io/change-request-reroutes''"

definition defaultExpiresAfter :: int where "defaultExpiresAfter = 48 * hour_ns"

text \<open>A referenced object as a Get returns it; the provider reference is that of a model.\<close>

record ref_object =
  ro_Name :: string
  ro_UID :: string
  ro_Generation :: int64
  ro_ProviderRef :: string

record cr_env =
  ce_api :: unstructured_api
  ce_codec :: saved_codec
  ce_timeJSON :: "time \<Rightarrow> string"
  ce_IsNoMatch :: "go_error \<Rightarrow> bool"
  ce_now :: "nat \<Rightarrow> time"
  ce_getRequest :: "go_error option"
  ce_getRouting :: "string \<Rightarrow> ref_object result"
  ce_getModel :: "string \<Rightarrow> ref_object result"
  ce_getProvider :: "string \<Rightarrow> ref_object result"
  ce_listBackends :: "go_error option"
  ce_listErr1 :: "go_error option"
  ce_listErr2 :: "go_error option"
  ce_updateRoute :: "route \<Rightarrow> go_error option"
  ce_updateExpiry :: "go_error option"
  ce_updateStatus :: "go_error option"

record cr_event =
  ev_Reason :: string
  ev_Note :: string

text \<open>The stored request, if it exists, the routes of its namespace and the events.\<close>

record cr_world =
  cw_request :: "AIChangeRequest option"
  cw_routes :: "route list"
  cw_events :: "cr_event list"

text \<open>\<open>RequeueAfter\<close> in nanoseconds (0 is none) and the error.\<close>

type_synonym cr_outcome = "int \<times> go_error option"

definition store_status :: "go_error option \<Rightarrow> AIChangeRequest \<Rightarrow> cr_world \<Rightarrow> cr_world" where
  "store_status e q w =
     (case e of
        Some _ \<Rightarrow> w
      | None \<Rightarrow> w\<lparr>cw_request := map_option (\<lambda>stored. stored\<lparr>crq_Status := crq_Status q\<rparr>) (cw_request w)\<rparr>)"

definition emit :: "string \<Rightarrow> string \<Rightarrow> cr_world \<Rightarrow> cr_world" where
  "emit reason note w = w\<lparr>cw_events := cw_events w @ [\<lparr>ev_Reason = reason, ev_Note = note\<rparr>]\<rparr>"

subsection \<open>The controller\<close>

definition cr_setPhase :: "string \<Rightarrow> string \<Rightarrow> AIChangeRequest \<Rightarrow> AIChangeRequest" where
  "cr_setPhase phase msg q =
     (let condStatus = \<not> (phase = AIChangeRequestPhaseFailed \<or> phase = AIChangeRequestPhaseExpired \<or>
            phase = AIChangeRequestPhaseRejected);
          reason = (if phase = AIChangeRequestPhaseFailed then ReasonReconcileError else ReasonReconciled)
      in q\<lparr>crq_Status := (crq_Status q)\<lparr>ct_Phase := phase, ct_Message := msg,
           ct_Ready := Some (readyCondition (crq_Generation q) condStatus reason msg)\<rparr>\<rparr>)"

definition clear_approval :: "AIChangeRequest \<Rightarrow> AIChangeRequest" where
  "clear_approval q = q\<lparr>crq_Status := (crq_Status q)\<lparr>ct_ApprovedAt := None, ct_ApprovedScopeDigest := '''',
     ct_ApprovedDecisionDigest := '''', ct_ApprovedBy := ''''\<rparr>\<rparr>"

text \<open>Setting a phase without approval and storing the status: how most branches end.\<close>

definition finish :: "cr_env \<Rightarrow> string \<Rightarrow> string \<Rightarrow> AIChangeRequest \<Rightarrow> cr_world \<Rightarrow> cr_world \<times> cr_outcome" where
  "finish E phase msg q w =
     (store_status (ce_updateStatus E) (clear_approval (cr_setPhase phase msg q)) w, (0, ce_updateStatus E))"

definition sha256Lower :: "string \<Rightarrow> bool" where
  "sha256Lower s \<longleftrightarrow> length s = 64 \<and> list_all (\<lambda>c. c \<in> set ''abcdef0123456789'') s"

definition validRef :: "AIWorkloadBindingResolvedReference \<Rightarrow> bool" where
  "validRef ref \<longleftrightarrow> rf_Name ref \<noteq> '''' \<and> rf_UID ref \<noteq> '''' \<and> 0 < sint (rf_Generation ref)"

definition stale :: "ref_object \<Rightarrow> AIWorkloadBindingResolvedReference \<Rightarrow> bool" where
  "stale obj ref \<longleftrightarrow> ro_UID obj \<noteq> rf_UID ref \<or> ro_Generation obj \<noteq> rf_Generation ref"

definition wrap_text :: "string \<Rightarrow> go_error \<Rightarrow> go_error" where
  "wrap_text pre e = (case e of Err f as \<Rightarrow> Err (pre @ f) as)"

definition validateGOVARRouteReferences :: "cr_env \<Rightarrow> GOVARRouteApprovalScope \<Rightarrow> go_error option" where
  "validateGOVARRouteReferences E scope =
     (if \<not> validRef (sc_RoutingPolicy scope) \<or> \<not> validRef (sc_Model scope) \<or> \<not> validRef (sc_Provider scope) then
        Some (Err ''GOV-AR route approval contains an empty or invalid object reference'' [])
      else case ce_getRouting E (rf_Name (sc_RoutingPolicy scope)) of
        Inl e \<Rightarrow> Some (wrap_text ''resolve approved routing policy: '' e)
      | Inr routing \<Rightarrow>
          if stale routing (sc_RoutingPolicy scope) then
            Some (Err ''approved routing policy UID/generation is stale'' [])
          else case ce_getModel E (rf_Name (sc_Model scope)) of
            Inl e \<Rightarrow> Some (wrap_text ''resolve approved model: '' e)
          | Inr model \<Rightarrow>
              if stale model (sc_Model scope) then Some (Err ''approved model UID/generation is stale'' [])
              else case ce_getProvider E (rf_Name (sc_Provider scope)) of
                Inl e \<Rightarrow> Some (wrap_text ''resolve approved provider: '' e)
              | Inr provider \<Rightarrow>
                  if stale provider (sc_Provider scope) \<or> ro_ProviderRef model \<noteq> ro_Name provider then
                    Some (Err ''approved provider UID/generation or model ownership is stale'' [])
                  else None)"

text \<open>The approved branch of \<open>approveGOVARRoute\<close>: the status after all tests.\<close>

definition record_approval ::
  "time \<Rightarrow> GOVARRouteApprovalScope \<Rightarrow> GOVARRouteApprovalDecision \<Rightarrow> AIChangeRequest \<Rightarrow> AIChangeRequest" where
  "record_approval now scope d q =
     (let st = crq_Status q;
          approvedAt = (if ct_Phase st = AIChangeRequestPhaseApproved \<and> ct_ApprovedAt st \<noteq> None \<and>
              ct_ObservedGeneration st = crq_Generation q \<and> ct_ApprovedScopeDigest st = sc_ScopeDigest scope \<and>
              ct_ApprovedDecisionDigest st = dc_DecisionDigest d \<and> ct_ApprovedBy st = dc_ReviewerIdentity d
            then ct_ApprovedAt st else Some now)
      in cr_setPhase AIChangeRequestPhaseApproved
           ''bounded GOV-AR route scope approved; admission revalidates every request without consuming this object''
           (q\<lparr>crq_Status := st\<lparr>ct_ApprovedAt := approvedAt, ct_ApprovedScopeDigest := sc_ScopeDigest scope,
              ct_ApprovedDecisionDigest := dc_DecisionDigest d, ct_ApprovedBy := dc_ReviewerIdentity d\<rparr>\<rparr>))"

definition approveGOVARRoute :: "cr_env \<Rightarrow> AIChangeRequest \<Rightarrow> cr_world \<Rightarrow> cr_world \<times> cr_outcome" where
  "approveGOVARRoute E q w =
     (case (cs_GOVARRouteApproval (crq_Spec q), cs_GOVARDecision (crq_Spec q)) of
        (None, _) \<Rightarrow> finish E AIChangeRequestPhaseFailed ''GOV-AR route approval scope or digest is invalid'' q w
      | (Some scope, dec) \<Rightarrow>
          if \<not> sha256Lower (sc_RouteSnapshotDigest scope) \<or> \<not> sha256Lower (sc_ScopeDigest scope) \<or>
             sc_ScopeDigest scope \<noteq> ComputeScopeDigest (ce_timeJSON E) scope then
            finish E AIChangeRequestPhaseFailed ''GOV-AR route approval scope or digest is invalid'' q w
          else case ValidateGOVARDecision (ce_timeJSON E) q (ce_now E 1) of
            Some e \<Rightarrow>
              finish E AIChangeRequestPhaseFailed
                (''GOV-AR authenticated approval decision is invalid: '' @ err_text e) q w
          | None \<Rightarrow>
              if \<not> ce_now E 2 < sc_ValidUntil scope then
                finish E AIChangeRequestPhaseExpired ''GOV-AR route approval scope has expired'' q w
              else case validateGOVARRouteReferences E scope of
                Some e \<Rightarrow> finish E AIChangeRequestPhaseFailed (err_text e) q w
              | None \<Rightarrow>
                  (case dec of
                     None \<Rightarrow> finish E AIChangeRequestPhaseFailed ''GOV-AR authenticated approval decision is invalid: '' q w
                   | Some d \<Rightarrow>
                       (let q' = record_approval (ce_now E 3) scope d q;
                            w' = emit ''GOVARRouteApproved''
                              (render ''Approved policy %s model %s provider %s route snapshot %s until %s''
                                [rf_Name (sc_RoutingPolicy scope), rf_Name (sc_Model scope),
                                 rf_Name (sc_Provider scope), sc_RouteSnapshotDigest scope,
                                 RFC3339 (sc_ValidUntil scope)]) w;
                            remaining = sc_ValidUntil scope - ce_now E 4
                        in (store_status (ce_updateStatus E) q' w',
                            (min remaining (30 * sec_ns), ce_updateStatus E)))))"

text \<open>
  The reroute branch. Without its status update the routes have already changed: the new world has
  the routes as the actuation left them in every case.
\<close>

definition cr_actuate :: "cr_env \<Rightarrow> AIChangeRequest \<Rightarrow> cr_world \<Rightarrow> cr_world \<times> cr_outcome" where
  "cr_actuate E q w =
     (let s = crq_Spec q; store = store_status (ce_updateStatus E); upd = ce_updateStatus E
      in if ct_Phase (crq_Status q) = AIChangeRequestPhaseActuated then (w, (60 * sec_ns, None))
         else
           (case modelBackends (ce_api E) (case ce_listBackends E of Some e \<Rightarrow> Inl e | None \<Rightarrow> Inr (cw_routes w)) of
              Inl e \<Rightarrow>
                (if ce_IsNoMatch E e then
                   (store (cr_setPhase AIChangeRequestPhaseFailed
                      ''Envoy AI Gateway AIGatewayRoute CRD not found in cluster'' q) w, (0, upd))
                 else (w, (0, Some e)))
            | Inr mb \<Rightarrow>
                (case map_of mb (cs_TargetModel s) of
                   None \<Rightarrow>
                     (store (cr_setPhase AIChangeRequestPhaseFailed
                        (render ''target model %q has no AIGatewayRoute backend'' [cs_TargetModel s]) q) w,
                      (60 * sec_ns, upd))
                 | Some targetBackend \<Rightarrow>
                     (let (routes', actuated, err) = actuateReroutesWithAnnotation (ce_api E) (ce_codec E)
                            (ce_IsNoMatch E) (ce_updateRoute E) (ce_listErr1 E) (ce_listErr2 E) (cw_routes w)
                            [(cs_SourceModel s, targetBackend)] changeRequestAnnotation;
                          w1 = w\<lparr>cw_routes := routes'\<rparr>
                      in case err of
                           Some e \<Rightarrow> (w1, (0, Some e))
                         | None \<Rightarrow>
                             if cs_SourceModel s \<notin> set actuated then
                               (store (cr_setPhase AIChangeRequestPhaseFailed
                                  (render ''no AIGatewayRoute found routing model %q'' [cs_SourceModel s]) q) w1,
                                (60 * sec_ns, upd))
                             else
                               (let now = ce_now E 1;
                                    q' = cr_setPhase AIChangeRequestPhaseActuated
                                      (''rerouted '' @ fmt_q (cs_SourceModel s) @ arrow @ fmt_q (cs_TargetModel s) @
                                       '' (backend: '' @ targetBackend @ '') at '' @ RFC3339 now)
                                      (q\<lparr>crq_Status := (crq_Status q)\<lparr>ct_ActuatedAt := Some now,
                                         ct_ActuatedRoutes := actuated\<rparr>\<rparr>)
                                in (store q' (emit ''ChangeActuated''
                                      (''Change '' @ cs_SourceModel s @ arrow @ cs_TargetModel s @
                                       '' actuated (saving: '' @ cs_ExpectedSavingEUR s @ '')'') w1),
                                    (60 * sec_ns, upd)))))))"

definition expiry_of :: "AIChangeRequest \<Rightarrow> time" where
  "expiry_of q =
     (let s = crq_Spec q
      in if cs_Action s = AIChangeRequestActionAuthorizeGOVARRoute \<and> cs_GOVARRouteApproval s \<noteq> None
         then sc_ValidUntil (the (cs_GOVARRouteApproval s))
         else case ParseDuration (cs_ExpiresAfter s) of
             Some dur \<Rightarrow> crq_CreationTimestamp q + (if 0 < dur then dur else defaultExpiresAfter)
           | None \<Rightarrow> crq_CreationTimestamp q + defaultExpiresAfter)"

definition terminal :: "string \<Rightarrow> bool" where
  "terminal phase \<longleftrightarrow> phase = AIChangeRequestPhaseActuated \<or> phase = AIChangeRequestPhaseRejected \<or>
     phase = AIChangeRequestPhaseExpired"

text \<open>From the test for a terminal phase to the end; \<open>expiresAt\<close> is the value in the status.\<close>

definition decide :: "cr_env \<Rightarrow> time \<Rightarrow> AIChangeRequest \<Rightarrow> cr_world \<Rightarrow> cr_world \<times> cr_outcome" where
  "decide E expiresAt q w =
     (let s = crq_Spec q
      in if terminal (ct_Phase (crq_Status q)) then (w, (0, None))
         else if \<not> ce_now E 0 < expiresAt then
           finish E AIChangeRequestPhaseExpired (''change request authorization expired at '' @ RFC3339 expiresAt) q
             (emit ''ChangeRequestExpired'' (render ''Change request %s/%s expired without approval''
                [crq_Namespace q, crq_Name q]) w)
         else if cs_Approval s = AIChangeRequestApprovalRejected then
           (case (if cs_Action s = AIChangeRequestActionAuthorizeGOVARRoute
                  then ValidateGOVARDecision (ce_timeJSON E) q (ce_now E 1) else None) of
              Some e \<Rightarrow>
                finish E AIChangeRequestPhaseFailed
                  (''GOV-AR authenticated rejection decision is invalid: '' @ err_text e) q w
            | None \<Rightarrow>
                finish E AIChangeRequestPhaseRejected ''change request rejected by reviewer'' q
                  (emit ''ChangeRequestRejected''
                     (''Change '' @ cs_SourceModel s @ arrow @ cs_TargetModel s @ '' rejected'') w))
         else if cs_Approval s = AIChangeRequestApprovalApproved then
           (if cs_Action s = AIChangeRequestActionAuthorizeGOVARRoute then approveGOVARRoute E q w
            else cr_actuate E q w)
         else
           (let (w', _, e) = finish E AIChangeRequestPhasePending
                  (''waiting for approval; expires at '' @ RFC3339 expiresAt) q w
            in (w', (if e = None then 30 * sec_ns else 0, e))))"

definition Reconcile_change :: "cr_env \<Rightarrow> cr_world \<Rightarrow> cr_world \<times> cr_outcome" where
  "Reconcile_change E w =
     (case (ce_getRequest E, cw_request w) of
        (Some e, _) \<Rightarrow> (w, (0, Some e))
      | (None, None) \<Rightarrow> (w, (0, None))
      | (None, Some stored) \<Rightarrow>
          (let q = stored\<lparr>crq_Status := (crq_Status stored)\<lparr>ct_ObservedGeneration := crq_Generation stored\<rparr>\<rparr>;
               expiresAt = expiry_of q
           in if ct_ExpiresAt (crq_Status q) = Some expiresAt then decide E expiresAt q w
              else
                (let q1 = q\<lparr>crq_Status := (crq_Status q)\<lparr>ct_ExpiresAt := Some expiresAt\<rparr>\<rparr>;
                     w1 = store_status (ce_updateExpiry E) q1 w
                 in case ce_updateExpiry E of
                      Some e \<Rightarrow> (w1, (0, Some e))
                    | None \<Rightarrow> decide E expiresAt q1 w1)))"


section \<open>What a reconcile does to the stored request\<close>

definition cleared :: "AIChangeRequestStatus \<Rightarrow> bool" where
  "cleared st \<longleftrightarrow> ct_ApprovedAt st = None \<and> ct_ApprovedScopeDigest st = '''' \<and>
     ct_ApprovedDecisionDigest st = '''' \<and> ct_ApprovedBy st = ''''"

definition same_evidence :: "AIChangeRequestStatus \<Rightarrow> AIChangeRequestStatus \<Rightarrow> bool" where
  "same_evidence a b \<longleftrightarrow> ct_ApprovedAt a = ct_ApprovedAt b \<and> ct_ApprovedScopeDigest a = ct_ApprovedScopeDigest b \<and>
     ct_ApprovedDecisionDigest a = ct_ApprovedDecisionDigest b \<and> ct_ApprovedBy a = ct_ApprovedBy b"

text \<open>The object that a reference names exists, with the UID and generation of the reference.\<close>

definition resolves :: "(string \<Rightarrow> ref_object result) \<Rightarrow> AIWorkloadBindingResolvedReference \<Rightarrow> bool" where
  "resolves f ref \<longleftrightarrow> validRef ref \<and>
     (case f (rf_Name ref) of Inl e \<Rightarrow> False | Inr obj \<Rightarrow> ro_UID obj = rf_UID ref \<and> ro_Generation obj = rf_Generation ref)"

text \<open>An approval that holds at the readings of the clock: four eyes, digests, expiry, references.\<close>

definition justified :: "cr_env \<Rightarrow> AIChangeRequest \<Rightarrow> GOVARRouteApprovalScope \<Rightarrow> GOVARRouteApprovalDecision \<Rightarrow> bool" where
  "justified E q sc d \<longleftrightarrow>
     cs_Action (crq_Spec q) = AIChangeRequestActionAuthorizeGOVARRoute \<and>
     cs_Approval (crq_Spec q) = AIChangeRequestApprovalApproved \<and>
     cs_GOVARRouteApproval (crq_Spec q) = Some sc \<and> cs_GOVARDecision (crq_Spec q) = Some d \<and>
     dc_Outcome d = AIChangeRequestApprovalApproved \<and> TrimSpace (cs_RequestedBy (crq_Spec q)) \<noteq> '''' \<and>
     dc_ReviewerIdentity d \<noteq> cs_RequestedBy (crq_Spec q) \<and> dc_ReviewerGroup d = GOVARApprovalReviewerGroup \<and>
     dc_RequestUID d = crq_UID q \<and> sc_ScopeDigest sc = ComputeScopeDigest (ce_timeJSON E) sc \<and>
     dc_ScopeDigest d = sc_ScopeDigest sc \<and>
     dc_ProposalDigest d = ComputeProposalDigest (ce_timeJSON E) (crq_Spec q) (crq_Namespace q) (crq_Name q) \<and>
     dc_DecisionDigest d = ComputeDecisionDigest (ce_timeJSON E) d (crq_Namespace q) (crq_Name q) (cs_RequestedBy (crq_Spec q)) \<and>
     ce_now E 1 < sc_ValidUntil sc \<and> ce_now E 2 < sc_ValidUntil sc \<and>
     resolves (ce_getRouting E) (sc_RoutingPolicy sc) \<and> resolves (ce_getModel E) (sc_Model sc) \<and>
     resolves (ce_getProvider E) (sc_Provider sc)"

definition approved_status :: "GOVARRouteApprovalScope \<Rightarrow> GOVARRouteApprovalDecision \<Rightarrow> AIChangeRequestStatus \<Rightarrow> bool" where
  "approved_status sc d st \<longleftrightarrow> ct_Phase st = AIChangeRequestPhaseApproved \<and> ct_ApprovedAt st \<noteq> None \<and>
     ct_ApprovedScopeDigest st = sc_ScopeDigest sc \<and> ct_ApprovedDecisionDigest st = dc_DecisionDigest d \<and>
     ct_ApprovedBy st = dc_ReviewerIdentity d"

lemma validateGOVARRouteReferences_resolves:
  "validateGOVARRouteReferences E sc = None \<Longrightarrow>
     resolves (ce_getRouting E) (sc_RoutingPolicy sc) \<and> resolves (ce_getModel E) (sc_Model sc) \<and>
     resolves (ce_getProvider E) (sc_Provider sc)"
  by (auto simp: validateGOVARRouteReferences_def resolves_def stale_def split: if_splits sum.splits)

lemma ValidateGOVARDecisionD:
  assumes "ValidateGOVARDecision T c now = None"
  obtains sc d where "cs_Action (crq_Spec c) = AIChangeRequestActionAuthorizeGOVARRoute"
    "cs_GOVARRouteApproval (crq_Spec c) = Some sc" "cs_GOVARDecision (crq_Spec c) = Some d"
    "TrimSpace (cs_RequestedBy (crq_Spec c)) \<noteq> ''''" "dc_Outcome d = cs_Approval (crq_Spec c)"
    "dc_ReviewerIdentity d \<noteq> cs_RequestedBy (crq_Spec c)" "dc_ReviewerGroup d = GOVARApprovalReviewerGroup"
    "dc_RequestUID d = crq_UID c" "dc_ScopeDigest d = sc_ScopeDigest sc"
    "dc_ProposalDigest d = ComputeProposalDigest T (crq_Spec c) (crq_Namespace c) (crq_Name c)"
    "dc_DecisionDigest d = ComputeDecisionDigest T d (crq_Namespace c) (crq_Name c) (cs_RequestedBy (crq_Spec c))"
    "now < sc_ValidUntil sc"
  using assms by (auto simp: ValidateGOVARDecision_def Let_def split: if_splits option.splits)

lemma store_status_request [simp]:
  "cw_request (store_status e q w) =
     (if e = None then map_option (\<lambda>s. s\<lparr>crq_Status := crq_Status q\<rparr>) (cw_request w) else cw_request w)"
  by (simp add: store_status_def split: option.splits)

lemma emit_request [simp]: "cw_request (emit r n w) = cw_request w"
  by (simp add: emit_def)

lemma clear_setPhase [simp]:
  "cleared (crq_Status (clear_approval q))" "ct_Phase (crq_Status (clear_approval q)) = ct_Phase (crq_Status q)"
  "ct_Phase (crq_Status (cr_setPhase ph msg q)) = ph" "same_evidence (crq_Status (cr_setPhase ph msg q)) (crq_Status q)"
  by (simp_all add: cleared_def clear_approval_def cr_setPhase_def Let_def same_evidence_def)

lemma finish_request [simp]:
  "cw_request (fst (finish E ph msg q w)) = (if ce_updateStatus E = None
     then map_option (\<lambda>s. s\<lparr>crq_Status := crq_Status (clear_approval (cr_setPhase ph msg q))\<rparr>) (cw_request w)
     else cw_request w)"
  by (simp add: finish_def)

lemma record_approval_status: "approved_status sc d (crq_Status (record_approval t sc d q))"
  by (simp add: approved_status_def record_approval_def Let_def cr_setPhase_def)

text \<open>The new status, if the status update succeeds.\<close>

definition written :: "cr_env \<Rightarrow> AIChangeRequest \<Rightarrow> AIChangeRequestStatus \<Rightarrow> bool" where
  "written E q st \<longleftrightarrow>
     cleared st \<and> ct_Phase st \<in> {AIChangeRequestPhaseExpired, AIChangeRequestPhaseFailed, AIChangeRequestPhasePending} \<or>
     cleared st \<and> ct_Phase st = AIChangeRequestPhaseRejected \<and>
       cs_Approval (crq_Spec q) = AIChangeRequestApprovalRejected \<or>
     (\<exists>sc d. justified E q sc d \<and> approved_status sc d st) \<or>
     cs_Action (crq_Spec q) \<noteq> AIChangeRequestActionAuthorizeGOVARRoute \<and>
       cs_Approval (crq_Spec q) = AIChangeRequestApprovalApproved \<and>
       ct_Phase st \<in> {AIChangeRequestPhaseFailed, AIChangeRequestPhaseActuated} \<and> same_evidence st (crq_Status q)"

definition request_after :: "cr_env \<Rightarrow> AIChangeRequest \<Rightarrow> AIChangeRequest \<Rightarrow> cr_world \<Rightarrow> bool" where
  "request_after E q stored w' \<longleftrightarrow>
     cw_request w' = Some stored \<or> (\<exists>st. cw_request w' = Some (stored\<lparr>crq_Status := st\<rparr>) \<and> written E q st)"

lemma request_after_finish:
  assumes "cw_request w = Some stored"
    and "ph \<in> {AIChangeRequestPhaseExpired, AIChangeRequestPhaseFailed, AIChangeRequestPhasePending} \<or>
      ph = AIChangeRequestPhaseRejected \<and> cs_Approval (crq_Spec q) = AIChangeRequestApprovalRejected"
  shows "request_after E q stored (fst (finish E ph msg q w))"
  using assms by (auto simp: request_after_def written_def)

lemma request_after_approve:
  assumes "cw_request w = Some stored" "cs_Approval (crq_Spec q) = AIChangeRequestApprovalApproved"
  shows "request_after E q stored (fst (approveGOVARRoute E q w))"
proof -
  have fin: "request_after E q stored (fst (finish E ph msg q w))"
    if "ph = AIChangeRequestPhaseFailed \<or> ph = AIChangeRequestPhaseExpired" for ph msg
    using that assms(1) by (intro request_after_finish) auto
  show ?thesis
  proof (cases "\<exists>scope. cs_GOVARRouteApproval (crq_Spec q) = Some scope \<and> sha256Lower (sc_RouteSnapshotDigest scope) \<and>
      sha256Lower (sc_ScopeDigest scope) \<and> sc_ScopeDigest scope = ComputeScopeDigest (ce_timeJSON E) scope \<and>
      ValidateGOVARDecision (ce_timeJSON E) q (ce_now E 1) = None \<and> ce_now E 2 < sc_ValidUntil scope \<and>
      validateGOVARRouteReferences E scope = None")
    case True
    then obtain scope where s: "cs_GOVARRouteApproval (crq_Spec q) = Some scope" "sha256Lower (sc_RouteSnapshotDigest scope)"
      "sha256Lower (sc_ScopeDigest scope)" "sc_ScopeDigest scope = ComputeScopeDigest (ce_timeJSON E) scope"
      "ValidateGOVARDecision (ce_timeJSON E) q (ce_now E 1) = None" "ce_now E 2 < sc_ValidUntil scope"
      "validateGOVARRouteReferences E scope = None" by blast
    show ?thesis
    proof (cases rule: ValidateGOVARDecisionD[OF s(5)])
      case (1 sc d)
      have j: "justified E q scope d"
        using 1 s assms(2) validateGOVARRouteReferences_resolves[OF s(7)] by (simp add: justified_def)
      have "cw_request (fst (approveGOVARRoute E q w)) = (if ce_updateStatus E = None
          then Some (stored\<lparr>crq_Status := crq_Status (record_approval (ce_now E 3) scope d q)\<rparr>) else Some stored)"
        using s 1(3) assms(1) by (simp add: approveGOVARRoute_def Let_def)
      moreover have "written E q (crq_Status (record_approval (ce_now E 3) scope d q))"
        using j record_approval_status unfolding written_def by blast
      ultimately show ?thesis by (auto simp: request_after_def)
    qed
  next
    case False
    then show ?thesis
      using fin by (auto simp: approveGOVARRoute_def split: option.splits)
  qed
qed

lemma request_after_unchanged: "cw_request w' = Some stored \<Longrightarrow> request_after E q stored w'"
  by (simp add: request_after_def)

lemma request_after_store:
  assumes "cw_request w = Some stored" "written E q (crq_Status q')"
  shows "request_after E q stored (store_status e q' w)"
  using assms by (auto simp: request_after_def)

lemma request_after_actuate:
  assumes "cw_request w = Some stored" "cs_Approval (crq_Spec q) = AIChangeRequestApprovalApproved"
    and "cs_Action (crq_Spec q) \<noteq> AIChangeRequestActionAuthorizeGOVARRoute"
  shows "request_after E q stored (fst (cr_actuate E q w))"
proof -
  have failed: "written E q (crq_Status (cr_setPhase AIChangeRequestPhaseFailed msg q))" for msg
    using assms(2,3) by (simp add: written_def)
  have actuated: "written E q (crq_Status (cr_setPhase AIChangeRequestPhaseActuated msg
      (q\<lparr>crq_Status := (crq_Status q)\<lparr>ct_ActuatedAt := t, ct_ActuatedRoutes := rs\<rparr>\<rparr>)))" for msg t rs
    using assms(2,3) by (simp add: written_def cr_setPhase_def Let_def same_evidence_def)
  show ?thesis
    using assms(1)
    by (auto simp del: store_status_request simp: cr_actuate_def Let_def split_def
        intro!: request_after_store failed actuated intro: request_after_unchanged
        split: sum.splits option.splits)
qed

lemma request_after_decide:
  assumes "cw_request w = Some stored"
  shows "request_after E q stored (fst (decide E x q w)) \<and>
    (terminal (ct_Phase (crq_Status q)) \<longrightarrow> fst (decide E x q w) = w)"
proof (cases "terminal (ct_Phase (crq_Status q))")
  case True
  then show ?thesis using assms by (simp add: decide_def Let_def request_after_def)
next
  case False
  then show ?thesis
    using assms
    by (auto simp del: finish_request simp: decide_def Let_def split_def
        intro!: request_after_finish request_after_approve request_after_actuate split: option.splits)
qed


text \<open>The bookkeeping before any decision: observed generation and expiry.\<close>

definition touched :: "AIChangeRequest \<Rightarrow> AIChangeRequest \<Rightarrow> bool" where
  "touched s q \<longleftrightarrow> (\<exists>g t. q = s\<lparr>crq_Status := (crq_Status s)\<lparr>ct_ObservedGeneration := g, ct_ExpiresAt := t\<rparr>\<rparr>)"

lemma touched_refl: "touched s s"
proof -
  have "s = s\<lparr>crq_Status := (crq_Status s)\<lparr>ct_ObservedGeneration := ct_ObservedGeneration (crq_Status s),
      ct_ExpiresAt := ct_ExpiresAt (crq_Status s)\<rparr>\<rparr>" by simp
  then show ?thesis unfolding touched_def by blast
qed

lemma touchedD:
  assumes "touched s q"
  shows "crq_Spec q = crq_Spec s" "crq_UID q = crq_UID s" "crq_Name q = crq_Name s" "crq_Namespace q = crq_Namespace s"
    "ct_Phase (crq_Status q) = ct_Phase (crq_Status s)" "same_evidence (crq_Status q) (crq_Status s)"
    "ct_Message (crq_Status q) = ct_Message (crq_Status s)"
  using assms by (auto simp: touched_def same_evidence_def)

lemma store_emit_routes [simp]:
  "cw_routes (store_status e q w) = cw_routes w" "cw_routes (emit r n w) = cw_routes w"
  "cw_routes (fst (finish E ph msg q w)) = cw_routes w"
  by (simp_all add: store_status_def emit_def finish_def split: option.splits)

lemma Reconcile_decides:
  assumes "cw_request w = Some s"
  obtains (stopped) "cw_routes (fst (Reconcile_change E w)) = cw_routes w" "cw_request (fst (Reconcile_change E w)) = Some s"
      "ce_getRequest E \<noteq> None \<or> ce_updateExpiry E \<noteq> None"
  | (decided) q w1 s1 where "touched s q" "fst (Reconcile_change E w) = fst (decide E (expiry_of s) q w1)"
      "cw_routes w1 = cw_routes w" "cw_request w1 = Some s1" "touched s s1"
proof -
  define q where "q = s\<lparr>crq_Status := (crq_Status s)\<lparr>ct_ObservedGeneration := crq_Generation s\<rparr>\<rparr>"
  define q1 where "q1 = q\<lparr>crq_Status := (crq_Status q)\<lparr>ct_ExpiresAt := Some (expiry_of q)\<rparr>\<rparr>"
  have x: "expiry_of q = expiry_of s" by (auto simp: q_def expiry_of_def Let_def split: option.splits)
  have q: "touched s q" "touched s q1"
    unfolding touched_def q1_def q_def
    by (rule exI[of _ "crq_Generation s"], rule exI[of _ "ct_ExpiresAt (crq_Status s)"], simp)
       (rule exI[of _ "crq_Generation s"], simp, blast)
  consider "ce_getRequest E \<noteq> None" | "ce_getRequest E = None" "ct_ExpiresAt (crq_Status q) = Some (expiry_of q)"
    | "ce_getRequest E = None" "ct_ExpiresAt (crq_Status q) \<noteq> Some (expiry_of q)" "ce_updateExpiry E \<noteq> None"
    | "ce_getRequest E = None" "ct_ExpiresAt (crq_Status q) \<noteq> Some (expiry_of q)" "ce_updateExpiry E = None" by blast
  then show thesis
  proof cases
    case 1
    then show thesis using assms stopped by (auto simp: Reconcile_change_def)
  next
    case 2
    then have "fst (Reconcile_change E w) = fst (decide E (expiry_of s) q w)"
      using assms x by (simp add: Reconcile_change_def Let_def q_def)
    then show thesis using decided[OF q(1) _ _ assms touched_refl] by simp
  next
    case 3
    then have "cw_routes (fst (Reconcile_change E w)) = cw_routes w" "cw_request (fst (Reconcile_change E w)) = Some s"
      using assms by (auto simp: Reconcile_change_def Let_def q_def split: option.splits)
    then show thesis using 3 stopped by simp
  next
    case 4
    then have "fst (Reconcile_change E w) = fst (decide E (expiry_of s) q1 (store_status None q1 w))"
      using assms x by (simp add: Reconcile_change_def Let_def q_def q1_def)
    moreover have "cw_request (store_status None q1 w) = Some q1" using assms by (simp add: q1_def q_def)
    ultimately show thesis using decided[OF q(2) _ _ _ q(2)] by simp
  qed
qed

lemma Reconcile_request:
  assumes "cw_request w = Some s"
  obtains q s1 where "touched s q" "touched s s1" "request_after E q s1 (fst (Reconcile_change E w))"
    "terminal (ct_Phase (crq_Status s)) \<Longrightarrow> cw_request (fst (Reconcile_change E w)) = Some s1"
proof (cases rule: Reconcile_decides[OF assms, of E])
  case 1
  then show thesis using that[OF touched_refl touched_refl] by (simp add: request_after_unchanged)
next
  case (2 q w1 s1)
  then show thesis
    using that[OF 2(1) 2(5)] request_after_decide[OF 2(4), of E q "expiry_of s"] touchedD(5)[OF 2(1)] by auto
qed

section \<open>The life of a change request\<close>

text \<open>
  A reconcile in any environment, an edit of the spec that the API server admits, and any change of
  the routes by others. \<open>reachable_cr\<close> is what such steps lead to.
\<close>

inductive cr_step :: "cr_world \<Rightarrow> cr_world \<Rightarrow> bool" where
  cr_reconcile: "cr_step w (fst (Reconcile_change E w))"
| cr_edit: "cw_request w = Some q \<Longrightarrow> edit_admitted (crq_Spec q) s \<Longrightarrow>
    cr_step w (w\<lparr>cw_request := Some (q\<lparr>crq_Spec := s, crq_Generation := g\<rparr>)\<rparr>)"
| cr_routes: "cr_step w (w\<lparr>cw_routes := rs\<rparr>)"

inductive_cases cr_stepE: "cr_step w w'"

definition fresh_status :: AIChangeRequestStatus where
  "fresh_status = \<lparr>ct_ObservedGeneration = 0, ct_Phase = '''', ct_Message = '''', ct_ActuatedAt = None,
     ct_ApprovedAt = None, ct_ApprovedScopeDigest = '''', ct_ApprovedDecisionDigest = '''', ct_ApprovedBy = '''',
     ct_ExpiresAt = None, ct_ActuatedRoutes = [], ct_Ready = None\<rparr>"

text \<open>A decision on the object by an authorized reviewer who is not the requester.\<close>

definition four_eyes :: "AIChangeRequestSpec \<Rightarrow> GOVARRouteApprovalScope \<Rightarrow> GOVARRouteApprovalDecision \<Rightarrow> bool" where
  "four_eyes s sc d \<longleftrightarrow>
     cs_Action s = AIChangeRequestActionAuthorizeGOVARRoute \<and> cs_Approval s = AIChangeRequestApprovalApproved \<and>
     cs_GOVARRouteApproval s = Some sc \<and> cs_GOVARDecision s = Some d \<and>
     dc_Outcome d = AIChangeRequestApprovalApproved \<and> cs_RequestedBy s \<noteq> '''' \<and>
     dc_ReviewerIdentity d \<noteq> cs_RequestedBy s \<and> dc_ReviewerGroup d = GOVARApprovalReviewerGroup \<and>
     dc_ScopeDigest d = sc_ScopeDigest sc"

definition request_inv :: "AIChangeRequest \<Rightarrow> bool" where
  "request_inv q \<longleftrightarrow>
     (let s = crq_Spec q; st = crq_Status q
      in (if ct_Phase st = AIChangeRequestPhaseApproved then \<exists>sc d. four_eyes s sc d \<and> approved_status sc d st
          else cleared st) \<and>
         (ct_Phase st = AIChangeRequestPhaseActuated \<longrightarrow> cs_Action s \<noteq> AIChangeRequestActionAuthorizeGOVARRoute \<and>
            cs_Approval s = AIChangeRequestApprovalApproved) \<and>
         (ct_Phase st = AIChangeRequestPhaseRejected \<longrightarrow> cs_Approval s = AIChangeRequestApprovalRejected))"

lemma justified_four_eyes: "justified E q sc d \<Longrightarrow> four_eyes (crq_Spec q) sc d"
  by (auto simp: justified_def four_eyes_def TrimSpace_def)

lemma request_inv_edit:
  assumes "request_inv q" "edit_admitted (crq_Spec q) s"
  shows "request_inv (q\<lparr>crq_Spec := s, crq_Generation := g\<rparr>)"
  using assms
  by (auto simp: request_inv_def edit_admitted_def four_eyes_def Let_def cr_approvals split: if_splits)

lemma request_inv_touched:
  assumes "touched s q"
  shows "request_inv q \<longleftrightarrow> request_inv s"
proof -
  obtain g t where q: "q = s\<lparr>crq_Status := (crq_Status s)\<lparr>ct_ObservedGeneration := g, ct_ExpiresAt := t\<rparr>\<rparr>"
    using assms unfolding touched_def by blast
  show ?thesis unfolding q by (simp add: request_inv_def approved_status_def cleared_def Let_def)
qed

lemma request_inv_written:
  assumes "request_inv q" "written E q st" "crq_Spec s = crq_Spec q"
  shows "request_inv (s\<lparr>crq_Status := st\<rparr>)"
proof -
  have st: "if ct_Phase (crq_Status q) = AIChangeRequestPhaseApproved then \<exists>sc d. four_eyes (crq_Spec q) sc d
      else cleared (crq_Status q)"
    using assms(1) by (auto simp: request_inv_def Let_def split: if_splits)
  from assms(2) consider
      "cleared st" "ct_Phase st \<in> {AIChangeRequestPhaseExpired, AIChangeRequestPhaseFailed, AIChangeRequestPhasePending}"
    | "cleared st" "ct_Phase st = AIChangeRequestPhaseRejected" "cs_Approval (crq_Spec q) = AIChangeRequestApprovalRejected"
    | sc d where "justified E q sc d" "approved_status sc d st"
    | "cs_Action (crq_Spec q) \<noteq> AIChangeRequestActionAuthorizeGOVARRoute"
       "cs_Approval (crq_Spec q) = AIChangeRequestApprovalApproved"
       "ct_Phase st \<in> {AIChangeRequestPhaseFailed, AIChangeRequestPhaseActuated}" "same_evidence st (crq_Status q)"
    unfolding written_def by blast
  then show ?thesis
  proof cases
    case 3
    then show ?thesis
      using justified_four_eyes[OF 3(1)] assms(3)
      by (auto simp: request_inv_def Let_def approved_status_def cr_phases)
  next
    case 4
    then have "cleared (crq_Status q)" using st by (auto simp: four_eyes_def split: if_splits)
    then have "cleared st" using 4(4) by (simp add: cleared_def same_evidence_def)
    then show ?thesis using 4 assms(3) by (auto simp: request_inv_def Let_def cr_phases)
  qed (use assms(3) in \<open>auto simp: request_inv_def Let_def cr_phases\<close>)
qed

lemma request_inv_step:
  assumes "cr_step w w'" "cw_request w = Some q" "request_inv q"
  shows "\<exists>q'. cw_request w' = Some q' \<and> request_inv q'"
  using assms
proof (cases rule: cr_step.cases)
  case (cr_reconcile E)
  obtain p s1 where p: "touched q p" "touched q s1" "request_after E p s1 w'"
    using Reconcile_request[OF assms(2), of E] cr_reconcile by metis
  have "request_inv s1" "request_inv p" using assms(3) p request_inv_touched by blast+
  moreover have "crq_Spec s1 = crq_Spec p" using touchedD(1)[OF p(1)] touchedD(1)[OF p(2)] by simp
  ultimately show ?thesis using p(3) request_inv_written unfolding request_after_def by blast
qed (use request_inv_edit in auto)

lemma request_inv_steps:
  "cr_step\<^sup>*\<^sup>* w w' \<Longrightarrow> cw_request w = Some q \<Longrightarrow> request_inv q \<Longrightarrow> \<exists>q'. cw_request w' = Some q' \<and> request_inv q'"
  by (induction arbitrary: q rule: converse_rtranclp_induct) (use request_inv_step in blast)+

text \<open>
  C8: Four eyes over the whole life of a change request. From a new request, by any sequence of
  reconciles, admitted edits and changes of the routes: in phase Approved the object holds the decision
  of an authorized reviewer who is not its requester, on its own scope, and the status records exactly
  that reviewer, decision and scope; in every other phase the status carries no approval evidence at
  all. An actuated request was approved, and a rejected one was rejected by its reviewer.
\<close>

theorem approval_evidence_invariant:
  assumes "cw_request w0 = Some q0" "crq_Status q0 = fresh_status" "cr_step\<^sup>*\<^sup>* w0 w" "cw_request w = Some q"
  shows "request_inv q"
proof -
  have "request_inv q0"
    using assms(2) by (simp add: request_inv_def Let_def fresh_status_def cleared_def cr_phases)
  from request_inv_steps[OF assms(3,1) this] show ?thesis using assms(4) by simp
qed

lemma terminal_step:
  assumes "cr_step w w'" "cw_request w = Some q" "terminal (ct_Phase (crq_Status q))"
  shows "\<exists>q'. cw_request w' = Some q' \<and> ct_Phase (crq_Status q') = ct_Phase (crq_Status q) \<and>
    ct_Message (crq_Status q') = ct_Message (crq_Status q) \<and> same_evidence (crq_Status q') (crq_Status q)"
  using assms
proof (cases rule: cr_step.cases)
  case (cr_reconcile E)
  obtain s1 where "touched q s1" "cw_request w' = Some s1"
    using Reconcile_request[OF assms(2), of E] cr_reconcile assms(3) by metis
  then show ?thesis using touchedD by blast
qed (auto simp: same_evidence_def)

text \<open>
  C11: Terminal phases are final: once a change request is actuated, rejected or expired, no sequence of
  reconciles, admitted edits and changes of the routes changes its phase, message or approval evidence.
\<close>

theorem terminal_phases_final:
  assumes "cr_step\<^sup>*\<^sup>* w w'" "cw_request w = Some q" "terminal (ct_Phase (crq_Status q))"
  shows "\<exists>q'. cw_request w' = Some q' \<and> ct_Phase (crq_Status q') = ct_Phase (crq_Status q) \<and>
    ct_Message (crq_Status q') = ct_Message (crq_Status q) \<and> same_evidence (crq_Status q') (crq_Status q)"
  using assms
proof (induction rule: rtranclp_induct)
  case base
  then show ?case by (simp add: same_evidence_def)
next
  case (step y z)
  then obtain q1 where q1: "cw_request y = Some q1" "ct_Phase (crq_Status q1) = ct_Phase (crq_Status q)"
    "ct_Message (crq_Status q1) = ct_Message (crq_Status q)" "same_evidence (crq_Status q1) (crq_Status q)" by blast
  show ?case
    using terminal_step[OF step(2) q1(1)] q1 step.prems(2) by (auto simp: same_evidence_def)
qed


subsection \<open>A request that is approved\<close>

lemma scope_digest_ignores: "ComputeScopeDigest T (sc\<lparr>sc_ScopeDigest := x\<rparr>) = ComputeScopeDigest T sc"
  by (cases sc) (simp only: ComputeScopeDigest_def GOVARRouteApprovalScope.simps)

lemma decision_digest_ignores:
  "ComputeDecisionDigest T (d\<lparr>dc_DecisionDigest := x\<rparr>) ns nm rq = ComputeDecisionDigest T d ns nm rq"
  by (cases d) (simp only: ComputeDecisionDigest_def GOVARRouteApprovalDecision.simps)

lemma proposal_digest_ignores:
  "ComputeProposalDigest T (s\<lparr>cs_ProposalDigest := x\<rparr>) ns nm = ComputeProposalDigest T s ns nm"
  "ComputeProposalDigest T (s\<lparr>cs_GOVARDecision := dd\<rparr>) ns nm = ComputeProposalDigest T s ns nm"
  "ComputeProposalDigest T (s\<lparr>cs_Approval := y\<rparr>) ns nm = ComputeProposalDigest T s ns nm"
  by (cases s, simp only: ComputeProposalDigest_def AIChangeRequestSpec.simps)+

lemmas digests_ignore = scope_digest_ignores decision_digest_ignores proposal_digest_ignores

lemma sha256Lower_hex [simp]: "sha256Lower (sha256_hex m)"
proof -
  have "set ''0123456789abcdef'' \<subseteq> set ''abcdef0123456789''" by simp
  then have "set (sha256_hex m) \<subseteq> set ''abcdef0123456789''" using sha256_hex_hex[of m] by (rule subset_trans[rotated])
  then show ?thesis unfolding sha256Lower_def list_all_iff using sha256_hex_length[of m] by blast
qed

lemma sha256Lower_scope [simp]: "sha256Lower (ComputeScopeDigest T sc)"
  by (simp add: ComputeScopeDigest_def)

definition example_ref :: "string \<Rightarrow> AIWorkloadBindingResolvedReference" where
  "example_ref n = \<lparr>rf_Name = n, rf_UID = ''u'', rf_Generation = 1\<rparr>"

definition example_unsealed :: GOVARRouteApprovalScope where
  "example_unsealed = \<lparr>sc_RoutingPolicy = example_ref ''policy'', sc_Model = example_ref ''model'',
     sc_Provider = example_ref ''provider'', sc_RouteSnapshotDigest = replicate 64 CHR ''0'',
     sc_ValidUntil = hour_ns, sc_ScopeDigest = ''''\<rparr>"

definition example_scope :: GOVARRouteApprovalScope where
  "example_scope = example_unsealed\<lparr>sc_ScopeDigest := ComputeScopeDigest (\<lambda>t. '''') example_unsealed\<rparr>"

definition example_unstamped :: AIChangeRequestSpec where
  "example_unstamped = \<lparr>cs_Action = AIChangeRequestActionAuthorizeGOVARRoute, cs_SourceModel = '''',
     cs_TargetModel = '''', cs_GOVARRouteApproval = Some example_scope, cs_RequestedBy = ''alice'',
     cs_ProposalDigest = '''', cs_GOVARDecision = None, cs_Reason = '''', cs_ExpectedSavingEUR = '''',
     cs_QualityScore = '''', cs_LatencyImpact = '''', cs_RiskLevel = '''', cs_ExpiresAfter = '''',
     cs_Approval = AIChangeRequestApprovalPending\<rparr>"

definition example_proposed :: AIChangeRequestSpec where
  "example_proposed = example_unstamped
     \<lparr>cs_ProposalDigest := ComputeProposalDigest (\<lambda>t. '''') example_unstamped ''ns'' ''request''\<rparr>"

definition example_undigested :: GOVARRouteApprovalDecision where
  "example_undigested = \<lparr>dc_Outcome = AIChangeRequestApprovalApproved, dc_ReviewerIdentity = ''bob'',
     dc_ReviewerGroup = GOVARApprovalReviewerGroup, dc_DecidedAt = 1, dc_ValidUntil = hour_ns,
     dc_RequestUID = ''u'', dc_AdmissionUID = ''a'', dc_ProposalDigest = cs_ProposalDigest example_proposed,
     dc_ScopeDigest = sc_ScopeDigest example_scope, dc_DecisionDigest = ''''\<rparr>"

definition example_decision :: GOVARRouteApprovalDecision where
  "example_decision = example_undigested
     \<lparr>dc_DecisionDigest := ComputeDecisionDigest (\<lambda>t. '''') example_undigested ''ns'' ''request'' ''alice''\<rparr>"

definition example_decided :: AIChangeRequestSpec where
  "example_decided = example_proposed
     \<lparr>cs_GOVARDecision := Some example_decision, cs_Approval := AIChangeRequestApprovalApproved\<rparr>"

definition example_request :: "AIChangeRequestSpec \<Rightarrow> AIChangeRequestStatus \<Rightarrow> AIChangeRequest" where
  "example_request s st = \<lparr>crq_Name = ''request'', crq_Namespace = ''ns'', crq_UID = ''u'', crq_Generation = 1,
     crq_CreationTimestamp = 0, crq_Spec = s, crq_Status = st\<rparr>"

definition example_get :: "string \<Rightarrow> ref_object result" where
  "example_get n = Inr \<lparr>ro_Name = n, ro_UID = ''u'', ro_Generation = 1, ro_ProviderRef = ''provider''\<rparr>"

definition example_cr_env :: cr_env where
  "example_cr_env = \<lparr>ce_api = json_api, ce_codec = example_codec, ce_timeJSON = \<lambda>t. '''', ce_IsNoMatch = \<lambda>e. False,
     ce_now = \<lambda>n. 2, ce_getRequest = None, ce_getRouting = example_get, ce_getModel = example_get,
     ce_getProvider = example_get, ce_listBackends = None, ce_listErr1 = None, ce_listErr2 = None,
     ce_updateRoute = \<lambda>r. None, ce_updateExpiry = None, ce_updateStatus = None\<rparr>"

definition example_cr_world :: "AIChangeRequestSpec \<Rightarrow> AIChangeRequestStatus \<Rightarrow> cr_world" where
  "example_cr_world s st = \<lparr>cw_request = Some (example_request s st), cw_routes = [], cw_events = []\<rparr>"

lemmas example_spec_defs = example_decided_def example_proposed_def example_unstamped_def
lemmas example_scope_defs = example_scope_def example_unsealed_def example_ref_def

lemma example_scope_fields:
  "sc_ValidUntil example_scope = hour_ns" "sha256Lower (sc_RouteSnapshotDigest example_scope)"
  "sc_ScopeDigest example_scope = ComputeScopeDigest (\<lambda>t. '''') example_scope"
  "sc_RoutingPolicy example_scope = example_ref ''policy''" "sc_Model example_scope = example_ref ''model''"
  "sc_Provider example_scope = example_ref ''provider''"
proof -
  show "sc_ScopeDigest example_scope = ComputeScopeDigest (\<lambda>t. '''') example_scope"
    unfolding example_scope_def by (simp only: digests_ignore) simp
qed (simp_all add: example_scope_def example_unsealed_def sha256Lower_def list_all_iff)

lemma example_proposal:
  "cs_ProposalDigest example_decided = ComputeProposalDigest (\<lambda>t. '''') example_decided ''ns'' ''request''"
  unfolding example_decided_def example_proposed_def by (simp only: digests_ignore) simp

lemma example_decision_digest:
  "dc_DecisionDigest example_decision = ComputeDecisionDigest (\<lambda>t. '''') example_decision ''ns'' ''request'' ''alice''"
  unfolding example_decision_def by (simp only: digests_ignore) simp

lemma example_decided_fields:
  "cs_Action example_decided = AIChangeRequestActionAuthorizeGOVARRoute"
  "cs_Approval example_decided = AIChangeRequestApprovalApproved" "cs_RequestedBy example_decided = ''alice''"
  "cs_GOVARRouteApproval example_decided = Some example_scope" "cs_GOVARDecision example_decided = Some example_decision"
  by (simp_all add: example_spec_defs)

lemma example_decision_fields:
  "dc_Outcome example_decision = AIChangeRequestApprovalApproved" "dc_ReviewerIdentity example_decision = ''bob''"
  "dc_ReviewerGroup example_decision = GOVARApprovalReviewerGroup" "dc_RequestUID example_decision = ''u''"
  "dc_AdmissionUID example_decision = ''a''" "dc_ScopeDigest example_decision = sc_ScopeDigest example_scope"
  "dc_ProposalDigest example_decision = cs_ProposalDigest example_decided"
  "dc_DecidedAt example_decision = 1" "dc_ValidUntil example_decision = hour_ns"
  by (simp_all add: example_decision_def example_undigested_def example_decided_def)

lemma example_decision_valid:
  "ValidateGOVARDecision (\<lambda>t. '''') (example_request example_decided st) 2 = None"
proof -
  have "TrimSpace ''alice'' \<noteq> ''''" "TrimSpace ''bob'' \<noteq> ''''" by (simp_all add: TrimSpace_def is_space_def)
  then show ?thesis
    unfolding ValidateGOVARDecision_def example_request_def Let_def
    using example_proposal example_decision_digest
    by (simp add: example_decided_fields example_decision_fields example_scope_fields cr_approvals
        zero_time_def sec_ns_def hour_ns_def)
qed

lemma example_edit_admitted: "edit_admitted example_proposed example_decided"
proof -
  have "cs_ProposalDigest example_decided \<noteq> ''''"
    unfolding example_proposal ComputeProposalDigest_def using sha256_hex_length by (metis list.size(3) zero_neq_numeral)
  then show ?thesis
    unfolding edit_admitted_def spec_valid_def
    by (simp add: example_decided_fields example_decision_fields example_scope_fields cr_approvals cr_actions)
       (simp add: example_spec_defs cr_approvals cr_actions)
qed

definition example_approved :: cr_world where
  "example_approved = fst (Reconcile_change example_cr_env (example_cr_world example_decided fresh_status))"

lemma example_approved_request:
  "\<exists>st. cw_request example_approved = Some (example_request example_decided st) \<and> ct_Phase st = AIChangeRequestPhaseApproved"
proof -
  note j = example_decision_valid
  have refs: "validateGOVARRouteReferences example_cr_env example_scope = None"
    by (simp add: validateGOVARRouteReferences_def example_scope_fields validRef_def example_ref_def example_cr_env_def
        example_get_def stale_def)
  have ok: "sha256Lower (sc_ScopeDigest example_scope)" by (simp add: example_scope_fields)
  have x: "expiry_of (example_request example_decided st) = hour_ns" for st
    by (simp add: expiry_of_def example_request_def example_decided_fields example_scope_fields)
  let ?st = "fresh_status\<lparr>ct_ObservedGeneration := 1, ct_ExpiresAt := Some hour_ns\<rparr>"
  have "fst (Reconcile_change example_cr_env (example_cr_world example_decided fresh_status)) =
      fst (approveGOVARRoute example_cr_env (example_request example_decided ?st) (example_cr_world example_decided ?st))"
    using x by (simp add: Reconcile_change_def Let_def example_cr_env_def example_cr_world_def store_status_def decide_def
        example_request_def fresh_status_def terminal_def cr_phases example_decided_fields cr_approvals hour_ns_def sec_ns_def)
  moreover have "cw_request (fst (approveGOVARRoute example_cr_env (example_request example_decided ?st)
      (example_cr_world example_decided ?st))) = Some (example_request example_decided
        (crq_Status (record_approval 2 example_scope example_decision (example_request example_decided ?st))))"
    using j refs ok example_scope_fields
    by (simp add: approveGOVARRoute_def Let_def example_cr_env_def example_cr_world_def example_request_def
        example_decided_fields hour_ns_def sec_ns_def)
  ultimately show ?thesis
    unfolding example_approved_def using record_approval_status[of example_scope example_decision]
    by (auto simp: approved_status_def)
qed

theorem approval_evidence_invariant_witness:
  "\<exists>q. cw_request example_approved = Some q \<and> ct_Phase (crq_Status q) = AIChangeRequestPhaseApproved \<and> request_inv q"
proof -
  let ?w0 = "example_cr_world example_proposed fresh_status"
  have 1: "cr_step ?w0 (example_cr_world example_decided fresh_status)"
    using cr_edit[of ?w0 "example_request example_proposed fresh_status" example_decided 1] example_edit_admitted
    by (simp add: example_cr_world_def example_request_def)
  have 2: "cr_step (example_cr_world example_decided fresh_status) example_approved"
    unfolding example_approved_def by (rule cr_reconcile)
  have s: "cr_step\<^sup>*\<^sup>* ?w0 example_approved" using 1 2 by (meson converse_rtranclp_into_rtranclp r_into_rtranclp)
  obtain st where st: "cw_request example_approved = Some (example_request example_decided st)"
    "ct_Phase st = AIChangeRequestPhaseApproved" using example_approved_request by blast
  have w0: "cw_request ?w0 = Some (example_request example_proposed fresh_status)" by (simp add: example_cr_world_def)
  have "request_inv (example_request example_decided st)"
    using approval_evidence_invariant[OF w0 _ s st(1)] by (simp add: example_request_def)
  then show ?thesis using st by (auto simp: example_request_def)
qed

theorem terminal_phases_final_witness:
  "\<exists>q'. cw_request (fst (Reconcile_change example_cr_env (example_cr_world example_proposed
      (fresh_status\<lparr>ct_Phase := AIChangeRequestPhaseExpired\<rparr>)))) = Some q' \<and> ct_Phase (crq_Status q') = AIChangeRequestPhaseExpired"
proof -
  let ?st = "fresh_status\<lparr>ct_Phase := AIChangeRequestPhaseExpired\<rparr>"
  have "cr_step\<^sup>*\<^sup>* (example_cr_world example_proposed ?st)
      (fst (Reconcile_change example_cr_env (example_cr_world example_proposed ?st)))"
    by (intro r_into_rtranclp cr_reconcile)
  from terminal_phases_final[OF this, of "example_request example_proposed ?st"] show ?thesis
    by (auto simp: example_cr_world_def example_request_def terminal_def)
qed


subsection \<open>What a reconcile may touch\<close>

lemma approve_routes [simp]: "cw_routes (fst (approveGOVARRoute E q w)) = cw_routes w"
  by (simp add: approveGOVARRoute_def Let_def split: option.splits)

lemma decide_routes:
  assumes "cw_routes (fst (decide E x q w)) \<noteq> cw_routes w"
  shows "cs_Action (crq_Spec q) \<noteq> AIChangeRequestActionAuthorizeGOVARRoute \<and>
    cs_Approval (crq_Spec q) = AIChangeRequestApprovalApproved \<and> \<not> terminal (ct_Phase (crq_Status q)) \<and> ce_now E 0 < x"
  using assms
  by (auto simp: decide_def Let_def split_def cr_approvals split: if_splits option.splits)

text \<open>
  C9: The human in the loop. A reconcile that changes any route of the namespace acts on a reroute
  request which its reviewer has approved, which is not settled, and whose expiry lies ahead; a
  request without approval, rejected, expired or for a bounded authorization changes no route.
\<close>

theorem routes_change_only_approved:
  assumes "cw_routes (fst (Reconcile_change E w)) \<noteq> cw_routes w"
  shows "\<exists>q. cw_request w = Some q \<and> cs_Action (crq_Spec q) \<noteq> AIChangeRequestActionAuthorizeGOVARRoute \<and>
    cs_Approval (crq_Spec q) = AIChangeRequestApprovalApproved \<and> \<not> terminal (ct_Phase (crq_Status q)) \<and>
    ce_now E 0 < expiry_of q"
proof (cases "cw_request w")
  case None
  then show ?thesis using assms by (simp add: Reconcile_change_def split: option.splits)
next
  case (Some s)
  show ?thesis
  proof (cases rule: Reconcile_decides[OF Some, of E])
    case 1
    then show ?thesis using assms by simp
  next
    case (2 q w1 s1)
    then show ?thesis using assms Some decide_routes[of E "expiry_of s" q w1] touchedD[OF 2(1)] by simp
  qed
qed


subsection \<open>Every authorization ends\<close>

text \<open>The reads and status updates of a reconcile succeed.\<close>

definition healthy :: "cr_env \<Rightarrow> bool" where
  "healthy E \<longleftrightarrow> ce_getRequest E = None \<and> ce_updateExpiry E = None \<and> ce_updateStatus E = None"

lemma decide_expired:
  assumes "cw_request w = Some s1" "ce_updateStatus E = None" "x \<le> ce_now E 0"
    and "terminal (ct_Phase (crq_Status q)) \<Longrightarrow> terminal (ct_Phase (crq_Status s1))"
  shows "\<exists>q'. cw_request (fst (decide E x q w)) = Some q' \<and> terminal (ct_Phase (crq_Status q'))"
  using assms by (auto simp: decide_def Let_def terminal_def)

lemma Reconcile_expired:
  assumes "cw_request w = Some s" "healthy E" "expiry_of s \<le> ce_now E 0"
  shows "\<exists>q'. cw_request (fst (Reconcile_change E w)) = Some q' \<and> terminal (ct_Phase (crq_Status q'))"
proof (cases rule: Reconcile_decides[OF assms(1), of E])
  case 1
  then show ?thesis using assms(2) by (simp add: healthy_def)
next
  case (2 q w1 s1)
  then show ?thesis
    using decide_expired[OF 2(4), of E "expiry_of s" q] assms(2,3) touchedD(5)[OF 2(1)] touchedD(5)[OF 2(5)]
    by (simp add: healthy_def)
qed

text \<open>A bounded authorization keeps its action and scope in every step.\<close>

definition authorizes :: "GOVARRouteApprovalScope \<Rightarrow> cr_world \<Rightarrow> bool" where
  "authorizes sc w \<longleftrightarrow> (\<exists>q. cw_request w = Some q \<and>
     cs_Action (crq_Spec q) = AIChangeRequestActionAuthorizeGOVARRoute \<and> cs_GOVARRouteApproval (crq_Spec q) = Some sc)"

lemma authorizes_step:
  assumes "cr_step w w'" "authorizes sc w"
  shows "authorizes sc w'"
  using assms(1)
proof (cases rule: cr_step.cases)
  case (cr_reconcile E)
  obtain s where s: "cw_request w = Some s" "cs_Action (crq_Spec s) = AIChangeRequestActionAuthorizeGOVARRoute"
    "cs_GOVARRouteApproval (crq_Spec s) = Some sc" using assms(2) unfolding authorizes_def by blast
  obtain q s1 where r: "touched s s1" "request_after E q s1 w'"
    using Reconcile_request[OF s(1), of E] cr_reconcile by metis
  then show ?thesis using s touchedD(1)[OF r(1)] by (auto simp: authorizes_def request_after_def)
qed (use assms(2) in \<open>auto simp: authorizes_def edit_admitted_def\<close>)

lemma authorizes_run: "(\<And>n. cr_step (run n) (run (Suc n))) \<Longrightarrow> authorizes sc (run 0) \<Longrightarrow> authorizes sc (run n)"
  by (induction n) (auto intro: authorizes_step)

lemma terminal_run:
  assumes "\<And>n. cr_step (run n) (run (Suc n))" "cw_request (run k) = Some q" "terminal (ct_Phase (crq_Status q))" "k \<le> m"
  shows "\<exists>q'. cw_request (run m) = Some q' \<and> ct_Phase (crq_Status q') = ct_Phase (crq_Status q)"
  using assms(4)
proof (induction m rule: dec_induct)
  case base
  then show ?case using assms(2) by blast
next
  case (step n)
  then show ?case using terminal_step[OF assms(1)[of n]] assms(3) by metis
qed

text \<open>
  C10: Every bounded authorization ends. In any infinite run of reconciles, admitted edits and changes
  of the routes in which, past every point of time, some reconcile whose reads and updates succeed
  takes place, a request for a bounded authorization reaches a terminal phase and stays in it, whatever
  was decided and edited on the way: the reviewer's absolute bound cannot be moved.
\<close>

theorem authorization_ends:
  assumes "\<forall>n. cr_step (run n) (run (Suc n))" "authorizes sc (run 0)"
    and "\<forall>t. \<exists>n E. run (Suc n) = fst (Reconcile_change E (run n)) \<and> healthy E \<and> t \<le> ce_now E 0"
  shows "\<exists>n ph. terminal ph \<and> (\<forall>m\<ge>n. \<exists>q. cw_request (run m) = Some q \<and> ct_Phase (crq_Status q) = ph)"
proof -
  obtain n E where n: "run (Suc n) = fst (Reconcile_change E (run n))" "healthy E" "sc_ValidUntil sc \<le> ce_now E 0"
    using assms(3) by blast
  obtain s where s: "cw_request (run n) = Some s" "expiry_of s = sc_ValidUntil sc"
    using authorizes_run[of run sc n] assms(1,2) by (auto simp: authorizes_def expiry_of_def Let_def)
  obtain q where q: "cw_request (run (Suc n)) = Some q" "terminal (ct_Phase (crq_Status q))"
    using Reconcile_expired[OF s(1) n(2)] n(1,3) s(2) by auto
  then show ?thesis using terminal_run[of run "Suc n" q] assms(1) by blast
qed

text \<open>The example's environment at a later time, and the run that only reconciles.\<close>

definition later :: "int \<Rightarrow> cr_env" where
  "later t = example_cr_env\<lparr>ce_now := \<lambda>n. t\<rparr>"

fun example_run :: "nat \<Rightarrow> cr_world" where
  "example_run 0 = example_cr_world example_proposed fresh_status"
| "example_run (Suc n) = fst (Reconcile_change (later (int n)) (example_run n))"

theorem authorization_ends_witness:
  "\<exists>n ph. terminal ph \<and> (\<forall>m\<ge>n. \<exists>q. cw_request (example_run m) = Some q \<and> ct_Phase (crq_Status q) = ph)"
proof (rule authorization_ends[of _ example_scope])
  show "\<forall>n. cr_step (example_run n) (example_run (Suc n))" by (simp add: cr_reconcile)
  show "authorizes example_scope (example_run 0)"
    by (simp add: authorizes_def example_cr_world_def example_request_def example_spec_defs)
  have "example_run (Suc (nat t)) = fst (Reconcile_change (later (int (nat t))) (example_run (nat t))) \<and>
      healthy (later (int (nat t))) \<and> t \<le> ce_now (later (int (nat t))) 0" for t
    by (simp add: healthy_def later_def example_cr_env_def)
  then show "\<forall>t. \<exists>n E. example_run (Suc n) = fst (Reconcile_change E (example_run n)) \<and> healthy E \<and> t \<le> ce_now E 0"
    by blast
qed


subsection \<open>An approved reroute\<close>

text \<open>
  C12: An approved reroute does nothing unless the backend of its target is itself the name of a routed
  model. The controller passes the backend's name where the actuation expects a model: the lookup of
  that name fails, so the request is reported Failed as if no route served its source model, and every
  rule of the source model stays as it was, although all calls succeed and the target has a backend.
\<close>

theorem approved_reroute_needs_model_named_backend:
  assumes "gateway (ce_api E) (ce_codec E)" "cw_request w = Some stored"
    and "ct_Phase (crq_Status q) \<noteq> AIChangeRequestPhaseActuated"
    and "ce_listBackends E = None" "ce_listErr1 E = None" "ce_listErr2 E = None" "ce_updateStatus E = None"
    and "\<forall>r. ce_updateRoute E r = None"
    and "modelBackends (ce_api E) (Inr (cw_routes w)) = Inr mb"
    and "map_of mb (cs_TargetModel (crq_Spec q)) = Some backend" "map_of mb backend = None"
  shows "(\<exists>q'. cw_request (fst (cr_actuate E q w)) = Some q' \<and> ct_Phase (crq_Status q') = AIChangeRequestPhaseFailed) \<and>
    list_all2 (\<lambda>r r'. list_all2 (\<lambda>j j'. json_model (ce_api E) j' = json_model (ce_api E) j \<and>
        (json_model (ce_api E) j = cs_SourceModel (crq_Spec q) \<and> routed (ce_api E) j \<longrightarrow> j' = j))
      (route_rules (ce_api E) r) (route_rules (ce_api E) r')) (cw_routes w) (cw_routes (fst (cr_actuate E q w)))"
proof -
  obtain routes' actuated where a: "actuateReroutesWithAnnotation (ce_api E) (ce_codec E) (ce_IsNoMatch E)
      (ce_updateRoute E) None None (cw_routes w) [(cs_SourceModel (crq_Spec q), backend)] changeRequestAnnotation =
      (routes', actuated, None)"
    using actuate_reroutes_no_error[OF assms(8)] by (metis prod_cases3 snd_conv)
  have g: "get mb backend = ''''" using assms(11) by (simp add: get_def)
  note u = gateway.reroute_unroutable[OF assms(1) a assms(9) g]
  have "fst (cr_actuate E q w) = store_status None (cr_setPhase AIChangeRequestPhaseFailed
      (render ''no AIGatewayRoute found routing model %q'' [cs_SourceModel (crq_Spec q)]) q) (w\<lparr>cw_routes := routes'\<rparr>)"
    using assms(3-7,9,10) a u(1) by (simp add: cr_actuate_def Let_def)
  then show ?thesis using assms(2) u(2) by simp
qed

definition example_reroute :: AIChangeRequestSpec where
  "example_reroute = example_unstamped\<lparr>cs_Action := AIChangeRequestActionReroute, cs_SourceModel := ''us'',
     cs_TargetModel := ''eu'', cs_GOVARRouteApproval := None, cs_Approval := AIChangeRequestApprovalApproved\<rparr>"

definition reroute_world :: "string \<Rightarrow> cr_world" where
  "reroute_world eu_backend = (example_cr_world example_reroute fresh_status)
     \<lparr>cw_routes := [example_route [example_rule ''us'' ''us-be'', example_rule ''eu'' eu_backend]]\<rparr>"

lemma reroute_backends:
  "b \<noteq> '''' \<Longrightarrow> b \<noteq> BlockBackendName \<Longrightarrow>
    modelBackends json_api (Inr (cw_routes (reroute_world b))) = Inr [(''us'', ''us-be''), (''eu'', b)]"
  by (simp add: modelBackends_def reroute_world_def json_api.backend_step_cases BlockBackendName_def)

theorem approved_reroute_needs_model_named_backend_witness:
  "\<exists>q'. cw_request (fst (cr_actuate example_cr_env (example_request example_reroute fresh_status) (reroute_world ''eu-be''))) = Some q' \<and>
     ct_Phase (crq_Status q') = AIChangeRequestPhaseFailed"
proof -
  have "modelBackends json_api (Inr (cw_routes (reroute_world ''eu-be''))) = Inr [(''us'', ''us-be''), (''eu'', ''eu-be'')]"
    by (rule reroute_backends) (simp_all add: BlockBackendName_def)
  then show ?thesis
    using approved_reroute_needs_model_named_backend[of example_cr_env "reroute_world ''eu-be''" "example_request example_reroute fresh_status"
        "example_request example_reroute fresh_status" "[(''us'', ''us-be''), (''eu'', ''eu-be'')]" "''eu-be''"]
      example_gateway.gateway_axioms
    by (simp add: example_cr_env_def reroute_world_def example_cr_world_def example_request_def fresh_status_def
        example_reroute_def cr_phases)
qed

text \<open>With a backend named as its model the approved reroute changes the routes.\<close>

definition views :: "route list \<Rightarrow> (json option \<times> json option) option list list" where
  "views rs = map (\<lambda>r. map (backend_view json_api) (route_rules json_api r)) rs"

lemma reroute_views:
  "views (fst (actuateReroutesWithAnnotation json_api example_codec (\<lambda>e. False) (\<lambda>r. None) None None
     (cw_routes (reroute_world ''eu'')) [(''us'', ''eu'')] changeRequestAnnotation)) =
   [[Some (Some (JStr ''eu''), Some (body_mutation ''eu'')), Some (Some (JStr ''eu''), None)]]"
  by (simp add: views_def reroute_world_def actuateReroutesWithAnnotation_def interplay_eval backend_view_def
      changeRequestAnnotation_def)

lemma reroute_views_before: "views (cw_routes (reroute_world ''eu'')) =
   [[Some (Some (JStr ''us-be''), None), Some (Some (JStr ''eu''), None)]]"
  by (simp add: views_def reroute_world_def)

lemma reroute_reconcile:
  "cw_routes (fst (Reconcile_change example_cr_env (reroute_world ''eu''))) =
     fst (actuateReroutesWithAnnotation json_api example_codec (\<lambda>e. False) (\<lambda>r. None) None None
       (cw_routes (reroute_world ''eu'')) [(''us'', ''eu'')] changeRequestAnnotation)"
proof -
  let ?w = "reroute_world ''eu''" and ?E = example_cr_env
  have b: "modelBackends json_api (Inr (cw_routes ?w)) = Inr [(''us'', ''us-be''), (''eu'', ''eu'')]"
    by (rule reroute_backends) (simp_all add: BlockBackendName_def)
  have f: "cs_SourceModel example_reroute = ''us''" "cs_TargetModel example_reroute = ''eu''"
    "cs_Action example_reroute = AIChangeRequestActionReroute" "cs_Approval example_reroute = AIChangeRequestApprovalApproved"
    "cs_ExpiresAfter example_reroute = ''''" by (simp_all add: example_reroute_def example_unstamped_def)
  have x: "expiry_of (example_request example_reroute st) = 48 * hour_ns" for st
    by (simp add: expiry_of_def f cr_actions example_request_def ParseDuration_def defaultExpiresAfter_def)
  have E: "ce_api ?E = json_api" "ce_codec ?E = example_codec" "ce_listBackends ?E = None" "ce_listErr1 ?E = None"
    "ce_listErr2 ?E = None" "ce_updateRoute ?E = (\<lambda>r. None)" "ce_IsNoMatch ?E = (\<lambda>e. False)" "ce_getRequest ?E = None"
    "ce_updateExpiry ?E = None" "ce_now ?E = (\<lambda>n. 2)" by (simp_all add: example_cr_env_def)
  have d: "fst (Reconcile_change ?E ?w) = fst (decide ?E (48 * hour_ns)
      (example_request example_reroute (fresh_status\<lparr>ct_ObservedGeneration := 1, ct_ExpiresAt := Some (48 * hour_ns)\<rparr>))
      (store_status None (example_request example_reroute (fresh_status\<lparr>ct_ObservedGeneration := 1, ct_ExpiresAt := Some (48 * hour_ns)\<rparr>)) ?w))"
    using x by (simp add: Reconcile_change_def E Let_def reroute_world_def example_cr_world_def example_request_def fresh_status_def)
  have a: "cw_routes (fst (cr_actuate ?E (example_request example_reroute st) w1)) =
      fst (actuateReroutesWithAnnotation json_api example_codec (\<lambda>e. False) (\<lambda>r. None) None None
       (cw_routes ?w) [(''us'', ''eu'')] changeRequestAnnotation)"
    if "cw_routes w1 = cw_routes ?w" "ct_Phase st = ''''" for st w1
    using b that by (simp add: cr_actuate_def E Let_def f example_request_def cr_phases split_def split: option.splits)
  show ?thesis
    unfolding d by (simp add: decide_def Let_def E f example_request_def terminal_def fresh_status_def cr_phases cr_approvals
        cr_actions hour_ns_def sec_ns_def a[unfolded example_request_def fresh_status_def])
qed

theorem routes_change_only_approved_witness:
  "cs_Approval example_reroute = AIChangeRequestApprovalApproved \<and> ce_now example_cr_env 0 < expiry_of (example_request example_reroute fresh_status)"
proof -
  let ?w = "reroute_world ''eu''"
  have "cw_routes (fst (Reconcile_change example_cr_env ?w)) \<noteq> cw_routes ?w"
  proof
    assume "cw_routes (fst (Reconcile_change example_cr_env ?w)) = cw_routes ?w"
    then show False using reroute_views reroute_views_before unfolding reroute_reconcile by simp
  qed
  from routes_change_only_approved[OF this] show ?thesis
    by (auto simp: reroute_world_def example_cr_world_def example_request_def)
qed

end
