(* ===== verification/Routeoverride.thy ===== *)
theory Routeoverride
  imports GoText Gatewayactuator Apitypes
begin

section \<open>Manual overrides (airoute_override_types.go, airoute_override_controller.go)\<close>

text \<open>
  The AIRouteOverrides of a namespace, the routes they redirect, and one run of their controller.
  Client calls are the environment; the API server drops an object under deletion with its last finalizer.
\<close>

definition routeOverrideFinalizer :: string where "routeOverrideFinalizer = ''aiops.imperium.io/route-override''"
definition routeOverrideAnnotation :: string where "routeOverrideAnnotation = ''aiops.imperium.io/manual-reroutes''"

definition AIRouteOverrideActuated :: string where "AIRouteOverrideActuated = ''Actuated''"
definition AIRouteOverrideFailed :: string where "AIRouteOverrideFailed = ''Failed''"

lemmas override_phases = AIRouteOverrideActuated_def AIRouteOverrideFailed_def

record AIRouteOverrideSpec =
  or_SourceModel :: string
  or_TargetModel :: string
  or_Reason :: string

record AIRouteOverrideStatus =
  ot_ObservedGeneration :: int64
  ot_Phase :: string
  ot_Message :: string
  ot_ActuatedRoutes :: "string list"
  ot_Ready :: "Condition option"

record AIRouteOverride =
  ov_Namespace :: string
  ov_Generation :: int64
  ov_Deleting :: bool
  ov_Finalizers :: "string list"
  ov_Spec :: AIRouteOverrideSpec
  ov_Status :: AIRouteOverrideStatus

subsection \<open>Environment and world\<close>

record ov_env =
  oe_api :: unstructured_api
  oe_codec :: saved_codec
  oe_IsNoMatch :: "go_error \<Rightarrow> bool"
  oe_get :: "go_error option"
  oe_listBackends :: "go_error option"
  oe_listErr1 :: "go_error option"
  oe_listErr2 :: "go_error option"
  oe_updateRoute :: "route \<Rightarrow> go_error option"
  oe_update :: "go_error option"
  oe_updateStatus :: "go_error option"

record ov_world =
  ow_overrides :: "(string, AIRouteOverride) gomap"
  ow_routes :: "route list"
  ow_events :: "(string \<times> string) list"

type_synonym ov_outcome = "int \<times> go_error option"

definition store_override :: "go_error option \<Rightarrow> string \<Rightarrow> AIRouteOverride \<Rightarrow> ov_world \<Rightarrow> ov_world" where
  "store_override e name o1 w =
     (case e of
        Some _ \<Rightarrow> w
      | None \<Rightarrow> w\<lparr>ow_overrides := (if ov_Deleting o1 \<and> ov_Finalizers o1 = [] then AList.delete name (ow_overrides w)
          else AList.update name o1 (ow_overrides w))\<rparr>)"

subsection \<open>The controller\<close>

definition ov_setStatus :: "string \<Rightarrow> string \<Rightarrow> AIRouteOverride \<Rightarrow> AIRouteOverride" where
  "ov_setStatus phase msg o1 =
     (let condStatus = (phase = AIRouteOverrideActuated);
          reason = (if phase = AIRouteOverrideFailed then ReasonReconcileError else ReasonReconciled)
      in o1\<lparr>ov_Status := (ov_Status o1)\<lparr>ot_Phase := phase, ot_Message := msg,
           ot_Ready := Some (readyCondition (ov_Generation o1) condStatus reason msg)\<rparr>\<rparr>)"

definition ov_reroutes :: "ov_env \<Rightarrow> route list \<Rightarrow> (string, string) gomap \<Rightarrow> route list \<times> string list \<times> go_error option" where
  "ov_reroutes E routes desired =
     actuateReroutesWithAnnotation (oe_api E) (oe_codec E) (oe_IsNoMatch E) (oe_updateRoute E)
       (oe_listErr1 E) (oe_listErr2 E) routes desired routeOverrideAnnotation"

definition ov_delete :: "ov_env \<Rightarrow> string \<Rightarrow> AIRouteOverride \<Rightarrow> ov_world \<Rightarrow> ov_world \<times> ov_outcome" where
  "ov_delete E name o1 w =
     (if routeOverrideFinalizer \<in> set (ov_Finalizers o1) then
        (let (routes', _, _) = ov_reroutes E (ow_routes w) [];
             o2 = o1\<lparr>ov_Finalizers := filter (\<lambda>f. f \<noteq> routeOverrideFinalizer) (ov_Finalizers o1)\<rparr>
         in (store_override (oe_update E) name o2 (w\<lparr>ow_routes := routes'\<rparr>), (0, oe_update E)))
      else (w, (0, None)))"

definition ov_apply :: "ov_env \<Rightarrow> string \<Rightarrow> AIRouteOverride \<Rightarrow> ov_world \<Rightarrow> ov_world \<times> ov_outcome" where
  "ov_apply E name o0 w =
     (let o1 = o0\<lparr>ov_Status := (ov_Status o0)\<lparr>ot_ObservedGeneration := ov_Generation o0\<rparr>\<rparr>;
          s = ov_Spec o1; store = store_override (oe_updateStatus E) name
      in case modelBackends (oe_api E) (case oe_listBackends E of Some e \<Rightarrow> Inl e | None \<Rightarrow> Inr (ow_routes w)) of
           Inl e \<Rightarrow>
             (if oe_IsNoMatch E e then
                (store (ov_setStatus AIRouteOverrideFailed ''Envoy AI Gateway AIGatewayRoute CRD not found in cluster'' o1) w,
                 (5 * minute_ns, None))
              else (w, (0, Some e)))
         | Inr mb \<Rightarrow>
             (case map_of mb (or_TargetModel s) of
                None \<Rightarrow>
                  (store (ov_setStatus AIRouteOverrideFailed
                     (render ''target model %q has no AIGatewayRoute backend in namespace %q''
                       [or_TargetModel s, ov_Namespace o1]) o1) w, (60 * sec_ns, None))
              | Some targetBackend \<Rightarrow>
                  (let (routes', actuated, err) = ov_reroutes E (ow_routes w) [(or_SourceModel s, targetBackend)];
                       w1 = w\<lparr>ow_routes := routes'\<rparr>
                   in case err of
                        Some e \<Rightarrow> (w1, (0, Some e))
                      | None \<Rightarrow>
                          if or_SourceModel s \<notin> set actuated then
                            (store (ov_setStatus AIRouteOverrideFailed
                               (render ''no AIGatewayRoute found routing model %q in namespace %q''
                                 [or_SourceModel s, ov_Namespace o1]) o1) w1, (60 * sec_ns, oe_updateStatus E))
                          else
                            (store (ov_setStatus AIRouteOverrideActuated
                               (''rerouted '' @ fmt_q (or_SourceModel s) @ arrow @ fmt_q (or_TargetModel s) @
                                '' (backend: '' @ targetBackend @ '')'')
                               (o1\<lparr>ov_Status := (ov_Status o1)\<lparr>ot_ActuatedRoutes := actuated\<rparr>\<rparr>))
                               (w1\<lparr>ow_events := ow_events w1 @ [(''RouteActuated'',
                                  ''Rerouted '' @ or_SourceModel s @ arrow @ or_TargetModel s @
                                  '' (backend: '' @ targetBackend @ '')'')]\<rparr>), (60 * sec_ns, oe_updateStatus E)))))"

definition Reconcile_override :: "ov_env \<Rightarrow> string \<Rightarrow> ov_world \<Rightarrow> ov_world \<times> ov_outcome" where
  "Reconcile_override E name w =
     (case (oe_get E, map_of (ow_overrides w) name) of
        (Some e, _) \<Rightarrow> (w, (0, Some e))
      | (None, None) \<Rightarrow> (w, (0, None))
      | (None, Some o1) \<Rightarrow>
          if ov_Deleting o1 then ov_delete E name o1 w
          else if routeOverrideFinalizer \<notin> set (ov_Finalizers o1) then
            (store_override (oe_update E) name
               (o1\<lparr>ov_Finalizers := ov_Finalizers o1 @ [routeOverrideFinalizer]\<rparr>) w, (0, oe_update E))
          else ov_apply E name o1 w)"


section \<open>Overrides and the routes\<close>

text \<open>A run of the controller on any override, or any creation, edit or deletion of overrides.\<close>

inductive ov_step :: "unstructured_api \<Rightarrow> saved_codec \<Rightarrow> ov_world \<Rightarrow> ov_world \<Rightarrow> bool" for K C where
  ov_reconcile: "oe_api E = K \<Longrightarrow> oe_codec E = C \<Longrightarrow> ov_step K C w (fst (Reconcile_override E name w))"
| ov_users: "ov_step K C w (w\<lparr>ow_overrides := os\<rparr>)"

lemma store_override_routes [simp]: "ow_routes (store_override e name o1 w) = ow_routes w"
  by (simp add: store_override_def split: option.splits)

text \<open>The error test only matters without a kind to list, and then the routes stay as they are.\<close>

lemma actuate_fst:
  "fst (actuateRouteControlsWithAnnotation K C nm upd e1 e2 rs d b key) =
   fst (actuateRouteControlsWithAnnotation K C nm' upd e1 e2 rs d b key)"
  by (auto simp: actuateRouteControlsWithAnnotation_def Let_def split: sum.splits option.splits)

lemma ov_reroutes_runs:
  assumes "oe_api E = K" "oe_codec E = C"
  shows "\<exists>p. fst (ov_reroutes E rs d) = cluster_runs K C nm routeOverrideAnnotation [p] rs"
proof -
  let ?p = "\<lparr>ps_reroutes = d, ps_blocked = [], ps_update = oe_updateRoute E, ps_listErr1 = oe_listErr1 E, ps_listErr2 = oe_listErr2 E\<rparr>"
  have "fst (ov_reroutes E rs d) = cluster_runs K C nm routeOverrideAnnotation [?p] rs"
    using assms actuate_fst[of K C "oe_IsNoMatch E" _ _ _ _ _ _ _ nm]
    by (simp add: ov_reroutes_def actuateReroutesWithAnnotation_def Let_def split_def)
  then show ?thesis by blast
qed

lemma Reconcile_override_routes:
  "ow_routes (fst (Reconcile_override E name w)) = ow_routes w \<or>
   (\<exists>d. ow_routes (fst (Reconcile_override E name w)) = fst (ov_reroutes E (ow_routes w) d))"
  by (auto simp: Reconcile_override_def ov_delete_def ov_apply_def Let_def split: option.splits sum.splits prod.splits)
     (metis fst_conv)+

lemma ov_steps_routes:
  assumes "(ov_step K C)\<^sup>*\<^sup>* w w'"
  shows "\<exists>ps. ow_routes w' = cluster_runs K C nm routeOverrideAnnotation ps (ow_routes w)"
  using assms
proof (induction rule: rtranclp_induct)
  case base
  have "ow_routes w = cluster_runs K C nm routeOverrideAnnotation [] (ow_routes w)" by simp
  then show ?case by blast
next
  case (step y z)
  then obtain ps where ps: "ow_routes y = cluster_runs K C nm routeOverrideAnnotation ps (ow_routes w)" by blast
  from step(2) show ?case
  proof cases
    case (ov_reconcile E name)
    then consider "ow_routes z = ow_routes y" | d where "ow_routes z = fst (ov_reroutes E (ow_routes y) d)"
      using Reconcile_override_routes[of E name y] by blast
    then show ?thesis
    proof cases
      case 2
      obtain p where "fst (ov_reroutes E (ow_routes y) d) = cluster_runs K C nm routeOverrideAnnotation [p] (ow_routes y)"
        using ov_reroutes_runs ov_reconcile(2,3) by blast
      then have "ow_routes z = cluster_runs K C nm routeOverrideAnnotation (ps @ [p]) (ow_routes w)"
        using 2 ps by (simp add: cluster_runs_append)
      then show ?thesis by blast
    qed (use ps in auto)
  qed (use ps in auto)
qed


lemma ov_delete_routes:
  assumes "map_of (ow_overrides w) name = Some o1" "ov_Deleting o1" "routeOverrideFinalizer \<in> set (ov_Finalizers o1)"
    and "oe_get E = None" "oe_listErr1 E = None" "oe_listErr2 E = None" "\<forall>r. oe_updateRoute E r = None"
  shows "ow_routes (fst (Reconcile_override E name w)) =
    cluster_runs (oe_api E) (oe_codec E) nm routeOverrideAnnotation [release_pass] (ow_routes w)"
proof -
  have u: "oe_updateRoute E = (\<lambda>r. None)" using assms(7) by blast
  show ?thesis
    using assms(1-6) actuate_fst[of "oe_api E" "oe_codec E" "oe_IsNoMatch E" _ _ _ _ _ _ _ nm]
    by (simp add: Reconcile_override_def ov_delete_def Let_def split_def ov_reroutes_def u release_pass_def
        actuateReroutesWithAnnotation_def)
qed

text \<open>
  C13: Deleting an override leaves no trace on plain routes: after any history of creations, edits and
  deletions of overrides and of runs of the controller on any of them, under any outcome of their calls, the
  run on an override under deletion (with its finalizer) whose calls on routes succeed restores the rules of
  every route to what they were before the history, also those which other overrides of the namespace
  still redirect. It is assumed of every route before the history that its rules route distinct models,
  that their first backends have a name and no body mutation, and that it keeps no originals in
  the annotation of the overrides; with two rules for one model it fails
  (\<open>ApplyControls_duplicate_model_stays_blocked\<close>).
\<close>

theorem override_deletion_restores:
  assumes "gateway K C" "(ov_step K C)\<^sup>*\<^sup>* w0 w"
    and "\<forall>r \<in> set (ow_routes w0). distinct_models K (route_rules K r) \<and>
      (\<forall>j \<in> set (route_rules K r). plain_rule K j) \<and> saved_of C routeOverrideAnnotation r = []"
    and "map_of (ow_overrides w) name = Some o1" "ov_Deleting o1" "routeOverrideFinalizer \<in> set (ov_Finalizers o1)"
    and "oe_api E = K" "oe_codec E = C" "oe_get E = None" "oe_listErr1 E = None" "oe_listErr2 E = None"
    and "\<forall>r. oe_updateRoute E r = None"
  shows "map (route_rules K) (ow_routes (fst (Reconcile_override E name w))) = map (route_rules K) (ow_routes w0)"
proof -
  obtain ps where ps: "ow_routes w = cluster_runs K C (\<lambda>e. False) routeOverrideAnnotation ps (ow_routes w0)"
    using ov_steps_routes[OF assms(2)] by blast
  have "ow_routes (fst (Reconcile_override E name w)) =
      cluster_runs K C (\<lambda>e. False) routeOverrideAnnotation (ps @ [release_pass]) (ow_routes w0)"
    using ov_delete_routes[OF assms(4,5,6,9,10,11,12), of "\<lambda>e. False"] assms(7,8) ps
    by (simp add: cluster_runs_append)
  then show ?thesis using gateway.cluster_runs_release[OF assms(1,3)] by simp
qed

text \<open>Two overrides of one namespace, on routes whose backends are named as their models.\<close>

definition example_ov_env :: ov_env where
  "example_ov_env = \<lparr>oe_api = json_api, oe_codec = example_codec, oe_IsNoMatch = \<lambda>e. False, oe_get = None,
     oe_listBackends = None, oe_listErr1 = None, oe_listErr2 = None, oe_updateRoute = \<lambda>r. None, oe_update = None,
     oe_updateStatus = None\<rparr>"

definition example_override :: "bool \<Rightarrow> string \<Rightarrow> string \<Rightarrow> AIRouteOverride" where
  "example_override deleting src tgt = \<lparr>ov_Namespace = ''ns'', ov_Generation = 1, ov_Deleting = deleting,
     ov_Finalizers = [routeOverrideFinalizer],
     ov_Spec = \<lparr>or_SourceModel = src, or_TargetModel = tgt, or_Reason = ''''\<rparr>,
     ov_Status = \<lparr>ot_ObservedGeneration = 0, ot_Phase = '''', ot_Message = '''', ot_ActuatedRoutes = [], ot_Ready = None\<rparr>\<rparr>"

definition example_ov_world :: ov_world where
  "example_ov_world = \<lparr>ow_overrides = [(''a'', example_override False ''m1'' ''m3''), (''b'', example_override False ''m2'' ''m3'')],
     ow_routes = [example_route [example_rule ''m1'' ''m1'', example_rule ''m2'' ''m2'', example_rule ''m3'' ''m3'']], ow_events = []\<rparr>"

theorem override_deletion_restores_witness:
  "\<exists>w. map (route_rules json_api) (ow_routes (fst (Reconcile_override example_ov_env ''a'' w))) =
     [[example_rule ''m1'' ''m1'', example_rule ''m2'' ''m2'', example_rule ''m3'' ''m3'']]"
proof -
  let ?w1 = "fst (Reconcile_override example_ov_env ''b'' (fst (Reconcile_override example_ov_env ''a'' example_ov_world)))"
  let ?w = "?w1\<lparr>ow_overrides := [(''a'', example_override True ''m1'' ''m3'')]\<rparr>"
  have e: "oe_api example_ov_env = json_api" "oe_codec example_ov_env = example_codec" by (simp_all add: example_ov_env_def)
  note s = ov_reconcile[OF e]
  have "(ov_step json_api example_codec)\<^sup>*\<^sup>* example_ov_world ?w"
    by (rule rtranclp.rtrancl_into_rtrancl[OF rtranclp.rtrancl_into_rtrancl[OF r_into_rtranclp[of "ov_step _ _", OF s] s] ov_users])
  from override_deletion_restores[OF example_gateway.gateway_axioms this, of "''a''" "example_override True ''m1'' ''m3''" example_ov_env]
  have "map (route_rules json_api) (ow_routes (fst (Reconcile_override example_ov_env ''a'' ?w))) =
      map (route_rules json_api) (ow_routes example_ov_world)"
    by (simp add: e example_ov_world_def example_override_def example_ov_env_def distinct_models_def plain_rule_def)
  then show ?thesis by (intro exI[of _ ?w]) (simp add: example_ov_world_def)
qed

definition override_view :: "ov_world \<Rightarrow> (json option \<times> json option) option list list \<times> string list" where
  "override_view w = (map (\<lambda>r. map (backend_view json_api) (route_rules json_api r)) (ow_routes w),
     map (\<lambda>(n, o1). ot_Phase (ov_Status o1)) (ow_overrides w))"

text \<open>What a run of a live override whose calls on routes succeed does to the routes and the other overrides.\<close>

lemma Reconcile_override_live:
  assumes "map_of (ow_overrides w) name = Some o1" "\<not> ov_Deleting o1" "routeOverrideFinalizer \<in> set (ov_Finalizers o1)"
    and "oe_get E = None" "oe_listBackends E = None" "oe_listErr1 E = None" "oe_listErr2 E = None"
    and "\<forall>r. oe_updateRoute E r = None"
    and "modelBackends (oe_api E) (Inr (ow_routes w)) = Inr mb" "map_of mb (or_TargetModel (ov_Spec o1)) = Some tb"
  shows "ow_routes (fst (Reconcile_override E name w)) =
      fst (actuateRouteControlsWithAnnotation (oe_api E) (oe_codec E) (oe_IsNoMatch E) (oe_updateRoute E) None None
        (ow_routes w) [(or_SourceModel (ov_Spec o1), tb)] [] routeOverrideAnnotation)"
    and "n \<noteq> name \<Longrightarrow> map_of (ow_overrides (fst (Reconcile_override E name w))) n = map_of (ow_overrides w) n"
proof -
  obtain routes' actuated err where a: "ov_reroutes E (ow_routes w) [(or_SourceModel (ov_Spec o1), tb)] = (routes', actuated, err)"
    by (metis prod_cases3)
  have err: "err = None"
    using a actuate_reroutes_no_error[OF assms(8)] assms(6,7) unfolding ov_reroutes_def by (metis snd_conv)
  have routes': "routes' = fst (actuateRouteControlsWithAnnotation (oe_api E) (oe_codec E) (oe_IsNoMatch E) (oe_updateRoute E)
      None None (ow_routes w) [(or_SourceModel (ov_Spec o1), tb)] [] routeOverrideAnnotation)"
    using a assms(6,7) by (simp add: ov_reroutes_def actuateReroutesWithAnnotation_def Let_def split_def)
  have run: "Reconcile_override E name w = ov_apply E name o1 w"
    using assms(1-4) by (simp add: Reconcile_override_def)
  show "ow_routes (fst (Reconcile_override E name w)) =
      fst (actuateRouteControlsWithAnnotation (oe_api E) (oe_codec E) (oe_IsNoMatch E) (oe_updateRoute E) None None
        (ow_routes w) [(or_SourceModel (ov_Spec o1), tb)] [] routeOverrideAnnotation)"
    unfolding run routes'[symmetric] using assms(5,9,10) by (simp add: ov_apply_def Let_def a err)
  show "map_of (ow_overrides (fst (Reconcile_override E name w))) n = map_of (ow_overrides w) n" if "n \<noteq> name"
    unfolding run using assms(5,9,10) that
    by (simp add: ov_apply_def Let_def a err store_override_def update_conv' delete_conv' split: option.splits)
qed

text \<open>
  C14: The overrides of a namespace do not coexist: they share one annotation, and a run passes only the
  reroute of its own override. After any history of runs, creations, edits and deletions of overrides, let
  the controller run on a live override whose target has a backend, its calls on routes succeeding.
  Then every rule of another model than its source is the one from before the history, whatever other
  overrides redirect it; yet every other override is stored as it was, its status Actuated included. The
  rules of its own source lead to the target as far as the actuation finds a backend for it. It is assumed of every
  route before the history that its rules route distinct models, that their first backends have a name and no
  body mutation, and that it keeps no originals in the annotation of the overrides.
\<close>

theorem overrides_undo_each_other:
  assumes "gateway K C" "(ov_step K C)\<^sup>*\<^sup>* w0 w"
    and "\<forall>r \<in> set (ow_routes w0). distinct_models K (route_rules K r) \<and>
      (\<forall>j \<in> set (route_rules K r). plain_rule K j) \<and> saved_of C routeOverrideAnnotation r = []"
    and "map_of (ow_overrides w) name = Some o1" "\<not> ov_Deleting o1" "routeOverrideFinalizer \<in> set (ov_Finalizers o1)"
    and "oe_get E = None" "oe_listBackends E = None" "oe_listErr1 E = None" "oe_listErr2 E = None"
    and "\<forall>r. oe_updateRoute E r = None" "oe_api E = K" "oe_codec E = C"
    and "modelBackends K (Inr (ow_routes w)) = Inr mb" "map_of mb (or_TargetModel (ov_Spec o1)) = Some tb"
    and "w' = fst (Reconcile_override E name w)"
  shows "list_all2 (\<lambda>r0 r'. list_all2 (\<lambda>j0 j'. json_model K j' = json_model K j0 \<and>
        (if json_model K j0 \<noteq> or_SourceModel (ov_Spec o1) then j' = j0
         else routed K j0 \<and> get mb tb \<noteq> '''' \<longrightarrow>
           backend_view K j' = Some (Some (JStr (get mb tb)), Some (body_mutation tb))))
      (route_rules K r0) (route_rules K r')) (ow_routes w0) (ow_routes w') \<and>
    (\<forall>n. n \<noteq> name \<longrightarrow> map_of (ow_overrides w') n = map_of (ow_overrides w) n)"
proof
  obtain ps where ps: "ow_routes w = cluster_runs K C (\<lambda>e. False) routeOverrideAnnotation ps (ow_routes w0)"
    using ov_steps_routes[OF assms(2)] by blast
  note live = Reconcile_override_live[OF assms(4-11), unfolded assms(12,13), OF assms(14,15), folded assms(16)]
  show "\<forall>n. n \<noteq> name \<longrightarrow> map_of (ow_overrides w') n = map_of (ow_overrides w) n" using live(2) by blast
  have "list_all2 (\<lambda>r0 r. list_all2 (only_rerouted K [(or_SourceModel (ov_Spec o1), tb)] mb) (route_rules K r0) (route_rules K r))
      (ow_routes w0) (ow_routes w')"
    unfolding live(1) by (rule gateway.pass_after_history[OF assms(1,3) ps assms(14,11)])
  then show "list_all2 (\<lambda>r0 r'. list_all2 (\<lambda>j0 j'. json_model K j' = json_model K j0 \<and>
        (if json_model K j0 \<noteq> or_SourceModel (ov_Spec o1) then j' = j0
         else routed K j0 \<and> get mb tb \<noteq> '''' \<longrightarrow>
           backend_view K j' = Some (Some (JStr (get mb tb)), Some (body_mutation tb))))
      (route_rules K r0) (route_rules K r')) (ow_routes w0) (ow_routes w')"
    by (elim list_all2_mono) (auto simp: only_rerouted_def split: if_splits option.splits)
qed

definition example_ov_first :: ov_world where
  "example_ov_first = fst (Reconcile_override example_ov_env ''a'' example_ov_world)"

theorem overrides_undo_each_other_witness:
  "map_option (\<lambda>o1. ot_Phase (ov_Status o1)) (map_of (ow_overrides example_ov_first) ''a'') = Some AIRouteOverrideActuated \<and>
   map (\<lambda>r. map (backend_view json_api) (route_rules json_api r)) (ow_routes example_ov_first) =
     [[Some (Some (JStr ''m3''), Some (body_mutation ''m3'')), Some (Some (JStr ''m2''), None), Some (Some (JStr ''m3''), None)]] \<and>
   (\<exists>j. map (route_rules json_api) (ow_routes (fst (Reconcile_override example_ov_env ''b'' example_ov_first))) =
      [[example_rule ''m1'' ''m1'', j, example_rule ''m3'' ''m3'']] \<and>
      backend_view json_api j = Some (Some (JStr ''m3''), Some (body_mutation ''m3''))) \<and>
   map_option (\<lambda>o1. ot_Phase (ov_Status o1))
     (map_of (ow_overrides (fst (Reconcile_override example_ov_env ''b'' example_ov_first))) ''a'') = Some AIRouteOverrideActuated"
proof -
  note ev = Reconcile_override_def ov_apply_def example_override_def ov_reroutes_def actuateReroutesWithAnnotation_def
    interplay_eval backend_view_def store_override_def ov_setStatus_def routeOverrideAnnotation_def example_ov_env_def
  have a: "map_option (\<lambda>o1. ot_Phase (ov_Status o1)) (map_of (ow_overrides example_ov_first) ''a'') = Some AIRouteOverrideActuated"
      "map (\<lambda>r. map (backend_view json_api) (route_rules json_api r)) (ow_routes example_ov_first) =
       [[Some (Some (JStr ''m3''), Some (body_mutation ''m3'')), Some (Some (JStr ''m2''), None), Some (Some (JStr ''m3''), None)]]"
      "map_of (ow_overrides example_ov_first) ''b'' = Some (example_override False ''m2'' ''m3'')"
      "modelBackends json_api (Inr (ow_routes example_ov_first)) = Inr [(''m1'', ''m3''), (''m2'', ''m2''), (''m3'', ''m3'')]"
    unfolding example_ov_first_def example_ov_world_def by (simp_all add: ev)
  have e: "oe_api example_ov_env = json_api" "oe_codec example_ov_env = example_codec" by (simp_all add: example_ov_env_def)
  have s: "(ov_step json_api example_codec)\<^sup>*\<^sup>* example_ov_world example_ov_first"
    unfolding example_ov_first_def by (intro r_into_rtranclp ov_reconcile e)
  have start: "\<forall>r \<in> set (ow_routes example_ov_world). distinct_models json_api (route_rules json_api r) \<and>
      (\<forall>j \<in> set (route_rules json_api r). plain_rule json_api j) \<and> saved_of example_codec routeOverrideAnnotation r = []"
    by (simp add: example_ov_world_def distinct_models_def plain_rule_def)
  have ov: "\<not> ov_Deleting (example_override False ''m2'' ''m3'')"
      "routeOverrideFinalizer \<in> set (ov_Finalizers (example_override False ''m2'' ''m3''))"
      "or_SourceModel (ov_Spec (example_override False ''m2'' ''m3'')) = ''m2''"
      "map_of [(''m1'', ''m3''), (''m2'', ''m2''), (''m3'', ''m3'')] (or_TargetModel (ov_Spec (example_override False ''m2'' ''m3''))) = Some ''m3''"
      "get [(''m1'', ''m3''), (''m2'', ''m2''), (''m3'', ''m3'')] ''m3'' = ''m3''"
    by (simp_all add: example_override_def get_def)
  have ok: "oe_get example_ov_env = None" "oe_listBackends example_ov_env = None" "oe_listErr1 example_ov_env = None"
      "oe_listErr2 example_ov_env = None" "\<forall>r. oe_updateRoute example_ov_env r = None"
    by (simp_all add: example_ov_env_def)
  note t = overrides_undo_each_other[OF example_gateway.gateway_axioms s start a(3) ov(1,2) ok e a(4) ov(4) refl, unfolded ov(3,5)]
  show ?thesis using a(1,2) t by (auto simp: example_ov_world_def list_all2_Cons1)
qed

end
