(* ===== verification/Govarcalibration.thy ===== *)
theory Govarcalibration
  imports GoText Sha256 GoMath
begin

section \<open>Calibration of output bounds (internal/govarcalibration)\<close>

text \<open>
  The producer of immutable calibration artifacts: an upper bound on the output tokens of a request as
  an order statistic of settled observations (split conformal), the digests that bind it to its
  inputs, and the detector of a coverage gap on a monitoring stream. Counts and parts per billion are
  int64. Where Go ranges over a map to find a faulty digest, the order of the source is taken; only
  which of several errors is reported depends on it.
\<close>

subsection \<open>Types (calibration.go)\<close>

definition SplitTrain :: string where "SplitTrain = ''train''"
definition SplitDevelopment :: string where "SplitDevelopment = ''development''"
definition SplitCalibration :: string where "SplitCalibration = ''calibration''"
definition SplitMonitoring :: string where "SplitMonitoring = ''monitoring''"
definition SplitFrozenTest :: string where "SplitFrozenTest = ''frozen_test''"

lemmas split_defs = SplitTrain_def SplitDevelopment_def SplitCalibration_def SplitMonitoring_def SplitFrozenTest_def

definition maxArtifactSupport :: nat where "maxArtifactSupport = 10000000"
definition billion :: int64 where "billion = 1000000000"

record Observation =
  ob_RequestID :: string
  ob_ProviderAttemptID :: string
  ob_Split :: string
  ob_Selected :: bool
  ob_AuthoritativeFinal :: bool
  ob_Excluded :: bool
  ob_OutputTokens :: int64
  ob_FeatureSchemaVersion :: string
  ob_PriceRegimeSHA256 :: string
  ob_CapRegimeSHA256 :: string
  ob_SettledAt :: time

record BuildConfig =
  bc_ArtifactRef :: string
  bc_Version :: string
  bc_FeatureSchemaVersion :: string
  bc_PriceRegimeSHA256 :: string
  bc_CapRegimeSHA256 :: string
  bc_ProducerSoftwareSHA256 :: string
  bc_CoverageTargetPPB :: int64

record Artifact =
  ar_SchemaVersion :: string
  ar_CalibrationMethod :: string
  ar_ArtifactRef :: string
  ar_Version :: string
  ar_FeatureSchemaVersion :: string
  ar_PriceRegimeSHA256 :: string
  ar_CapRegimeSHA256 :: string
  ar_ProducerSoftwareSHA256 :: string
  ar_FeatureRegimeSHA256 :: string
  ar_SplitOpportunityRegimeSHA256 :: string
  ar_CohortRegimeSHA256 :: string
  ar_CoverageTargetPPB :: int64
  ar_MinimumSupport :: int64
  ar_EmpiricalCoveragePPB :: int64
  ar_ExchangeableMarginalCoverageLowerPPB :: int64
  ar_CoverageBoundKind :: string
  ar_CoverageBoundNumerator :: int64
  ar_CoverageBoundDenominator :: int64
  ar_CoverageIntervalLowerPPB :: int64
  ar_CoverageIntervalUpperPPB :: int64
  ar_CoverageConfidencePPB :: int64
  ar_ConformalRank :: int64
  ar_Support :: int64
  ar_UpperOutputTokens :: int64
  ar_WindowStart :: time
  ar_WindowEnd :: time
  ar_SourceObservationsSHA256 :: string
  ar_ArtifactSHA256 :: string

record DriftResult =
  dr_Detector :: string
  dr_ThresholdPPB :: int64
  dr_MonitoringInputSHA256 :: string
  dr_Support :: int64
  dr_Covered :: int64
  dr_EmpiricalCoveragePPB :: int64
  dr_ConfidencePPB :: int64
  dr_IntervalLowerPPB :: int64
  dr_IntervalUpperPPB :: int64
  dr_CoverageGapPPB :: int64
  dr_Detected :: bool
  dr_WindowStart :: time
  dr_WindowEnd :: time

subsection \<open>JSON\<close>

definition json_bool :: "bool \<Rightarrow> string" where "json_bool b = (if b then ''true'' else ''false'')"

definition json_array :: "string list \<Rightarrow> string" where "json_array xs = ''['' @ Join xs '','' @ '']''"

text \<open>A time is marshalled only within the years 0 to 9999.\<close>

definition year_ok :: "time \<Rightarrow> bool" where
  "year_ok t \<longleftrightarrow> (let y = fst (civil (t div sec_ns div 86400)) in 0 \<le> y \<and> y \<le> 9999)"

definition json_time :: "time \<Rightarrow> string" where "json_time t = json_string (RFC3339Nano t)"

definition json_observation :: "Observation \<Rightarrow> string" where
  "json_observation r = json_struct
     [(''request_id'', json_string (ob_RequestID r)), (''provider_attempt_id'', json_string (ob_ProviderAttemptID r)),
      (''split'', json_string (ob_Split r)), (''selected'', json_bool (ob_Selected r)),
      (''authoritative_final'', json_bool (ob_AuthoritativeFinal r)), (''excluded'', json_bool (ob_Excluded r)),
      (''output_tokens'', fmt_d (ob_OutputTokens r)), (''feature_schema_version'', json_string (ob_FeatureSchemaVersion r)),
      (''price_regime_sha256'', json_string (ob_PriceRegimeSHA256 r)), (''cap_regime_sha256'', json_string (ob_CapRegimeSHA256 r)),
      (''settled_at'', json_time (ob_SettledAt r))]"

definition json_artifact :: "Artifact \<Rightarrow> string" where
  "json_artifact a = json_struct
     ([(''schema_version'', json_string (ar_SchemaVersion a)), (''calibration_method'', json_string (ar_CalibrationMethod a)),
       (''artifact_ref'', json_string (ar_ArtifactRef a)), (''version'', json_string (ar_Version a)),
       (''feature_schema_version'', json_string (ar_FeatureSchemaVersion a)),
       (''price_regime_sha256'', json_string (ar_PriceRegimeSHA256 a)), (''cap_regime_sha256'', json_string (ar_CapRegimeSHA256 a)),
       (''producer_software_sha256'', json_string (ar_ProducerSoftwareSHA256 a))] @
      json_nonempty ''feature_regime_sha256'' (ar_FeatureRegimeSHA256 a) @
      json_nonempty ''split_opportunity_regime_sha256'' (ar_SplitOpportunityRegimeSHA256 a) @
      json_nonempty ''cohort_regime_sha256'' (ar_CohortRegimeSHA256 a) @
      [(''coverage_target_ppb'', fmt_d (ar_CoverageTargetPPB a))] @
      (if ar_MinimumSupport a = 0 then [] else [(''minimum_support'', fmt_d (ar_MinimumSupport a))]) @
      [(''empirical_coverage_ppb'', fmt_d (ar_EmpiricalCoveragePPB a)),
       (''exchangeable_marginal_coverage_lower_ppb'', fmt_d (ar_ExchangeableMarginalCoverageLowerPPB a)),
       (''coverage_bound_kind'', json_string (ar_CoverageBoundKind a)),
       (''coverage_bound_numerator'', fmt_d (ar_CoverageBoundNumerator a)),
       (''coverage_bound_denominator'', fmt_d (ar_CoverageBoundDenominator a)),
       (''coverage_interval_lower_ppb'', fmt_d (ar_CoverageIntervalLowerPPB a)),
       (''coverage_interval_upper_ppb'', fmt_d (ar_CoverageIntervalUpperPPB a)),
       (''coverage_confidence_ppb'', fmt_d (ar_CoverageConfidencePPB a)), (''conformal_rank'', fmt_d (ar_ConformalRank a)),
       (''support'', fmt_d (ar_Support a)), (''upper_output_tokens'', fmt_d (ar_UpperOutputTokens a)),
       (''window_start'', json_time (ar_WindowStart a)), (''window_end'', json_time (ar_WindowEnd a)),
       (''source_observations_sha256'', json_string (ar_SourceObservationsSHA256 a)),
       (''artifact_sha256'', json_string (ar_ArtifactSHA256 a))])"

definition year_error :: go_error where
  "year_error = Err ''json: error calling MarshalJSON for type time.Time: Time.MarshalJSON: year outside of range [0,9999]'' []"


subsection \<open>Checks\<close>

definition ExactMarginalBoundKind :: string where
  "ExactMarginalBoundKind = ''exchangeable_split_conformal_exact_rank''"

definition cal_isSHA256 :: "string \<Rightarrow> bool" where
  "cal_isSHA256 s \<longleftrightarrow> length s = 64 \<and> ToLower s = s \<and>
     list_all (\<lambda>c. lower_char c \<in> set ''0123456789abcdef'') s"

definition validateConfig :: "BuildConfig \<Rightarrow> go_error option" where
  "validateConfig cfg =
     (if TrimSpace (bc_ArtifactRef cfg) = '''' \<or> TrimSpace (bc_Version cfg) = '''' \<or>
         TrimSpace (bc_FeatureSchemaVersion cfg) = '''' then
        Some (Err ''artifact_ref, version, and feature_schema_version are required'' [])
      else case check_all (\<lambda>(name, v). if cal_isSHA256 v then None else Some (Err ''%s must be a lower-case SHA-256'' [name]))
          [(''price_regime_sha256'', bc_PriceRegimeSHA256 cfg), (''cap_regime_sha256'', bc_CapRegimeSHA256 cfg),
           (''producer_software_sha256'', bc_ProducerSoftwareSHA256 cfg)] of
        Some e \<Rightarrow> Some e
      | None \<Rightarrow>
          if sint (bc_CoverageTargetPPB cfg) < 1 \<or> sint billion < sint (bc_CoverageTargetPPB cfg) then
            Some (Err ''coverage_target_ppb must be in [1,1000000000]'' [])
          else None)"

definition validateRow :: "Observation \<Rightarrow> BuildConfig \<Rightarrow> bool \<Rightarrow> go_error option" where
  "validateRow row cfg monitoring =
     (let rid = ob_RequestID row; split = ToLower (TrimSpace (ob_Split row))
      in if rid = '''' \<or> ob_ProviderAttemptID row = '''' \<or> sint (ob_OutputTokens row) < 0 \<or> ob_SettledAt row = zero_time then
           Some (Err ''observation %q has missing identity, negative output, or zero settlement time'' [rid])
         else if \<not> ob_Selected row then Some (Err ''observation %s is an unselected counterfactual outcome'' [rid])
         else if \<not> ob_AuthoritativeFinal row then Some (Err ''observation %s is not authoritative-final'' [rid])
         else if ob_Excluded row then Some (Err ''observation %s is excluded'' [rid])
         else if monitoring \<and> split \<noteq> SplitMonitoring then
           Some (Err ''observation %s split %q is not monitoring'' [rid, ob_Split row])
         else if \<not> monitoring \<and> split \<noteq> SplitCalibration then
           Some (Err ''observation %s split %q is forbidden calibration input'' [rid, ob_Split row])
         else if ob_FeatureSchemaVersion row \<noteq> bc_FeatureSchemaVersion cfg \<or>
                 ob_PriceRegimeSHA256 row \<noteq> bc_PriceRegimeSHA256 cfg \<or> ob_CapRegimeSHA256 row \<noteq> bc_CapRegimeSHA256 cfg then
           Some (Err ''observation %s feature/price/cap regime mismatch'' [rid])
         else None)"

text \<open>\<open>ParseObservations\<close> over the decoder of the JSON library for rows without unknown fields.\<close>

definition ParseObservations :: "(string \<Rightarrow> Observation list result) \<Rightarrow> string \<Rightarrow> Observation list result" where
  "ParseObservations decode raw =
     (case decode raw of
        Inl (Err f as) \<Rightarrow> Inl (Err (''decode observations: '' @ f) as)
      | Inr rows \<Rightarrow> if rows = [] then Inl (Err ''observation set is empty'' []) else Inr rows)"

subsection \<open>The digest of the observations\<close>

definition normalize_observation :: "Observation \<Rightarrow> Observation" where
  "normalize_observation r = r\<lparr>ob_Split := ToLower (TrimSpace (ob_Split r))\<rparr>"

definition observation_before :: "Observation \<Rightarrow> Observation \<Rightarrow> bool" where
  "observation_before a b =
     (if ob_RequestID a \<noteq> ob_RequestID b then ob_RequestID a < ob_RequestID b
      else ob_ProviderAttemptID a < ob_ProviderAttemptID b)"

text \<open>The loop over the sorted rows, with the row before, if any.\<close>

fun identity_error :: "Observation option \<Rightarrow> Observation list \<Rightarrow> go_error option" where
  "identity_error prev [] = None"
| "identity_error prev (row # rows) =
     (if ob_RequestID row = '''' \<or> ob_ProviderAttemptID row = '''' then
        Some (Err ''request_id and provider_attempt_id are required'' [])
      else if \<exists>p. prev = Some p \<and> ob_RequestID p = ob_RequestID row \<and> ob_ProviderAttemptID p = ob_ProviderAttemptID row then
        Some (Err ''duplicate observation identity %s/%s'' [ob_RequestID row, ob_ProviderAttemptID row])
      else identity_error (Some row) rows)"

definition ObservationDigest :: "Observation list \<Rightarrow> string result" where
  "ObservationDigest rows =
     (let normalized = sort_by observation_before (map normalize_observation rows)
      in case identity_error None normalized of
           Some e \<Rightarrow> Inl e
         | None \<Rightarrow>
             if list_all (\<lambda>r. year_ok (ob_SettledAt r)) normalized
             then Inr (sha256_hex (json_array (map json_observation normalized))) else Inl year_error)"

subsection \<open>The artifact\<close>

definition window_start :: "time list \<Rightarrow> time" where
  "window_start ts = fold (\<lambda>u start. if u < start then u else start) ts (hd ts)"

definition window_end :: "time list \<Rightarrow> time" where
  "window_end ts = fold (\<lambda>u end0. if end0 < u then u else end0) ts (hd ts)"

definition sort_tokens :: "int64 list \<Rightarrow> int64 list" where
  "sort_tokens = sort_by (\<lambda>a b. sint a < sint b)"

definition conformal_rank :: "int64 \<Rightarrow> int64 \<Rightarrow> int64" where
  "conformal_rank target n = i64_div (target * (n + 1) + 1000000000 - 1) 1000000000"

definition covered_count :: "int64 \<Rightarrow> int64 list \<Rightarrow> int64" where
  "covered_count upper tokens = fold (\<lambda>v covered. if sint v \<le> sint upper then covered + 1 else covered) tokens 0"

definition BuildArtifact :: "BuildConfig \<Rightarrow> Observation list \<Rightarrow> Artifact result" where
  "BuildArtifact cfg rows =
     (case validateConfig cfg of
        Some e \<Rightarrow> Inl e
      | None \<Rightarrow>
          if rows = [] \<or> maxArtifactSupport < length rows then Inl (Err ''unsupported calibration support'' [])
          else case check_all (\<lambda>row. validateRow row cfg False) rows of
            Some e \<Rightarrow> Inl e
          | None \<Rightarrow>
              (case ObservationDigest rows of
                 Inl e \<Rightarrow> Inl e
               | Inr digest \<Rightarrow>
                   (let settled = map ob_SettledAt rows;
                        tokens = sort_tokens (map ob_OutputTokens rows);
                        n = of_nat (length tokens); target = bc_CoverageTargetPPB cfg;
                        rank = conformal_rank target n
                    in if sint n < sint rank then
                         Inl (Err ''support %d cannot establish target %d ppb with a finite split-conformal upper bound''
                           [fmt_d n, fmt_d target])
                       else
                         (let upper = tokens ! nat (sint rank - 1);
                              covered = covered_count upper tokens;
                              artifact = \<lparr>ar_SchemaVersion = ''govar-calibration-v2'',
                                ar_CalibrationMethod = ''split_conformal_order_statistic_v1'',
                                ar_ArtifactRef = bc_ArtifactRef cfg, ar_Version = bc_Version cfg,
                                ar_FeatureSchemaVersion = bc_FeatureSchemaVersion cfg,
                                ar_PriceRegimeSHA256 = bc_PriceRegimeSHA256 cfg, ar_CapRegimeSHA256 = bc_CapRegimeSHA256 cfg,
                                ar_ProducerSoftwareSHA256 = bc_ProducerSoftwareSHA256 cfg, ar_FeatureRegimeSHA256 = '''',
                                ar_SplitOpportunityRegimeSHA256 = '''', ar_CohortRegimeSHA256 = '''',
                                ar_CoverageTargetPPB = target, ar_MinimumSupport = 0,
                                ar_EmpiricalCoveragePPB = i64_div (covered * billion) n,
                                ar_ExchangeableMarginalCoverageLowerPPB = i64_div (rank * billion) (n + 1),
                                ar_CoverageBoundKind = ExactMarginalBoundKind, ar_CoverageBoundNumerator = rank,
                                ar_CoverageBoundDenominator = n + 1,
                                ar_CoverageIntervalLowerPPB = i64_div (rank * billion) (n + 1),
                                ar_CoverageIntervalUpperPPB = billion, ar_CoverageConfidencePPB = billion,
                                ar_ConformalRank = rank, ar_Support = n, ar_UpperOutputTokens = upper,
                                ar_WindowStart = window_start settled, ar_WindowEnd = window_end settled,
                                ar_SourceObservationsSHA256 = digest, ar_ArtifactSHA256 = ''''\<rparr>
                          in if year_ok (ar_WindowStart artifact) \<and> year_ok (ar_WindowEnd artifact)
                             then Inr (artifact\<lparr>ar_ArtifactSHA256 := sha256_hex (json_artifact artifact)\<rparr>)
                             else Inl year_error))))"

subsection \<open>The coverage gap\<close>

definition wilsonIntervalPPB :: "(f64 \<Rightarrow> int64) \<Rightarrow> int64 \<Rightarrow> int64 \<Rightarrow> int64 \<times> int64" where
  "wilsonIntervalPPB oor covered support =
     (if sint support \<le> 0 \<or> sint covered < 0 \<or> sint support < sint covered then (0, billion)
      else
        (let z = flit (1959963984540054 / 1000000000000000);
             n = of_i64 support;
             p = fdiv (of_i64 covered) n;
             denominator = fadd (Fin 1) (fdiv (fmul z z) n);
             center = fdiv (fadd p (fdiv (fmul z z) (fmul (Fin 2) n))) denominator;
             half = fdiv (fmul z (math_Sqrt (fdiv (fadd (fmul p (fsub (Fin 1) p)) (fdiv (fmul z z) (fmul (Fin 4) n))) n)))
               denominator
         in (to_i64 oor (math_Floor (fmul (math_Max (Fin 0) (fsub center half)) (Fin 1000000000))),
             to_i64 oor (math_Ceil (fmul (math_Min (Fin 1) (fadd center half)) (Fin 1000000000))))))"

definition drift_result ::
  "(f64 \<Rightarrow> int64) \<Rightarrow> int64 \<Rightarrow> int64 \<Rightarrow> string \<Rightarrow> int64 \<Rightarrow> nat \<Rightarrow> time list \<Rightarrow> DriftResult" where
  "drift_result oor target threshold digest covered n settled =
     (let support = of_nat n;
          coverage = i64_div (covered * billion) support;
          (lower, upper) = wilsonIntervalPPB oor covered support;
          gap0 = target - coverage;
          gap = (if sint gap0 < 0 then 0 else gap0)
      in \<lparr>dr_Detector = ''coverage-gap'', dr_ThresholdPPB = threshold, dr_MonitoringInputSHA256 = digest,
           dr_Support = support, dr_Covered = covered, dr_EmpiricalCoveragePPB = coverage, dr_ConfidencePPB = 950000000,
           dr_IntervalLowerPPB = lower, dr_IntervalUpperPPB = upper, dr_CoverageGapPPB = gap,
           dr_Detected = (sint threshold < sint gap), dr_WindowStart = window_start settled, dr_WindowEnd = window_end settled\<rparr>)"

definition DetectCoverageGap :: "(f64 \<Rightarrow> int64) \<Rightarrow> Artifact \<Rightarrow> int64 \<Rightarrow> Observation list \<Rightarrow> DriftResult result" where
  "DetectCoverageGap oor artifact threshold rows =
     (if sint threshold < 0 \<or> 1000000000 < sint threshold then Inl (Err ''threshold_ppb must be in [0,1000000000]'' [])
      else if rows = [] then Inl (Err ''monitoring observation set is empty'' [])
      else
        (let cfg = \<lparr>bc_ArtifactRef = '''', bc_Version = '''', bc_FeatureSchemaVersion = ar_FeatureSchemaVersion artifact,
               bc_PriceRegimeSHA256 = ar_PriceRegimeSHA256 artifact, bc_CapRegimeSHA256 = ar_CapRegimeSHA256 artifact,
               bc_ProducerSoftwareSHA256 = '''', bc_CoverageTargetPPB = 0\<rparr>
         in case check_all (\<lambda>row. validateRow row cfg True) rows of
              Some e \<Rightarrow> Inl e
            | None \<Rightarrow>
                (case ObservationDigest rows of
                   Inl e \<Rightarrow> Inl e
                 | Inr digest \<Rightarrow>
                     Inr (drift_result oor (ar_CoverageTargetPPB artifact) threshold digest
                       (covered_count (ar_UpperOutputTokens artifact) (map ob_OutputTokens rows)) (length rows)
                       (map ob_SettledAt rows)))))"


section \<open>Authoritative artifacts (authoritative.go)\<close>

definition AuthoritativeArtifactSchema :: string where
  "AuthoritativeArtifactSchema = ''govar-calibration-authoritative-v1''"

record RegimeDigests =
  rg_FeatureSHA256 :: string
  rg_PriceSHA256 :: string
  rg_CapPathAdapterSHA256 :: string
  rg_SplitOpportunitySHA256 :: string
  rg_CohortSHA256 :: string
  rg_ProducerSoftwareSHA256 :: string

record AuthoritativeObservation =
  ao_RequestID :: string
  ao_ProviderAttemptID :: string
  ao_OpportunityID :: string
  ao_Split :: string
  ao_OutputTokens :: int64
  ao_SettledAt :: time
  ao_Regimes :: RegimeDigests

record AuthoritativeBuildConfig =
  ab_ArtifactRef :: string
  ab_Version :: string
  ab_FeatureSchemaVersion :: string
  ab_CoverageTargetPPB :: int64
  ab_MinimumSupport :: int64
  ab_Regimes :: RegimeDigests

record AuthoritativeDriftWindow =
  dw_SchemaVersion :: string
  dw_ArtifactSHA256 :: string
  dw_DriftSHA256 :: string
  dw_Result :: DriftResult
  dw_Regimes :: RegimeDigests

subsection \<open>Canonical digests\<close>

definition field_limit :: nat where "field_limit = 2 ^ 24"

definition canonical_frame :: "string list \<Rightarrow> string" where
  "canonical_frame vs = concat (map (\<lambda>v. show_nat (length v) @ [CHR 0x00] @ v @ [CHR 0x00]) vs)"

definition CanonicalDigest :: "string \<Rightarrow> string list \<Rightarrow> string result" where
  "CanonicalDigest dom0 fs =
     (let dom = TrimSpace dom0
      in if dom = '''' then Inl (Err ''digest domain is required'' [])
         else if \<not> list_all (\<lambda>v. length v \<le> field_limit) (dom # fs) then
           Inl (Err ''canonical digest field is too large'' [])
         else Inr (sha256_hex (canonical_frame (dom # fs))))"

definition CanonicalFeatureRegime :: "string \<Rightarrow> string \<Rightarrow> string result" where
  "CanonicalFeatureRegime featureSchemaVersion canonicalFeatureSHA256 =
     (if TrimSpace featureSchemaVersion = '''' \<or> \<not> cal_isSHA256 canonicalFeatureSHA256 then
        Inl (Err ''feature schema and canonical feature SHA-256 are required'' [])
      else CanonicalDigest ''govar-feature-regime-v1'' [featureSchemaVersion, canonicalFeatureSHA256])"

definition CanonicalPriceRegime :: "string \<Rightarrow> string \<Rightarrow> string \<Rightarrow> string result" where
  "CanonicalPriceRegime pricingSnapshotSHA256 providerUID deployment =
     (if \<not> cal_isSHA256 pricingSnapshotSHA256 \<or> TrimSpace providerUID = '''' \<or> TrimSpace deployment = '''' then
        Inl (Err ''price snapshot, provider UID, and deployment are required'' [])
      else CanonicalDigest ''govar-price-regime-v1'' [pricingSnapshotSHA256, providerUID, deployment])"

definition CanonicalCapPathAdapterRegime ::
  "string \<Rightarrow> string \<Rightarrow> int64 \<Rightarrow> string \<Rightarrow> string \<Rightarrow> string \<Rightarrow> string \<Rightarrow> int64 \<Rightarrow> string result" where
  "CanonicalCapPathAdapterRegime capEvidenceSHA256 providerUID providerGeneration deployment pathMode adapterVersion
     requestParameter maxOutputTokens =
     (if \<not> cal_isSHA256 capEvidenceSHA256 \<or> TrimSpace providerUID = '''' \<or> sint providerGeneration \<le> 0 \<or>
         TrimSpace deployment = '''' \<or> TrimSpace pathMode = '''' \<or> TrimSpace adapterVersion = '''' \<or>
         TrimSpace requestParameter = '''' \<or> sint maxOutputTokens \<le> 0 then
        Inl (Err ''complete verified cap and path-adapter identity is required'' [])
      else CanonicalDigest ''govar-cap-path-adapter-regime-v1''
        [capEvidenceSHA256, providerUID, fmt_d providerGeneration, deployment, pathMode, adapterVersion,
         requestParameter, fmt_d maxOutputTokens])"

definition validSplit :: "string \<Rightarrow> bool" where
  "validSplit split \<longleftrightarrow> ToLower (TrimSpace split) \<in>
     {SplitTrain, SplitDevelopment, SplitCalibration, SplitMonitoring, SplitFrozenTest}"

definition CanonicalSplitOpportunityRegime :: "string \<Rightarrow> string \<Rightarrow> string \<Rightarrow> string \<Rightarrow> string result" where
  "CanonicalSplitOpportunityRegime registrySHA256 opportunitySetSHA256 split cohortSHA256 =
     (if \<not> cal_isSHA256 registrySHA256 \<or> \<not> cal_isSHA256 opportunitySetSHA256 \<or> \<not> cal_isSHA256 cohortSHA256 \<or>
         \<not> validSplit split then
        Inl (Err ''registry, opportunity-set, split, and cohort identities are required'' [])
      else CanonicalDigest ''govar-split-opportunity-regime-v1''
        [registrySHA256, opportunitySetSHA256, split, cohortSHA256])"

subsection \<open>Observations\<close>

definition ValidateRegimes :: "RegimeDigests \<Rightarrow> go_error option" where
  "ValidateRegimes r =
     check_all (\<lambda>(name, v). if cal_isSHA256 v then None else Some (Err ''%s regime must be a lower-case SHA-256'' [name]))
       [(''feature'', rg_FeatureSHA256 r), (''price'', rg_PriceSHA256 r), (''cap_path_adapter'', rg_CapPathAdapterSHA256 r),
        (''split_opportunity'', rg_SplitOpportunitySHA256 r), (''cohort'', rg_CohortSHA256 r),
        (''producer_software'', rg_ProducerSoftwareSHA256 r)]"

definition validateAuthoritativeObservation :: "AuthoritativeObservation \<Rightarrow> go_error option" where
  "validateAuthoritativeObservation row =
     (if TrimSpace (ao_RequestID row) = '''' \<or> TrimSpace (ao_ProviderAttemptID row) = '''' \<or>
         TrimSpace (ao_OpportunityID row) = '''' \<or> sint (ao_OutputTokens row) < 0 \<or> ao_SettledAt row = zero_time \<or>
         \<not> validSplit (ao_Split row) then
        Some (Err ''authoritative observation %q is incomplete'' [ao_RequestID row])
      else ValidateRegimes (ao_Regimes row))"

definition authoritative_before :: "AuthoritativeObservation \<Rightarrow> AuthoritativeObservation \<Rightarrow> bool" where
  "authoritative_before a b =
     (if ao_RequestID a \<noteq> ao_RequestID b then ao_RequestID a < ao_RequestID b
      else ao_ProviderAttemptID a < ao_ProviderAttemptID b)"

definition normalize_authoritative :: "AuthoritativeObservation \<Rightarrow> AuthoritativeObservation" where
  "normalize_authoritative r = r\<lparr>ao_Split := ToLower (TrimSpace (ao_Split r))\<rparr>"

fun authoritative_error :: "AuthoritativeObservation option \<Rightarrow> AuthoritativeObservation list \<Rightarrow> go_error option" where
  "authoritative_error prev [] = None"
| "authoritative_error prev (row # rows) =
     (case validateAuthoritativeObservation row of
        Some e \<Rightarrow> Some e
      | None \<Rightarrow>
          if \<exists>p. prev = Some p \<and> ao_RequestID p = ao_RequestID row then
            Some (Err ''duplicate authoritative request %s'' [ao_RequestID row])
          else authoritative_error (Some row) rows)"

definition json_regimes :: "RegimeDigests \<Rightarrow> string" where
  "json_regimes r = json_struct
     [(''feature_sha256'', json_string (rg_FeatureSHA256 r)), (''price_sha256'', json_string (rg_PriceSHA256 r)),
      (''cap_path_adapter_sha256'', json_string (rg_CapPathAdapterSHA256 r)),
      (''split_opportunity_sha256'', json_string (rg_SplitOpportunitySHA256 r)),
      (''cohort_sha256'', json_string (rg_CohortSHA256 r)),
      (''producer_software_sha256'', json_string (rg_ProducerSoftwareSHA256 r))]"

definition json_authoritative :: "AuthoritativeObservation \<Rightarrow> string" where
  "json_authoritative r = json_struct
     [(''request_id'', json_string (ao_RequestID r)), (''provider_attempt_id'', json_string (ao_ProviderAttemptID r)),
      (''opportunity_id'', json_string (ao_OpportunityID r)), (''split'', json_string (ao_Split r)),
      (''output_tokens'', fmt_d (ao_OutputTokens r)), (''settled_at'', json_time (ao_SettledAt r)),
      (''regimes'', json_regimes (ao_Regimes r))]"

definition AuthoritativeObservationDigest :: "AuthoritativeObservation list \<Rightarrow> string result" where
  "AuthoritativeObservationDigest rows =
     (let normalized = map normalize_authoritative (sort_by authoritative_before rows)
      in case authoritative_error None normalized of
           Some e \<Rightarrow> Inl e
         | None \<Rightarrow>
             if list_all (\<lambda>r. year_ok (ao_SettledAt r)) normalized
             then Inr (sha256_hex (json_array (map json_authoritative normalized))) else Inl year_error)"

subsection \<open>The authoritative artifact\<close>

definition authoritative_row_error :: "RegimeDigests \<Rightarrow> AuthoritativeObservation \<Rightarrow> go_error option" where
  "authoritative_row_error regimes row =
     (case validateAuthoritativeObservation row of
        Some e \<Rightarrow> Some e
      | None \<Rightarrow>
          if ao_Split row \<noteq> SplitCalibration then
            Some (Err ''request %s split %q is structurally forbidden calibration input'' [ao_RequestID row, ao_Split row])
          else if ao_Regimes row \<noteq> regimes then Some (Err ''request %s has a regime mismatch'' [ao_RequestID row])
          else None)"

definition BuildAuthoritativeArtifact :: "AuthoritativeBuildConfig \<Rightarrow> AuthoritativeObservation list \<Rightarrow> Artifact result" where
  "BuildAuthoritativeArtifact cfg rows =
     (let rg = ab_Regimes cfg; target = ab_CoverageTargetPPB cfg
      in if TrimSpace (ab_ArtifactRef cfg) = '''' \<or> TrimSpace (ab_Version cfg) = '''' \<or>
            TrimSpace (ab_FeatureSchemaVersion cfg) = '''' then
           Inl (Err ''artifact_ref, version, and feature schema are required'' [])
         else case ValidateRegimes rg of
           Some e \<Rightarrow> Inl e
         | None \<Rightarrow>
             if sint (ab_MinimumSupport cfg) \<le> 0 \<or> int (length rows) < sint (ab_MinimumSupport cfg) then
               Inl (Err ''support %d is below required minimum %d'' [show_nat (length rows), fmt_d (ab_MinimumSupport cfg)])
             else if maxArtifactSupport < length rows \<or> sint target < 1 \<or> 1000000000 < sint target then
               Inl (Err ''coverage target or support is invalid'' [])
             else case check_all (authoritative_row_error rg) rows of
               Some e \<Rightarrow> Inl e
             | None \<Rightarrow>
                 (case AuthoritativeObservationDigest rows of
                    Inl e \<Rightarrow> Inl e
                  | Inr digest \<Rightarrow>
                      (let settled = map ao_SettledAt rows;
                           tokens = sort_tokens (map ao_OutputTokens rows);
                           n = of_nat (length tokens); rank = conformal_rank target n
                       in if sint n < sint rank then
                            Inl (Err ''support %d cannot establish target %d ppb with a finite split-conformal upper bound''
                              [fmt_d n, fmt_d target])
                          else
                            (let upper = tokens ! nat (sint rank - 1);
                                 covered = covered_count upper tokens;
                                 artifact = \<lparr>ar_SchemaVersion = AuthoritativeArtifactSchema,
                                   ar_CalibrationMethod = ''split_conformal_order_statistic_v1'',
                                   ar_ArtifactRef = ab_ArtifactRef cfg, ar_Version = ab_Version cfg,
                                   ar_FeatureSchemaVersion = ab_FeatureSchemaVersion cfg,
                                   ar_PriceRegimeSHA256 = rg_PriceSHA256 rg, ar_CapRegimeSHA256 = rg_CapPathAdapterSHA256 rg,
                                   ar_ProducerSoftwareSHA256 = rg_ProducerSoftwareSHA256 rg,
                                   ar_FeatureRegimeSHA256 = rg_FeatureSHA256 rg,
                                   ar_SplitOpportunityRegimeSHA256 = rg_SplitOpportunitySHA256 rg,
                                   ar_CohortRegimeSHA256 = rg_CohortSHA256 rg,
                                   ar_CoverageTargetPPB = target, ar_MinimumSupport = ab_MinimumSupport cfg,
                                   ar_EmpiricalCoveragePPB = i64_div (covered * billion) n,
                                   ar_ExchangeableMarginalCoverageLowerPPB = i64_div (rank * billion) (n + 1),
                                   ar_CoverageBoundKind = ExactMarginalBoundKind, ar_CoverageBoundNumerator = rank,
                                   ar_CoverageBoundDenominator = n + 1,
                                   ar_CoverageIntervalLowerPPB = i64_div (rank * billion) (n + 1),
                                   ar_CoverageIntervalUpperPPB = billion, ar_CoverageConfidencePPB = billion,
                                   ar_ConformalRank = rank, ar_Support = n, ar_UpperOutputTokens = upper,
                                   ar_WindowStart = window_start settled, ar_WindowEnd = window_end settled,
                                   ar_SourceObservationsSHA256 = digest, ar_ArtifactSHA256 = ''''\<rparr>
                             in if year_ok (ar_WindowStart artifact) \<and> year_ok (ar_WindowEnd artifact)
                                then Inr (artifact\<lparr>ar_ArtifactSHA256 := sha256_hex (json_artifact artifact)\<rparr>)
                                else Inl year_error))))"

subsection \<open>The authoritative monitoring window\<close>

definition json_drift :: "DriftResult \<Rightarrow> string" where
  "json_drift d = json_struct
     [(''detector'', json_string (dr_Detector d)), (''threshold_ppb'', fmt_d (dr_ThresholdPPB d)),
      (''monitoring_input_sha256'', json_string (dr_MonitoringInputSHA256 d)), (''support'', fmt_d (dr_Support d)),
      (''covered'', fmt_d (dr_Covered d)), (''empirical_coverage_ppb'', fmt_d (dr_EmpiricalCoveragePPB d)),
      (''confidence_ppb'', fmt_d (dr_ConfidencePPB d)), (''interval_lower_ppb'', fmt_d (dr_IntervalLowerPPB d)),
      (''interval_upper_ppb'', fmt_d (dr_IntervalUpperPPB d)), (''coverage_gap_ppb'', fmt_d (dr_CoverageGapPPB d)),
      (''detected'', json_bool (dr_Detected d)), (''window_start'', json_time (dr_WindowStart d)),
      (''window_end'', json_time (dr_WindowEnd d))]"

definition json_window :: "AuthoritativeDriftWindow \<Rightarrow> string" where
  "json_window w = json_struct
     [(''schema_version'', json_string (dw_SchemaVersion w)), (''artifact_sha256'', json_string (dw_ArtifactSHA256 w)),
      (''drift_sha256'', json_string (dw_DriftSHA256 w)), (''result'', json_drift (dw_Result w)),
      (''regimes'', json_regimes (dw_Regimes w))]"

definition monitoring_row_error :: "RegimeDigests \<Rightarrow> AuthoritativeObservation \<Rightarrow> go_error option" where
  "monitoring_row_error regimes row =
     (case validateAuthoritativeObservation row of
        Some e \<Rightarrow> Some e
      | None \<Rightarrow>
          if ao_Split row \<noteq> SplitMonitoring \<or> ao_Regimes row \<noteq> regimes then
            Some (Err ''monitoring request %s has forbidden split or regime mismatch'' [ao_RequestID row])
          else None)"

definition BuildAuthoritativeDriftWindow ::
  "(f64 \<Rightarrow> int64) \<Rightarrow> Artifact \<Rightarrow> RegimeDigests \<Rightarrow> int64 \<Rightarrow> AuthoritativeObservation list \<Rightarrow>
     AuthoritativeDriftWindow result" where
  "BuildAuthoritativeDriftWindow oor artifact regimes threshold rows =
     (if ar_SchemaVersion artifact \<noteq> AuthoritativeArtifactSchema \<or> \<not> cal_isSHA256 (ar_ArtifactSHA256 artifact) \<or>
         sint threshold < 0 \<or> 1000000000 < sint threshold \<or> rows = [] then
        Inl (Err ''authoritative artifact, threshold, and monitoring rows are required'' [])
      else case ValidateRegimes regimes of
        Some e \<Rightarrow> Inl e
      | None \<Rightarrow>
          if ar_FeatureRegimeSHA256 artifact \<noteq> rg_FeatureSHA256 regimes \<or> ar_PriceRegimeSHA256 artifact \<noteq> rg_PriceSHA256 regimes \<or>
             ar_CapRegimeSHA256 artifact \<noteq> rg_CapPathAdapterSHA256 regimes \<or>
             ar_CohortRegimeSHA256 artifact \<noteq> rg_CohortSHA256 regimes \<or>
             ar_ProducerSoftwareSHA256 artifact \<noteq> rg_ProducerSoftwareSHA256 regimes then
            Inl (Err ''drift regime does not match immutable artifact'' [])
          else case check_all (monitoring_row_error regimes) rows of
            Some e \<Rightarrow> Inl e
          | None \<Rightarrow>
              (case AuthoritativeObservationDigest rows of
                 Inl e \<Rightarrow> Inl e
               | Inr digest \<Rightarrow>
                   (let window = \<lparr>dw_SchemaVersion = ''govar-authoritative-drift-v1'', dw_ArtifactSHA256 = ar_ArtifactSHA256 artifact,
                          dw_DriftSHA256 = '''',
                          dw_Result = drift_result oor (ar_CoverageTargetPPB artifact) threshold digest
                            (covered_count (ar_UpperOutputTokens artifact) (map ao_OutputTokens rows)) (length rows)
                            (map ao_SettledAt rows),
                          dw_Regimes = regimes\<rparr>
                    in if year_ok (dr_WindowStart (dw_Result window)) \<and> year_ok (dr_WindowEnd (dw_Result window))
                       then Inr (window\<lparr>dw_DriftSHA256 := sha256_hex (json_window window)\<rparr>) else Inl year_error)))"


section \<open>Order statistics\<close>

lemma in_order_map_sorted: "in_order (\<lambda>a b. f a < f b) xs \<Longrightarrow> sorted (map f xs)" for f :: "'a \<Rightarrow> 'k::linorder"
  by (induction xs) (auto simp: in_order_def not_less)

lemma sort_tokens_sort: "map sint (sort_tokens xs) = sort (map sint xs)"
proof (rule properties_for_sort[symmetric])
  show "mset (map sint (sort_tokens xs)) = mset (map sint xs)" by (simp add: sort_tokens_def)
  show "sorted (map sint (sort_tokens xs))"
    unfolding sort_tokens_def
    by (intro in_order_map_sorted sort_order.in_order_sort_by[OF sort_order_key]) simp
qed

lemma length_sort_tokens [simp]: "length (sort_tokens xs) = length xs"
  by (simp add: sort_tokens_def)

lemma filter_below_nth:
  fixes ys :: "'a::linorder list"
  assumes "sorted ys" "m < length ys"
  shows "length (filter (\<lambda>y. y < ys ! m) ys) \<le> m"
proof -
  have "{i. i < length ys \<and> ys ! i < ys ! m} \<subseteq> {..<m}"
    using assms sorted_nth_mono[OF assms(1)] by (auto simp: not_less[symmetric] intro!: leI)
  then have "card {i. i < length ys \<and> ys ! i < ys ! m} \<le> card {..<m}" by (intro card_mono) auto
  then show ?thesis by (simp add: length_filter_conv_card)
qed

lemma filter_upto_nth:
  fixes ys :: "'a::linorder list"
  assumes "sorted ys" "m < length ys"
  shows "m < length (filter (\<lambda>y. y \<le> ys ! m) ys)"
proof -
  have "{..m} \<subseteq> {i. i < length ys \<and> ys ! i \<le> ys ! m}"
    using assms sorted_nth_mono[OF assms(1)] by auto
  then have "card {..m} \<le> card {i. i < length ys \<and> ys ! i \<le> ys ! m}" by (intro card_mono) auto
  then show ?thesis by (simp add: length_filter_conv_card)
qed

lemma length_filter_sort: "length (filter P (sort xs)) = length (filter P xs)" for xs :: "'a::linorder list"
  by (metis mset_filter mset_sort size_mset)

lemma low_ranks:
  fixes xs :: "'a::linorder list"
  assumes "k \<le> length xs"
  shows "k \<le> length (filter (\<lambda>x. length (filter (\<lambda>y. y < x) xs) < k) xs)"
proof -
  let ?P = "\<lambda>x. length (filter (\<lambda>y. y < x) xs) < k"
  have "?P (sort xs ! m)" if "m < k" for m
    using filter_below_nth[of "sort xs" m] that assms by (simp add: length_filter_sort)
  then have "{..<k} \<subseteq> {i. i < length (sort xs) \<and> ?P (sort xs ! i)}" using assms by auto
  then have "card {..<k} \<le> card {i. i < length (sort xs) \<and> ?P (sort xs ! i)}" by (intro card_mono) auto
  then have "k \<le> length (filter ?P (sort xs))" by (simp add: length_filter_conv_card)
  then show ?thesis by (simp add: length_filter_sort)
qed

lemma length_filter_mono_imp: "(\<And>x. P x \<Longrightarrow> Q x) \<Longrightarrow> length (filter P xs) \<le> length (filter Q xs)"
  by (induction xs) auto

definition drop_nth :: "nat \<Rightarrow> 'a list \<Rightarrow> 'a list" where
  "drop_nth i xs = take i xs @ drop (Suc i) xs"

lemma mset_drop_nth: "i < length xs \<Longrightarrow> mset xs = add_mset (xs ! i) (mset (drop_nth i xs))"
  by (metis append_take_drop_id Cons_nth_drop_Suc drop_nth_def mset.simps(2) mset_append union_mset_add_mset_right)

lemma length_drop_nth [simp]: "i < length xs \<Longrightarrow> length (drop_nth i xs) = length xs - 1"
  by (simp add: drop_nth_def)

lemma map_drop_nth: "map f (drop_nth i xs) = drop_nth i (map f xs)"
  by (simp add: drop_nth_def take_map drop_map)

text \<open>
  The heart of split conformal prediction, without probabilities: leaving out each element in turn,
  at least k of the elements are at most the k-th smallest of the others.
\<close>

lemma leave_one_out:
  fixes xs :: "'a::linorder list"
  assumes "0 < k" "k < length xs"
  shows "k \<le> card {i. i < length xs \<and> xs ! i \<le> sort (drop_nth i xs) ! (k - 1)}"
proof -
  let ?low = "{i. i < length xs \<and> length (filter (\<lambda>y. y < xs ! i) xs) < k}"
  have "xs ! i \<le> sort (drop_nth i xs) ! (k - 1)" if i: "i \<in> ?low" for i
  proof (rule ccontr)
    let ?r = "drop_nth i xs" and ?u = "sort (drop_nth i xs) ! (k - 1)"
    assume "\<not> xs ! i \<le> ?u"
    then have u: "?u < xs ! i" by simp
    have il: "i < length xs" using i by simp
    have "k - 1 < length (filter (\<lambda>y. y \<le> ?u) (sort ?r))"
      using filter_upto_nth[of "sort ?r" "k - 1"] assms il by simp
    then have "k \<le> length (filter (\<lambda>y. y \<le> ?u) ?r)" using assms by (simp add: length_filter_sort)
    also have "\<dots> \<le> length (filter (\<lambda>y. y < xs ! i) ?r)"
      by (rule length_filter_mono_imp) (use u in auto)
    also have "\<dots> = size (filter_mset (\<lambda>y. y < xs ! i) (mset ?r))" by (metis mset_filter size_mset)
    also have "\<dots> \<le> size (filter_mset (\<lambda>y. y < xs ! i) (mset xs))"
      using mset_drop_nth[OF il] by simp
    also have "\<dots> = length (filter (\<lambda>y. y < xs ! i) xs)" by (metis mset_filter size_mset)
    finally show False using i by simp
  qed
  then have "card ?low \<le> card {i. i < length xs \<and> xs ! i \<le> sort (drop_nth i xs) ! (k - 1)}"
    by (intro card_mono) auto
  moreover have "k \<le> card ?low"
    using low_ranks[of k xs] assms by (simp add: length_filter_conv_card)
  ultimately show ?thesis by simp
qed


lemma of_int_sint64 [simp]: "(word_of_int (sint w) :: int64) = w"
proof -
  have "sint (word_of_int (sint w) :: int64) = sint w" using sint64_of_int[of "sint w"] sint64_bounds[of w] by simp
  then show ?thesis by (rule signed_word_eqI)
qed

subsection \<open>The rank\<close>

text \<open>Within the bound on the support no product overflows, so the rank is the exact ceiling.\<close>

lemma sint_conformal_rank:
  assumes "1 \<le> sint target" "sint target \<le> 1000000000" "N \<le> maxArtifactSupport"
  shows "sint (conformal_rank target (of_nat N)) = (sint target * (int N + 1) + 999999999) div 1000000000"
proof -
  let ?v = "sint target * (int N + 1) + 999999999"
  have N: "int N \<le> 10000000" using assms(3) by (simp add: maxArtifactSupport_def)
  have v: "0 \<le> ?v" "?v < 2 ^ 63"
  proof -
    show "0 \<le> ?v" using assms(1) by simp
    have "sint target * (int N + 1) \<le> 1000000000 * 10000001"
      using assms N by (intro mult_mono) auto
    then show "?v < 2 ^ 63" by simp
  qed
  have "target * (of_nat N + 1) + 1000000000 - 1 = (of_int (sint target * (int N + 1) + 1000000000 - 1) :: int64)"
    by (simp add: of_int_sint64)
  then have w: "target * (of_nat N + 1) + 1000000000 - 1 = (of_int ?v :: int64)" by simp
  have "sint (of_int ?v :: int64) = ?v" using v by (intro sint64_of_int) auto
  moreover have "sint (1000000000 :: int64) = 1000000000" using sint64_of_int[of 1000000000] by simp
  ultimately show ?thesis
    unfolding conformal_rank_def w using v by (subst sint_i64_div) simp_all
qed

lemma ceiling_div:
  fixes p :: int
  assumes "1 \<le> p"
  defines "r \<equiv> (p + 999999999) div 1000000000"
  shows "1 \<le> r" "p \<le> 1000000000 * r" "1000000000 * (r - 1) < p"
proof -
  have "p + 999999999 = 1000000000 * r + (p + 999999999) mod 1000000000"
    unfolding r_def by simp
  moreover have "0 \<le> (p + 999999999) mod 1000000000" "(p + 999999999) mod 1000000000 < 1000000000" by simp_all
  moreover have "1000000000 * (r - 1) = 1000000000 * r - 1000000000" by simp
  ultimately show "1 \<le> r" "p \<le> 1000000000 * r" "1000000000 * (r - 1) < p" using assms(1) by linarith+
qed

lemma rank_bounds:
  assumes "1 \<le> sint target" "sint target \<le> 1000000000" "N \<le> maxArtifactSupport"
  defines "r \<equiv> sint (conformal_rank target (of_nat N))"
  shows "1 \<le> r" "sint target * (int N + 1) \<le> 1000000000 * r" "1000000000 * (r - 1) < sint target * (int N + 1)"
proof -
  have "1 * 1 \<le> sint target * (int N + 1)" using assms(1) by (intro mult_mono) auto
  then have "1 \<le> sint target * (int N + 1)" by simp
  from ceiling_div[OF this]
  show "1 \<le> r" "sint target * (int N + 1) \<le> 1000000000 * r" "1000000000 * (r - 1) < sint target * (int N + 1)"
    unfolding r_def sint_conformal_rank[OF assms(1-3)] by auto
qed

lemma sint_of_nat_support: "N \<le> maxArtifactSupport \<Longrightarrow> sint (of_nat N :: int64) = int N"
  using sint64_of_int[of "int N"] by (simp add: maxArtifactSupport_def)

lemma validateConfig_target: "validateConfig cfg = None \<Longrightarrow> 1 \<le> sint (bc_CoverageTargetPPB cfg) \<and> sint (bc_CoverageTargetPPB cfg) \<le> 1000000000"
  using sint64_of_int[of 1000000000] by (auto simp: validateConfig_def billion_def split: option.splits if_splits)

lemma BuildArtifactD:
  assumes "BuildArtifact cfg rows = Inr a"
  shows "validateConfig cfg = None" "rows \<noteq> []" "length rows \<le> maxArtifactSupport"
    "\<forall>row \<in> set rows. validateRow row cfg False = None" "ObservationDigest rows = Inr (ar_SourceObservationsSHA256 a)"
    "ar_ConformalRank a = conformal_rank (bc_CoverageTargetPPB cfg) (of_nat (length rows))"
    "sint (ar_ConformalRank a) \<le> int (length rows)" "ar_Support a = of_nat (length rows)"
    "ar_UpperOutputTokens a = sort_tokens (map ob_OutputTokens rows) ! nat (sint (ar_ConformalRank a) - 1)"
    "ar_CoverageTargetPPB a = bc_CoverageTargetPPB cfg"
proof -
  from assms have v: "validateConfig cfg = None" "rows \<noteq> []" "length rows \<le> maxArtifactSupport"
    unfolding BuildArtifact_def by (auto split: option.splits if_splits)
  from assms v have c: "check_all (\<lambda>row. validateRow row cfg False) rows = None"
    unfolding BuildArtifact_def by (simp del: check_all_None split: option.splits)
  from assms v c obtain digest where d: "ObservationDigest rows = Inr digest"
    unfolding BuildArtifact_def by (simp del: check_all_None split: sum.splits)
  let ?r = "conformal_rank (bc_CoverageTargetPPB cfg) (of_nat (length rows))"
  have r: "\<not> sint (of_nat (length rows) :: int64) < sint ?r"
    using assms v c d unfolding BuildArtifact_def by (auto simp del: check_all_None simp: Let_def split: if_splits)
  show "validateConfig cfg = None" "rows \<noteq> []" "length rows \<le> maxArtifactSupport"
    "\<forall>row \<in> set rows. validateRow row cfg False = None" using v c by auto
  show "ObservationDigest rows = Inr (ar_SourceObservationsSHA256 a)" "ar_ConformalRank a = ?r"
    "ar_Support a = of_nat (length rows)"
    "ar_UpperOutputTokens a = sort_tokens (map ob_OutputTokens rows) ! nat (sint (ar_ConformalRank a) - 1)"
    "ar_CoverageTargetPPB a = bc_CoverageTargetPPB cfg"
    using assms v c d r unfolding BuildArtifact_def by (auto simp del: check_all_None simp: Let_def split: if_splits)
  then show "sint (ar_ConformalRank a) \<le> int (length rows)" using r sint_of_nat_support[OF v(3)] by simp
qed


section \<open>Properties of the calibration\<close>

text \<open>
  C38: The coverage an artifact promises. Leave out each settled request of a batch in turn and build
  the artifact from the others: the share of the requests whose output stays within the upper bound
  built without them is at least the coverage target. This is the exchangeable finite-sample guarantee
  of split conformal prediction, as a count without probabilities, with int64 arithmetic.
\<close>

theorem conformal_coverage:
  assumes "rows \<noteq> []" "\<forall>i < length rows. \<exists>a. BuildArtifact cfg (drop_nth i rows) = Inr a"
  shows "sint (bc_CoverageTargetPPB cfg) * int (length rows) \<le> 1000000000 *
    int (card {i. i < length rows \<and> (\<exists>a. BuildArtifact cfg (drop_nth i rows) = Inr a \<and>
      sint (ob_OutputTokens (rows ! i)) \<le> sint (ar_UpperOutputTokens a))})"
proof -
  let ?xs = "map (sint \<circ> ob_OutputTokens) rows"
  define N where "N = length rows - 1"
  define k where "k = nat (sint (conformal_rank (bc_CoverageTargetPPB cfg) (of_nat N)))"
  obtain a0 where a0: "BuildArtifact cfg (drop_nth 0 rows) = Inr a0" using assms by blast
  note b = BuildArtifactD[OF a0]
  have N: "length rows = Suc N" using assms(1) by (cases rows) (simp_all add: N_def)
  have l0: "length (drop_nth 0 rows) = N" using N by simp
  note t = validateConfig_target[OF b(1)]
  note rb = rank_bounds[of "bc_CoverageTargetPPB cfg" N] 
  have r: "1 \<le> sint (conformal_rank (bc_CoverageTargetPPB cfg) (of_nat N))"
    "sint (bc_CoverageTargetPPB cfg) * (int N + 1) \<le> 1000000000 * sint (conformal_rank (bc_CoverageTargetPPB cfg) (of_nat N))"
    using rb t b(3) l0 by auto
  have k: "0 < k" "k < length ?xs" "int k = sint (conformal_rank (bc_CoverageTargetPPB cfg) (of_nat N))"
    using r(1) b(6,7) l0 N unfolding k_def by auto
  have up: "sint (ar_UpperOutputTokens a) = sort (drop_nth i ?xs) ! (k - 1)"
    if i: "i < length rows" and a: "BuildArtifact cfg (drop_nth i rows) = Inr a" for i a
  proof -
    have l: "length (drop_nth i rows) = N" using i N by simp
    have "nat (sint (ar_ConformalRank a) - 1) = k - 1"
      using BuildArtifactD(6)[OF a] l unfolding k_def by simp
    then have "ar_UpperOutputTokens a = sort_tokens (map ob_OutputTokens (drop_nth i rows)) ! (k - 1)"
      using BuildArtifactD(9)[OF a] by simp
    moreover have "k - 1 < length (sort_tokens (map ob_OutputTokens (drop_nth i rows)))" using k(1,2) N l by simp
    ultimately have "sint (ar_UpperOutputTokens a) = map sint (sort_tokens (map ob_OutputTokens (drop_nth i rows))) ! (k - 1)"
      by simp
    then show ?thesis by (simp add: sort_tokens_sort map_drop_nth)
  qed
  have "{i. i < length ?xs \<and> ?xs ! i \<le> sort (drop_nth i ?xs) ! (k - 1)} \<subseteq>
      {i. i < length rows \<and> (\<exists>a. BuildArtifact cfg (drop_nth i rows) = Inr a \<and>
      sint (ob_OutputTokens (rows ! i)) \<le> sint (ar_UpperOutputTokens a))}" (is "?A \<subseteq> ?B")
    using assms(2) up by fastforce
  then have "card ?A \<le> card ?B" by (intro card_mono) auto
  then have "k \<le> card ?B" using leave_one_out[OF k(1,2)] by simp
  then show ?thesis using r(2) N k(3) by (simp add: algebra_simps)
qed


definition example_cal_cfg :: BuildConfig where
  "example_cal_cfg = \<lparr>bc_ArtifactRef = ''ref'', bc_Version = ''1'', bc_FeatureSchemaVersion = ''f1'',
     bc_PriceRegimeSHA256 = replicate 64 CHR ''a'', bc_CapRegimeSHA256 = replicate 64 CHR ''b'',
     bc_ProducerSoftwareSHA256 = replicate 64 CHR ''c'', bc_CoverageTargetPPB = 500000000\<rparr>"

definition example_obs :: "string \<Rightarrow> int64 \<Rightarrow> Observation" where
  "example_obs n tokens = \<lparr>ob_RequestID = n, ob_ProviderAttemptID = ''1'', ob_Split = '' Calibration'', ob_Selected = True,
     ob_AuthoritativeFinal = True, ob_Excluded = False, ob_OutputTokens = tokens, ob_FeatureSchemaVersion = ''f1'',
     ob_PriceRegimeSHA256 = replicate 64 CHR ''a'', ob_CapRegimeSHA256 = replicate 64 CHR ''b'', ob_SettledAt = 0\<rparr>"

definition example_batch :: "Observation list" where
  "example_batch = [example_obs ''r1'' 10, example_obs ''r2'' 30, example_obs ''r3'' 20]"

lemma example_cfg_valid: "validateConfig example_cal_cfg = None"
  by (simp add: validateConfig_def example_cal_cfg_def TrimSpace_def is_space_def cal_isSHA256_def ToLower_def lower_char_def billion_def
      list_all_iff)

lemma example_split: "ToLower (TrimSpace '' Calibration'') = SplitCalibration"
  by code_simp

lemma example_obs_valid: "n \<noteq> '''' \<Longrightarrow> 0 \<le> sint t \<Longrightarrow> validateRow (example_obs n t) example_cal_cfg False = None"
  by (simp add: validateRow_def example_obs_def example_cal_cfg_def example_split zero_time_def sec_ns_def Let_def)

lemma example_obs_normal:
  "ob_RequestID (normalize_observation (example_obs n t)) = n" "ob_ProviderAttemptID (normalize_observation (example_obs n t)) = ''1''"
  "ob_SettledAt (normalize_observation (example_obs n t)) = 0" "ob_SettledAt (example_obs n t) = 0"
  "ob_OutputTokens (example_obs n t) = t"
  by (simp_all add: normalize_observation_def example_obs_def)

lemma year_ok_0: "year_ok 0"
  by code_simp

lemma example_digest:
  assumes "n1 < n2" "n1 \<noteq> ''''" "n2 \<noteq> ''''"
  shows "\<exists>d. ObservationDigest [example_obs n1 t1, example_obs n2 t2] = Inr d"
  using assms
  by (simp add: ObservationDigest_def observation_before_def Let_def example_obs_normal year_ok_0)

lemma example_build:
  assumes "n1 < n2" "n1 \<noteq> ''''" "n2 \<noteq> ''''" "0 \<le> sint t1" "0 \<le> sint t2"
  shows "\<exists>a. BuildArtifact example_cal_cfg [example_obs n1 t1, example_obs n2 t2] = Inr a"
proof -
  obtain d where d: "ObservationDigest [example_obs n1 t1, example_obs n2 t2] = Inr d"
    using example_digest assms by blast
  have r: "sint (conformal_rank 500000000 2) = 2"
    using sint_conformal_rank[of 500000000 2] sint64_of_int[of 500000000] by (simp add: maxArtifactSupport_def)
  have c: "bc_CoverageTargetPPB example_cal_cfg = 500000000" "sint (2 :: int64) = 2"
    using sint64_of_int[of 2] by (simp_all add: example_cal_cfg_def)
  have v: "check_all (\<lambda>row. validateRow row example_cal_cfg False) [example_obs n1 t1, example_obs n2 t2] = None"
    using example_obs_valid assms by simp
  have w: "window_start [0, 0] = 0" "window_end [0, 0] = 0" by (simp_all add: window_start_def window_end_def)
  show ?thesis
    unfolding BuildArtifact_def example_cfg_valid v d
    by (simp add: Let_def maxArtifactSupport_def c r w example_obs_normal year_ok_0)
qed

theorem conformal_coverage_witness:
  "500000000 * 3 \<le> 1000000000 *
    int (card {i. i < length example_batch \<and> (\<exists>a. BuildArtifact example_cal_cfg (drop_nth i example_batch) = Inr a \<and>
      sint (ob_OutputTokens (example_batch ! i)) \<le> sint (ar_UpperOutputTokens a))})"
proof -
  have "sint (10 :: int64) = 10" "sint (20 :: int64) = 20" "sint (30 :: int64) = 30"
    using sint64_of_int[of 10] sint64_of_int[of 20] sint64_of_int[of 30] by simp_all
  then have "\<exists>a. BuildArtifact example_cal_cfg (drop_nth i example_batch) = Inr a" if "i < length example_batch" for i
    using that by (cases i rule: nat.exhaust; cases "i - 1")
      (auto simp: example_batch_def drop_nth_def less_Suc_eq intro!: example_build)
  from conformal_coverage[of example_batch, OF _ allI[OF impI[OF this]]] show ?thesis
    by (simp add: example_batch_def example_cal_cfg_def sint64_of_int[of 500000000, simplified])
qed


section \<open>Two producers of one artifact\<close>

definition obs_key :: "Observation \<Rightarrow> string \<times> string" where
  "obs_key r = (ob_RequestID r, ob_ProviderAttemptID r)"

definition key_before :: "string \<times> string \<Rightarrow> string \<times> string \<Rightarrow> bool" where
  "key_before a b = (if fst a \<noteq> fst b then fst a < fst b else snd a < snd b)"

lemma observation_before_key: "observation_before a b = key_before (obs_key a) (obs_key b)"
  by (simp add: observation_before_def key_before_def obs_key_def)

interpretation obs_keys: sort_order key_before "\<lambda>_. True"
  using sort_order_lex[of fst snd] by (simp add: key_before_def[abs_def])

interpretation obs_rows: sort_order observation_before "\<lambda>_. True"
  using sort_order_lex[of ob_RequestID ob_ProviderAttemptID] by (simp add: observation_before_def[abs_def])

lemma in_order_keys: "in_order observation_before rows \<longleftrightarrow> in_order key_before (map obs_key rows)"
  by (induction rows) (auto simp: in_order_def observation_before_key)

lemma sorted_keys_cong:
  assumes "mset xs = mset ys"
  shows "map obs_key (sort_by observation_before xs) = map obs_key (sort_by observation_before ys)"
proof (rule obs_keys.in_order_unique)
  show "mset (map obs_key (sort_by observation_before xs)) = mset (map obs_key (sort_by observation_before ys))"
    using assms by simp
  show "in_order key_before (map obs_key (sort_by observation_before xs))"
    "in_order key_before (map obs_key (sort_by observation_before ys))"
    using obs_rows.in_order_sort_by by (simp_all add: in_order_keys[symmetric])
qed (auto simp: key_before_def prod_eq_iff)

lemma identity_error_keys:
  "map obs_key xs = map obs_key ys \<Longrightarrow> map_option obs_key p = map_option obs_key q \<Longrightarrow>
     identity_error p xs = identity_error q ys"
proof (induction xs arbitrary: ys p q)
  case Nil
  then show ?case by simp
next
  case (Cons x xs)
  obtain y ys' where y: "ys = y # ys'" "obs_key x = obs_key y" "map obs_key xs = map obs_key ys'"
    using Cons.prems(1) by (cases ys) auto
  have "(\<exists>r. p = Some r \<and> obs_key r = obs_key x) \<longleftrightarrow> (\<exists>r. q = Some r \<and> obs_key r = obs_key x)"
    using Cons.prems(2) by (cases p; cases q) auto
  then show ?case using y Cons.IH[OF y(3), of "Some x" "Some y"] by (auto simp: obs_key_def)
qed

lemma identity_error_distinct:
  "identity_error p xs = None \<Longrightarrow> in_order key_before (map obs_key xs) \<Longrightarrow> distinct (map obs_key xs)"
proof (induction xs arbitrary: p)
  case Nil
  then show ?case by simp
next
  case (Cons x xs)
  have e: "identity_error (Some x) xs = None" using Cons.prems(1) by (auto split: if_splits)
  have o: "in_order key_before (map obs_key xs)" using Cons.prems(2) by (simp add: in_order_def)
  have "obs_key x \<notin> set (map obs_key xs)"
  proof (cases xs)
    case (Cons y ys)
    have "obs_key x \<noteq> obs_key y" using e Cons by (auto simp: obs_key_def split: if_splits)
    moreover have "\<not> key_before (obs_key y) (obs_key x)" using \<open>in_order key_before (map obs_key (x # xs))\<close> Cons by (simp add: in_order_def)
    ultimately have "key_before (obs_key x) (obs_key y)" by (auto simp: key_before_def prod_eq_iff split: if_splits)
    then show ?thesis using o Cons \<open>obs_key x \<noteq> obs_key y\<close> by (force simp: in_order_def)
  qed simp
  then show ?case using Cons.IH[OF e o] by simp
qed

lemma ObservationDigest_cong:
  assumes "mset rows = mset rows'"
  shows "ObservationDigest rows = ObservationDigest rows'"
proof -
  let ?s = "\<lambda>rs. sort_by observation_before (map normalize_observation rs)"
  have m: "mset (map normalize_observation rows) = mset (map normalize_observation rows')" using assms by simp
  have e: "identity_error None (?s rows) = identity_error None (?s rows')"
    by (rule identity_error_keys[OF sorted_keys_cong[OF m]]) simp
  show ?thesis
  proof (cases "identity_error None (?s rows)")
    case None
    have "distinct (map obs_key (?s rows))"
      using identity_error_distinct[OF None] obs_rows.in_order_sort_by by (simp add: in_order_keys[symmetric])
    then have inj: "inj_on obs_key (set (map normalize_observation rows))" by (simp add: distinct_map)
    have "?s rows = ?s rows'"
    proof (rule obs_rows.sort_by_unique[OF m])
      fix x y assume "x \<in> set (map normalize_observation rows)" "y \<in> set (map normalize_observation rows)" "x \<noteq> y"
      then have "obs_key x \<noteq> obs_key y" using inj by (meson inj_onD)
      then show "observation_before x y \<or> observation_before y x"
        by (auto simp: observation_before_key key_before_def prod_eq_iff)
    qed simp
    then show ?thesis by (simp add: ObservationDigest_def)
  next
    case (Some e1)
    then show ?thesis using e by (simp add: ObservationDigest_def Let_def)
  qed
qed


lemma window_start_Min: "ts \<noteq> [] \<Longrightarrow> window_start ts = Min (set ts)"
proof -
  assume ne: "ts \<noteq> []"
  have "(\<lambda>u st :: int. if u < st then u else st) = min" by (auto simp: fun_eq_iff min_def)
  then have "window_start ts = Min (set (hd ts # ts))" by (simp only: window_start_def Min.set_eq_fold)
  then show ?thesis using ne by (cases ts) (simp_all add: insert_absorb)
qed

lemma window_end_Max: "ts \<noteq> [] \<Longrightarrow> window_end ts = Max (set ts)"
proof -
  assume ne: "ts \<noteq> []"
  have "(\<lambda>u st :: int. if st < u then u else st) = max" by (auto simp: fun_eq_iff max_def)
  then have "window_end ts = Max (set (hd ts # ts))" by (simp only: window_end_def Max.set_eq_fold)
  then show ?thesis using ne by (cases ts) (simp_all add: insert_absorb)
qed

lemma sort_tokens_cong:
  assumes "mset xs = mset ys"
  shows "sort_tokens xs = sort_tokens ys"
proof -
  have "map sint (sort_tokens xs) = map sint (sort_tokens ys)"
    unfolding sort_tokens_sort using assms by (metis mset_map properties_for_sort sorted_sort mset_sort)
  then show ?thesis by (rule map_injective) (simp add: inj_def signed_word_eqI)
qed

lemma check_all_mset: "mset xs = mset ys \<Longrightarrow> check_all f xs = None \<Longrightarrow> check_all f ys = None"
  by (metis check_all_None set_mset_mset)

text \<open>
  C39: Two producers that hold the same frozen rows build the same artifact: a successful build does
  not depend on the order of the rows, in no field and so in no digest.
\<close>

theorem BuildArtifact_reproducible:
  assumes "BuildArtifact cfg rows = Inr a" "mset rows' = mset rows"
  shows "BuildArtifact cfg rows' = Inr a"
proof -
  note b = BuildArtifactD[OF assms(1)]
  have s: "set rows' = set rows" "length rows' = length rows" using assms(2) by (metis set_mset_mset, metis size_mset)
  have m: "mset (map ob_OutputTokens rows') = mset (map ob_OutputTokens rows)" using assms(2) by simp
  have ne: "rows' \<noteq> []" using b(2) s(2) by auto
  have c: "check_all (\<lambda>row. validateRow row cfg False) rows' = None" "check_all (\<lambda>row. validateRow row cfg False) rows = None"
    using b(4) s(1) by auto
  have w: "window_start (map ob_SettledAt rows') = window_start (map ob_SettledAt rows)"
    "window_end (map ob_SettledAt rows') = window_end (map ob_SettledAt rows)"
    using ne b(2) s(1) by (simp_all add: window_start_Min window_end_Max)
  have d: "ObservationDigest rows' = ObservationDigest rows" by (rule ObservationDigest_cong[OF assms(2)])
  have "BuildArtifact cfg rows' = BuildArtifact cfg rows"
    using ne b(1,2,5) by (simp del: check_all_None add: BuildArtifact_def c d Let_def w sort_tokens_cong[OF m] s(2))
  then show ?thesis using assms(1) by simp
qed

theorem BuildArtifact_reproducible_witness:
  "\<exists>a. BuildArtifact example_cal_cfg [example_obs ''r1'' 10, example_obs ''r2'' 30] = Inr a \<and>
     BuildArtifact example_cal_cfg [example_obs ''r2'' 30, example_obs ''r1'' 10] = Inr a"
proof -
  obtain a where a: "BuildArtifact example_cal_cfg [example_obs ''r1'' 10, example_obs ''r2'' 30] = Inr a"
    using example_build[of "''r1''" "''r2''" 10 30] sint64_of_int[of 10] sint64_of_int[of 30] by auto
  then show ?thesis using BuildArtifact_reproducible[OF a, of "[example_obs ''r2'' 30, example_obs ''r1'' 10]"] by auto
qed

lemma validateRowD:
  assumes "validateRow r cfg False = None"
  shows "ob_Selected r" "ob_AuthoritativeFinal r" "\<not> ob_Excluded r" "0 \<le> sint (ob_OutputTokens r)"
    "ToLower (TrimSpace (ob_Split r)) = SplitCalibration" "ob_FeatureSchemaVersion r = bc_FeatureSchemaVersion cfg"
    "ob_PriceRegimeSHA256 r = bc_PriceRegimeSHA256 cfg" "ob_CapRegimeSHA256 r = bc_CapRegimeSHA256 cfg"
  using assms by (simp_all add: validateRow_def Let_def split: if_splits)

lemma rank_ceiling:
  fixes p :: int
  assumes "1 \<le> p"
  shows "(p + 999999999) div 1000000000 = \<lceil>of_int p / (1000000000 :: rat)\<rceil>"
proof (rule ceiling_unique[symmetric])
  let ?q = "(p + 999999999) div 1000000000"
  have "of_int p \<le> (of_int (1000000000 * ?q) :: rat)" "of_int (1000000000 * (?q - 1)) < (of_int p :: rat)"
    using ceiling_div(2,3)[OF assms] by (simp_all only: of_int_le_iff of_int_less_iff)
  then show "of_int ?q - 1 < of_int p / (1000000000 :: rat)" "of_int p / (1000000000 :: rat) \<le> of_int ?q"
    by (simp_all add: field_simps)
qed

lemma BuildArtifact_rank:
  assumes "BuildArtifact cfg rows = Inr a"
  shows "sint (ar_ConformalRank a) = \<lceil>of_int (sint (bc_CoverageTargetPPB cfg) * (int (length rows) + 1)) / (1000000000 :: rat)\<rceil>"
proof -
  note b = BuildArtifactD[OF assms]
  note t = validateConfig_target[OF b(1)]
  let ?p = "sint (bc_CoverageTargetPPB cfg) * (int (length rows) + 1)"
  have "1 * 1 \<le> ?p" using t by (intro mult_mono) auto
  then have "1 \<le> ?p" by simp
  then show ?thesis
    using sint_conformal_rank[of "bc_CoverageTargetPPB cfg" "length rows"] t b(3,6) rank_ceiling[of ?p] by simp
qed

lemma BuildArtifact_distinct:
  assumes "BuildArtifact cfg rows = Inr a"
  shows "distinct (map (\<lambda>r. (ob_RequestID r, ob_ProviderAttemptID r)) rows)"
proof -
  let ?s = "sort_by observation_before (map normalize_observation rows)"
  have "identity_error None ?s = None"
    using BuildArtifactD(5)[OF assms] by (simp add: ObservationDigest_def Let_def split: option.splits)
  from identity_error_distinct[OF this] have "distinct (map obs_key ?s)"
    using obs_rows.in_order_sort_by by (simp add: in_order_keys[symmetric])
  moreover have "mset (map obs_key ?s) = mset (map (\<lambda>r. (ob_RequestID r, ob_ProviderAttemptID r)) rows)"
    by (simp add: obs_key_def normalize_observation_def image_mset.compositionality comp_def)
  ultimately show ?thesis by (metis mset_eq_imp_distinct_iff)
qed

text \<open>
  An artifact rests on evidence of the right kind only: every row is a selected, final, included
  outcome of the calibration split in the regimes of the configuration, with an identity of its own;
  the rank is the exact ceiling of target times (support + 1), and no product of the build overflows.
\<close>

theorem BuildArtifact_evidence:
  assumes "BuildArtifact cfg rows = Inr a"
  shows "(\<forall>r \<in> set rows. ob_Selected r \<and> ob_AuthoritativeFinal r \<and> \<not> ob_Excluded r \<and> 0 \<le> sint (ob_OutputTokens r) \<and>
      ToLower (TrimSpace (ob_Split r)) = SplitCalibration \<and> ob_FeatureSchemaVersion r = bc_FeatureSchemaVersion cfg \<and>
      ob_PriceRegimeSHA256 r = bc_PriceRegimeSHA256 cfg \<and> ob_CapRegimeSHA256 r = bc_CapRegimeSHA256 cfg) \<and>
    distinct (map (\<lambda>r. (ob_RequestID r, ob_ProviderAttemptID r)) rows) \<and>
    sint (ar_Support a) = int (length rows) \<and>
    sint (ar_ConformalRank a) = \<lceil>of_int (sint (bc_CoverageTargetPPB cfg) * (int (length rows) + 1)) / (1000000000 :: rat)\<rceil>"
  using BuildArtifactD(3,4,8)[OF assms] BuildArtifact_distinct[OF assms] BuildArtifact_rank[OF assms]
    validateRowD[of _ cfg] sint_of_nat_support by simp

theorem BuildArtifact_evidence_witness:
  "\<exists>a. BuildArtifact example_cal_cfg [example_obs ''r1'' 10, example_obs ''r2'' 30] = Inr a \<and> sint (ar_Support a) = 2"
proof -
  obtain a where a: "BuildArtifact example_cal_cfg [example_obs ''r1'' 10, example_obs ''r2'' 30] = Inr a"
    using example_build[of "''r1''" "''r2''" 10 30] sint64_of_int[of 10] sint64_of_int[of 30] by auto
  then show ?thesis using BuildArtifact_evidence[OF a] by simp
qed


subsection \<open>Canonical digests\<close>

lemma canonical_frame_inject: "canonical_frame vs = canonical_frame ws \<Longrightarrow> vs = ws"
proof (induction vs arbitrary: ws)
  case Nil
  then show ?case by (cases ws) (auto simp: canonical_frame_def)
next
  case (Cons v vs)
  obtain w ws' where w: "ws = w # ws'" using Cons.prems by (cases ws) (auto simp: canonical_frame_def)
  have no: "CHR 0x00 \<notin> set (show_nat n)" for n
  proof
    assume "CHR 0x00 \<in> set (show_nat n)"
    then obtain d where "d < 10" "CHR 0x00 = digit_char d" using show_nat_digits by blast
    then have "(of_char (CHR 0x00) :: nat) = 48 + d" by (simp add: digit_char_def)
    then show False by simp
  qed
  have "show_nat (length v) @ CHR 0x00 # (v @ CHR 0x00 # canonical_frame vs) =
      show_nat (length w) @ CHR 0x00 # (w @ CHR 0x00 # canonical_frame ws')"
    using Cons.prems w by (simp add: canonical_frame_def)
  then have "length v = length w" "v @ CHR 0x00 # canonical_frame vs = w @ CHR 0x00 # canonical_frame ws'"
    by (simp_all only: append_sep_inject[OF no no] show_nat_inject)
  then have "v = w" "canonical_frame vs = canonical_frame ws'" by simp_all
  then show ?case using Cons.IH w by simp
qed

subsection \<open>The coverage gap\<close>

lemma covered_count_eq:
  assumes "length tokens < 2 ^ 63"
  shows "sint (covered_count upper tokens) = int (length (filter (\<lambda>v. sint v \<le> sint upper) tokens))"
proof -
  have f: "fold (\<lambda>v c. if sint v \<le> sint upper then c + 1 else c) ts c =
      c + of_nat (length (filter (\<lambda>v. sint v \<le> sint upper) ts))" for ts and c :: int64
    by (induction ts arbitrary: c) simp_all
  then have "covered_count upper tokens = of_nat (length (filter (\<lambda>v. sint v \<le> sint upper) tokens))"
    unfolding covered_count_def f by simp
  moreover have "length (filter (\<lambda>v. sint v \<le> sint upper) tokens) < 2 ^ 63"
    using assms length_filter_le le_less_trans by blast
  ultimately show ?thesis using sint64_of_int[of "int (length (filter (\<lambda>v. sint v \<le> sint upper) tokens))"] by simp
qed

lemma quotient_less:
  fixes c s n t :: int
  assumes "0 < n"
  shows "t < s - c div n \<longleftrightarrow> c < (s - t) * n"
proof -
  let ?q = "c div n" and ?k = "s - t"
  have c: "c = n * ?q + c mod n" "0 \<le> c mod n" "c mod n < n" using assms by simp_all
  have "?q < ?k \<longleftrightarrow> c < ?k * n"
  proof
    assume "?q < ?k"
    then have "n * (?q + 1) \<le> n * ?k" using assms by (intro mult_left_mono) auto
    moreover have "n * (?q + 1) = n * ?q + n" by (simp add: distrib_left)
    ultimately show "c < ?k * n" using c unfolding mult.commute[of ?k n] by linarith
  next
    assume l: "c < ?k * n"
    show "?q < ?k"
    proof (rule ccontr)
      assume "\<not> ?q < ?k"
      then have "n * ?k \<le> n * ?q" using assms by (intro mult_left_mono) auto
      then show False using c l unfolding mult.commute[of ?k n] by linarith
    qed
  qed
  then show ?thesis by linarith
qed

lemma drift_detected:
  assumes "0 \<le> sint covered" "sint covered \<le> int n" "0 < n" "n \<le> maxArtifactSupport"
    and "0 \<le> sint target" "sint target \<le> 1000000000" "0 \<le> sint threshold"
  shows "dr_Detected (drift_result oor target threshold digest covered n ts) \<longleftrightarrow>
    1000000000 * sint covered < (sint target - sint threshold) * int n"
proof -
  have n: "int n \<le> 10000000" using assms(4) by (simp add: maxArtifactSupport_def)
  have b: "sint (covered * billion) = sint covered * 1000000000"
  proof -
    have "covered * billion = (of_int (sint covered * 1000000000) :: int64)" by (simp add: billion_def)
    then show ?thesis using assms(1,2) n sint64_of_int[of "sint covered * 1000000000"] by simp
  qed
  have cov: "sint (i64_div (covered * billion) (of_nat n)) = sint covered * 1000000000 div int n"
    using sint_i64_div[of "covered * billion" "of_nat n"] b sint_of_nat_support[OF assms(4)] assms(1,3) by simp
  let ?c = "sint covered * 1000000000 div int n"
  have c: "0 \<le> ?c" "?c \<le> 1000000000"
  proof -
    show "0 \<le> ?c" using assms(1,3) by (simp add: pos_imp_zdiv_nonneg_iff)
    have "?c \<le> (int n * 1000000000) div int n" using assms(2,3) by (intro zdiv_mono1) auto
    then show "?c \<le> 1000000000" using assms(3) by simp
  qed
  have "target - i64_div (covered * billion) (of_nat n) = (of_int (sint target - ?c) :: int64)"
    unfolding of_int_diff using cov[symmetric] by simp
  then have gap: "sint (target - i64_div (covered * billion) (of_nat n)) = sint target - ?c"
    using c assms(5,6) sint64_of_int[of "sint target - ?c"] by simp
  have "dr_Detected (drift_result oor target threshold digest covered n ts) \<longleftrightarrow>
      sint threshold < (if sint target - ?c < 0 then 0 else sint target - ?c)"
    by (auto simp: drift_result_def Let_def split_def gap)
  also have "\<dots> \<longleftrightarrow> sint threshold < sint target - ?c" using assms(7) by auto
  also have "\<dots> \<longleftrightarrow> sint covered * 1000000000 < (sint target - sint threshold) * int n"
    by (rule quotient_less) (use assms(3) in simp)
  finally show ?thesis by (simp add: mult.commute)
qed

text \<open>
  C40: The drift detector is exact: on a monitoring stream within the supported size it reports a gap
  if and only if the share of covered rows lies below the coverage target by more than the threshold,
  as rational numbers, although all its arithmetic is on truncated int64 quotients; and it looks at
  settled rows of the monitoring split and of the artifact's own regimes only.
\<close>

theorem DetectCoverageGap_exact:
  assumes "DetectCoverageGap oor artifact threshold rows = Inr d" "length rows \<le> maxArtifactSupport"
    and "0 \<le> sint (ar_CoverageTargetPPB artifact)" "sint (ar_CoverageTargetPPB artifact) \<le> 1000000000"
  shows "(dr_Detected d \<longleftrightarrow> 1000000000 * int (length (filter (\<lambda>r. sint (ob_OutputTokens r) \<le> sint (ar_UpperOutputTokens artifact)) rows)) <
      (sint (ar_CoverageTargetPPB artifact) - sint threshold) * int (length rows)) \<and>
    (\<forall>r \<in> set rows. ob_Selected r \<and> ob_AuthoritativeFinal r \<and> ToLower (TrimSpace (ob_Split r)) = SplitMonitoring \<and>
      ob_PriceRegimeSHA256 r = ar_PriceRegimeSHA256 artifact \<and> ob_CapRegimeSHA256 r = ar_CapRegimeSHA256 artifact)"
proof -
  let ?t = "map ob_OutputTokens rows" and ?u = "ar_UpperOutputTokens artifact"
  have th: "0 \<le> sint threshold" and ne: "rows \<noteq> []"
    using assms(1) by (auto simp: DetectCoverageGap_def split: if_splits)
  let ?cfg = "\<lparr>bc_ArtifactRef = '''', bc_Version = '''', bc_FeatureSchemaVersion = ar_FeatureSchemaVersion artifact,
    bc_PriceRegimeSHA256 = ar_PriceRegimeSHA256 artifact, bc_CapRegimeSHA256 = ar_CapRegimeSHA256 artifact,
    bc_ProducerSoftwareSHA256 = '''', bc_CoverageTargetPPB = 0\<rparr>"
  have c: "check_all (\<lambda>row. validateRow row ?cfg True) rows = None"
    using assms(1) by (simp del: check_all_None add: DetectCoverageGap_def Let_def split: if_splits option.splits)
  then obtain digest where d: "d = drift_result oor (ar_CoverageTargetPPB artifact) threshold digest (covered_count ?u ?t) (length rows) (map ob_SettledAt rows)"
    using assms(1) by (auto simp del: check_all_None simp: DetectCoverageGap_def Let_def split: if_splits sum.splits)
  have k: "sint (covered_count ?u ?t) = int (length (filter (\<lambda>v. sint v \<le> sint ?u) ?t))"
    using assms(2) by (intro covered_count_eq) (simp add: maxArtifactSupport_def)
  have l: "length (filter (\<lambda>v. sint v \<le> sint ?u) ?t) = length (filter (\<lambda>r. sint (ob_OutputTokens r) \<le> sint ?u) rows)"
    by (simp add: filter_map comp_def)
  have "dr_Detected d \<longleftrightarrow> 1000000000 * sint (covered_count ?u ?t) < (sint (ar_CoverageTargetPPB artifact) - sint threshold) * int (length rows)"
    unfolding d by (rule drift_detected) (use assms ne th k l length_filter_le in \<open>auto\<close>)
  moreover have "\<forall>r \<in> set rows. validateRow r ?cfg True = None" using c by simp
  then have "\<forall>r \<in> set rows. ob_Selected r \<and> ob_AuthoritativeFinal r \<and> ToLower (TrimSpace (ob_Split r)) = SplitMonitoring \<and>
      ob_PriceRegimeSHA256 r = ar_PriceRegimeSHA256 artifact \<and> ob_CapRegimeSHA256 r = ar_CapRegimeSHA256 artifact"
    by (auto simp: validateRow_def Let_def split: if_splits)
  ultimately show ?thesis unfolding k l by blast
qed


definition example_artifact :: Artifact where
  "example_artifact = \<lparr>ar_SchemaVersion = '''', ar_CalibrationMethod = '''', ar_ArtifactRef = '''', ar_Version = '''',
     ar_FeatureSchemaVersion = ''f1'', ar_PriceRegimeSHA256 = replicate 64 CHR ''a'', ar_CapRegimeSHA256 = replicate 64 CHR ''b'',
     ar_ProducerSoftwareSHA256 = '''', ar_FeatureRegimeSHA256 = '''', ar_SplitOpportunityRegimeSHA256 = '''', ar_CohortRegimeSHA256 = '''',
     ar_CoverageTargetPPB = 900000000, ar_MinimumSupport = 0, ar_EmpiricalCoveragePPB = 0, ar_ExchangeableMarginalCoverageLowerPPB = 0,
     ar_CoverageBoundKind = '''', ar_CoverageBoundNumerator = 0, ar_CoverageBoundDenominator = 0, ar_CoverageIntervalLowerPPB = 0,
     ar_CoverageIntervalUpperPPB = 0, ar_CoverageConfidencePPB = 0, ar_ConformalRank = 0, ar_Support = 0, ar_UpperOutputTokens = 20,
     ar_WindowStart = 0, ar_WindowEnd = 0, ar_SourceObservationsSHA256 = '''', ar_ArtifactSHA256 = ''''\<rparr>"

definition example_monitor :: "string \<Rightarrow> int64 \<Rightarrow> Observation" where
  "example_monitor n t = (example_obs n t)\<lparr>ob_Split := ''monitoring''\<rparr>"

theorem DetectCoverageGap_exact_witness:
  "\<exists>d. DetectCoverageGap (\<lambda>x. 0) example_artifact 100000000 [example_monitor ''r1'' 10, example_monitor ''r2'' 30] = Inr d \<and> dr_Detected d"
proof -
  let ?rows = "[example_monitor ''r1'' 10, example_monitor ''r2'' 30]"
  have k: "sint (10 :: int64) = 10" "sint (30 :: int64) = 30" "sint (20 :: int64) = 20" "sint (100000000 :: int64) = 100000000"
    "sint (900000000 :: int64) = 900000000"
    using sint64_of_int[of 10] sint64_of_int[of 20] sint64_of_int[of 30] sint64_of_int[of 100000000] sint64_of_int[of 900000000] by simp_all
  have sp: "ToLower (TrimSpace ''monitoring'') = SplitMonitoring" by code_simp
  have f: "ob_RequestID (normalize_observation (example_monitor n t)) = n" "ob_ProviderAttemptID (normalize_observation (example_monitor n t)) = ''1''"
    "ob_SettledAt (normalize_observation (example_monitor n t)) = 0" "ob_OutputTokens (example_monitor n t) = t" for n t
    by (simp_all add: normalize_observation_def example_monitor_def example_obs_def)
  obtain dg where dg: "ObservationDigest ?rows = Inr dg"
    by (simp add: ObservationDigest_def observation_before_def Let_def f year_ok_0)
  have v: "validateRow (example_monitor n t) \<lparr>bc_ArtifactRef = '''', bc_Version = '''', bc_FeatureSchemaVersion = ar_FeatureSchemaVersion example_artifact,
      bc_PriceRegimeSHA256 = ar_PriceRegimeSHA256 example_artifact, bc_CapRegimeSHA256 = ar_CapRegimeSHA256 example_artifact,
      bc_ProducerSoftwareSHA256 = '''', bc_CoverageTargetPPB = 0\<rparr> True = None" if "n \<noteq> ''''" "0 \<le> sint t" for n t
    using that by (simp add: validateRow_def example_monitor_def example_obs_def example_artifact_def sp zero_time_def sec_ns_def Let_def)
  obtain d where d: "DetectCoverageGap (\<lambda>x. 0) example_artifact 100000000 ?rows = Inr d"
    using dg v k by (simp add: DetectCoverageGap_def Let_def)
  have a: "ar_CoverageTargetPPB example_artifact = 900000000" "ar_UpperOutputTokens example_artifact = 20" by (simp_all add: example_artifact_def)
  from DetectCoverageGap_exact[OF d] have "dr_Detected d"
    by (simp add: maxArtifactSupport_def a k f)
  then show ?thesis using d by blast
qed

end
