(* ===== verification/Qualitygatetypes.thy ===== *)
theory Qualitygatetypes
  imports Apitypes GoFloat
begin

section \<open>Quality gates (aiqualitygate_types.go)\<close>

text \<open>
  The AIQualityGate: what a candidate model is compared with, the checks it must pass, and the
  status that the controller writes. A pointer is an option.
\<close>

subsection \<open>Specification\<close>

record ConfigMapDataReference =
  dref_Name :: string
  dref_Namespace :: string
  dref_Key :: string

record AIQualityRequiredChecks =
  qc_SchemaValid :: bool
  qc_NoUnexpectedRefusal :: bool
  qc_NoSensitiveDataLeak :: bool
  qc_RequiredKeywords :: "string list"
  qc_MaxErrorRatePercent :: int32
  qc_MaxLatencyIncreasePercent :: int32
  qc_MaxRetryIncreasePercent :: int32

record AIQualityScoreWeights =
  sw_Correctness :: "f64 option"
  sw_Reliability :: "f64 option"
  sw_Latency :: "f64 option"
  sw_Semantic :: "f64 option"
  sw_Judged :: "f64 option"

record AIQualityStatisticalCompositeWeights =
  sc_Quality :: "f64 option"
  sc_ErrorRate :: "f64 option"
  sc_LatencyP95 :: "f64 option"
  sc_Cost :: "f64 option"

record AIQualityStatisticalSpec =
  ss_NonInferiorityDelta :: f64
  ss_ConfidenceLevel :: f64
  ss_Power :: f64
  ss_BaselineSuccessRate :: f64
  ss_HysteresisEnterScore :: f64
  ss_HysteresisExitScore :: f64
  ss_CompositeWeights :: AIQualityStatisticalCompositeWeights

record AIQualityJudgeSpec =
  qj_Enabled :: bool
  qj_ModelRef :: string

record AIQualityEvaluationSpec =
  qe_Endpoint :: string
  qe_Image :: string
  qe_MaxTokens :: int32
  qe_TimeoutSeconds :: int32

record AIQualityCanarySpec =
  qy_Enabled :: bool
  qy_Percent :: int32
  qy_Duration :: string

record AIQualityRollbackSpec =
  qb_Enabled :: bool
  qb_OnErrorRatePercent :: int32
  qb_OnLatencyIncreasePercent :: int32

record AIQualityGateTarget =
  gt_Namespace :: string
  gt_Application :: string
  gt_Team :: string

record AIQualityGateSpec =
  gs_Target :: AIQualityGateTarget
  gs_SourceModel :: string
  gs_CandidateModel :: string
  gs_GoldenDatasetRef :: ConfigMapDataReference
  gs_EvidenceRef :: "ConfigMapDataReference option"
  gs_GatewayRef :: string
  gs_Period :: string
  gs_Weights :: AIQualityScoreWeights
  gs_LatencyThresholdMs :: int32
  gs_MinSamples :: int32
  gs_TolerancePoints :: int32
  gs_Judge :: AIQualityJudgeSpec
  gs_Evaluation :: AIQualityEvaluationSpec
  gs_RequiredChecks :: AIQualityRequiredChecks
  gs_Canary :: AIQualityCanarySpec
  gs_Rollback :: AIQualityRollbackSpec
  gs_Statistical :: AIQualityStatisticalSpec

subsection \<open>Status\<close>

definition AIQualityGatePending :: string where "AIQualityGatePending = ''Pending''"
definition AIQualityGatePassed :: string where "AIQualityGatePassed = ''Passed''"
definition AIQualityGateFailed :: string where "AIQualityGateFailed = ''Failed''"

lemmas gate_phases = AIQualityGatePending_def AIQualityGatePassed_def AIQualityGateFailed_def

record AIQualityModelObservation =
  qo_Model :: string
  qo_Provider :: string
  qo_Requests :: int64
  qo_Errors :: int64
  qo_ErrorRatePercent :: string
  qo_ObservedLatencyMillis :: string
  qo_LatencyTelemetryAvailable :: bool

record AIQualityScoreBreakdown =
  sb_Correctness :: f64
  sb_Reliability :: f64
  sb_Latency :: f64
  sb_Semantic :: f64
  sb_Judged :: f64

record AIQualityWeightsUsed =
  wu_Correctness :: f64
  wu_Reliability :: f64
  wu_Latency :: f64
  wu_Semantic :: f64
  wu_Judged :: f64

record AIQualityDimensionStatus =
  qd_Name :: string
  qd_Score :: f64
  qd_Weight :: f64

record AIQualityGateStatus =
  gx_ObservedGeneration :: int64
  gx_Phase :: string
  gx_Verdict :: string
  gx_CheckedSamples :: int32
  gx_FailedChecks :: int32
  gx_QualityScore :: f64
  gx_CompositeScore :: f64
  gx_DatasetVersion :: string
  gx_DatasetHash :: string
  gx_RequiredSamples :: int32
  gx_ObservedSourceSamples :: int32
  gx_ObservedCandidateSamples :: int32
  gx_NonInferiorityLowerBound :: f64
  gx_ScoreBreakdown :: AIQualityScoreBreakdown
  gx_WeightsUsed :: AIQualityWeightsUsed
  gx_Samples :: int32
  gx_Dimensions :: "AIQualityDimensionStatus list"
  gx_EvidenceRef :: "ConfigMapDataReference option"
  gx_EvaluationJobName :: string
  gx_EvaluationJobPhase :: string
  gx_FailureMessages :: "string list"
  gx_CanaryStatus :: string
  gx_SourceObservation :: "AIQualityModelObservation option"
  gx_CandidateObservation :: "AIQualityModelObservation option"
  gx_Ready :: "Condition option"

definition zero_breakdown :: AIQualityScoreBreakdown where
  "zero_breakdown = \<lparr>sb_Correctness = Fin 0, sb_Reliability = Fin 0, sb_Latency = Fin 0,
     sb_Semantic = Fin 0, sb_Judged = Fin 0\<rparr>"

definition zero_weights_used :: AIQualityWeightsUsed where
  "zero_weights_used = \<lparr>wu_Correctness = Fin 0, wu_Reliability = Fin 0, wu_Latency = Fin 0,
     wu_Semantic = Fin 0, wu_Judged = Fin 0\<rparr>"

record AIQualityGate =
  gate_Namespace :: string
  gate_UID :: string
  gate_Generation :: int64
  gate_Deleting :: bool
  gate_Finalizers :: "string list"
  gate_Spec :: AIQualityGateSpec
  gate_Status :: AIQualityGateStatus

end
