(* ===== verification/Qualitysignals.thy ===== *)
theory Qualitysignals
  imports Qualitygatetypes Qualityengine Qualitystats Budgetfallback GoText
begin

section \<open>Signals of a quality gate (aiqualitygate_controller.go)\<close>

text \<open>
  The functions of the quality gate controller that call nothing: the golden dataset and the
  evidence of a run, the telemetry of a model, the checks over both, and the conversions between the
  resource and the engines. Names of models and prompts are strings; texts of answers are runes,
  as in the quality engine.
\<close>

subsection \<open>Golden prompts and evidence\<close>

record goldenPrompt =
  pr_ID :: string
  pr_Prompt :: string
  pr_RequiredKeywords :: "string list"
  pr_MaxTokens :: int32
  pr_MustBeJSON :: bool
  pr_Reference :: rtext
  pr_Fields :: "(rtext, rtext) gomap"

record qualityEvidenceSample =
  qv_ID :: string
  qv_Model :: string
  qv_Reference :: rtext
  qv_Expected :: rtext
  qv_Actual :: rtext
  qv_Output :: rtext
  qv_Response :: rtext
  qv_ExpectedFields :: "(rtext, rtext) gomap"
  qv_ActualFields :: "(rtext, rtext) gomap"
  qv_Fields :: "(rtext, rtext) gomap"
  qv_SemanticScore :: "f64 option"
  qv_JudgedScore :: "f64 option"
  qv_SchemaValid :: "bool option"
  qv_UnexpectedRefusal :: "bool option"
  qv_SensitiveDataLeak :: "bool option"
  qv_RequiredKeywordsPresent :: "bool option"

text \<open>The loop of \<open>validateGoldenDataset\<close>: the index, the identifiers seen so far, the prompts to come.\<close>

fun dataset_failures :: "nat \<Rightarrow> string list \<Rightarrow> goldenPrompt list \<Rightarrow> string list" where
  "dataset_failures i seen [] = []"
| "dataset_failures i seen (p # ps) =
     (if TrimSpace (pr_ID p) = '''' then [GoText.render ''golden prompt at index %d is missing id'' [show_nat i]] else []) @
     (if TrimSpace (pr_Prompt p) = '''' then [GoText.render ''golden prompt %q is missing prompt text'' [pr_ID p]] else []) @
     (if pr_ID p \<noteq> '''' \<and> pr_ID p \<in> set seen then [GoText.render ''golden prompt id %q is duplicated'' [pr_ID p]] else []) @
     dataset_failures (Suc i) (if pr_ID p \<noteq> '''' then pr_ID p # seen else seen) ps"

definition validateGoldenDataset :: "goldenPrompt list \<Rightarrow> string list" where
  "validateGoldenDataset prompts =
     (if prompts = [] then [''golden dataset contains no prompts''] else dataset_failures 0 [] prompts)"

definition evidenceByIDForModel :: "qualityEvidenceSample list \<Rightarrow> string \<Rightarrow> (string, qualityEvidenceSample) gomap" where
  "evidenceByIDForModel evidence model =
     fold (\<lambda>ev m. if qv_ID ev = '''' \<or> qv_Model ev \<noteq> model then m else AList.update (qv_ID ev) ev m) evidence []"

definition hasSourceAndCandidateEvidence ::
  "goldenPrompt list \<Rightarrow> qualityEvidenceSample list \<Rightarrow> string \<Rightarrow> string \<Rightarrow> bool" where
  "hasSourceAndCandidateEvidence prompts evidence sourceModel candidateModel =
     (if prompts = [] \<or> evidence = [] then False
      else list_all (\<lambda>p. map_of (evidenceByIDForModel evidence sourceModel) (pr_ID p) \<noteq> None \<and>
             map_of (evidenceByIDForModel evidence candidateModel) (pr_ID p) \<noteq> None) prompts)"

text \<open>The samples of \<open>evaluateEvidence\<close>: a sample without a model counts for the candidate.\<close>

definition candidate_evidence :: "qualityEvidenceSample list \<Rightarrow> string \<Rightarrow> (string, qualityEvidenceSample) gomap" where
  "candidate_evidence evidence candidateModel =
     fold (\<lambda>ev m. if qv_ID ev = '''' then m
                  else if qv_Model ev \<noteq> '''' \<and> qv_Model ev \<noteq> candidateModel then m
                  else AList.update (qv_ID ev) ev m) evidence []"

definition prompt_checks :: "AIQualityRequiredChecks \<Rightarrow> goldenPrompt \<Rightarrow> qualityEvidenceSample \<Rightarrow> string list" where
  "prompt_checks checks p ev =
     (if qc_SchemaValid checks \<and> qv_SchemaValid ev \<noteq> Some True
      then [GoText.render ''schema check failed for prompt %q'' [pr_ID p]] else []) @
     (if qc_NoUnexpectedRefusal checks \<and> qv_UnexpectedRefusal ev \<noteq> Some False
      then [GoText.render ''unexpected refusal check failed for prompt %q'' [pr_ID p]] else []) @
     (if qc_NoSensitiveDataLeak checks \<and> qv_SensitiveDataLeak ev \<noteq> Some False
      then [GoText.render ''sensitive-data leak check failed for prompt %q'' [pr_ID p]] else []) @
     (if qc_RequiredKeywords checks \<noteq> [] \<and> qv_RequiredKeywordsPresent ev \<noteq> Some True
      then [GoText.render ''required-keywords check failed for prompt %q'' [pr_ID p]] else [])"

definition evaluateEvidence ::
  "goldenPrompt list \<Rightarrow> qualityEvidenceSample list \<Rightarrow> string \<Rightarrow> AIQualityRequiredChecks \<Rightarrow> string list" where
  "evaluateEvidence prompts evidence candidateModel checks =
     concat (map (\<lambda>p. case map_of (candidate_evidence evidence candidateModel) (pr_ID p) of
         None \<Rightarrow> [GoText.render ''missing quality evidence for prompt %q and candidate model %q'' [pr_ID p, candidateModel]]
       | Some ev \<Rightarrow> prompt_checks checks p ev) prompts)"

text \<open>\<open>strings.TrimSpace(v) != ""\<close> on runes.\<close>

fun firstNonEmpty :: "unicode_tables \<Rightarrow> rtext list \<Rightarrow> rtext" where
  "firstNonEmpty U [] = []"
| "firstNonEmpty U (v # vs) = (if TrimSpaceR U v \<noteq> [] then v else firstNonEmpty U vs)"

definition quality_sample :: "unicode_tables \<Rightarrow> goldenPrompt \<Rightarrow> qualityEvidenceSample \<Rightarrow> EvidenceSample" where
  "quality_sample U p ev =
     \<lparr>es_ID = runes (pr_ID p),
      es_Expected = firstNonEmpty U [qv_Reference ev, qv_Expected ev, pr_Reference p],
      es_Actual = firstNonEmpty U [qv_Actual ev, qv_Output ev, qv_Response ev],
      es_MustBeJSON = pr_MustBeJSON p,
      es_ExpectedFields = (if qv_ExpectedFields ev \<noteq> [] then qv_ExpectedFields ev else pr_Fields p),
      es_ActualFields = (if qv_ActualFields ev = [] then qv_Fields ev else qv_ActualFields ev),
      es_RequiredKeywordsPresent = qv_RequiredKeywordsPresent ev,
      es_SemanticScore = qv_SemanticScore ev,
      es_JudgedScore = qv_JudgedScore ev\<rparr>"

definition buildQualitySamples ::
  "unicode_tables \<Rightarrow> goldenPrompt list \<Rightarrow> qualityEvidenceSample list \<Rightarrow> string \<Rightarrow> EvidenceSample list" where
  "buildQualitySamples U prompts evidence model =
     concat (map (\<lambda>p. case map_of (evidenceByIDForModel evidence model) (pr_ID p) of
         None \<Rightarrow> [] | Some ev \<Rightarrow> [quality_sample U p ev]) prompts)"

definition evidencePassSample :: "unicode_tables \<Rightarrow> EvidenceSample list \<Rightarrow> BernoulliSample" where
  "evidencePassSample U samples =
     \<lparr>be_Successes = fold (\<lambda>s n. if fle (Fin 80) (ReferenceCorrectnessScore U (es_Expected s) (es_Actual s))
                              then n + 1 else n) samples 0,
      be_Total = word_of_int (int (length samples))\<rparr>"

definition invalidJSONCount :: "qualityEvidenceSample list \<Rightarrow> string \<Rightarrow> int64" where
  "invalidJSONCount evidence model =
     fold (\<lambda>ev n. if qv_Model ev \<noteq> model then n
                  else case qv_SchemaValid ev of None \<Rightarrow> n | Some ok \<Rightarrow> if \<not> ok then n + 1 else n) evidence 0"

subsection \<open>What the specification asks for\<close>

definition qualityGateNeedsEvidence :: "AIQualityRequiredChecks \<Rightarrow> bool" where
  "qualityGateNeedsEvidence c \<longleftrightarrow>
     qc_SchemaValid c \<or> qc_NoUnexpectedRefusal c \<or> qc_NoSensitiveDataLeak c \<or> 0 < length (qc_RequiredKeywords c)"

definition override :: "'a \<Rightarrow> 'a option \<Rightarrow> 'a" where
  "override d v = (case v of None \<Rightarrow> d | Some x \<Rightarrow> x)"

definition qualityEngineWeights :: "AIQualityScoreWeights \<Rightarrow> QWeights" where
  "qualityEngineWeights spec =
     (let w = DefaultQWeights
      in \<lparr>qw_Correctness = override (qw_Correctness w) (sw_Correctness spec),
          qw_Reliability = override (qw_Reliability w) (sw_Reliability spec),
          qw_Latency = override (qw_Latency w) (sw_Latency spec),
          qw_Semantic = override (qw_Semantic w) (sw_Semantic spec),
          qw_Judged = override (qw_Judged w) (sw_Judged spec)\<rparr>)"

definition qualityGateNeedsScoreEvidence :: "AIQualityGateSpec \<Rightarrow> bool" where
  "qualityGateNeedsScoreEvidence spec =
     (let weights = NormalizeQWeights (qualityEngineWeights (gs_Weights spec));
          weights = (if \<not> qj_Enabled (gs_Judge spec) then NormalizeQWeights (weights\<lparr>qw_Judged := Fin 0\<rparr>) else weights)
      in flt (Fin 0) (qw_Correctness weights) \<or> flt (Fin 0) (qw_Semantic weights) \<or> flt (Fin 0) (qw_Judged weights))"

definition set_positive :: "f64 \<Rightarrow> f64 \<Rightarrow> f64" where
  "set_positive d v = (if flt (Fin 0) v then v else d)"

definition statisticalConfig :: "AIQualityStatisticalSpec \<Rightarrow> NonInferiorityConfig" where
  "statisticalConfig spec =
     (let cfg = DefaultNonInferiorityConfig
      in \<lparr>ni_Delta = set_positive (ni_Delta cfg) (ss_NonInferiorityDelta spec),
          ni_ConfidenceLevel = set_positive (ni_ConfidenceLevel cfg) (ss_ConfidenceLevel spec),
          ni_Power = set_positive (ni_Power cfg) (ss_Power spec),
          ni_BaselineSuccessRate = set_positive (ni_BaselineSuccessRate cfg) (ss_BaselineSuccessRate spec)\<rparr>)"

definition statisticalWeights :: "AIQualityStatisticalSpec \<Rightarrow> CompositeWeights" where
  "statisticalWeights spec =
     (let w = DefaultCompositeWeights; c = ss_CompositeWeights spec
      in \<lparr>cw_Quality = override (cw_Quality w) (sc_Quality c),
          cw_ErrorRate = override (cw_ErrorRate w) (sc_ErrorRate c),
          cw_LatencyP95 = override (cw_LatencyP95 w) (sc_LatencyP95 c),
          cw_Cost = override (cw_Cost w) (sc_Cost c)\<rparr>)"

definition hysteresisConfig :: "AIQualityStatisticalSpec \<Rightarrow> HysteresisConfig" where
  "hysteresisConfig spec =
     (let cfg = DefaultHysteresisConfig
      in \<lparr>hy_EnterSafe = set_positive (hy_EnterSafe cfg) (ss_HysteresisEnterScore spec),
          hy_ExitSafe = set_positive (hy_ExitSafe cfg) (ss_HysteresisExitScore spec)\<rparr>)"

definition statisticalModeEnabled :: "AIQualityStatisticalSpec \<Rightarrow> bool" where
  "statisticalModeEnabled spec \<longleftrightarrow>
     flt (Fin 0) (ss_NonInferiorityDelta spec) \<or> flt (Fin 0) (ss_ConfidenceLevel spec) \<or>
     flt (Fin 0) (ss_Power spec) \<or> flt (Fin 0) (ss_BaselineSuccessRate spec) \<or>
     flt (Fin 0) (ss_HysteresisEnterScore spec) \<or> flt (Fin 0) (ss_HysteresisExitScore spec) \<or>
     sc_Quality (ss_CompositeWeights spec) \<noteq> None \<or> sc_ErrorRate (ss_CompositeWeights spec) \<noteq> None \<or>
     sc_LatencyP95 (ss_CompositeWeights spec) \<noteq> None \<or> sc_Cost (ss_CompositeWeights spec) \<noteq> None"

definition defaultedMinSamples :: "int32 \<Rightarrow> int32" where
  "defaultedMinSamples v = (if sint v \<le> 0 then 1 else v)"

definition defaultedTolerance :: "int32 \<Rightarrow> int32" where
  "defaultedTolerance v = (if sint v \<le> 0 then 3 else v)"

definition defaultedEvalTimeoutSeconds :: "int32 \<Rightarrow> int32" where
  "defaultedEvalTimeoutSeconds v = (if sint v \<le> 0 then 60 else v)"

definition defaultedEvalMaxTokens :: "int32 \<Rightarrow> int32" where
  "defaultedEvalMaxTokens v = (if sint v \<le> 0 then 96 else v)"

definition canaryStatus :: "AIQualityCanarySpec \<Rightarrow> string" where
  "canaryStatus c = (if \<not> qy_Enabled c then ''Disabled'' else ''Configured'')"

subsection \<open>Conversions to the status\<close>

definition roundQuality :: "f64 \<Rightarrow> f64" where
  "roundQuality v = fdiv (math_Round (fmul v (Fin 1000))) (Fin 1000)"

definition qualityWeightsToAPI :: "QWeights \<Rightarrow> AIQualityWeightsUsed" where
  "qualityWeightsToAPI w =
     \<lparr>wu_Correctness = roundQuality (qw_Correctness w), wu_Reliability = roundQuality (qw_Reliability w),
      wu_Latency = roundQuality (qw_Latency w), wu_Semantic = roundQuality (qw_Semantic w),
      wu_Judged = roundQuality (qw_Judged w)\<rparr>"

definition qualityBreakdownToAPI :: "DimensionScores \<Rightarrow> AIQualityScoreBreakdown" where
  "qualityBreakdownToAPI b =
     \<lparr>sb_Correctness = roundQuality (ds_Correctness b), sb_Reliability = roundQuality (ds_Reliability b),
      sb_Latency = roundQuality (ds_Latency b), sb_Semantic = roundQuality (ds_Semantic b),
      sb_Judged = roundQuality (ds_Judged b)\<rparr>"

definition qualityDimensions :: "DimensionScores \<Rightarrow> f64 \<Rightarrow> QWeights \<Rightarrow> AIQualityDimensionStatus list" where
  "qualityDimensions b overall w =
     map (\<lambda>(name, score, weight). \<lparr>qd_Name = name, qd_Score = roundQuality score, qd_Weight = weight\<rparr>)
       [(''correctness'', ds_Correctness b, roundQuality (qw_Correctness w)),
        (''reliability'', ds_Reliability b, roundQuality (qw_Reliability w)),
        (''latency'', ds_Latency b, roundQuality (qw_Latency w)),
        (''semantic'', ds_Semantic b, roundQuality (qw_Semantic w)),
        (''judged'', ds_Judged b, roundQuality (qw_Judged w)),
        (''overall'', overall, Fin 1)]"

subsection \<open>Telemetry of a model\<close>

record modelObservation =
  mo_model :: string
  mo_provider :: string
  mo_requests :: int64
  mo_errors :: int64
  mo_inputTokens :: int64
  mo_outputTokens :: int64
  mo_latencyWeightedMillis :: f64
  mo_latencyWeight :: f64
  mo_latencyTelemetryObserved :: bool

definition new_observation :: "string \<Rightarrow> modelObservation" where
  "new_observation model =
     \<lparr>mo_model = model, mo_provider = '''', mo_requests = 0, mo_errors = 0, mo_inputTokens = 0,
      mo_outputTokens = 0, mo_latencyWeightedMillis = Fin 0, mo_latencyWeight = Fin 0,
      mo_latencyTelemetryObserved = False\<rparr>"

definition budgetTargetForQualityGate :: "AIQualityGateTarget \<Rightarrow> BudgetTarget" where
  "budgetTargetForQualityGate target =
     \<lparr>bt_Namespace = gt_Namespace target, bt_Team = gt_Team target, bt_Application = gt_Application target\<rparr>"

definition observe_step :: "AIQualityGateTarget \<Rightarrow> string \<Rightarrow> UsageSample \<Rightarrow> modelObservation \<Rightarrow> modelObservation" where
  "observe_step target model s obs =
     (if us_Model s \<noteq> model \<or> \<not> budgetTargetMatchesSample s (budgetTargetForQualityGate target) then obs
      else
        let obs = (if mo_provider obs = '''' then obs\<lparr>mo_provider := us_Provider s\<rparr> else obs);
            obs = obs\<lparr>mo_requests := mo_requests obs + us_Requests s, mo_errors := mo_errors obs + us_Errors s,
              mo_inputTokens := mo_inputTokens obs + us_InputTokens s,
              mo_outputTokens := mo_outputTokens obs + us_OutputTokens s\<rparr>
        in if flt (Fin 0) (us_LatencyMillis s) \<and> 0 < sint (us_Requests s) then
             obs\<lparr>mo_latencyTelemetryObserved := True,
               mo_latencyWeightedMillis := fadd (mo_latencyWeightedMillis obs)
                 (fmul (us_LatencyMillis s) (of_i64 (us_Requests s))),
               mo_latencyWeight := fadd (mo_latencyWeight obs) (of_i64 (us_Requests s))\<rparr>
           else obs)"

definition observeModel ::
  "UsageSample list \<Rightarrow> AIQualityGateTarget \<Rightarrow> string \<Rightarrow> modelObservation \<times> bool" where
  "observeModel samples target model =
     (let obs = fold (observe_step target model) samples (new_observation model)
      in (obs, 0 < sint (mo_requests obs)))"

definition averageLatencyMillis :: "modelObservation \<Rightarrow> f64" where
  "averageLatencyMillis o1 =
     (if \<not> mo_latencyTelemetryObserved o1 \<or> fle (mo_latencyWeight o1) (Fin 0) then Fin 0
      else fdiv (mo_latencyWeightedMillis o1) (mo_latencyWeight o1))"

definition latencyMillis :: "modelObservation \<Rightarrow> f64" where
  "latencyMillis o1 =
     (if \<not> mo_latencyTelemetryObserved o1 \<or> fle (mo_latencyWeight o1) (Fin 0) then Fin 0
      else fdiv (mo_latencyWeightedMillis o1) (mo_latencyWeight o1))"

definition errorRatePercent :: "modelObservation \<Rightarrow> f64" where
  "errorRatePercent o1 =
     (if sint (mo_requests o1) \<le> 0 then Fin 0
      else fdiv (fmul (of_i64 (mo_errors o1)) (Fin 100)) (of_i64 (mo_requests o1)))"

definition decimalString :: "f64 \<Rightarrow> nat \<Rightarrow> string" where
  "decimalString v decimals = fmt_f decimals v"

definition observation_toAPI :: "modelObservation \<Rightarrow> AIQualityModelObservation" where
  "observation_toAPI o1 =
     \<lparr>qo_Model = mo_model o1, qo_Provider = mo_provider o1, qo_Requests = mo_requests o1,
      qo_Errors = mo_errors o1, qo_ErrorRatePercent = decimalString (errorRatePercent o1) 3,
      qo_ObservedLatencyMillis = decimalString (latencyMillis o1) 3,
      qo_LatencyTelemetryAvailable = mo_latencyTelemetryObserved o1\<rparr>"

definition toQualityTelemetry :: "modelObservation \<Rightarrow> qualityEvidenceSample list \<Rightarrow> string \<Rightarrow> Telemetry" where
  "toQualityTelemetry o1 evidence model =
     \<lparr>qt_Requests = mo_requests o1, qt_Errors = mo_errors o1, qt_Timeouts = 0,
      qt_InvalidJSON = invalidJSONCount evidence model, qt_LatencyMillis = latencyMillis o1,
      qt_LatencyObserved = mo_latencyTelemetryObserved o1\<rparr>"

definition observation_cost :: "modelObservation \<Rightarrow> TokenPricing \<Rightarrow> f64" where
  "observation_cost o1 p =
     fadd (fmul (fdiv (of_i64 (mo_inputTokens o1)) (Fin 1000000)) (tp_InputPerMillion p))
          (fmul (fdiv (of_i64 (mo_outputTokens o1)) (Fin 1000000)) (tp_OutputPerMillion p))"

definition qualityGateCostScore ::
  "(quantity \<Rightarrow> f64) \<Rightarrow> catalog result \<Rightarrow> modelObservation \<Rightarrow> modelObservation \<Rightarrow> f64" where
  "qualityGateCostScore qf loaded sourceObs candidateObs =
     (case loaded of
        Inl _ \<Rightarrow> Fin 0
      | Inr cat \<Rightarrow>
          (case (map_of (priceBook qf cat) (mo_model sourceObs), map_of (priceBook qf cat) (mo_model candidateObs)) of
             (Some sp, Some cp) \<Rightarrow> CostScore (observation_cost sourceObs sp) (observation_cost candidateObs cp)
           | _ \<Rightarrow> Fin 0))"

subsection \<open>Operational checks\<close>

definition latency_check ::
  "modelObservation \<Rightarrow> bool \<Rightarrow> modelObservation \<Rightarrow> bool \<Rightarrow> AIQualityRequiredChecks \<Rightarrow> string list \<times> string list" where
  "latency_check source sourceOK candidate candidateOK checks =
     (if \<not> 0 < sint (qc_MaxLatencyIncreasePercent checks) then ([], [])
      else if \<not> sourceOK \<or> \<not> candidateOK \<or> \<not> mo_latencyTelemetryObserved source \<or> \<not> mo_latencyTelemetryObserved candidate then
        ([], [''latency regression check requires observed latency for both source and candidate models''])
      else let src = latencyMillis source; cand = latencyMillis candidate
        in if fle src (Fin 0) then ([], [''latency regression check requires positive source latency''])
           else let increase = fdiv (fmul (fsub cand src) (Fin 100)) src
             in if flt (of_i32 (qc_MaxLatencyIncreasePercent checks)) increase then
                  ([''candidate latency increase '' @ fmt_f 3 increase @ ''% exceeds threshold '' @
                    show_int (sint (qc_MaxLatencyIncreasePercent checks)) @ ''%''], [])
                else ([], []))"

definition appendOperationalChecks ::
  "string list \<Rightarrow> string list \<Rightarrow> modelObservation \<Rightarrow> bool \<Rightarrow> modelObservation \<Rightarrow> bool \<Rightarrow> AIQualityRequiredChecks \<Rightarrow>
     string list \<times> string list" where
  "appendOperationalChecks failures pending source sourceOK candidate candidateOK checks =
     (let pending = pending @ (if \<not> candidateOK
            then [GoText.render ''no telemetry observed for candidate model %q in target application'' [mo_model candidate]] else []);
          failures = failures @ (if 0 < sint (qc_MaxErrorRatePercent checks) \<and> candidateOK \<and>
              flt (of_i32 (qc_MaxErrorRatePercent checks)) (errorRatePercent candidate)
            then [''candidate error rate '' @ fmt_f 3 (errorRatePercent candidate) @ ''% exceeds threshold '' @
                  show_int (sint (qc_MaxErrorRatePercent checks)) @ ''%''] else []);
          (lf, lp) = latency_check source sourceOK candidate candidateOK checks;
          retry = (if 0 < sint (qc_MaxRetryIncreasePercent checks)
            then [''retry regression check is configured but retry telemetry is not available yet''] else [])
      in (failures @ lf, pending @ lp @ retry))"

definition hasTelemetryMissing :: "string list \<Rightarrow> bool" where
  "hasTelemetryMissing messages =
     list_ex (\<lambda>msg. let lower = ToLower msg
       in Contains lower ''telemetry'' \<or> Contains lower ''latency'' \<or> Contains lower ''reliability'') messages"


section \<open>What the signals mean\<close>

lemma override_simps [simp]: "override d None = d" "override d (Some x) = x"
  by (simp_all add: override_def)

text \<open>A text that is blank after trimming, and a prompt in order.\<close>

definition prompt_complete :: "goldenPrompt \<Rightarrow> bool" where
  "prompt_complete p \<longleftrightarrow> TrimSpace (pr_ID p) \<noteq> '''' \<and> TrimSpace (pr_Prompt p) \<noteq> ''''"

lemma TrimSpace_Nil [simp]: "TrimSpace [] = []"
  by (simp add: TrimSpace_def)

lemma dataset_failures_Nil:
  "dataset_failures i seen ps = [] \<longleftrightarrow>
     (\<forall>p \<in> set ps. prompt_complete p) \<and> distinct (map pr_ID ps) \<and> pr_ID ` set ps \<inter> set seen = {}"
proof (induction ps arbitrary: i seen)
  case (Cons p ps)
  show ?case
  proof (cases "TrimSpace (pr_ID p) = ''''")
    case False
    then have "pr_ID p \<noteq> ''''" by auto
    then show ?thesis using False Cons.IH by (auto simp: prompt_complete_def)
  qed (simp add: prompt_complete_def)
qed simp

lemma validateGoldenDataset_Nil:
  "validateGoldenDataset ps = [] \<longleftrightarrow>
     ps \<noteq> [] \<and> (\<forall>p \<in> set ps. prompt_complete p) \<and> distinct (map pr_ID ps)"
  by (auto simp: validateGoldenDataset_def dataset_failures_Nil)

text \<open>A fold of updates keeps the last entry of a key.\<close>

lemma fold_last_entry:
  "map_of (fold (\<lambda>x m. if P x then AList.update (key x) x m else m) xs m0) k =
     (case find (\<lambda>x. P x \<and> key x = k) (rev xs) of Some x \<Rightarrow> Some x | None \<Rightarrow> map_of m0 k)"
proof (induction xs rule: rev_induct)
  case (snoc x xs)
  then show ?case by (auto simp: update_conv')
qed simp

lemma evidenceByIDForModel_lookup:
  "map_of (evidenceByIDForModel es model) k =
     find (\<lambda>ev. qv_ID ev \<noteq> '''' \<and> qv_Model ev = model \<and> qv_ID ev = k) (rev es)"
proof -
  have "evidenceByIDForModel es model =
      fold (\<lambda>ev m. if qv_ID ev \<noteq> '''' \<and> qv_Model ev = model then AList.update (qv_ID ev) ev m else m) es []"
    unfolding evidenceByIDForModel_def by (intro fold_cong) auto
  then show ?thesis by (simp add: fold_last_entry conj_assoc split: option.splits)
qed

lemma candidate_evidence_lookup:
  "map_of (candidate_evidence es model) k =
     find (\<lambda>ev. qv_ID ev \<noteq> '''' \<and> (qv_Model ev = '''' \<or> qv_Model ev = model) \<and> qv_ID ev = k) (rev es)"
proof -
  have "candidate_evidence es model =
      fold (\<lambda>ev m. if qv_ID ev \<noteq> '''' \<and> (qv_Model ev = '''' \<or> qv_Model ev = model)
        then AList.update (qv_ID ev) ev m else m) es []"
    unfolding candidate_evidence_def by (intro fold_cong) auto
  then show ?thesis by (simp add: fold_last_entry conj_assoc split: option.splits)
qed

text \<open>A sample satisfies the required checks.\<close>

definition checks_hold :: "AIQualityRequiredChecks \<Rightarrow> qualityEvidenceSample \<Rightarrow> bool" where
  "checks_hold c ev \<longleftrightarrow>
     (qc_SchemaValid c \<longrightarrow> qv_SchemaValid ev = Some True) \<and>
     (qc_NoUnexpectedRefusal c \<longrightarrow> qv_UnexpectedRefusal ev = Some False) \<and>
     (qc_NoSensitiveDataLeak c \<longrightarrow> qv_SensitiveDataLeak ev = Some False) \<and>
     (qc_RequiredKeywords c \<noteq> [] \<longrightarrow> qv_RequiredKeywordsPresent ev = Some True)"

lemma prompt_checks_Nil [simp]: "prompt_checks c p ev = [] \<longleftrightarrow> checks_hold c ev"
  by (auto simp: prompt_checks_def checks_hold_def)

lemma evaluateEvidence_Nil:
  "evaluateEvidence ps es model c = [] \<longleftrightarrow>
     (\<forall>p \<in> set ps. \<exists>ev. map_of (candidate_evidence es model) (pr_ID p) = Some ev \<and> checks_hold c ev)"
  by (auto simp: evaluateEvidence_def split: option.splits)

lemma length_buildQualitySamples:
  "(\<forall>p \<in> set ps. map_of (evidenceByIDForModel es m) (pr_ID p) \<noteq> None) \<Longrightarrow>
     length (buildQualitySamples U ps es m) = length ps"
  unfolding buildQualitySamples_def by (induction ps) (auto split: option.splits)

lemma buildQualitySamples_none [simp]: "buildQualitySamples U ps [] m = []"
  by (induction ps) (simp_all add: buildQualitySamples_def evidenceByIDForModel_def)

text \<open>What a model's telemetry adds up to: the samples of the model in the target.\<close>

definition in_target :: "AIQualityGateTarget \<Rightarrow> string \<Rightarrow> UsageSample \<Rightarrow> bool" where
  "in_target target model s \<longleftrightarrow> us_Model s = model \<and> target_match s (budgetTargetForQualityGate target)"

lemma observe_fold:
  "mo_model (fold (observe_step t m) ss o1) = mo_model o1 \<and>
   mo_requests (fold (observe_step t m) ss o1) = mo_requests o1 + sum_list (map us_Requests (filter (in_target t m) ss)) \<and>
   mo_errors (fold (observe_step t m) ss o1) = mo_errors o1 + sum_list (map us_Errors (filter (in_target t m) ss))"
  by (induction ss arbitrary: o1)
     (auto simp: observe_step_def in_target_def budgetTargetMatchesSample_eq Let_def add.assoc)

lemma observeModel_sums:
  "mo_model (fst (observeModel ss t m)) = m"
  "mo_requests (fst (observeModel ss t m)) = sum_list (map us_Requests (filter (in_target t m) ss))"
  "mo_errors (fst (observeModel ss t m)) = sum_list (map us_Errors (filter (in_target t m) ss))"
  "snd (observeModel ss t m) \<longleftrightarrow> 0 < sint (sum_list (map us_Requests (filter (in_target t m) ss)))"
  by (simp_all add: observeModel_def Let_def observe_fold new_observation_def)

text \<open>The operational checks of a gate hold for what was observed.\<close>

definition operational_ok ::
  "modelObservation \<Rightarrow> bool \<Rightarrow> modelObservation \<Rightarrow> bool \<Rightarrow> AIQualityRequiredChecks \<Rightarrow> bool" where
  "operational_ok source sourceOK candidate candidateOK c \<longleftrightarrow>
     candidateOK \<and>
     (0 < sint (qc_MaxErrorRatePercent c) \<longrightarrow>
        \<not> flt (of_i32 (qc_MaxErrorRatePercent c)) (errorRatePercent candidate)) \<and>
     (0 < sint (qc_MaxLatencyIncreasePercent c) \<longrightarrow>
        sourceOK \<and> mo_latencyTelemetryObserved source \<and> mo_latencyTelemetryObserved candidate \<and>
        \<not> fle (latencyMillis source) (Fin 0) \<and>
        \<not> flt (of_i32 (qc_MaxLatencyIncreasePercent c))
           (fdiv (fmul (fsub (latencyMillis candidate) (latencyMillis source)) (Fin 100)) (latencyMillis source))) \<and>
     \<not> 0 < sint (qc_MaxRetryIncreasePercent c)"

lemma appendOperationalChecks_Nil:
  "fst (appendOperationalChecks f p s sok c cok k) = [] \<and> snd (appendOperationalChecks f p s sok c cok k) = [] \<longleftrightarrow>
     f = [] \<and> p = [] \<and> operational_ok s sok c cok k"
  by (auto simp: appendOperationalChecks_def latency_check_def operational_ok_def Let_def split: if_splits)

lemma appendOperationalChecks_extends:
  "\<exists>f' p'. appendOperationalChecks f p s sok c cok k = (f @ f', p @ p')"
  by (simp add: appendOperationalChecks_def Let_def split_def)


end
