(* ===== verification/Qualitygate.thy ===== *)
theory Qualitygate
  imports Qualitysignals Sovereigntyreconcile Sha256
begin

section \<open>The quality gate controller (aiqualitygate_controller.go, qualitygatemetrics.go)\<close>

text \<open>
  One run of the controller as a function from the environment (what the calls that fail return, the
  objects it only reads, the clock, the YAML decoder) and the world (the gates, ConfigMaps and Jobs
  of the cluster, the scores of the models, the gauges) to the world after it and the result. An
  error carries its text and whether a NotFound status is in its chain.
\<close>

definition qualityGateFinalizer :: string where "qualityGateFinalizer = ''aiops.imperium.io/quality-gate-cleanup''"
definition qualityGateLabel :: string where "qualityGateLabel = ''aiops.imperium.io/quality-gate''"
definition qualityEvaluatorLabel :: string where "qualityEvaluatorLabel = ''aiops.imperium.io/quality-evaluator''"
definition qualityEvidenceSourceLabel :: string where "qualityEvidenceSourceLabel = ''aiops.imperium.io/evidence-source''"
definition qualityEvidenceSourceJob :: string where "qualityEvidenceSourceJob = ''quality-eval-job''"

subsection \<open>Errors and objects of the cluster\<close>

datatype k8s_error = K8sErr bool string

fun IsNotFound :: "k8s_error \<Rightarrow> bool" where "IsNotFound (K8sErr nf t) = nf"
fun error_string :: "k8s_error \<Rightarrow> string" where "error_string (K8sErr nf t) = t"

text \<open>\<open>fmt.Errorf("...: %w", err)\<close> and \<open>fmt.Errorf\<close> without a cause.\<close>

fun wrapErr :: "string \<Rightarrow> k8s_error \<Rightarrow> k8s_error" where "wrapErr pre (K8sErr nf t) = K8sErr nf (pre @ t)"
definition newErr :: "string \<Rightarrow> k8s_error" where "newErr t = K8sErr False t"

record ConfigMap =
  cm_Labels :: "(string, string) gomap"
  cm_Annotations :: "(string, string) gomap"
  cm_Data :: "(string, string) gomap"
  cm_Owner :: "string option"

definition entry :: "(string, string) gomap \<Rightarrow> string \<Rightarrow> string" where
  "entry m k = (case map_of m k of None \<Rightarrow> '''' | Some v \<Rightarrow> v)"

record EvaluatorContainer =
  ec_Name :: string
  ec_Image :: string
  ec_ImagePullPolicy :: string
  ec_Command :: "string list"
  ec_Args :: "string list"
  ec_VolumeMounts :: "(string \<times> string \<times> bool) list"
  ec_TerminationMessagePath :: string
  ec_TerminationMessagePolicy :: string
  ec_AllowPrivilegeEscalation :: bool
  ec_RunAsNonRoot :: bool
  ec_ReadOnlyRootFilesystem :: bool
  ec_DropCapabilities :: "string list"
  ec_Requests :: "(string, string) gomap"
  ec_Limits :: "(string, string) gomap"

record EvaluationJob =
  ej_Labels :: "(string, string) gomap"
  ej_Owner :: "string option"
  ej_BackoffLimit :: int32
  ej_TTLSecondsAfterFinished :: int32
  ej_PodLabels :: "(string, string) gomap"
  ej_RestartPolicy :: string
  ej_RunAsNonRoot :: bool
  ej_SeccompProfile :: string
  ej_Container :: EvaluatorContainer
  ej_VolumeName :: string
  ej_VolumeConfigMap :: string
  ej_VolumeItems :: "(string \<times> string) list"
  ej_Active :: int32
  ej_Succeeded :: int32
  ej_Failed :: int32

text \<open>A container status of a pod: its name and, once terminated, exit code and message.\<close>

record EvaluatorPod =
  ep_Name :: string
  ep_Statuses :: "(string \<times> (int \<times> string) option) list"

record qualityScoreEvidence =
  qz_GoldenDatasetRef :: ConfigMapDataReference
  qz_SourceModel :: string
  qz_CandidateModel :: string
  qz_Source :: ModelResult
  qz_Candidate :: ModelResult
  qz_Verdict :: string
  qz_TolerancePoints :: f64
  qz_GeneratedAt :: string

subsection \<open>The gauges (qualitygatemetrics.go)\<close>

record qualityGateSeriesSet =
  se_passed :: "series list"
  se_failedChecks :: "series list"
  se_score :: "series list"
  se_dimensions :: "series list"

type_synonym gauge = "(series, f64) gomap"

record qualityGateMetricTracker =
  qg_passed :: gauge
  qg_failedChecks :: gauge
  qg_score :: gauge
  qg_quality :: gauge
  qg_byUID :: "(string, qualityGateSeriesSet) gomap"

definition no_series :: qualityGateSeriesSet where
  "no_series = \<lparr>se_passed = [], se_failedChecks = [], se_score = [], se_dimensions = []\<rparr>"

definition addGate :: "string \<Rightarrow> AIQualityGate \<Rightarrow> qualityGateSeriesSet \<Rightarrow> qualityGateSeriesSet" where
  "addGate name g s =
     (let t = gs_Target (gate_Spec g);
          scoped = [gate_Namespace g, name, gt_Namespace t, gt_Application t]
      in s\<lparr>se_passed := se_passed s @ [[gate_Namespace g, name, gt_Namespace t, gt_Application t,
             gs_SourceModel (gate_Spec g), gs_CandidateModel (gate_Spec g)]],
           se_failedChecks := se_failedChecks s @ [scoped], se_score := se_score s @ [scoped]\<rparr>)"

definition addDimension :: "string \<Rightarrow> string \<Rightarrow> string \<Rightarrow> string \<Rightarrow> string \<Rightarrow> qualityGateSeriesSet \<Rightarrow> qualityGateSeriesSet" where
  "addDimension targetNamespace application provider model dname s =
     s\<lparr>se_dimensions := se_dimensions s @ [[targetNamespace, application, provider, model, dname]]\<rparr>"

text \<open>\<open>deleteStale\<close> on a gauge with its values.\<close>

definition prune_gauge :: "series list \<Rightarrow> series list \<Rightarrow> gauge \<Rightarrow> gauge" where
  "prune_gauge prev now vec = fold (\<lambda>t v. if containsTuple now t then v else AList.delete t v) prev vec"

definition prune_gauges :: "qualityGateSeriesSet \<Rightarrow> qualityGateSeriesSet \<Rightarrow> qualityGateMetricTracker \<Rightarrow> qualityGateMetricTracker" where
  "prune_gauges prev now t =
     t\<lparr>qg_passed := prune_gauge (se_passed prev) (se_passed now) (qg_passed t),
       qg_failedChecks := prune_gauge (se_failedChecks prev) (se_failedChecks now) (qg_failedChecks t),
       qg_score := prune_gauge (se_score prev) (se_score now) (qg_score t),
       qg_quality := prune_gauge (se_dimensions prev) (se_dimensions now) (qg_quality t)\<rparr>"

definition gate_retire :: "string \<Rightarrow> qualityGateSeriesSet \<Rightarrow> qualityGateMetricTracker \<Rightarrow> qualityGateMetricTracker" where
  "gate_retire uid now t =
     (let t = (case map_of (qg_byUID t) uid of None \<Rightarrow> t | Some prev \<Rightarrow> prune_gauges prev now t)
      in t\<lparr>qg_byUID := AList.update uid now (qg_byUID t)\<rparr>)"

definition gate_forget :: "string \<Rightarrow> qualityGateMetricTracker \<Rightarrow> qualityGateMetricTracker" where
  "gate_forget uid t =
     (case map_of (qg_byUID t) uid of
        None \<Rightarrow> t
      | Some prev \<Rightarrow> (prune_gauges prev no_series t)\<lparr>qg_byUID := AList.delete uid (qg_byUID t)\<rparr>)"

subsection \<open>Environment and world\<close>

datatype gate_call =
    GetGate | UpdateGate | ListJobs | DeleteJob string | CleanupEvidence | DeleteEvidence
  | ReadDataset | ReadDatasetMetadata | ReadEvidence | ListPolicies | ListZoneModels string
  | GetProvider string | GetPod | GetJob | SetJobOwner | CreateJob | ListPods | ReadRawEvidence
  | SetEvidenceOwner | WriteRawEvidence | GetGateway | ListGateways | ListProviderModels
  | ReadScoreEvidence | WriteScoreEvidence | ListQualityModels | UpdateModelStatus string | UpdateGateStatus

record gate_env =
  ge_fault :: "gate_call \<Rightarrow> k8s_error option"
  ge_missing :: "string \<Rightarrow> string \<Rightarrow> string"
  ge_now :: time
  ge_unicode :: unicode_tables
  ge_validJSON :: "rtext \<Rightarrow> bool"
  ge_oor :: "f64 \<Rightarrow> int64"
  ge_qf :: "quantity \<Rightarrow> f64"
  ge_prompts :: "string \<Rightarrow> goldenPrompt list option"
  ge_wrappedPrompts :: "string \<Rightarrow> string + goldenPrompt list"
  ge_samples :: "string \<Rightarrow> qualityEvidenceSample list option"
  ge_wrappedSamples :: "string \<Rightarrow> string + qualityEvidenceSample list"
  ge_marshal :: "qualityScoreEvidence \<Rightarrow> string + string"
  ge_policies :: "(string \<times> AISovereigntyPolicySpec) list"
  ge_models :: "AIModel list"
  ge_providers :: "(string, AIProvider) gomap"
  ge_gateways :: "(string, AIGateway) gomap"
  ge_catalog :: "catalog result"
  ge_collect :: "Collector \<Rightarrow> string \<Rightarrow> string + UsageSample list"
  ge_environ :: "string \<Rightarrow> string"
  ge_operatorPod :: "string \<Rightarrow> string \<Rightarrow> (string \<times> string) list option"
  ge_pods :: "string \<Rightarrow> EvaluatorPod list"

record gate_world =
  gw_gates :: "(string, AIQualityGate) gomap"
  gw_configmaps :: "(string \<times> string, ConfigMap) gomap"
  gw_jobs :: "(string \<times> string, EvaluationJob) gomap"
  gw_modelScores :: "(string, f64 \<times> time) gomap"
  gw_metrics :: qualityGateMetricTracker
  gw_events :: "(bool \<times> string) list"

type_synonym gate_outcome = "int \<times> k8s_error option"

definition call :: "gate_env \<Rightarrow> gate_call \<Rightarrow> 'a \<Rightarrow> k8s_error + 'a" where
  "call E c x = (case ge_fault E c of Some e \<Rightarrow> Inl e | None \<Rightarrow> Inr x)"

definition fetch :: "gate_env \<Rightarrow> gate_call \<Rightarrow> string \<Rightarrow> string \<Rightarrow> 'a option \<Rightarrow> k8s_error + 'a" where
  "fetch E c kind name found =
     (case ge_fault E c of
        Some e \<Rightarrow> Inl e
      | None \<Rightarrow> (case found of None \<Rightarrow> Inl (K8sErr True (ge_missing E kind name)) | Some x \<Rightarrow> Inr x))"

definition get_configmap :: "gate_env \<Rightarrow> gate_call \<Rightarrow> gate_world \<Rightarrow> string \<Rightarrow> string \<Rightarrow> k8s_error + ConfigMap" where
  "get_configmap E c w ns name = fetch E c ''configmaps'' name (map_of (gw_configmaps w) (ns, name))"

definition ref_namespace :: "string \<Rightarrow> ConfigMapDataReference \<Rightarrow> string" where
  "ref_namespace d ref = (if dref_Namespace ref = '''' then d else dref_Namespace ref)"

subsection \<open>Reading the dataset and the evidence\<close>

definition configMapData :: "string \<Rightarrow> string \<Rightarrow> ConfigMap \<Rightarrow> string \<Rightarrow> string list \<Rightarrow> k8s_error + string" where
  "configMapData ns name cm key defaultKeys =
     (if key \<noteq> '''' then
        (case map_of (cm_Data cm) key of
           Some v \<Rightarrow> Inr v
         | None \<Rightarrow> Inl (newErr (GoText.render ''ConfigMap %s/%s missing key %q'' [ns, name, key])))
      else case find (\<lambda>k. map_of (cm_Data cm) k \<noteq> None) defaultKeys of
        Some k \<Rightarrow> Inr (the (map_of (cm_Data cm) k))
      | None \<Rightarrow> Inl (newErr (GoText.render ''ConfigMap %s/%s missing one of keys %s'' [ns, name, Join defaultKeys '', ''])))"

definition dataset_keys :: "string list" where
  "dataset_keys = [''prompts.yaml'', ''prompts.yml'', ''prompts.json'']"

definition evidence_keys :: "string list" where
  "evidence_keys = [''results.yaml'', ''results.yml'', ''evidence.yaml'', ''evidence.yml'', ''results.json'']"

definition readConfigMapData ::
  "gate_env \<Rightarrow> gate_world \<Rightarrow> string \<Rightarrow> ConfigMapDataReference \<Rightarrow> string list \<Rightarrow> k8s_error + string" where
  "readConfigMapData E w defaultNamespace ref defaultKeys =
     (let ns = ref_namespace defaultNamespace ref; name = dref_Name ref
      in case get_configmap E ReadDataset w ns name of
           Inl e \<Rightarrow> Inl (wrapErr (GoText.render ''read ConfigMap %s/%s: '' [ns, name]) e)
         | Inr cm \<Rightarrow> configMapData ns name cm (dref_Key ref) defaultKeys)"

definition readEvidenceConfigMapData ::
  "gate_env \<Rightarrow> gate_world \<Rightarrow> string \<Rightarrow> ConfigMapDataReference \<Rightarrow> string list \<Rightarrow> k8s_error + string" where
  "readEvidenceConfigMapData E w defaultNamespace ref defaultKeys =
     (let ns = ref_namespace defaultNamespace ref; name = dref_Name ref
      in case get_configmap E ReadEvidence w ns name of
           Inl e \<Rightarrow> Inl (wrapErr (GoText.render ''read ConfigMap %s/%s: '' [ns, name]) e)
         | Inr cm \<Rightarrow>
             if entry (cm_Labels cm) qualityEvidenceSourceLabel \<noteq> qualityEvidenceSourceJob then
               Inl (newErr (GoText.render ''ConfigMap %s/%s is not live evidence from a quality evaluation job'' [ns, name]))
             else if entry (cm_Labels cm) qualityGateLabel = '''' then
               Inl (newErr (GoText.render ''ConfigMap %s/%s is missing quality gate ownership label'' [ns, name]))
             else configMapData ns name cm (dref_Key ref) defaultKeys)"

definition loadGoldenDataset ::
  "gate_env \<Rightarrow> gate_world \<Rightarrow> string \<Rightarrow> ConfigMapDataReference \<Rightarrow> k8s_error + goldenPrompt list" where
  "loadGoldenDataset E w defaultNamespace ref =
     (case readConfigMapData E w defaultNamespace ref dataset_keys of
        Inl e \<Rightarrow> Inl e
      | Inr raw \<Rightarrow>
          (case ge_prompts E raw of
             Some (p # ps) \<Rightarrow> Inr (p # ps)
           | _ \<Rightarrow> (case ge_wrappedPrompts E raw of
               Inl t \<Rightarrow> Inl (newErr (GoText.render ''parse golden dataset %s: '' [dref_Name ref] @ t))
             | Inr ps \<Rightarrow> Inr ps)))"

definition loadEvidence ::
  "gate_env \<Rightarrow> gate_world \<Rightarrow> string \<Rightarrow> ConfigMapDataReference \<Rightarrow> k8s_error + qualityEvidenceSample list" where
  "loadEvidence E w defaultNamespace ref =
     (case readEvidenceConfigMapData E w defaultNamespace ref evidence_keys of
        Inl e \<Rightarrow> Inl e
      | Inr raw \<Rightarrow>
          (case ge_samples E raw of
             Some (s # ss) \<Rightarrow> Inr (s # ss)
           | _ \<Rightarrow> (case ge_wrappedSamples E raw of
               Inl t \<Rightarrow> Inl (newErr (GoText.render ''parse quality evidence %s: '' [dref_Name ref] @ t))
             | Inr ss \<Rightarrow> Inr ss)))"

definition goldenDatasetMetadata ::
  "gate_env \<Rightarrow> gate_world \<Rightarrow> string \<Rightarrow> ConfigMapDataReference \<Rightarrow> string \<times> string" where
  "goldenDatasetMetadata E w defaultNamespace ref =
     (let ns = ref_namespace defaultNamespace ref; name = dref_Name ref
      in case get_configmap E ReadDatasetMetadata w ns name of
           Inl _ \<Rightarrow> ('''', '''')
         | Inr cm \<Rightarrow>
             (case configMapData ns name cm (dref_Key ref) dataset_keys of
                Inl _ \<Rightarrow> ('''', '''')
              | Inr raw \<Rightarrow>
                  (let v = entry (cm_Annotations cm) ''aiops.imperium.io/dataset-version''
                   in (if v = '''' then entry (cm_Labels cm) ''aiops.imperium.io/dataset-version'' else v,
                       sha256_hex raw))))"

subsection \<open>The evaluation job\<close>

definition firstSovereigntyPolicy :: "gate_env \<Rightarrow> (string \<times> AISovereigntyPolicySpec) option" where
  "firstSovereigntyPolicy E =
     (case call E ListPolicies (ge_policies E) of
        Inl _ \<Rightarrow> None | Inr [] \<Rightarrow> None | Inr (p # _) \<Rightarrow> Some p)"

definition providerZoneForModel :: "gate_env \<Rightarrow> string \<Rightarrow> k8s_error + string \<times> string \<times> bool" where
  "providerZoneForModel E modelName =
     (case call E (ListZoneModels modelName) (ge_models E) of
        Inl e \<Rightarrow> Inl e
      | Inr models \<Rightarrow>
          (case find (\<lambda>m. ms_ModelName (model_Spec m) = modelName) models of
             None \<Rightarrow> Inr ('''', '''', False)
           | Some m \<Rightarrow>
               (let ref = ms_ProviderRef (model_Spec m)
                in case fetch E (GetProvider modelName) ''aiproviders'' ref (map_of (ge_providers E) ref) of
                     Inl e \<Rightarrow> if IsNotFound e then Inr (ref, '''', False) else Inl e
                   | Inr prov \<Rightarrow> Inr (prov_Name prov, ps_DataResidency (prov_Spec prov), True))))"

text \<open>The loop over the two models: the first that is unknown or outside the allowed zones.\<close>

fun models_block :: "gate_env \<Rightarrow> string \<Rightarrow> Policy \<Rightarrow> string list \<Rightarrow> k8s_error + string" where
  "models_block E policyName pe [] = Inr ''''"
| "models_block E policyName pe (model # models) =
     (case providerZoneForModel E model of
        Inl e \<Rightarrow> Inl e
      | Inr (provider, zone, ok) \<Rightarrow>
          if \<not> ok then
            Inr (GoText.render ''quality evaluation requires catalogued AIModel/AIProvider to verify sovereignty before calling model %q'' [model])
          else if \<not> IsZoneAllowed pe zone then
            Inr (GoText.render ''quality evaluation blocked: model %q on provider %q is in non-compliant zone %s for AISovereigntyPolicy %q''
              [model, provider, NormalizeZone zone, policyName])
          else models_block E policyName pe models)"

definition evaluationSovereigntyBlock :: "gate_env \<Rightarrow> AIQualityGateSpec \<Rightarrow> k8s_error + string" where
  "evaluationSovereigntyBlock E spec =
     (case firstSovereigntyPolicy E of
        None \<Rightarrow> Inr ''''
      | Some (policyName, p) \<Rightarrow>
          models_block E policyName (policyToEngine p) [gs_SourceModel spec, gs_CandidateModel spec])"

definition qualityEvaluatorImage :: "gate_env \<Rightarrow> AIQualityGateSpec \<Rightarrow> k8s_error + string" where
  "qualityEvaluatorImage E spec =
     (let img = TrimSpace (qe_Image (gs_Evaluation spec));
          env_image = TrimSpace (ge_environ E ''QUALITY_EVALUATOR_IMAGE'');
          podName = TrimSpace (ge_environ E ''POD_NAME'');
          podNamespace = TrimSpace (ge_environ E ''POD_NAMESPACE'')
      in if img \<noteq> '''' then Inr img
         else if env_image \<noteq> '''' then Inr env_image
         else if podName = '''' \<or> podNamespace = '''' then
           Inl (newErr ''quality evaluation image is not configured; set spec.evaluation.image or QUALITY_EVALUATOR_IMAGE'')
         else case fetch E GetPod ''pods'' podName (ge_operatorPod E podNamespace podName) of
           Inl e \<Rightarrow> Inl (wrapErr ''read operator pod image for quality evaluation: '' e)
         | Inr containers \<Rightarrow>
             (case find (\<lambda>c. fst c = ''manager'') containers of
                Some c \<Rightarrow> Inr (snd c)
              | None \<Rightarrow> Inl (newErr (GoText.render ''operator pod %s/%s has no manager container image'' [podNamespace, podName]))))"

text \<open>
  \<open>dnsLabelPart\<close>: runs of other characters become one dash. The flag is \<open>lastDash\<close>.
\<close>

definition dns_char :: "char \<Rightarrow> bool" where
  "dns_char c \<longleftrightarrow> (97 \<le> (of_char c :: nat) \<and> (of_char c :: nat) \<le> 122) \<or> (48 \<le> (of_char c :: nat) \<and> (of_char c :: nat) \<le> 57)"

fun dns_runs :: "bool \<Rightarrow> string \<Rightarrow> string" where
  "dns_runs lastDash [] = []"
| "dns_runs lastDash (c # cs) =
     (if dns_char c then c # dns_runs False cs
      else if \<not> lastDash then CHR ''-'' # dns_runs True cs
      else dns_runs True cs)"

definition trim_dashes :: "string \<Rightarrow> string" where
  "trim_dashes s = rev (dropWhile (\<lambda>c. c = CHR ''-'') (rev (dropWhile (\<lambda>c. c = CHR ''-'') s)))"

definition dnsLabelPart :: "string \<Rightarrow> string" where
  "dnsLabelPart i = (let out = trim_dashes (dns_runs False (ToLower i)) in if out = '''' then ''gate'' else out)"

definition qualityEvaluationJobName :: "string \<Rightarrow> AIQualityGate \<Rightarrow> string" where
  "qualityEvaluationJobName name g =
     (let suffix = take 10 (sha1_hex (gate_Namespace g @ ''/'' @ name @ ''/'' @ gate_UID g @ ''/'' @ fmt_d (gate_Generation g)));
          maxBase = 63 - length ''quality-eval-'' - length suffix - 1;
          base = take maxBase (dnsLabelPart name)
      in ''quality-eval-'' @ base @ ''-'' @ suffix)"

definition buildEvaluationJob :: "string \<Rightarrow> AIQualityGate \<Rightarrow> string \<Rightarrow> string \<Rightarrow> EvaluationJob" where
  "buildEvaluationJob name g img endpoint =
     (let spec = gate_Spec g; ev = gs_Evaluation spec;
          labels = [(''app.kubernetes.io/name'', ''ai-finops-operator''), (qualityGateLabel, name),
            (qualityEvaluatorLabel, ''true'')];
          args = [''quality-eval'', ''--endpoint='' @ endpoint, ''--prompts-dir=/quality/dataset'',
            ''--namespace='' @ gt_Namespace (gs_Target spec), ''--application='' @ gt_Application (gs_Target spec),
            ''--source-model='' @ gs_SourceModel spec, ''--candidate-model='' @ gs_CandidateModel spec,
            ''--timeout-seconds='' @ show_int (sint (defaultedEvalTimeoutSeconds (qe_TimeoutSeconds ev))),
            ''--max-tokens='' @ show_int (sint (defaultedEvalMaxTokens (qe_MaxTokens ev)))]
      in \<lparr>ej_Labels = labels, ej_Owner = None, ej_BackoffLimit = 0, ej_TTLSecondsAfterFinished = 600,
          ej_PodLabels = labels, ej_RestartPolicy = ''Never'', ej_RunAsNonRoot = True,
          ej_SeccompProfile = ''RuntimeDefault'',
          ej_Container = \<lparr>ec_Name = ''quality-evaluator'', ec_Image = img, ec_ImagePullPolicy = ''IfNotPresent'',
            ec_Command = [''/manager''], ec_Args = args,
            ec_VolumeMounts = [(''golden-dataset'', ''/quality/dataset'', True)],
            ec_TerminationMessagePath = ''/dev/termination-log'', ec_TerminationMessagePolicy = ''File'',
            ec_AllowPrivilegeEscalation = False, ec_RunAsNonRoot = True, ec_ReadOnlyRootFilesystem = True,
            ec_DropCapabilities = [''ALL''],
            ec_Requests = [(''cpu'', ''10m''), (''memory'', ''32Mi'')],
            ec_Limits = [(''cpu'', ''250m''), (''memory'', ''128Mi'')]\<rparr>,
          ej_VolumeName = ''golden-dataset'', ej_VolumeConfigMap = dref_Name (gs_GoldenDatasetRef spec),
          ej_VolumeItems = (if dref_Key (gs_GoldenDatasetRef spec) \<noteq> ''''
            then [(dref_Key (gs_GoldenDatasetRef spec), ''prompts.yaml'')] else []),
          ej_Active = 0, ej_Succeeded = 0, ej_Failed = 0\<rparr>)"


text \<open>The first terminated evaluator container over all pods of the job decides.\<close>

fun pods_evidence :: "string \<Rightarrow> (string \<times> string \<times> (int \<times> string) option) list \<Rightarrow> (k8s_error + string) option" where
  "pods_evidence ns [] = None"
| "pods_evidence ns ((pod, cname, state) # rest) =
     (if cname \<noteq> ''quality-evaluator'' then pods_evidence ns rest
      else case state of
        None \<Rightarrow> pods_evidence ns rest
      | Some (code, msg) \<Rightarrow>
          if code \<noteq> 0 then
            Some (Inl (newErr (GoText.render ''quality evaluation pod %s/%s exited %d: %s'' [ns, pod, show_int code, msg])))
          else if TrimSpace msg = '''' then
            Some (Inl (newErr (GoText.render ''quality evaluation pod %s/%s completed without evidence in termination message'' [ns, pod])))
          else Some (Inr msg))"

definition evaluationJobEvidence :: "gate_env \<Rightarrow> string \<Rightarrow> string \<Rightarrow> k8s_error + string" where
  "evaluationJobEvidence E ns jobName =
     (case call E ListPods (ge_pods E jobName) of
        Inl e \<Rightarrow> Inl (wrapErr (GoText.render ''list pods for quality evaluation job %s/%s: '' [ns, jobName]) e)
      | Inr pods \<Rightarrow>
          (case pods_evidence ns (concat (map (\<lambda>p. map (\<lambda>(n, s). (ep_Name p, n, s)) (ep_Statuses p)) pods)) of
             Some r \<Rightarrow> r
           | None \<Rightarrow> Inl (newErr (GoText.render ''quality evaluation job %s/%s succeeded but no completed evaluator pod was found'' [ns, jobName]))))"

definition validateEvaluationEvidence :: "gate_env \<Rightarrow> string \<Rightarrow> k8s_error option" where
  "validateEvaluationEvidence E raw =
     (case ge_wrappedSamples E raw of
        Inl t \<Rightarrow> Some (newErr (''parse quality evaluation evidence: '' @ t))
      | Inr samples \<Rightarrow> if samples = [] then Some (newErr ''quality evaluation evidence contains no samples'') else None)"

definition evidence_labels :: "string \<Rightarrow> AIQualityGate \<Rightarrow> (string, string) gomap" where
  "evidence_labels name g =
     [(''app.kubernetes.io/name'', ''ai-finops-operator''), (qualityGateLabel, name),
      (qualityEvidenceSourceLabel, qualityEvidenceSourceJob), (qualityEvaluatorLabel, ''true''),
      (''aiops.imperium.io/evidence'', ''raw-gateway-run''),
      (''aiops.imperium.io/namespace'', gt_Namespace (gs_Target (gate_Spec g)))]"

definition put_configmap :: "gate_env \<Rightarrow> gate_call \<Rightarrow> string \<Rightarrow> string \<Rightarrow> ConfigMap \<Rightarrow> gate_world \<Rightarrow> gate_world \<times> k8s_error option" where
  "put_configmap E c ns name cm w =
     (case ge_fault E c of
        Some e \<Rightarrow> (w, Some e)
      | None \<Rightarrow> (w\<lparr>gw_configmaps := AList.update (ns, name) cm (gw_configmaps w)\<rparr>, None))"

definition writeRawEvidence ::
  "gate_env \<Rightarrow> string \<Rightarrow> AIQualityGate \<Rightarrow> string \<Rightarrow> gate_world \<Rightarrow> gate_world \<times> k8s_error option" where
  "writeRawEvidence E name g raw w =
     (case gs_EvidenceRef (gate_Spec g) of
        None \<Rightarrow> (w, None)
      | Some ref \<Rightarrow>
          (let ns = ref_namespace (gate_Namespace g) ref; cmName = dref_Name ref;
               key = (if dref_Key ref = '''' then ''results.yaml'' else dref_Key ref);
               write = (\<lambda>cm. if ns = gate_Namespace g then
                   (case ge_fault E SetEvidenceOwner of
                      Some e \<Rightarrow> (w, Some (wrapErr ''set owner on quality evidence ConfigMap: '' e))
                    | None \<Rightarrow> put_configmap E WriteRawEvidence ns cmName (cm\<lparr>cm_Owner := Some (gate_UID g)\<rparr>) w)
                 else put_configmap E WriteRawEvidence ns cmName cm w)
           in case get_configmap E ReadRawEvidence w ns cmName of
                Inl e \<Rightarrow>
                  if IsNotFound e then
                    write \<lparr>cm_Labels = evidence_labels name g, cm_Annotations = [], cm_Data = [(key, raw)], cm_Owner = None\<rparr>
                  else (w, Some (wrapErr (GoText.render ''read evidence ConfigMap %s/%s: '' [ns, cmName]) e))
              | Inr cm \<Rightarrow>
                  write (cm\<lparr>cm_Labels := fold (\<lambda>(k, v). AList.update k v) (evidence_labels name g) (cm_Labels cm),
                    cm_Data := AList.update key raw (cm_Data cm)\<rparr>)))"

text \<open>
  The result of \<open>reconcileEvaluationJob\<close>: the world, the name and phase of the job in the status,
  and the message or error.
\<close>

record job_run =
  jr_world :: gate_world
  jr_name :: string
  jr_phase :: string
  jr_result :: "k8s_error + string"

definition start_job :: "gate_env \<Rightarrow> string \<Rightarrow> AIQualityGate \<Rightarrow> string \<Rightarrow> string \<Rightarrow> string \<Rightarrow> job_run \<Rightarrow> job_run" where
  "start_job E name g jobName img endpoint r =
     (case ge_fault E SetJobOwner of
        Some e \<Rightarrow> r\<lparr>jr_result := Inl (wrapErr ''set owner on quality evaluation job: '' e)\<rparr>
      | None \<Rightarrow>
          (case ge_fault E CreateJob of
             Some e \<Rightarrow> r\<lparr>jr_result := Inl (wrapErr (GoText.render ''create quality evaluation job %s/%s: '' [gate_Namespace g, jobName]) e)\<rparr>
           | None \<Rightarrow>
               (let job = (buildEvaluationJob name g img endpoint)\<lparr>ej_Owner := Some (gate_UID g)\<rparr>
                in r\<lparr>jr_world := (jr_world r)\<lparr>gw_jobs := AList.update (gate_Namespace g, jobName) job (gw_jobs (jr_world r))\<rparr>,
                     jr_phase := ''Pending'',
                     jr_result := Inr (GoText.render ''quality evaluation job %q created and waiting for gateway-backed evidence'' [jobName])\<rparr>)))"

definition finished_job :: "gate_env \<Rightarrow> string \<Rightarrow> AIQualityGate \<Rightarrow> string \<Rightarrow> job_run \<Rightarrow> job_run" where
  "finished_job E name g jobName r =
     (let r = r\<lparr>jr_phase := ''Succeeded''\<rparr>
      in case evaluationJobEvidence E (gate_Namespace g) jobName of
           Inl e \<Rightarrow> r\<lparr>jr_result := Inl e\<rparr>
         | Inr raw \<Rightarrow>
             (case validateEvaluationEvidence E raw of
                Some e \<Rightarrow> r\<lparr>jr_result := Inl e\<rparr>
              | None \<Rightarrow>
                  (case writeRawEvidence E name g raw (jr_world r) of
                     (w, Some e) \<Rightarrow> r\<lparr>jr_world := w, jr_result := Inl e\<rparr>
                   | (w, None) \<Rightarrow> r\<lparr>jr_world := w,
                       jr_result := Inr (GoText.render ''quality evaluation job %q completed; evidenceRef has been written'' [jobName])\<rparr>)))"

definition reconcileEvaluationJob :: "gate_env \<Rightarrow> string \<Rightarrow> AIQualityGate \<Rightarrow> gate_world \<Rightarrow> job_run" where
  "reconcileEvaluationJob E name g w =
     (let spec = gate_Spec g; ds = gs_GoldenDatasetRef spec; endpoint = TrimSpace (qe_Endpoint (gs_Evaluation spec));
          r = \<lparr>jr_world = w, jr_name = gx_EvaluationJobName (gate_Status g),
               jr_phase = gx_EvaluationJobPhase (gate_Status g), jr_result = Inr ''''\<rparr>
      in if endpoint = '''' then
           r\<lparr>jr_result := Inr ''quality evaluation job requires spec.evaluation.endpoint with the production gateway chat/completions URL''\<rparr>
         else if dref_Namespace ds \<noteq> '''' \<and> dref_Namespace ds \<noteq> gate_Namespace g then
           r\<lparr>jr_result := Inl (newErr (GoText.render ''quality evaluation job can only mount goldenDatasetRef from the gate namespace; got %s/%s''
               [dref_Namespace ds, dref_Name ds]))\<rparr>
         else case evaluationSovereigntyBlock E spec of
           Inl e \<Rightarrow> r\<lparr>jr_result := Inl e\<rparr>
         | Inr msg \<Rightarrow>
             if msg \<noteq> '''' then r\<lparr>jr_result := Inr msg\<rparr>
             else case qualityEvaluatorImage E spec of
               Inl e \<Rightarrow> r\<lparr>jr_result := Inl e\<rparr>
             | Inr img \<Rightarrow>
                 (let jobName = qualityEvaluationJobName name g; r = r\<lparr>jr_name := jobName\<rparr>
                  in case fetch E GetJob ''jobs'' jobName (map_of (gw_jobs w) (gate_Namespace g, jobName)) of
                       Inl e \<Rightarrow>
                         if IsNotFound e then start_job E name g jobName img endpoint r
                         else r\<lparr>jr_result := Inl (wrapErr (GoText.render ''read quality evaluation job %s/%s: '' [gate_Namespace g, jobName]) e)\<rparr>
                     | Inr job \<Rightarrow>
                         if 0 < sint (ej_Succeeded job) then finished_job E name g jobName r
                         else if 0 < sint (ej_Failed job) then
                           r\<lparr>jr_phase := ''Failed'', jr_result := Inr (GoText.render
                             ''quality evaluation job %q failed; see Job/Pod status for the real gateway error'' [jobName])\<rparr>
                         else if 0 < sint (ej_Active job) then
                           r\<lparr>jr_phase := ''Running'', jr_result := Inr (GoText.render ''quality evaluation job %q is still running'' [jobName])\<rparr>
                         else
                           r\<lparr>jr_phase := ''Pending'', jr_result := Inr (GoText.render ''quality evaluation job %q is pending'' [jobName])\<rparr>))"

subsection \<open>Deletion\<close>

definition own_job :: "string \<Rightarrow> string \<Rightarrow> (string \<times> string) \<times> EvaluationJob \<Rightarrow> bool" where
  "own_job ns name kj \<longleftrightarrow> fst (fst kj) = ns \<and>
     map_of (ej_Labels (snd kj)) qualityGateLabel = Some name \<and>
     map_of (ej_Labels (snd kj)) qualityEvaluatorLabel = Some ''true''"

fun delete_jobs :: "gate_env \<Rightarrow> (string \<times> string) list \<Rightarrow> gate_world \<Rightarrow> gate_world \<times> k8s_error option" where
  "delete_jobs E [] w = (w, None)"
| "delete_jobs E (k # ks) w =
     (case ge_fault E (DeleteJob (snd k)) of
        Some e \<Rightarrow> if IsNotFound e then delete_jobs E ks w
                  else (w, Some (wrapErr (GoText.render ''delete quality evaluation job %s/%s: '' [fst k, snd k]) e))
      | None \<Rightarrow> delete_jobs E ks (w\<lparr>gw_jobs := AList.delete k (gw_jobs w)\<rparr>))"

definition cleanup_evidence :: "gate_env \<Rightarrow> string \<Rightarrow> AIQualityGate \<Rightarrow> gate_world \<Rightarrow> gate_world \<times> k8s_error option" where
  "cleanup_evidence E name g w =
     (case gs_EvidenceRef (gate_Spec g) of
        None \<Rightarrow> (w, None)
      | Some ref \<Rightarrow>
          (let ns = ref_namespace (gate_Namespace g) ref; cmName = dref_Name ref
           in case get_configmap E CleanupEvidence w ns cmName of
                Inl e \<Rightarrow> if IsNotFound e then (w, None)
                          else (w, Some (wrapErr (GoText.render ''read evidence ConfigMap %s/%s during cleanup: '' [ns, cmName]) e))
              | Inr cm \<Rightarrow>
                  if entry (cm_Labels cm) qualityGateLabel \<noteq> name \<or>
                     entry (cm_Labels cm) qualityEvidenceSourceLabel \<noteq> qualityEvidenceSourceJob then (w, None)
                  else case ge_fault E DeleteEvidence of
                    Some e \<Rightarrow> if IsNotFound e then (w, None)
                               else (w, Some (wrapErr (GoText.render ''delete evidence ConfigMap %s/%s: '' [ns, cmName]) e))
                  | None \<Rightarrow> (w\<lparr>gw_configmaps := AList.delete (ns, cmName) (gw_configmaps w)\<rparr>, None)))"

definition cleanupQualityGateResources ::
  "gate_env \<Rightarrow> string \<Rightarrow> AIQualityGate \<Rightarrow> gate_world \<Rightarrow> gate_world \<times> k8s_error option" where
  "cleanupQualityGateResources E name g w =
     (case call E ListJobs (map fst (filter (own_job (gate_Namespace g) name) (gw_jobs w))) of
        Inl e \<Rightarrow> (w, Some (wrapErr (GoText.render ''list quality evaluation jobs for %s/%s: '' [gate_Namespace g, name]) e))
      | Inr keys \<Rightarrow>
          (case delete_jobs E keys w of
             (w, Some e) \<Rightarrow> (w, Some e)
           | (w, None) \<Rightarrow> cleanup_evidence E name g w))"


subsection \<open>Telemetry\<close>

fun collector_Name :: "Collector \<Rightarrow> string" where
  "collector_Name (PrometheusCollector _) = ''prometheus''"
| "collector_Name (ConfigMapCollector _ _) = ''configmap''"
| "collector_Name (AIGWCollector _ _) = ''aigw''"
| "collector_Name FakeCollector = ''fake''"

definition collectSamples :: "gate_env \<Rightarrow> AIQualityGate \<Rightarrow> k8s_error + UsageSample list" where
  "collectSamples E g =
     (let spec = gate_Spec g; ns = gate_Namespace g;
          named = (if gs_GatewayRef spec \<noteq> '''' then
              (case fetch E GetGateway ''aigateways'' (gs_GatewayRef spec) (map_of (ge_gateways E) (gs_GatewayRef spec)) of
                 Inl e \<Rightarrow> Inl (wrapErr (GoText.render ''read gateway %s/%s: '' [ns, gs_GatewayRef spec]) e)
               | Inr gw \<Rightarrow> Inr (Some gw))
            else Inr None)
      in case named of
           Inl e \<Rightarrow> Inl e
         | Inr found \<Rightarrow>
             (let gw = (case found of Some gw \<Rightarrow> Some gw
                | None \<Rightarrow> (case call E ListGateways (map snd (ge_gateways E)) of
                    Inl _ \<Rightarrow> None | Inr [] \<Rightarrow> None | Inr (gw # _) \<Rightarrow> Some gw))
              in case collectorFor ns gw of
                   Inl t \<Rightarrow> Inl (newErr t)
                 | Inr c \<Rightarrow>
                     (case ge_collect E c (if gs_Period spec = '''' then ''monthly'' else gs_Period spec) of
                        Inl t \<Rightarrow> Inl (newErr (GoText.render ''telemetry collection failed (%s): '' [collector_Name c] @ t))
                      | Inr samples \<Rightarrow> Inr samples)))"

subsection \<open>The evaluation of a gate\<close>

text \<open>The local variables of \<open>Reconcile\<close> that its stages fill.\<close>

record gate_run =
  gr_world :: gate_world
  gr_status :: AIQualityGateStatus
  gr_failures :: "string list"
  gr_pending :: "string list"
  gr_reason :: string

definition reset_status :: "AIQualityGate \<Rightarrow> AIQualityGateStatus" where
  "reset_status g = (gate_Status g)\<lparr>gx_ObservedGeneration := gate_Generation g, gx_Phase := AIQualityGatePending,
     gx_Verdict := ''insufficient-data'', gx_CheckedSamples := 0, gx_FailedChecks := 0, gx_QualityScore := Fin 0,
     gx_CompositeScore := Fin 0, gx_ScoreBreakdown := zero_breakdown, gx_WeightsUsed := zero_weights_used,
     gx_Samples := 0, gx_RequiredSamples := 0, gx_ObservedSourceSamples := 0, gx_ObservedCandidateSamples := 0,
     gx_NonInferiorityLowerBound := Fin 0, gx_DatasetVersion := '''', gx_DatasetHash := '''', gx_Dimensions := [],
     gx_EvidenceRef := None, gx_FailureMessages := [], gx_SourceObservation := None,
     gx_CandidateObservation := None, gx_CanaryStatus := canaryStatus (gs_Canary (gate_Spec g))\<rparr>"

definition reasonForReadErr :: "k8s_error \<Rightarrow> string" where
  "reasonForReadErr e = (if IsNotFound e then ReasonReferenceNotFound else ReasonReconcileError)"

definition add_failures :: "string list \<Rightarrow> gate_run \<Rightarrow> gate_run" where
  "add_failures fs r = r\<lparr>gr_failures := gr_failures r @ fs\<rparr>"

definition add_pending :: "string list \<Rightarrow> gate_run \<Rightarrow> gate_run" where
  "add_pending ps r = r\<lparr>gr_pending := gr_pending r @ ps\<rparr>"

text \<open>\<open>if reason == ReasonReconciled { reason = ... }\<close>\<close>

definition first_reason :: "string \<Rightarrow> gate_run \<Rightarrow> gate_run" where
  "first_reason reason r = (if gr_reason r = ReasonReconciled then r\<lparr>gr_reason := reason\<rparr> else r)"

definition dataset_stage :: "gate_env \<Rightarrow> AIQualityGate \<Rightarrow> gate_run \<Rightarrow> goldenPrompt list \<times> gate_run" where
  "dataset_stage E g r =
     (let ref = gs_GoldenDatasetRef (gate_Spec g)
      in case loadGoldenDataset E (gr_world r) (gate_Namespace g) ref of
           Inl e \<Rightarrow> ([], add_pending [error_string e] (r\<lparr>gr_reason := reasonForReadErr e\<rparr>))
         | Inr prompts \<Rightarrow>
             (let (version, hash) = goldenDatasetMetadata E (gr_world r) (gate_Namespace g) ref
              in (prompts, add_failures (validateGoldenDataset prompts)
                   (r\<lparr>gr_status := (gr_status r)\<lparr>gx_CheckedSamples := word_of_int (int (length prompts)),
                      gx_DatasetVersion := version, gx_DatasetHash := hash\<rparr>\<rparr>))))"

definition evidence_needed :: "AIQualityGateSpec \<Rightarrow> bool" where
  "evidence_needed spec \<longleftrightarrow> qualityGateNeedsEvidence (gs_RequiredChecks spec) \<or> qualityGateNeedsScoreEvidence spec"

definition job_stage :: "gate_env \<Rightarrow> string \<Rightarrow> AIQualityGate \<Rightarrow> gate_run \<Rightarrow> gate_run" where
  "job_stage E name g r =
     (let j = reconcileEvaluationJob E name (g\<lparr>gate_Status := gr_status r\<rparr>) (gr_world r);
          r = r\<lparr>gr_world := jr_world j,
            gr_status := (gr_status r)\<lparr>gx_EvaluationJobName := jr_name j, gx_EvaluationJobPhase := jr_phase j\<rparr>\<rparr>
      in case jr_result j of
           Inl e \<Rightarrow> add_pending [error_string e] (first_reason ReasonReconcileError r)
         | Inr msg \<Rightarrow>
             if msg \<noteq> '''' then
               add_pending [msg] (if Contains msg ''failed'' then first_reason ReasonNoTelemetry r else r)
             else r)"

definition evidence_stage ::
  "gate_env \<Rightarrow> string \<Rightarrow> AIQualityGate \<Rightarrow> goldenPrompt list \<Rightarrow> gate_run \<Rightarrow> qualityEvidenceSample list \<times> gate_run" where
  "evidence_stage E name g prompts r =
     (let spec = gate_Spec g
      in if \<not> evidence_needed spec then ([], r)
         else case gs_EvidenceRef spec of
           None \<Rightarrow> ([], add_pending [''quality scoring requires spec.evidenceRef so the evaluation job can persist source/candidate golden-run results''] r)
         | Some ref \<Rightarrow>
             (let r = r\<lparr>gr_status := (gr_status r)\<lparr>gx_EvidenceRef := Some ref\<rparr>\<rparr>;
                  (evidence, r) = (case loadEvidence E (gr_world r) (gate_Namespace g) ref of
                      Inl e \<Rightarrow> ([], add_pending [''quality evidence not ready: '' @ error_string e] (first_reason (reasonForReadErr e) r))
                    | Inr ev \<Rightarrow> (ev, r))
              in if prompts \<noteq> [] \<and>
                    \<not> hasSourceAndCandidateEvidence prompts evidence (gs_SourceModel spec) (gs_CandidateModel spec) then
                   (evidence, job_stage E name g r)
                 else
                   (let r = (if gx_EvaluationJobName (gr_status r) \<noteq> ''''
                             then r\<lparr>gr_status := (gr_status r)\<lparr>gx_EvaluationJobPhase := ''Succeeded''\<rparr>\<rparr> else r)
                    in (evidence, add_failures
                         (evaluateEvidence prompts evidence (gs_CandidateModel spec) (gs_RequiredChecks spec)) r))))"

text \<open>The observations of source and candidate, each with its \<open>ok\<close>.\<close>

type_synonym observations = "(modelObservation \<times> bool) \<times> (modelObservation \<times> bool)"

definition telemetry_stage :: "gate_env \<Rightarrow> AIQualityGate \<Rightarrow> gate_run \<Rightarrow> observations \<times> gate_run" where
  "telemetry_stage E g r =
     (let spec = gate_Spec g
      in case collectSamples E g of
           Inl e \<Rightarrow> (((new_observation (gs_SourceModel spec), False), (new_observation (gs_CandidateModel spec), False)),
                     add_pending [error_string e] (first_reason ReasonNoTelemetry r))
         | Inr samples \<Rightarrow>
             (let (src, sok) = observeModel samples (gs_Target spec) (gs_SourceModel spec);
                  (cand, cok) = observeModel samples (gs_Target spec) (gs_CandidateModel spec);
                  st = gr_status r;
                  st = (if sok then st\<lparr>gx_SourceObservation := Some (observation_toAPI src)\<rparr> else st);
                  st = (if cok then st\<lparr>gx_CandidateObservation := Some (observation_toAPI cand)\<rparr> else st);
                  (fs, ps) = appendOperationalChecks (gr_failures r) (gr_pending r) src sok cand cok (gs_RequiredChecks spec)
              in (((src, sok), (cand, cok)), r\<lparr>gr_status := st, gr_failures := fs, gr_pending := ps\<rparr>)))"

definition gate_input ::
  "gate_env \<Rightarrow> AIQualityGateSpec \<Rightarrow> goldenPrompt list \<Rightarrow> qualityEvidenceSample list \<Rightarrow> modelObservation \<Rightarrow> modelObservation \<Rightarrow> EvaluateInput" where
  "gate_input E spec prompts evidence src cand =
     \<lparr>in_SourceSamples = buildQualitySamples (ge_unicode E) prompts evidence (gs_SourceModel spec),
      in_CandidateSamples = buildQualitySamples (ge_unicode E) prompts evidence (gs_CandidateModel spec),
      in_SourceTelemetry = toQualityTelemetry src evidence (gs_SourceModel spec),
      in_CandidateTelemetry = toQualityTelemetry cand evidence (gs_CandidateModel spec),
      in_Weights = qualityEngineWeights (gs_Weights spec),
      in_MinSamples = word_of_int (sint (defaultedMinSamples (gs_MinSamples spec))),
      in_TolerancePoints = of_i32 (defaultedTolerance (gs_TolerancePoints spec)),
      in_LatencyThresholdMs = of_i32 (gs_LatencyThresholdMs spec),
      in_JudgeEnabled = qj_Enabled (gs_Judge spec)\<rparr>"

definition show_comparison :: "Comparison \<Rightarrow> AIQualityGateStatus \<Rightarrow> AIQualityGateStatus" where
  "show_comparison c st =
     (let st = st\<lparr>gx_WeightsUsed := qualityWeightsToAPI (co_WeightsUsed c)\<rparr>
      in if co_Verdict c \<noteq> VerdictInsufficientData then
           st\<lparr>gx_QualityScore := roundQuality (qm_Overall (co_Candidate c)),
             gx_ScoreBreakdown := qualityBreakdownToAPI (qm_Breakdown (co_Candidate c)),
             gx_Samples := word_of_int (int (qm_Samples (co_Candidate c))),
             gx_Dimensions := qualityDimensions (qm_Breakdown (co_Candidate c)) (qm_Overall (co_Candidate c)) (co_WeightsUsed c)\<rparr>
         else st)"

definition gate_composite :: "gate_env \<Rightarrow> AIQualityGateSpec \<Rightarrow> Comparison \<Rightarrow> modelObservation \<Rightarrow> modelObservation \<Rightarrow> CompositeResult" where
  "gate_composite E spec c src cand =
     EvaluateComposite (statisticalWeights (gs_Statistical spec))
       \<lparr>ci_Quality = fdiv (qm_Overall (co_Candidate c)) (Fin 100),
        ci_ErrorRate = ErrorRateScore (mo_errors src) (mo_requests src) (mo_errors cand) (mo_requests cand),
        ci_LatencyP95 = PercentileScore (averageLatencyMillis src) (averageLatencyMillis cand) (flit (125 / 100)),
        ci_Cost = qualityGateCostScore (ge_qf E) (ge_catalog E) src cand\<rparr>"

definition statistical_stage ::
  "gate_env \<Rightarrow> AIQualityGateSpec \<Rightarrow> string \<Rightarrow> EvaluateInput \<Rightarrow> Comparison \<Rightarrow> modelObservation \<Rightarrow> modelObservation \<Rightarrow> gate_run \<Rightarrow> gate_run" where
  "statistical_stage E spec previousVerdict i c src cand r =
     (if \<not> statisticalModeEnabled (gs_Statistical spec) then r
      else
        let stats = EvaluateNonInferiority (ge_oor E) (statisticalConfig (gs_Statistical spec))
              (evidencePassSample (ge_unicode E) (in_SourceSamples i)) (evidencePassSample (ge_unicode E) (in_CandidateSamples i));
            r = r\<lparr>gr_status := (gr_status r)\<lparr>gx_RequiredSamples := word_of_int (sint (nr_RequiredSamplesPerArm stats)),
              gx_ObservedSourceSamples := word_of_int (sint (nr_ObservedSourceSamples stats)),
              gx_ObservedCandidateSamples := word_of_int (sint (nr_ObservedCandidateSlots stats)),
              gx_NonInferiorityLowerBound := roundQuality (nr_LowerConfidenceBound stats)\<rparr>\<rparr>;
            r = (if nr_Verdict stats = QVerdictInsufficientData then
                add_pending [GoText.render ''statistical gate requires %d samples per arm; observed source=%d candidate=%d''
                  [fmt_d (nr_RequiredSamplesPerArm stats), fmt_d (nr_ObservedSourceSamples stats), fmt_d (nr_ObservedCandidateSlots stats)]] r
              else r);
            composite = gate_composite E spec c src cand;
            r = r\<lparr>gr_status := (gr_status r)\<lparr>gx_CompositeScore := roundQuality (cr_Score composite)\<rparr>\<rparr>;
            hysteresisVerdict = ApplyHysteresis previousVerdict (cr_Score composite) (hysteresisConfig (gs_Statistical spec))
        in if nr_Verdict stats = QVerdictCandidateRisk \<or> hysteresisVerdict = QVerdictCandidateRisk then
             add_failures [''statistical gate rejected candidate: lower_bound='' @ fmt_f 3 (nr_LowerConfidenceBound stats) @
               '' composite='' @ fmt_f 3 (cr_Score composite)] r
           else r)"

definition verdict_stage :: "Comparison \<Rightarrow> gate_run \<Rightarrow> gate_run" where
  "verdict_stage c r =
     (if co_Verdict c = VerdictCandidateRisk then
        add_failures [''candidate quality score '' @ fmt_f 3 (qm_Overall (co_Candidate c)) @ '' is below source '' @
          fmt_f 3 (qm_Overall (co_Source c)) @ '' minus tolerance '' @ fmt_f 3 (co_Tolerance c)] r
      else if co_Verdict c = VerdictInsufficientData then
        add_pending (co_MissingInput c) (if hasTelemetryMissing (co_MissingInput c) then first_reason ReasonNoTelemetry r else r)
      else r)"

definition score_stage ::
  "gate_env \<Rightarrow> AIQualityGate \<Rightarrow> string \<Rightarrow> goldenPrompt list \<Rightarrow> qualityEvidenceSample list \<Rightarrow> modelObservation \<Rightarrow> modelObservation \<Rightarrow>
     gate_run \<Rightarrow> Comparison option \<times> gate_run" where
  "score_stage E g previousVerdict prompts evidence src cand r =
     (let spec = gate_Spec g
      in if prompts \<noteq> [] \<and> gs_EvidenceRef spec \<noteq> None then
           (let i = gate_input E spec prompts evidence src cand;
                c = Evaluate_quality (ge_unicode E) (ge_validJSON E) i;
                r = r\<lparr>gr_status := show_comparison c (gr_status r)\<rparr>;
                r = statistical_stage E spec previousVerdict i c src cand r
            in (Some c, verdict_stage c r))
         else if prompts \<noteq> [] then (None, add_pending [''quality scoring requires source and candidate evidence''] r)
         else (None, r))"


definition qualityGateMessage :: "AIQualityGate \<Rightarrow> string" where
  "qualityGateMessage g =
     (let t = gs_Target (gate_Spec g); target = gt_Namespace t @ ''/'' @ gt_Application t; st = gate_Status g
      in if gx_Phase st = AIQualityGatePassed then
           GoText.render ''quality gate passed for %s: candidate %q can be considered safe'' [target, gs_CandidateModel (gate_Spec g)]
         else if gx_Phase st = AIQualityGateFailed then
           GoText.render ''quality gate failed for %s: %d failed check(s)'' [target, show_int (sint (gx_FailedChecks st))]
         else
           GoText.render ''quality gate pending for %s: %d missing/insufficient signal(s)'' [target, show_nat (length (gx_FailureMessages st))])"

definition conditionStatusForGate :: "string \<Rightarrow> bool" where
  "conditionStatusForGate phase \<longleftrightarrow> phase = AIQualityGatePassed"

definition qualityGatePassedValue :: "string \<Rightarrow> f64" where
  "qualityGatePassedValue phase = (if phase = AIQualityGatePassed then Fin 1 else Fin 0)"

text \<open>Phase, verdict and condition from the failures and the pending signals.\<close>

definition decide_gate :: "AIQualityGate \<Rightarrow> gate_run \<Rightarrow> AIQualityGate" where
  "decide_gate g r =
     (let fs = gr_failures r; ps = gr_pending r;
          st = (gr_status r)\<lparr>gx_FailureMessages := fs @ ps, gx_FailedChecks := word_of_int (int (length fs))\<rparr>;
          (phase, verdict, reason) =
            (if fs \<noteq> [] then (AIQualityGateFailed, ''candidate-risk'', ReasonValidationFailed)
             else if ps \<noteq> [] then (AIQualityGatePending, ''insufficient-data'', gr_reason r)
             else (AIQualityGatePassed, ''candidate-safe'', gr_reason r));
          g = g\<lparr>gate_Status := st\<lparr>gx_Phase := phase, gx_Verdict := verdict\<rparr>\<rparr>;
          ready = readyCondition (gate_Generation g) (conditionStatusForGate phase) reason (qualityGateMessage g)
      in g\<lparr>gate_Status := (gate_Status g)\<lparr>gx_Ready := Some ready\<rparr>\<rparr>)"

record gate_evaluation =
  gv_gate :: AIQualityGate
  gv_run :: gate_run
  gv_prompts :: "goldenPrompt list"
  gv_evidence :: "qualityEvidenceSample list"
  gv_observations :: observations
  gv_comparison :: "Comparison option"

definition evaluate_gate :: "gate_env \<Rightarrow> string \<Rightarrow> AIQualityGate \<Rightarrow> gate_world \<Rightarrow> gate_evaluation" where
  "evaluate_gate E name g w =
     (let previousVerdict = gx_Verdict (gate_Status g);
          r = \<lparr>gr_world = w, gr_status = reset_status g, gr_failures = [], gr_pending = [], gr_reason = ReasonReconciled\<rparr>;
          (prompts, r) = dataset_stage E g r;
          (evidence, r) = evidence_stage E name g prompts r;
          (obs, r) = telemetry_stage E g r;
          (c, r) = score_stage E g previousVerdict prompts evidence (fst (fst obs)) (fst (snd obs)) r
      in \<lparr>gv_gate = decide_gate g r, gv_run = r, gv_prompts = prompts, gv_evidence = evidence,
          gv_observations = obs, gv_comparison = c\<rparr>)"

subsection \<open>Publication\<close>

definition providerForModel :: "gate_env \<Rightarrow> string \<Rightarrow> string" where
  "providerForModel E modelName =
     (case call E ListProviderModels (ge_models E) of
        Inl _ \<Rightarrow> ''''
      | Inr models \<Rightarrow>
          (case find (\<lambda>m. ms_ModelName (model_Spec m) = modelName) models of
             None \<Rightarrow> '''' | Some m \<Rightarrow> ms_ProviderRef (model_Spec m)))"

definition emitQualityScoreMetrics ::
  "AIQualityGate \<Rightarrow> string \<Rightarrow> string \<Rightarrow> gauge \<Rightarrow> qualityGateSeriesSet \<Rightarrow> gauge \<times> qualityGateSeriesSet" where
  "emitQualityScoreMetrics g provider0 model vec series =
     (let t = gs_Target (gate_Spec g); provider = (if provider0 = '''' then ''unknown'' else provider0)
      in fold (\<lambda>d (v, s). (AList.update [gt_Namespace t, gt_Application t, provider, model, qd_Name d] (qd_Score d) v,
                addDimension (gt_Namespace t) (gt_Application t) provider model (qd_Name d) s))
           (gx_Dimensions (gate_Status g)) (vec, series))"

definition writeScoreEvidence ::
  "gate_env \<Rightarrow> AIQualityGate \<Rightarrow> Comparison \<Rightarrow> gate_world \<Rightarrow> gate_world \<times> k8s_error option" where
  "writeScoreEvidence E g c w =
     (case gs_EvidenceRef (gate_Spec g) of
        None \<Rightarrow> (w, None)
      | Some ref \<Rightarrow>
          (let ns = ref_namespace (gate_Namespace g) ref; cmName = dref_Name ref; spec = gate_Spec g
           in case get_configmap E ReadScoreEvidence w ns cmName of
                Inl e \<Rightarrow> (w, Some (wrapErr (GoText.render ''read evidence ConfigMap %s/%s for score audit: '' [ns, cmName]) e))
              | Inr cm \<Rightarrow>
                  (case ge_marshal E \<lparr>qz_GoldenDatasetRef = gs_GoldenDatasetRef spec, qz_SourceModel = gs_SourceModel spec,
                       qz_CandidateModel = gs_CandidateModel spec, qz_Source = co_Source c, qz_Candidate = co_Candidate c,
                       qz_Verdict = co_Verdict c, qz_TolerancePoints = co_Tolerance c, qz_GeneratedAt = RFC3339 (ge_now E)\<rparr> of
                     Inl t \<Rightarrow> (w, Some (newErr (''serialize quality score evidence: '' @ t)))
                   | Inr raw \<Rightarrow>
                       (case put_configmap E WriteScoreEvidence ns cmName
                          (cm\<lparr>cm_Data := AList.update ''quality-score.json'' raw (cm_Data cm)\<rparr>) w of
                          (w, None) \<Rightarrow> (w, None)
                        | (w, Some e) \<Rightarrow> (w, Some (wrapErr
                            (GoText.render ''write quality score evidence ConfigMap %s/%s: '' [ns, cmName]) e))))))"

fun update_scores :: "gate_env \<Rightarrow> string \<Rightarrow> f64 \<Rightarrow> AIModel list \<Rightarrow> gate_world \<Rightarrow> gate_world \<times> k8s_error option" where
  "update_scores E candidate score [] w = (w, None)"
| "update_scores E candidate score (m # ms) w =
     (if ms_ModelName (model_Spec m) \<noteq> candidate then update_scores E candidate score ms w
      else case ge_fault E (UpdateModelStatus (model_Name m)) of
        Some e \<Rightarrow> (w, Some e)
      | None \<Rightarrow> update_scores E candidate score ms
          (w\<lparr>gw_modelScores := AList.update (model_Name m) (score, ge_now E) (gw_modelScores w)\<rparr>))"

definition updateCandidateModelQuality ::
  "gate_env \<Rightarrow> AIQualityGate \<Rightarrow> gate_world \<Rightarrow> gate_world \<times> k8s_error option" where
  "updateCandidateModelQuality E g w =
     (case call E ListQualityModels (ge_models E) of
        Inl e \<Rightarrow> (w, Some e)
      | Inr models \<Rightarrow> update_scores E (gs_CandidateModel (gate_Spec g)) (gx_QualityScore (gate_Status g)) models w)"

text \<open>The scores of a conclusive comparison: the gauge, the audit record, the status of the model.\<close>

definition publish_scores ::
  "gate_env \<Rightarrow> gate_evaluation \<Rightarrow> qualityGateSeriesSet \<Rightarrow> gate_world \<Rightarrow> gate_world \<times> qualityGateSeriesSet \<times> k8s_error option" where
  "publish_scores E v series w =
     (case gv_comparison v of
        None \<Rightarrow> (w, series, None)
      | Some c \<Rightarrow>
          if co_Verdict c = VerdictInsufficientData then (w, series, None)
          else
            let g = gv_gate v; candidate = gs_CandidateModel (gate_Spec g);
                observed = mo_provider (fst (snd (gv_observations v)));
                provider = (if observed = '''' then providerForModel E candidate else observed);
                (vec, series) = emitQualityScoreMetrics g provider candidate (qg_quality (gw_metrics w)) series;
                w = w\<lparr>gw_metrics := (gw_metrics w)\<lparr>qg_quality := vec\<rparr>\<rparr>
            in case writeScoreEvidence E g c w of
                 (w, Some e) \<Rightarrow> (w, series, Some e)
               | (w, None) \<Rightarrow> (case updateCandidateModelQuality E g w of (w, e) \<Rightarrow> (w, series, e)))"

definition set_gate_gauges :: "string \<Rightarrow> AIQualityGate \<Rightarrow> qualityGateMetricTracker \<Rightarrow> qualityGateMetricTracker" where
  "set_gate_gauges name g t =
     (let tg = gs_Target (gate_Spec g); scoped = [gate_Namespace g, name, gt_Namespace tg, gt_Application tg]; st = gate_Status g
      in t\<lparr>qg_passed := AList.update [gate_Namespace g, name, gt_Namespace tg, gt_Application tg,
             gs_SourceModel (gate_Spec g), gs_CandidateModel (gate_Spec g)] (qualityGatePassedValue (gx_Phase st)) (qg_passed t),
           qg_failedChecks := AList.update scoped (of_i32 (gx_FailedChecks st)) (qg_failedChecks t),
           qg_score := AList.update scoped (gx_CompositeScore st) (qg_score t)\<rparr>)"

definition store_gate :: "string \<Rightarrow> AIQualityGate \<Rightarrow> gate_world \<Rightarrow> gate_world" where
  "store_gate name g w =
     w\<lparr>gw_gates := (if gate_Deleting g \<and> gate_Finalizers g = [] then AList.delete name (gw_gates w)
                   else AList.update name g (gw_gates w))\<rparr>"

definition publish_gate :: "gate_env \<Rightarrow> string \<Rightarrow> gate_evaluation \<Rightarrow> gate_world \<times> gate_outcome" where
  "publish_gate E name v =
     (let g = gv_gate v; w = gr_world (gv_run v);
          w = w\<lparr>gw_metrics := set_gate_gauges name g (gw_metrics w)\<rparr>
      in case publish_scores E v (addGate name g no_series) w of
           (w, series, Some e) \<Rightarrow> (w, (0, Some e))
         | (w, series, None) \<Rightarrow>
             (let w = w\<lparr>gw_metrics := gate_retire (gate_UID g) series (gw_metrics w)\<rparr>
              in case ge_fault E UpdateGateStatus of
                   Some e \<Rightarrow> (w, (0, Some e))
                 | None \<Rightarrow>
                     ((store_gate name g w)\<lparr>gw_events := gw_events w @
                        [(gx_Phase (gate_Status g) \<noteq> AIQualityGatePassed, qualityGateMessage g)]\<rparr>, (60 * sec_ns, None))))"

definition delete_gate :: "gate_env \<Rightarrow> string \<Rightarrow> AIQualityGate \<Rightarrow> gate_world \<Rightarrow> gate_world \<times> gate_outcome" where
  "delete_gate E name g w =
     (if qualityGateFinalizer \<in> set (gate_Finalizers g) then
        (case cleanupQualityGateResources E name g w of
           (w, Some e) \<Rightarrow> (w, (0, Some e))
         | (w, None) \<Rightarrow>
             (let w = w\<lparr>gw_metrics := gate_forget (gate_UID g) (gw_metrics w)\<rparr>;
                  g = g\<lparr>gate_Finalizers := filter (\<lambda>f. f \<noteq> qualityGateFinalizer) (gate_Finalizers g)\<rparr>
              in case ge_fault E UpdateGate of
                   Some e \<Rightarrow> (w, (0, Some e))
                 | None \<Rightarrow> (store_gate name g w, (0, None))))
      else (w, (0, None)))"

definition Reconcile_gate :: "gate_env \<Rightarrow> string \<Rightarrow> gate_world \<Rightarrow> gate_world \<times> gate_outcome" where
  "Reconcile_gate E name w =
     (case fetch E GetGate ''aiqualitygates'' name (map_of (gw_gates w) name) of
        Inl e \<Rightarrow> (w, (0, if IsNotFound e then None else Some e))
      | Inr g \<Rightarrow>
          if gate_Deleting g then delete_gate E name g w
          else if qualityGateFinalizer \<notin> set (gate_Finalizers g) then
            (case ge_fault E UpdateGate of
               Some e \<Rightarrow> (w, (0, Some e))
             | None \<Rightarrow> (store_gate name (g\<lparr>gate_Finalizers := gate_Finalizers g @ [qualityGateFinalizer]\<rparr>) w, (0, None)))
          else publish_gate E name (evaluate_gate E name g w))"


end
