(* ===== verification/Qualitygateproof.thy ===== *)
theory Qualitygateproof
  imports Qualitygate
begin

section \<open>What a quality gate promises\<close>

text \<open>
  The lemmas and properties of the quality gate controller: exactly when a gate passes, the
  consistency of its status in every reachable world, where an evaluation job may run, the name of
  the job, and what a deletion removes.
\<close>

subsection \<open>When a gate passes\<close>

text \<open>No failure and no pending signal so far.\<close>

definition clean :: "gate_run \<Rightarrow> bool" where
  "clean r \<longleftrightarrow> gr_failures r = [] \<and> gr_pending r = []"

lemma clean_add [simp]:
  "clean (add_failures fs r) \<longleftrightarrow> clean r \<and> fs = []"
  "clean (add_pending ps r) \<longleftrightarrow> clean r \<and> ps = []"
  "clean (first_reason x r) = clean r"
  "clean (r\<lparr>gr_status := st\<rparr>) = clean r"
  "clean (r\<lparr>gr_reason := x\<rparr>) = clean r"
  "clean (r\<lparr>gr_world := w\<rparr>) = clean r"
  by (auto simp: clean_def add_failures_def add_pending_def first_reason_def)

lemma world_add [simp]:
  "gr_world (add_failures fs r) = gr_world r"
  "gr_world (add_pending ps r) = gr_world r"
  "gr_world (first_reason x r) = gr_world r"
  by (simp_all add: add_failures_def add_pending_def first_reason_def)

lemma dataset_stage_clean:
  "clean (snd (dataset_stage E g r)) \<longleftrightarrow>
     clean r \<and> loadGoldenDataset E (gr_world r) (gate_Namespace g) (gs_GoldenDatasetRef (gate_Spec g))
       = Inr (fst (dataset_stage E g r)) \<and> validateGoldenDataset (fst (dataset_stage E g r)) = []"
  "gr_world (snd (dataset_stage E g r)) = gr_world r"
  by (auto simp: dataset_stage_def Let_def split: sum.splits prod.splits)

lemma render_literal [simp]: "c \<noteq> CHR ''%'' \<Longrightarrow> GoText.render (c # d # f) as = c # GoText.render (d # f) as"
  by (cases as) simp_all

lemma reconcileEvaluationJob_speaks: "jr_result (reconcileEvaluationJob E name g w) \<noteq> Inr ''''"
  by (auto simp: reconcileEvaluationJob_def start_job_def finished_job_def Let_def
      split: sum.splits option.splits if_splits prod.splits)

lemma job_stage_not_clean: "\<not> clean (job_stage E name g r)"
  using reconcileEvaluationJob_speaks by (auto simp: job_stage_def Let_def split: sum.splits)

text \<open>The evidence is complete: it is loaded, covers every prompt for both models, and the candidate's satisfies the checks.\<close>

definition evidence_complete ::
  "gate_env \<Rightarrow> AIQualityGate \<Rightarrow> gate_world \<Rightarrow> goldenPrompt list \<Rightarrow> qualityEvidenceSample list \<Rightarrow> bool" where
  "evidence_complete E g w prompts evidence \<longleftrightarrow>
     (\<exists>ref. gs_EvidenceRef (gate_Spec g) = Some ref \<and> loadEvidence E w (gate_Namespace g) ref = Inr evidence) \<and>
     (\<forall>p \<in> set prompts.
        map_of (evidenceByIDForModel evidence (gs_SourceModel (gate_Spec g))) (pr_ID p) \<noteq> None \<and>
        map_of (evidenceByIDForModel evidence (gs_CandidateModel (gate_Spec g))) (pr_ID p) \<noteq> None \<and>
        (\<exists>ev. map_of (candidate_evidence evidence (gs_CandidateModel (gate_Spec g))) (pr_ID p) = Some ev \<and>
           checks_hold (gs_RequiredChecks (gate_Spec g)) ev))"

lemma hasSourceAndCandidateEvidence_iff:
  "ps \<noteq> [] \<Longrightarrow> hasSourceAndCandidateEvidence ps es s c \<longleftrightarrow>
     (\<forall>p \<in> set ps. map_of (evidenceByIDForModel es s) (pr_ID p) \<noteq> None \<and> map_of (evidenceByIDForModel es c) (pr_ID p) \<noteq> None)"
  by (cases ps) (auto simp: hasSourceAndCandidateEvidence_def list_all_iff evidenceByIDForModel_def)

lemma evidence_stage_clean:
  assumes "ps \<noteq> []"
  shows "clean (snd (evidence_stage E name g ps r)) \<longleftrightarrow> clean r \<and>
     (if evidence_needed (gate_Spec g)
      then evidence_complete E g (gr_world r) ps (fst (evidence_stage E name g ps r))
      else fst (evidence_stage E name g ps r) = [])"
  using assms job_stage_not_clean
  by (auto simp: evidence_stage_def evidence_complete_def hasSourceAndCandidateEvidence_iff evaluateEvidence_Nil Let_def
      split: sum.splits option.splits)

lemma telemetry_stage_clean:
  "clean (snd (telemetry_stage E g r)) \<longleftrightarrow> clean r \<and>
     (\<exists>samples. collectSamples E g = Inr samples \<and>
        fst (telemetry_stage E g r) = (observeModel samples (gs_Target (gate_Spec g)) (gs_SourceModel (gate_Spec g)),
          observeModel samples (gs_Target (gate_Spec g)) (gs_CandidateModel (gate_Spec g)))) \<and>
     (case fst (telemetry_stage E g r) of ((src, sok), (cand, cok)) \<Rightarrow>
        operational_ok src sok cand cok (gs_RequiredChecks (gate_Spec g)))"
proof (cases "collectSamples E g")
  case (Inl e)
  then show ?thesis by (simp add: telemetry_stage_def Let_def operational_ok_def)
next
  case (Inr ss)
  let ?t = "gs_Target (gate_Spec g)"
  obtain src sok cand cok where o: "observeModel ss ?t (gs_SourceModel (gate_Spec g)) = (src, sok)"
    "observeModel ss ?t (gs_CandidateModel (gate_Spec g)) = (cand, cok)" by fastforce
  have obs: "fst (telemetry_stage E g r) = ((src, sok), (cand, cok))"
    unfolding telemetry_stage_def using Inr o by (simp add: Let_def split_def)
  have "clean (snd (telemetry_stage E g r)) \<longleftrightarrow>
      clean r \<and> operational_ok src sok cand cok (gs_RequiredChecks (gate_Spec g))"
    unfolding telemetry_stage_def using Inr o
      appendOperationalChecks_Nil[of "gr_failures r" "gr_pending r" src sok cand cok "gs_RequiredChecks (gate_Spec g)"]
    by (simp add: clean_def Let_def split_def)
  then show ?thesis using Inr o obs by simp
qed

lemma Evaluate_quality_verdict:
  "co_Verdict (Evaluate_quality U J i) \<in> {VerdictCandidateSafe, VerdictCandidateRisk, VerdictInsufficientData}"
  "co_Verdict (Evaluate_quality U J i) = VerdictInsufficientData \<longleftrightarrow> co_MissingInput (Evaluate_quality U J i) \<noteq> []"
  by (auto simp: Evaluate_quality_def Let_def verdict_defs)

lemma Evaluate_quality_no_samples:
  assumes "in_SourceSamples i = []"
  shows "co_Verdict (Evaluate_quality U J i) = VerdictInsufficientData"
  using assms by (simp add: Evaluate_quality_def gather_evidence_def Let_def)

lemma verdict_stage_clean:
  "clean (verdict_stage (Evaluate_quality U J i) r) \<longleftrightarrow>
     clean r \<and> co_Verdict (Evaluate_quality U J i) = VerdictCandidateSafe"
  using Evaluate_quality_verdict[of U J i]
  by (auto simp: verdict_stage_def verdict_defs)

text \<open>What the statistical mode asks for.\<close>

definition statistics_ok ::
  "gate_env \<Rightarrow> AIQualityGateSpec \<Rightarrow> string \<Rightarrow> EvaluateInput \<Rightarrow> Comparison \<Rightarrow> modelObservation \<Rightarrow> modelObservation \<Rightarrow> bool" where
  "statistics_ok E spec previousVerdict i c src cand \<longleftrightarrow>
     (statisticalModeEnabled (gs_Statistical spec) \<longrightarrow>
        nr_Verdict (EvaluateNonInferiority (ge_oor E) (statisticalConfig (gs_Statistical spec))
          (evidencePassSample (ge_unicode E) (in_SourceSamples i))
          (evidencePassSample (ge_unicode E) (in_CandidateSamples i))) = QVerdictCandidateSafe \<and>
        ApplyHysteresis previousVerdict (cr_Score (gate_composite E spec c src cand))
          (hysteresisConfig (gs_Statistical spec)) = QVerdictCandidateSafe)"

lemma noninferiority_safe:
  "nr_Verdict (EvaluateNonInferiority oor cfg s c) \<noteq> QVerdictInsufficientData \<and>
   nr_Verdict (EvaluateNonInferiority oor cfg s c) \<noteq> QVerdictCandidateRisk \<longleftrightarrow>
   nr_Verdict (EvaluateNonInferiority oor cfg s c) = QVerdictCandidateSafe"
  by (simp add: EvaluateNonInferiority_def Let_def qverdicts)

lemma hysteresis_safe:
  "ApplyHysteresis v x cfg \<noteq> QVerdictCandidateRisk \<longleftrightarrow> ApplyHysteresis v x cfg = QVerdictCandidateSafe"
  by (simp add: ApplyHysteresis_def Let_def qverdicts)

lemma statistical_stage_clean:
  "clean (statistical_stage E spec pv i c src cand r) \<longleftrightarrow> clean r \<and> statistics_ok E spec pv i c src cand"
  unfolding statistics_ok_def noninferiority_safe[symmetric] hysteresis_safe[symmetric]
  by (simp add: statistical_stage_def Let_def)

lemma score_stage_clean:
  assumes "ps \<noteq> []"
  shows "clean (snd (score_stage E g pv ps es src cand r)) \<longleftrightarrow> clean r \<and> gs_EvidenceRef (gate_Spec g) \<noteq> None \<and>
     (let i = gate_input E (gate_Spec g) ps es src cand; c = Evaluate_quality (ge_unicode E) (ge_validJSON E) i
      in co_Verdict c = VerdictCandidateSafe \<and> statistics_ok E (gate_Spec g) pv i c src cand)"
  using assms by (auto simp: score_stage_def Let_def verdict_stage_clean statistical_stage_clean)

lemma decide_gate_phase:
  "gx_Phase (gate_Status (decide_gate g r)) = AIQualityGatePassed \<longleftrightarrow> clean r"
  by (simp add: decide_gate_def Let_def clean_def gate_phases)


text \<open>The dataset is readable and in order.\<close>

definition dataset_complete :: "gate_env \<Rightarrow> AIQualityGate \<Rightarrow> gate_world \<Rightarrow> goldenPrompt list \<Rightarrow> bool" where
  "dataset_complete E g w prompts \<longleftrightarrow>
     loadGoldenDataset E w (gate_Namespace g) (gs_GoldenDatasetRef (gate_Spec g)) = Inr prompts \<and>
     prompts \<noteq> [] \<and> (\<forall>p \<in> set prompts. prompt_complete p) \<and> distinct (map pr_ID prompts)"

lemma score_without_evidence:
  "co_Verdict (Evaluate_quality U J (gate_input E spec ps [] src cand)) = VerdictInsufficientData"
  by (rule Evaluate_quality_no_samples) (simp add: gate_input_def)

lemma evaluate_gate_parts:
  fixes E name g w defines "v \<equiv> evaluate_gate E name g w"
    and "r0 \<equiv> \<lparr>gr_world = w, gr_status = reset_status g, gr_failures = [], gr_pending = [], gr_reason = ReasonReconciled\<rparr>"
  obtains r1 r2 r3 where
    "dataset_stage E g r0 = (gv_prompts v, r1)"
    "evidence_stage E name g (gv_prompts v) r1 = (gv_evidence v, r2)"
    "telemetry_stage E g r2 = (gv_observations v, r3)"
    "score_stage E g (gx_Verdict (gate_Status g)) (gv_prompts v) (gv_evidence v)
       (fst (fst (gv_observations v))) (fst (snd (gv_observations v))) r3 = (gv_comparison v, gv_run v)"
    "gv_gate v = decide_gate g (gv_run v)"
proof -
  obtain ps r1 where d: "dataset_stage E g r0 = (ps, r1)" by fastforce
  obtain ev r2 where e: "evidence_stage E name g ps r1 = (ev, r2)" by fastforce
  obtain obs r3 where t: "telemetry_stage E g r2 = (obs, r3)" by fastforce
  obtain c r4 where s: "score_stage E g (gx_Verdict (gate_Status g)) ps ev (fst (fst obs)) (fst (snd obs)) r3 = (c, r4)"
    by fastforce
  have "v = \<lparr>gv_gate = decide_gate g r4, gv_run = r4, gv_prompts = ps, gv_evidence = ev, gv_observations = obs, gv_comparison = c\<rparr>"
    using d e t s by (simp add: v_def r0_def evaluate_gate_def)
  then show ?thesis using that d e t s by simp
qed

lemma score_stage_keeps: "clean (snd (score_stage E g pv ps es src cand r)) \<Longrightarrow> clean r"
  by (auto simp: score_stage_def Let_def verdict_stage_clean statistical_stage_clean split: if_splits)

text \<open>
  C1: Exactly when a quality gate passes: the golden dataset is readable, not empty, its prompts are
  complete and have distinct identifiers; evidence is called for and complete, so that every prompt
  has an answer of the source and of the candidate and the candidate's answers satisfy the required
  checks; telemetry of the target was collected, the candidate was observed in it, and neither its
  error rate nor the increase of its latency exceeds the limits (a limit on retries never lets a gate
  pass); the quality engine calls the candidate safe on these inputs; and in statistical mode the
  non-inferiority test and the hysteresis call it safe, too. In particular a gate whose weights and
  checks call for no evidence never passes.
\<close>

theorem quality_gate_passes:
  fixes E name g w defines "v \<equiv> evaluate_gate E name g w" and "spec \<equiv> gate_Spec g"
  shows "gx_Phase (gate_Status (gv_gate v)) = AIQualityGatePassed \<longleftrightarrow>
    dataset_complete E g w (gv_prompts v) \<and>
    evidence_needed spec \<and> evidence_complete E g w (gv_prompts v) (gv_evidence v) \<and>
    (\<exists>samples. collectSamples E g = Inr samples \<and>
       gv_observations v = (observeModel samples (gs_Target spec) (gs_SourceModel spec),
         observeModel samples (gs_Target spec) (gs_CandidateModel spec))) \<and>
    (case gv_observations v of ((src, sok), (cand, cok)) \<Rightarrow>
       operational_ok src sok cand cok (gs_RequiredChecks spec) \<and>
       (let i = gate_input E spec (gv_prompts v) (gv_evidence v) src cand;
            c = Evaluate_quality (ge_unicode E) (ge_validJSON E) i
        in co_Verdict c = VerdictCandidateSafe \<and>
           statistics_ok E spec (gx_Verdict (gate_Status g)) i c src cand))"
proof -
  obtain r1 r2 r3 where st:
    "dataset_stage E g \<lparr>gr_world = w, gr_status = reset_status g, gr_failures = [], gr_pending = [],
       gr_reason = ReasonReconciled\<rparr> = (gv_prompts v, r1)"
    "evidence_stage E name g (gv_prompts v) r1 = (gv_evidence v, r2)"
    "telemetry_stage E g r2 = (gv_observations v, r3)"
    "score_stage E g (gx_Verdict (gate_Status g)) (gv_prompts v) (gv_evidence v)
       (fst (fst (gv_observations v))) (fst (snd (gv_observations v))) r3 = (gv_comparison v, gv_run v)"
    "gv_gate v = decide_gate g (gv_run v)"
    unfolding v_def by (rule evaluate_gate_parts)
  have 1: "clean r1 \<longleftrightarrow> dataset_complete E g w (gv_prompts v)" "gr_world r1 = w"
    using dataset_stage_clean[of E g "\<lparr>gr_world = w, gr_status = reset_status g, gr_failures = [], gr_pending = [],
       gr_reason = ReasonReconciled\<rparr>"] st(1)
    by (simp_all add: dataset_complete_def validateGoldenDataset_Nil clean_def)
  have s1: "clean r2 \<Longrightarrow> clean r1"
    using st(2) job_stage_not_clean[of E name g]
    by (auto simp: evidence_stage_def Let_def split: if_splits sum.splits option.splits)
  have s2: "clean r3 \<Longrightarrow> clean r2" using telemetry_stage_clean[of E g r2] st(3) by simp
  have s3: "clean (gv_run v) \<Longrightarrow> clean r3" using score_stage_keeps st(4) by (metis snd_conv)
  show ?thesis
  proof (cases "dataset_complete E g w (gv_prompts v)")
    case False
    then show ?thesis using 1 s1 s2 s3 st(5) decide_gate_phase by auto
  next
    case True
    then have ne: "gv_prompts v \<noteq> []" by (simp add: dataset_complete_def)
    note 2 = evidence_stage_clean[OF ne, of E name g r1, unfolded st(2) 1(2) fst_conv snd_conv]
    note 3 = telemetry_stage_clean[of E g r2, unfolded st(3) fst_conv snd_conv]
    note 4 = score_stage_clean[OF ne, of E g "gx_Verdict (gate_Status g)" "gv_evidence v"
      "fst (fst (gv_observations v))" "fst (snd (gv_observations v))" r3, unfolded st(4) fst_conv snd_conv]
    have ref: "evidence_complete E g w (gv_prompts v) (gv_evidence v) \<Longrightarrow> gs_EvidenceRef spec \<noteq> None"
      by (auto simp: evidence_complete_def spec_def)
    obtain src sok cand cok where o: "gv_observations v = ((src, sok), (cand, cok))"
      by (metis surj_pair)
    have "clean (gv_run v) \<longleftrightarrow> evidence_needed spec \<and> evidence_complete E g w (gv_prompts v) (gv_evidence v) \<and> clean r3 \<and>
       (let i = gate_input E spec (gv_prompts v) (gv_evidence v) src cand;
            c = Evaluate_quality (ge_unicode E) (ge_validJSON E) i
        in co_Verdict c = VerdictCandidateSafe \<and> statistics_ok E spec (gx_Verdict (gate_Status g)) i c src cand)"
    proof (cases "evidence_needed spec")
      case True
      then show ?thesis using 2 3 4 s3 ref o unfolding spec_def by auto
    next
      case False
      then show ?thesis using 2 3 4 s2 s3 score_without_evidence o unfolding spec_def by (auto simp: Let_def verdict_defs)
    qed
    then show ?thesis using True 1 2 3 o st(5) decide_gate_phase unfolding spec_def by auto
  qed
qed


subsection \<open>The status of a gate\<close>

text \<open>
  The shape of a status: untouched, or a phase with the verdict, condition, count and messages that
  belong to it.
\<close>

definition initial_status :: "AIQualityGateStatus \<Rightarrow> bool" where
  "initial_status st \<longleftrightarrow> gx_Phase st = '''' \<and> gx_Verdict st = '''' \<and> gx_Ready st = None"

definition settled_status :: "AIQualityGateStatus \<Rightarrow> bool" where
  "settled_status st \<longleftrightarrow>
     (\<exists>c n. gx_Ready st = Some c \<and> cond_Status c = (gx_Phase st = AIQualityGatePassed) \<and>
        gx_FailedChecks st = word_of_int (int n) \<and> n \<le> length (gx_FailureMessages st) \<and>
        (gx_Phase st, gx_Verdict st) =
          (if 0 < n then (AIQualityGateFailed, ''candidate-risk'')
           else if gx_FailureMessages st \<noteq> [] then (AIQualityGatePending, ''insufficient-data'')
           else (AIQualityGatePassed, ''candidate-safe'')) \<and>
        (0 < n \<longrightarrow> cond_Reason c = ReasonValidationFailed))"

definition status_wf :: "AIQualityGateStatus \<Rightarrow> bool" where
  "status_wf st \<longleftrightarrow> initial_status st \<or> settled_status st"

lemma decide_gate_settled: "settled_status (gate_Status (decide_gate g r))"
  unfolding settled_status_def
  by (rule exI[of _ "the (gx_Ready (gate_Status (decide_gate g r)))"], rule exI[of _ "length (gr_failures r)"])
     (auto simp: decide_gate_def Let_def conditionStatusForGate_def readyCondition_def gate_phases)

lemma decide_gate_meta [simp]:
  "gate_Deleting (decide_gate g r) = gate_Deleting g" "gate_UID (decide_gate g r) = gate_UID g"
  "gate_Finalizers (decide_gate g r) = gate_Finalizers g" "gate_Spec (decide_gate g r) = gate_Spec g"
  "gate_Namespace (decide_gate g r) = gate_Namespace g"
  by (simp_all add: decide_gate_def Let_def split_def)

text \<open>No stage of a run but the last one touches the gates.\<close>

lemma put_configmap_frame [simp]:
  "gw_gates (fst (put_configmap E c ns n cm w)) = gw_gates w"
  "gw_jobs (fst (put_configmap E c ns n cm w)) = gw_jobs w"
  by (simp_all add: put_configmap_def split: option.splits)

lemma writeRawEvidence_frame [simp]:
  "gw_gates (fst (writeRawEvidence E name g raw w)) = gw_gates w"
  "gw_jobs (fst (writeRawEvidence E name g raw w)) = gw_jobs w"
  by (simp_all add: writeRawEvidence_def Let_def split: option.splits sum.splits)

lemma finished_job_frame [simp]:
  "gw_gates (jr_world (finished_job E name g jn r)) = gw_gates (jr_world r)"
  "gw_jobs (jr_world (finished_job E name g jn r)) = gw_jobs (jr_world r)"
proof -
  have "writeRawEvidence E name g raw w = (w', e) \<Longrightarrow> gw_gates w' = gw_gates w \<and> gw_jobs w' = gw_jobs w" for raw w w' e
    using writeRawEvidence_frame[of E name g raw w] by simp
  then show "gw_gates (jr_world (finished_job E name g jn r)) = gw_gates (jr_world r)"
    "gw_jobs (jr_world (finished_job E name g jn r)) = gw_jobs (jr_world r)"
    by (auto simp: finished_job_def Let_def split: sum.splits option.splits prod.splits)
qed

lemma reconcileEvaluationJob_gates [simp]: "gw_gates (jr_world (reconcileEvaluationJob E name g w)) = gw_gates w"
  by (simp add: reconcileEvaluationJob_def start_job_def Let_def split: sum.splits option.splits)

lemma evidence_stage_gates: "gw_gates (gr_world (snd (evidence_stage E name g ps r))) = gw_gates (gr_world r)"
  by (auto simp: evidence_stage_def job_stage_def Let_def split: option.splits sum.splits)

lemma telemetry_stage_world [simp]: "gr_world (snd (telemetry_stage E g r)) = gr_world r"
  by (cases "collectSamples E g") (simp_all add: telemetry_stage_def Let_def split_def)

lemma statistical_stage_world [simp]: "gr_world (statistical_stage E spec pv i c src cand r) = gr_world r"
  by (simp add: statistical_stage_def Let_def)

lemma verdict_stage_world [simp]: "gr_world (verdict_stage c r) = gr_world r"
  by (simp add: verdict_stage_def)

lemma score_stage_world [simp]: "gr_world (snd (score_stage E g pv ps es src cand r)) = gr_world r"
  by (simp add: score_stage_def Let_def)

lemma evaluate_gate_gates: "gw_gates (gr_world (gv_run (evaluate_gate E name g w))) = gw_gates w"
proof (rule evaluate_gate_parts[of E g w name])
  fix r1 r2 r3
  let ?v = "evaluate_gate E name g w"
  let ?r0 = "\<lparr>gr_world = w, gr_status = reset_status g, gr_failures = [], gr_pending = [], gr_reason = ReasonReconciled\<rparr>"
  assume a: "dataset_stage E g ?r0 = (gv_prompts ?v, r1)"
    "evidence_stage E name g (gv_prompts ?v) r1 = (gv_evidence ?v, r2)"
    "telemetry_stage E g r2 = (gv_observations ?v, r3)"
    "score_stage E g (gx_Verdict (gate_Status g)) (gv_prompts ?v) (gv_evidence ?v)
       (fst (fst (gv_observations ?v))) (fst (snd (gv_observations ?v))) r3 = (gv_comparison ?v, gv_run ?v)"
  show ?thesis
    using dataset_stage_clean(2)[of E g ?r0] evidence_stage_gates[of E name g "gv_prompts ?v" r1]
      telemetry_stage_world[of E g r2] score_stage_world[of E g] a by (metis snd_conv gate_run.select_convs(1))
qed

lemma writeScoreEvidence_frame [simp]:
  "gw_gates (fst (writeScoreEvidence E g c w)) = gw_gates w"
  "gw_jobs (fst (writeScoreEvidence E g c w)) = gw_jobs w"
proof -
  have "put_configmap E WriteScoreEvidence ns n cm w = (w', e) \<Longrightarrow> gw_gates w' = gw_gates w \<and> gw_jobs w' = gw_jobs w"
    for ns n cm w' e
    using put_configmap_frame[of E WriteScoreEvidence ns n cm w] by simp
  then show "gw_gates (fst (writeScoreEvidence E g c w)) = gw_gates w"
    "gw_jobs (fst (writeScoreEvidence E g c w)) = gw_jobs w"
    by (auto simp: writeScoreEvidence_def Let_def split: option.splits sum.splits prod.splits)
qed

lemma update_scores_frame [simp]:
  "gw_gates (fst (update_scores E c s ms w)) = gw_gates w"
  "gw_jobs (fst (update_scores E c s ms w)) = gw_jobs w"
  by (induction ms arbitrary: w) (auto split: option.splits)

lemma publish_scores_frame [simp]:
  "gw_gates (fst (publish_scores E v series w)) = gw_gates w"
  "gw_jobs (fst (publish_scores E v series w)) = gw_jobs w"
proof -
  have "writeScoreEvidence E g c w = (w', e) \<Longrightarrow> gw_gates w' = gw_gates w \<and> gw_jobs w' = gw_jobs w" for g c w w' e
    using writeScoreEvidence_frame[of E g c w] by simp
  moreover have "gw_gates (fst (updateCandidateModelQuality E g w)) = gw_gates w"
    "gw_jobs (fst (updateCandidateModelQuality E g w)) = gw_jobs w" for g w
    by (simp_all add: updateCandidateModelQuality_def split: sum.splits)
  ultimately show "gw_gates (fst (publish_scores E v series w)) = gw_gates w"
    "gw_jobs (fst (publish_scores E v series w)) = gw_jobs w"
    by (cases "gv_comparison v"; simp add: publish_scores_def Let_def split_def split: option.splits)+
qed

lemma delete_jobs_frame [simp]:
  "gw_gates (fst (delete_jobs E ks w)) = gw_gates w"
  "gw_configmaps (fst (delete_jobs E ks w)) = gw_configmaps w"
  by (induction ks arbitrary: w) (auto split: option.splits)

lemma cleanup_evidence_frame [simp]:
  "gw_gates (fst (cleanup_evidence E name g w)) = gw_gates w"
  "gw_jobs (fst (cleanup_evidence E name g w)) = gw_jobs w"
  by (simp_all add: cleanup_evidence_def Let_def split: option.splits sum.splits)

lemma cleanup_gates [simp]: "gw_gates (fst (cleanupQualityGateResources E name g w)) = gw_gates w"
proof -
  have "delete_jobs E ks w = (w', e) \<Longrightarrow> gw_gates w' = gw_gates w" for ks w' e
    using delete_jobs_frame[of E ks w] by simp
  then show ?thesis
    by (auto simp: cleanupQualityGateResources_def split: sum.splits prod.splits option.splits)
qed

text \<open>
  The steps of the system: a run of the controller on any gate in any environment; users who create,
  edit and remove gates without their status; anything that happens to ConfigMaps and Jobs.
\<close>

inductive gate_step :: "gate_world \<Rightarrow> gate_world \<Rightarrow> bool" where
  gate_reconcile: "gate_step w (fst (Reconcile_gate E name w))"
| gate_users: "(\<And>name g. map_of gs name = Some g \<Longrightarrow> initial_status (gate_Status g) \<or>
      (\<exists>g0. map_of (gw_gates w) name = Some g0 \<and> gate_Status g = gate_Status g0)) \<Longrightarrow>
    gate_step w (w\<lparr>gw_gates := gs\<rparr>)"
| gate_cluster: "gate_step w (w\<lparr>gw_configmaps := cms, gw_jobs := js\<rparr>)"

lemma publish_gate_gates:
  assumes "gw_gates (gr_world (gv_run v)) = gw_gates w"
  shows "gw_gates (fst (publish_gate E name v)) = gw_gates w \<or>
     gw_gates (fst (publish_gate E name v)) = gw_gates (store_gate name (gv_gate v) w)"
proof -
  obtain w1 s e where p: "publish_scores E v (addGate name (gv_gate v) no_series)
      ((gr_world (gv_run v))\<lparr>gw_metrics := set_gate_gauges name (gv_gate v) (gw_metrics (gr_world (gv_run v)))\<rparr>) = (w1, s, e)"
    by (metis surj_pair)
  then have w1: "gw_gates w1 = gw_gates w"
    using publish_scores_frame(1)[of E v "addGate name (gv_gate v) no_series"
      "(gr_world (gv_run v))\<lparr>gw_metrics := set_gate_gauges name (gv_gate v) (gw_metrics (gr_world (gv_run v)))\<rparr>"] assms
    by simp
  show ?thesis unfolding publish_gate_def Let_def p
    by (cases e) (simp_all add: store_gate_def w1 split: option.splits)
qed

lemma delete_gate_gates:
  "gw_gates (fst (delete_gate E name g w)) = gw_gates w \<or>
     (\<exists>g'. gate_Status g' = gate_Status g \<and> gw_gates (fst (delete_gate E name g w)) = gw_gates (store_gate name g' w))"
proof -
  obtain w1 e where c: "cleanupQualityGateResources E name g w = (w1, e)" by (metis surj_pair)
  then have w1: "gw_gates w1 = gw_gates w" using cleanup_gates by (metis fst_conv)
  let ?g = "g\<lparr>gate_Finalizers := filter (\<lambda>f. f \<noteq> qualityGateFinalizer) (gate_Finalizers g)\<rparr>"
  have "gw_gates (fst (delete_gate E name g w)) = gw_gates w \<or>
      gw_gates (fst (delete_gate E name g w)) = gw_gates (store_gate name ?g w)"
    using c w1 by (cases e) (simp_all add: delete_gate_def Let_def store_gate_def split: option.splits)
  moreover have "gate_Status ?g = gate_Status g" by simp
  ultimately show ?thesis by blast
qed

lemma Reconcile_gate_gates:
  assumes "map_of (gw_gates (fst (Reconcile_gate E name w))) n = Some g'"
  shows "map_of (gw_gates w) n = Some g' \<or> settled_status (gate_Status g') \<or>
    (\<exists>g. map_of (gw_gates w) name = Some g \<and> gate_Status g' = gate_Status g)"
proof (cases "fetch E GetGate ''aiqualitygates'' name (map_of (gw_gates w) name)")
  case (Inl e)
  then show ?thesis using assms by (simp add: Reconcile_gate_def)
next
  case (Inr g)
  then have g: "map_of (gw_gates w) name = Some g" by (auto simp: fetch_def split: option.splits)
  have s: "gw_gates (fst (Reconcile_gate E name w)) = gw_gates (store_gate name h w) \<Longrightarrow> g' = h \<or> map_of (gw_gates w) n = Some g'"
    for h using assms by (auto simp: store_gate_def update_conv' delete_conv' split: if_splits)
  consider "gate_Deleting g" | "\<not> gate_Deleting g" "qualityGateFinalizer \<notin> set (gate_Finalizers g)"
    | "\<not> gate_Deleting g" "qualityGateFinalizer \<in> set (gate_Finalizers g)" by blast
  then show ?thesis
  proof cases
    case 1
    then show ?thesis using delete_gate_gates[of E name g w] s assms g Inr by (auto simp: Reconcile_gate_def)
  next
    case 2
    let ?h = "g\<lparr>gate_Finalizers := gate_Finalizers g @ [qualityGateFinalizer]\<rparr>"
    have "gate_Status ?h = gate_Status g" by simp
    then show ?thesis using 2 s[of ?h] assms g Inr by (auto simp: Reconcile_gate_def split: option.splits)
  next
    case 3
    let ?v = "evaluate_gate E name g w"
    have "settled_status (gate_Status (gv_gate ?v))"
      by (rule evaluate_gate_parts[of E g w name]) (simp add: decide_gate_settled)
    then show ?thesis using 3 publish_gate_gates[OF evaluate_gate_gates[of E name g w], of E name] s assms g Inr
      by (auto simp: Reconcile_gate_def)
  qed
qed

lemma gate_step_wf:
  assumes "gate_step w w'" "\<And>n g. map_of (gw_gates w) n = Some g \<Longrightarrow> status_wf (gate_Status g)"
    and "map_of (gw_gates w') n = Some g"
  shows "status_wf (gate_Status g)"
  using assms(1)
proof cases
  case (gate_reconcile E name)
  then show ?thesis using Reconcile_gate_gates[of E name w n g] assms(2,3) by (metis status_wf_def)
next
  case (gate_users gs)
  then show ?thesis using assms(2,3) unfolding status_wf_def by simp metis
next
  case (gate_cluster cms js)
  then show ?thesis using assms(2,3) by simp
qed

text \<open>
  C2: In every world that runs of the controller, users and the cluster can reach, the status of every
  gate is either untouched or consistent: the verdict is the one of the phase, the Ready condition is
  true exactly for passed gates, a passed gate has no message and no failed check, a pending gate has a
  message and no failed check, a failed gate counts its failed checks (modulo the width of the
  field) and gives their reason.
\<close>

theorem gate_status_consistent:
  assumes "gw_gates w0 = []" "gate_step\<^sup>*\<^sup>* w0 w" "map_of (gw_gates w) name = Some g"
  shows "status_wf (gate_Status g)"
proof -
  have "map_of (gw_gates w) n = Some g \<Longrightarrow> status_wf (gate_Status g)" for n g
    using assms(2)
  proof (induction arbitrary: n g rule: rtranclp_induct)
    case base
    then show ?case using assms(1) by simp
  next
    case (step y z)
    then show ?case using gate_step_wf by blast
  qed
  then show ?thesis using assms(3) .
qed


text \<open>A gate whose dataset does not exist yet.\<close>

definition example_gate :: AIQualityGate where
  "example_gate = \<lparr>gate_Namespace = ''ai'', gate_UID = ''u1'', gate_Generation = 1, gate_Deleting = False,
     gate_Finalizers = [qualityGateFinalizer],
     gate_Spec = \<lparr>gs_Target = \<lparr>gt_Namespace = ''shop'', gt_Application = ''bot'', gt_Team = ''''\<rparr>,
       gs_SourceModel = ''big'', gs_CandidateModel = ''small'',
       gs_GoldenDatasetRef = \<lparr>dref_Name = ''golden'', dref_Namespace = '''', dref_Key = ''''\<rparr>,
       gs_EvidenceRef = None,
       gs_GatewayRef = '''', gs_Period = '''',
       gs_Weights = \<lparr>sw_Correctness = Some (Fin 1), sw_Reliability = Some (Fin 0), sw_Latency = Some (Fin 0),
         sw_Semantic = Some (Fin 0), sw_Judged = Some (Fin 0)\<rparr>,
       gs_LatencyThresholdMs = 0, gs_MinSamples = 0, gs_TolerancePoints = 0,
       gs_Judge = \<lparr>qj_Enabled = False, qj_ModelRef = ''''\<rparr>,
       gs_Evaluation = \<lparr>qe_Endpoint = '''', qe_Image = '''', qe_MaxTokens = 0, qe_TimeoutSeconds = 0\<rparr>,
       gs_RequiredChecks = \<lparr>qc_SchemaValid = False, qc_NoUnexpectedRefusal = True, qc_NoSensitiveDataLeak = True,
         qc_RequiredKeywords = [], qc_MaxErrorRatePercent = 5, qc_MaxLatencyIncreasePercent = 0,
         qc_MaxRetryIncreasePercent = 0\<rparr>,
       gs_Canary = \<lparr>qy_Enabled = False, qy_Percent = 0, qy_Duration = ''''\<rparr>,
       gs_Rollback = \<lparr>qb_Enabled = False, qb_OnErrorRatePercent = 0, qb_OnLatencyIncreasePercent = 0\<rparr>,
       gs_Statistical = \<lparr>ss_NonInferiorityDelta = Fin 0, ss_ConfidenceLevel = Fin 0, ss_Power = Fin 0,
         ss_BaselineSuccessRate = Fin 0, ss_HysteresisEnterScore = Fin 0, ss_HysteresisExitScore = Fin 0,
         ss_CompositeWeights = \<lparr>sc_Quality = None, sc_ErrorRate = None, sc_LatencyP95 = None, sc_Cost = None\<rparr>\<rparr>\<rparr>,
     gate_Status = \<lparr>gx_ObservedGeneration = 0, gx_Phase = '''', gx_Verdict = '''', gx_CheckedSamples = 0,
       gx_FailedChecks = 0, gx_QualityScore = Fin 0, gx_CompositeScore = Fin 0, gx_DatasetVersion = '''',
       gx_DatasetHash = '''', gx_RequiredSamples = 0, gx_ObservedSourceSamples = 0, gx_ObservedCandidateSamples = 0,
       gx_NonInferiorityLowerBound = Fin 0, gx_ScoreBreakdown = zero_breakdown, gx_WeightsUsed = zero_weights_used,
       gx_Samples = 0, gx_Dimensions = [], gx_EvidenceRef = None, gx_EvaluationJobName = '''',
       gx_EvaluationJobPhase = '''', gx_FailureMessages = [], gx_CanaryStatus = '''', gx_SourceObservation = None,
       gx_CandidateObservation = None, gx_Ready = None\<rparr>\<rparr>"

definition example_gate_env :: gate_env where
  "example_gate_env = \<lparr>ge_fault = (\<lambda>_. None), ge_missing = (\<lambda>kind n. n @ '' not found''), ge_now = 0,
     ge_unicode = ascii_tables, ge_validJSON = (\<lambda>_. False), ge_oor = (\<lambda>_. 0), ge_qf = (\<lambda>_. Fin 0),
     ge_prompts = (\<lambda>_. None), ge_wrappedPrompts = (\<lambda>_. Inl ''no map''),
     ge_samples = (\<lambda>_. None),
     ge_wrappedSamples = (\<lambda>_. Inl ''no map''), ge_marshal = (\<lambda>_. Inr ''{}''), ge_policies = [], ge_models = [],
     ge_providers = [], ge_gateways = [],
     ge_catalog = Inl (Err ''no catalog'' []),
     ge_collect = (\<lambda>_ _. Inl ''no telemetry''),
     ge_environ = (\<lambda>_. ''''), ge_operatorPod = (\<lambda>_ _. None), ge_pods = (\<lambda>_. [])\<rparr>"

definition example_gate_world :: gate_world where
  "example_gate_world = \<lparr>gw_gates = [],
     gw_configmaps = [], gw_jobs = [], gw_modelScores = [],
     gw_metrics = \<lparr>qg_passed = [], qg_failedChecks = [], qg_score = [], qg_quality = [], qg_byUID = []\<rparr>, gw_events = []\<rparr>"

definition example_gate_run :: gate_world where
  "example_gate_run = fst (Reconcile_gate example_gate_env ''gate''
     (example_gate_world\<lparr>gw_gates := [(''gate'', example_gate)]\<rparr>))"

theorem gate_status_consistent_witness:
  "\<exists>g. map_of (gw_gates example_gate_run) ''gate'' = Some g \<and> status_wf (gate_Status g)"
proof -
  let ?w = "example_gate_world\<lparr>gw_gates := [(''gate'', example_gate)]\<rparr>"
  let ?v = "evaluate_gate example_gate_env ''gate'' example_gate ?w"
  have "loadGoldenDataset example_gate_env ?w (gate_Namespace example_gate) (gs_GoldenDatasetRef (gate_Spec example_gate)) \<noteq> Inr ps" for ps
    by (simp add: loadGoldenDataset_def readConfigMapData_def get_configmap_def fetch_def example_gate_env_def example_gate_world_def Let_def)
  then have "gv_comparison ?v = None"
    by (auto simp: evaluate_gate_def dataset_stage_def score_stage_def Let_def split_def split: sum.splits)
  moreover have "ge_fault example_gate_env c = None" for c by (simp add: example_gate_env_def)
  moreover have "\<not> gate_Deleting example_gate" "gate_Finalizers example_gate = [qualityGateFinalizer]"
    by (simp_all add: example_gate_def)
  moreover have "gv_gate ?v = decide_gate example_gate (gv_run ?v)"
    by (rule evaluate_gate_parts[of example_gate_env example_gate ?w "''gate''"])
  ultimately have "map_of (gw_gates example_gate_run) ''gate'' = Some (gv_gate ?v)"
    by (simp add: example_gate_run_def Reconcile_gate_def fetch_def publish_gate_def publish_scores_def
        store_gate_def Let_def evaluate_gate_gates update_conv')
  moreover have gate_init: "initial_status (gate_Status example_gate)" by (simp add: example_gate_def initial_status_def)
  have "gate_step\<^sup>*\<^sup>* example_gate_world example_gate_run"
  proof (rule converse_rtranclp_into_rtranclp)
    show "gate_step example_gate_world ?w"
      by (rule gate_users) (use gate_init in \<open>auto split: if_splits\<close>)
    show "gate_step\<^sup>*\<^sup>* ?w example_gate_run"
      unfolding example_gate_run_def by (rule r_into_rtranclp) (rule gate_reconcile)
  qed
  ultimately show ?thesis
    using gate_status_consistent[of example_gate_world example_gate_run "''gate''"]
    by (simp add: example_gate_world_def)
qed


subsection \<open>Where an evaluation job may run\<close>

text \<open>The provider of a model is known and its zone is allowed.\<close>

definition zone_allowed :: "gate_env \<Rightarrow> AISovereigntyPolicySpec \<Rightarrow> string \<Rightarrow> bool" where
  "zone_allowed E p model \<longleftrightarrow>
     (\<exists>provider zone. providerZoneForModel E model = Inr (provider, zone, True) \<and> IsZoneAllowed (policyToEngine p) zone)"

lemma models_block_none: "models_block E pn (policyToEngine p) ms = Inr '''' \<longleftrightarrow> list_all (zone_allowed E p) ms"
  by (induction ms) (auto simp: zone_allowed_def split: sum.splits)

lemma evaluationSovereigntyBlock_none:
  "evaluationSovereigntyBlock E spec = Inr '''' \<longleftrightarrow>
     (case firstSovereigntyPolicy E of None \<Rightarrow> True
      | Some (pn, p) \<Rightarrow> zone_allowed E p (gs_SourceModel spec) \<and> zone_allowed E p (gs_CandidateModel spec))"
  by (auto simp: evaluationSovereigntyBlock_def models_block_none simp del: models_block.simps split: option.splits)

text \<open>A job that the controller may create.\<close>

definition permitted_job :: "gate_env \<Rightarrow> string \<Rightarrow> AIQualityGate \<Rightarrow> string \<times> string \<Rightarrow> EvaluationJob \<Rightarrow> bool" where
  "permitted_job E name g k job \<longleftrightarrow>
     k = (gate_Namespace g, qualityEvaluationJobName name g) \<and>
     TrimSpace (qe_Endpoint (gs_Evaluation (gate_Spec g))) \<noteq> '''' \<and>
     evaluationSovereigntyBlock E (gate_Spec g) = Inr '''' \<and>
     (\<exists>img. job = (buildEvaluationJob name g img (TrimSpace (qe_Endpoint (gs_Evaluation (gate_Spec g)))))
        \<lparr>ej_Owner := Some (gate_UID g)\<rparr>)"

lemma permitted_job_status [simp]: "permitted_job E name (g\<lparr>gate_Status := st\<rparr>) k job = permitted_job E name g k job"
  by (simp add: permitted_job_def qualityEvaluationJobName_def buildEvaluationJob_def Let_def)

lemma reconcileEvaluationJob_jobs:
  assumes "map_of (gw_jobs (jr_world (reconcileEvaluationJob E name g w))) k = Some job" "map_of (gw_jobs w) k \<noteq> Some job"
  shows "permitted_job E name g k job"
  using assms
  by (auto simp: reconcileEvaluationJob_def start_job_def permitted_job_def Let_def update_conv'
      split: sum.splits option.splits if_splits)

lemma job_stage_jobs:
  assumes "map_of (gw_jobs (gr_world (job_stage E name g r))) k = Some job" "map_of (gw_jobs (gr_world r)) k \<noteq> Some job"
  shows "permitted_job E name g k job"
  using assms reconcileEvaluationJob_jobs[of E name "g\<lparr>gate_Status := gr_status r\<rparr>" "gr_world r"]
  by (auto simp: job_stage_def Let_def split: sum.splits if_splits)

lemma evidence_stage_jobs:
  assumes "map_of (gw_jobs (gr_world (snd (evidence_stage E name g ps r)))) k = Some job"
    and "map_of (gw_jobs (gr_world r)) k \<noteq> Some job"
  shows "permitted_job E name g k job"
  using assms job_stage_jobs[of E name g _ k job]
  by (auto simp: evidence_stage_def Let_def split: option.splits sum.splits if_splits)

lemma evaluate_gate_jobs:
  assumes "map_of (gw_jobs (gr_world (gv_run (evaluate_gate E name g w)))) k = Some job" "map_of (gw_jobs w) k \<noteq> Some job"
  shows "permitted_job E name g k job"
proof (rule evaluate_gate_parts[of E g w name])
  fix r1 r2 r3
  let ?v = "evaluate_gate E name g w"
  let ?r0 = "\<lparr>gr_world = w, gr_status = reset_status g, gr_failures = [], gr_pending = [], gr_reason = ReasonReconciled\<rparr>"
  assume a: "dataset_stage E g ?r0 = (gv_prompts ?v, r1)"
    "evidence_stage E name g (gv_prompts ?v) r1 = (gv_evidence ?v, r2)"
    "telemetry_stage E g r2 = (gv_observations ?v, r3)"
    "score_stage E g (gx_Verdict (gate_Status g)) (gv_prompts ?v) (gv_evidence ?v)
       (fst (fst (gv_observations ?v))) (fst (snd (gv_observations ?v))) r3 = (gv_comparison ?v, gv_run ?v)"
  have "gr_world (gv_run ?v) = gr_world r2" "gr_world r1 = w"
    using dataset_stage_clean(2)[of E g ?r0] telemetry_stage_world[of E g r2] score_stage_world[of E g] a
    by (metis snd_conv gate_run.select_convs(1))+
  then show ?thesis using evidence_stage_jobs[of E name g "gv_prompts ?v" r1 k job] a(2) assms by simp
qed

lemma delete_jobs_jobs: "map_of (gw_jobs (fst (delete_jobs E ks w))) k = Some job \<Longrightarrow> map_of (gw_jobs w) k = Some job"
proof (induction ks arbitrary: w)
  case (Cons x ks)
  show ?case
  proof (cases "ge_fault E (DeleteJob (snd x))")
    case None
    then have "map_of (AList.delete x (gw_jobs w)) k = Some job"
      using Cons.IH[of "w\<lparr>gw_jobs := AList.delete x (gw_jobs w)\<rparr>"] Cons.prems by simp
    then show ?thesis by (simp add: delete_conv' split: if_splits)
  next
    case (Some e)
    then show ?thesis using Cons by (simp split: if_splits)
  qed
qed simp

lemma cleanup_jobs:
  assumes "map_of (gw_jobs (fst (cleanupQualityGateResources E name g w))) k = Some job"
  shows "map_of (gw_jobs w) k = Some job"
proof -
  have "delete_jobs E ks w = (w', e) \<Longrightarrow> map_of (gw_jobs w') k = Some job \<Longrightarrow> map_of (gw_jobs w) k = Some job" for ks w' e
    using delete_jobs_jobs[of E ks w k job] by simp
  then show ?thesis using assms
    by (auto simp: cleanupQualityGateResources_def split: sum.splits prod.splits option.splits)
qed

lemma publish_gate_jobs: "gw_jobs (fst (publish_gate E name v)) = gw_jobs (gr_world (gv_run v))"
proof -
  obtain w1 s e where p: "publish_scores E v (addGate name (gv_gate v) no_series)
      ((gr_world (gv_run v))\<lparr>gw_metrics := set_gate_gauges name (gv_gate v) (gw_metrics (gr_world (gv_run v)))\<rparr>) = (w1, s, e)"
    by (metis surj_pair)
  then have w1: "gw_jobs w1 = gw_jobs (gr_world (gv_run v))"
    using publish_scores_frame(2)[of E v "addGate name (gv_gate v) no_series"
      "(gr_world (gv_run v))\<lparr>gw_metrics := set_gate_gauges name (gv_gate v) (gw_metrics (gr_world (gv_run v)))\<rparr>"]
    by simp
  show ?thesis unfolding publish_gate_def Let_def p
    by (cases e) (simp_all add: store_gate_def w1 split: option.splits)
qed

lemma delete_gate_jobs:
  assumes "map_of (gw_jobs (fst (delete_gate E name g w))) k = Some job"
  shows "map_of (gw_jobs w) k = Some job"
proof -
  obtain w1 e where c: "cleanupQualityGateResources E name g w = (w1, e)" by (metis surj_pair)
  then have "map_of (gw_jobs w1) k = Some job \<Longrightarrow> map_of (gw_jobs w) k = Some job"
    using cleanup_jobs[of E name g w k job] by simp
  then show ?thesis using assms c
    by (cases e) (auto simp: delete_gate_def Let_def store_gate_def split: option.splits if_splits)
qed



text \<open>A gate without evidence yet, whose two models are served in Switzerland, where the policy wants them.\<close>

definition example_job_env :: gate_env where
  "example_job_env = example_gate_env\<lparr>
     ge_prompts := (\<lambda>_. Some [\<lparr>pr_ID = ''p1'', pr_Prompt = ''Capital of France?'', pr_RequiredKeywords = [],
       pr_MaxTokens = 0, pr_MustBeJSON = False, pr_Reference = runes ''Paris'', pr_Fields = []\<rparr>]),
     ge_policies := [(''swiss'', \<lparr>sp_DataResidency = \<lparr>dr_AllowedZones = [''CH''], dr_ForbiddenZones = []\<rparr>,
       sp_SensitiveData = \<lparr>sd_ExternalProvidersAllowed = True, sd_RequireAnonymization = False\<rparr>,
       sp_Audit = \<lparr>au_RetainLogsDays = 0, au_ImmutableLogs = False\<rparr>, sp_EnforcementMode = ''''\<rparr>)],
     ge_models := [example_model ''big'' ''swiss-ai'', example_model ''small'' ''swiss-ai''],
     ge_providers := [(''swiss-ai'', example_provider ''swiss-ai'' ''CH'')]\<rparr>"

definition example_job_gate :: AIQualityGate where
  "example_job_gate = example_gate\<lparr>gate_Spec := (gate_Spec example_gate)\<lparr>
     gs_EvidenceRef := Some \<lparr>dref_Name = ''runs'', dref_Namespace = '''', dref_Key = ''''\<rparr>,
     gs_Evaluation := \<lparr>qe_Endpoint = ''https://gw/v1'', qe_Image = ''eval:1'', qe_MaxTokens = 0, qe_TimeoutSeconds = 0\<rparr>\<rparr>\<rparr>"

definition example_job_world :: gate_world where
  "example_job_world = example_gate_world\<lparr>gw_gates := [(''gate'', example_job_gate)],
     gw_configmaps := [((''ai'', ''golden''), \<lparr>cm_Labels = [], cm_Annotations = [], cm_Data = [(''prompts.yaml'', ''p'')], cm_Owner = None\<rparr>)]\<rparr>"

definition example_job_key :: "string \<times> string" where
  "example_job_key = (''ai'', qualityEvaluationJobName ''gate'' example_job_gate)"

lemma example_job_facts:
  "ge_fault example_job_env c = None" "gate_Namespace example_job_gate = ''ai''"
  "gs_EvidenceRef (gate_Spec example_job_gate) = Some \<lparr>dref_Name = ''runs'', dref_Namespace = '''', dref_Key = ''''\<rparr>"
  "gs_GoldenDatasetRef (gate_Spec example_job_gate) = \<lparr>dref_Name = ''golden'', dref_Namespace = '''', dref_Key = ''''\<rparr>"
  "\<not> gate_Deleting example_job_gate" "gate_Finalizers example_job_gate = [qualityGateFinalizer]"
  "evidence_needed (gate_Spec example_job_gate)"
  "gw_jobs example_job_world = []" "map_of (gw_gates example_job_world) ''gate'' = Some example_job_gate"
  by (simp_all add: example_job_env_def example_gate_env_def example_job_gate_def example_gate_def evidence_needed_def
      qualityGateNeedsEvidence_def example_job_world_def example_gate_world_def)

lemma example_job_dataset:
  "\<exists>p. loadGoldenDataset example_job_env example_job_world ''ai'' \<lparr>dref_Name = ''golden'', dref_Namespace = '''', dref_Key = ''''\<rparr> = Inr [p]"
  by (simp add: loadGoldenDataset_def readConfigMapData_def get_configmap_def fetch_def example_job_facts(1)
      example_job_world_def example_gate_world_def configMapData_def dataset_keys_def ref_namespace_def Let_def)
     (simp add: example_job_env_def example_gate_env_def)

lemma example_job_evidence:
  "\<exists>e. loadEvidence example_job_env example_job_world ''ai'' \<lparr>dref_Name = ''runs'', dref_Namespace = '''', dref_Key = ''''\<rparr> = Inl e"
  by (simp add: loadEvidence_def readEvidenceConfigMapData_def get_configmap_def fetch_def example_job_facts(1)
      example_job_world_def example_gate_world_def ref_namespace_def Let_def)

lemma example_job_zones: "evaluationSovereigntyBlock example_job_env (gate_Spec example_job_gate) = Inr ''''"
  by code_simp

lemma example_job_image: "qualityEvaluatorImage example_job_env (gate_Spec example_job_gate) = Inr ''eval:1''"
  "TrimSpace (qe_Endpoint (gs_Evaluation (gate_Spec example_job_gate))) = ''https://gw/v1''"
  by code_simp+

lemma example_job_created:
  "map_of (gw_jobs (jr_world (reconcileEvaluationJob example_job_env ''gate'' (example_job_gate\<lparr>gate_Status := st\<rparr>) example_job_world))) example_job_key \<noteq> None"
  by (simp add: reconcileEvaluationJob_def start_job_def fetch_def example_job_facts example_job_image example_job_zones
      Let_def example_job_key_def update_conv' qualityEvaluationJobName_def)


lemma example_job_run:
  "map_of (gw_jobs (fst (Reconcile_gate example_job_env ''gate'' example_job_world))) example_job_key \<noteq> None"
proof -
  let ?v = "evaluate_gate example_job_env ''gate'' example_job_gate example_job_world"
  let ?r0 = "\<lparr>gr_world = example_job_world, gr_status = reset_status example_job_gate, gr_failures = [],
    gr_pending = [], gr_reason = ReasonReconciled\<rparr>"
  have run: "gw_jobs (fst (Reconcile_gate example_job_env ''gate'' example_job_world)) = gw_jobs (gr_world (gv_run ?v))"
    using publish_gate_jobs by (simp add: Reconcile_gate_def fetch_def example_job_facts)
  obtain p where p: "loadGoldenDataset example_job_env example_job_world ''ai''
      \<lparr>dref_Name = ''golden'', dref_Namespace = '''', dref_Key = ''''\<rparr> = Inr [p]" using example_job_dataset by blast
  obtain e where e: "loadEvidence example_job_env example_job_world ''ai''
      \<lparr>dref_Name = ''runs'', dref_Namespace = '''', dref_Key = ''''\<rparr> = Inl e" using example_job_evidence by blast
  have "fst (dataset_stage example_job_env example_job_gate ?r0) = [p]"
    using p by (simp add: dataset_stage_def example_job_facts Let_def split_def)
  moreover have "gr_world (snd (dataset_stage example_job_env example_job_gate ?r0)) = example_job_world"
    using dataset_stage_clean(2)[of example_job_env example_job_gate ?r0] by simp
  moreover have "map_of (gw_jobs (gr_world (snd (evidence_stage example_job_env ''gate'' example_job_gate [p] r)))) example_job_key \<noteq> None"
    if "gr_world r = example_job_world" for r
    using that e example_job_created
    by (simp add: evidence_stage_def job_stage_def example_job_facts Let_def hasSourceAndCandidateEvidence_def split: sum.splits)
  ultimately have "map_of (gw_jobs (gr_world (gv_run ?v))) example_job_key \<noteq> None"
    by (rule_tac evaluate_gate_parts[of example_job_env example_job_gate example_job_world "''gate''"])
       (metis fst_conv snd_conv telemetry_stage_world score_stage_world)
  then show ?thesis by (simp add: run)
qed



subsection \<open>The name of a job\<close>

text \<open>A DNS label: at most 63 lower-case letters, digits and dashes, no dash at either end.\<close>

definition dns_label :: "string \<Rightarrow> bool" where
  "dns_label s \<longleftrightarrow> s \<noteq> '''' \<and> length s \<le> 63 \<and> (\<forall>c \<in> set s. dns_char c \<or> c = CHR ''-'') \<and>
     dns_char (hd s) \<and> dns_char (last s)"

lemma dns_runs_set: "c \<in> set (dns_runs d s) \<Longrightarrow> dns_char c \<or> c = CHR ''-''"
  by (induction d s rule: dns_runs.induct) (auto split: if_splits)

lemma dnsLabelPart_set: "c \<in> set (dnsLabelPart i) \<Longrightarrow> dns_char c \<or> c = CHR ''-''"
proof -
  have "set (trim_dashes s) \<subseteq> set s" for s
    unfolding trim_dashes_def by (auto dest!: set_dropWhileD)
  moreover have "\<forall>c \<in> set ''gate''. dns_char c" by code_simp
  moreover assume c: "c \<in> set (dnsLabelPart i)"
  have "c \<in> set ''gate'' \<or> c \<in> set (trim_dashes (dns_runs False (ToLower i)))"
    using c by (simp only: dnsLabelPart_def Let_def split: if_splits) simp_all
  ultimately show "dns_char c \<or> c = CHR ''-''" using dns_runs_set by blast
qed

lemma hex_dns: "c \<in> set ''0123456789abcdef'' \<Longrightarrow> dns_char c"
proof -
  have "list_all dns_char ''0123456789abcdef''" by code_simp
  then show "c \<in> set ''0123456789abcdef'' \<Longrightarrow> dns_char c" by (simp only: list_all_iff)
qed

text \<open>
  C7: The name of an evaluation job is a valid DNS label whatever the name of the gate: at most 63
  bytes, only lower-case letters, digits and dashes, with a letter or digit at both ends, so the API server accepts it.
\<close>

theorem evaluation_job_name_dns: "dns_label (qualityEvaluationJobName name g)"
proof -
  define suffix where "suffix = take 10 (sha1_hex (gate_Namespace g @ ''/'' @ name @ ''/'' @ gate_UID g @ ''/'' @ fmt_d (gate_Generation g)))"
  define base where "base = take 39 (dnsLabelPart name)"
  have s: "length suffix = 10" "set suffix \<subseteq> set ''0123456789abcdef''"
    unfolding suffix_def by (simp add: sha1_hex_length) (rule order_trans[OF set_take_subset sha1_hex_hex])
  have n: "qualityEvaluationJobName name g = ''quality-eval-'' @ base @ ''-'' @ suffix"
    unfolding qualityEvaluationJobName_def Let_def suffix_def[symmetric] base_def using s(1) by simp
  have "\<forall>c \<in> set suffix. dns_char c" using s(2) hex_dns by blast
  moreover have "\<forall>c \<in> set base. dns_char c \<or> c = CHR ''-''"
    unfolding base_def using dnsLabelPart_set in_set_takeD by metis
  moreover have "list_all (\<lambda>c. dns_char c \<or> c = CHR ''-'') ''quality-eval-''" "dns_char (CHR ''q'')" by code_simp+
  moreover have "last (''quality-eval-'' @ base @ ''-'' @ suffix) = last suffix" "last suffix \<in> set suffix"
    using s(1) by (cases suffix; simp add: last_append)+
  moreover have "length base \<le> 39" by (simp add: base_def)
  ultimately show ?thesis using s(1) unfolding n dns_label_def by (auto simp: list_all_iff)
qed

subsection \<open>Deletion\<close>

lemma delete_jobs_ok:
  assumes "\<And>c. ge_fault E c = None"
  shows "snd (delete_jobs E ks w) = None"
    and "map_of (gw_jobs (fst (delete_jobs E ks w))) k = (if k \<in> set ks then None else map_of (gw_jobs w) k)"
    and "gw_metrics (fst (delete_jobs E ks w)) = gw_metrics w"
  using assms by (induction ks arbitrary: w) (auto simp: delete_conv')

text \<open>The evidence that the deletion of a gate takes with it: what its own evaluation job wrote.\<close>

definition own_evidence :: "string \<Rightarrow> AIQualityGate \<Rightarrow> gate_world \<Rightarrow> string \<times> string \<Rightarrow> bool" where
  "own_evidence name g w k \<longleftrightarrow>
     (case gs_EvidenceRef (gate_Spec g) of None \<Rightarrow> False
      | Some ref \<Rightarrow> k = (ref_namespace (gate_Namespace g) ref, dref_Name ref) \<and>
          (case map_of (gw_configmaps w) k of None \<Rightarrow> False
           | Some cm \<Rightarrow> entry (cm_Labels cm) qualityGateLabel = name \<and>
               entry (cm_Labels cm) qualityEvidenceSourceLabel = qualityEvidenceSourceJob))"

lemma cleanup_evidence_ok:
  assumes "\<And>c. ge_fault E c = None"
  shows "snd (cleanup_evidence E name g w) = None"
    and "map_of (gw_configmaps (fst (cleanup_evidence E name g w))) k =
      (if own_evidence name g w k then None else map_of (gw_configmaps w) k)"
    and "gw_metrics (fst (cleanup_evidence E name g w)) = gw_metrics w"
  using assms by (auto simp: cleanup_evidence_def own_evidence_def get_configmap_def fetch_def Let_def delete_conv'
      split: option.splits)

text \<open>
  C4: When no call fails, the run that deletes a gate removes exactly what belongs to it: the
  evaluation jobs of its namespace with its label, its evidence ConfigMap if the label says that its own
  job wrote it, its series in the tracker, and the gate itself when no other finalizer holds it. Every
  other Job and ConfigMap stays.
\<close>

theorem gate_deletion_exact:
  assumes "\<And>c. ge_fault E c = None" "map_of (gw_gates w) name = Some g" "gate_Deleting g"
    and "qualityGateFinalizer \<in> set (gate_Finalizers g)" "distinct (map fst (gw_jobs w))"
  shows "\<exists>w'. Reconcile_gate E name w = (w', (0, None)) \<and>
    map_of (gw_jobs w') k = (case map_of (gw_jobs w) k of None \<Rightarrow> None
      | Some job \<Rightarrow> if own_job (gate_Namespace g) name (k, job) then None else Some job) \<and>
    map_of (gw_configmaps w') k = (if own_evidence name g w k then None else map_of (gw_configmaps w) k) \<and>
    map_of (qg_byUID (gw_metrics w')) (gate_UID g) = None \<and>
    map_of (gw_gates w') name = (let fs = filter (\<lambda>f. f \<noteq> qualityGateFinalizer) (gate_Finalizers g)
      in if fs = [] then None else Some (g\<lparr>gate_Finalizers := fs\<rparr>))"
proof -
  let ?ks = "map fst (filter (own_job (gate_Namespace g) name) (gw_jobs w))"
  obtain w1 where d: "delete_jobs E ?ks w = (w1, None)" using delete_jobs_ok(1)[OF assms(1)] by (metis prod.collapse)
  obtain w2 where c: "cleanup_evidence E name g w1 = (w2, None)" using cleanup_evidence_ok(1)[OF assms(1)] by (metis prod.collapse)
  have "gw_configmaps w1 = gw_configmaps w" using delete_jobs_frame(2)[of E ?ks w] d by simp
  then have "own_evidence name g w1 k = own_evidence name g w k" unfolding own_evidence_def by (rule arg_cong)
  then have cm: "map_of (gw_configmaps w2) k = (if own_evidence name g w k then None else map_of (gw_configmaps w) k)"
    using cleanup_evidence_ok(2)[OF assms(1), of name g w1 k] delete_jobs_frame(2)[of E ?ks w] c d by simp
  have "map_of (gw_jobs w2) k = map_of (gw_jobs w1) k" "map_of (gw_gates w2) = map_of (gw_gates w)"
    using cleanup_evidence_frame[of E name g w1] delete_jobs_frame(1)[of E ?ks w] c d by simp_all
  moreover have "map_of (gw_jobs w1) k = (if k \<in> set ?ks then None else map_of (gw_jobs w) k)"
    using delete_jobs_ok(2)[OF assms(1), of ?ks w k] d by simp
  moreover have "k \<in> set ?ks \<longleftrightarrow> (\<exists>job. map_of (gw_jobs w) k = Some job \<and> own_job (gate_Namespace g) name (k, job))"
    using assms(5) by force
  ultimately have jobs: "map_of (gw_jobs w2) k = (case map_of (gw_jobs w) k of None \<Rightarrow> None
      | Some job \<Rightarrow> if own_job (gate_Namespace g) name (k, job) then None else Some job)"
    by (auto split: option.splits)
  have "map_of (qg_byUID (gate_forget u t)) u = None" for u t
    by (simp add: gate_forget_def prune_gauges_def delete_conv' split: option.splits)
  moreover have "Reconcile_gate E name w = (store_gate name
      (g\<lparr>gate_Finalizers := filter (\<lambda>f. f \<noteq> qualityGateFinalizer) (gate_Finalizers g)\<rparr>)
      (w2\<lparr>gw_metrics := gate_forget (gate_UID g) (gw_metrics w2)\<rparr>), (0, None))"
    using assms d c by (simp add: Reconcile_gate_def fetch_def delete_gate_def cleanupQualityGateResources_def call_def Let_def)
  ultimately show ?thesis using cm jobs assms(3) \<open>map_of (gw_gates w2) = map_of (gw_gates w)\<close>
    by (simp add: store_gate_def Let_def delete_conv' update_conv')
qed


definition example_deletion_world :: gate_world where
  "example_deletion_world = example_gate_world\<lparr>
     gw_gates := [(''gate'', example_gate\<lparr>gate_Deleting := True\<rparr>)],
     gw_jobs := [((''ai'', ''other''), buildEvaluationJob ''other'' example_gate ''img'' ''url''),
       ((''ai'', ''mine''), buildEvaluationJob ''gate'' example_gate ''img'' ''url'')]\<rparr>"

theorem gate_deletion_exact_witness:
  "\<exists>w'. Reconcile_gate example_gate_env ''gate'' example_deletion_world = (w', (0, None)) \<and>
     map_of (gw_jobs w') (''ai'', ''mine'') = None \<and> map_of (gw_gates w') ''gate'' = None"
proof -
  let ?g = "example_gate\<lparr>gate_Deleting := True\<rparr>"
  have "own_job (gate_Namespace ?g) ''gate'' ((''ai'', ''mine''), buildEvaluationJob ''gate'' example_gate ''img'' ''url'')"
    by (simp add: own_job_def buildEvaluationJob_def example_gate_def Let_def qualityGateLabel_def qualityEvaluatorLabel_def)
  moreover have "gate_Finalizers ?g = [qualityGateFinalizer]" by (simp add: example_gate_def)
  ultimately show ?thesis
    using gate_deletion_exact[of example_gate_env example_deletion_world "''gate''" ?g "(''ai'', ''mine'')"]
    by (auto simp: example_gate_env_def example_deletion_world_def)
qed


end
