(* ===== verification/Budgetreconcile.thy ===== *)
theory Budgetreconcile
  imports Budgetengine Budgetfallback Sovereigntyreconcile GoText
begin

section \<open>Budget reconciliation (aibudgetpolicy_controller.go)\<close>

text \<open>
  One run of the AIBudgetPolicy controller: the spend of the target is priced and projected to a month,
  the budget engine gives the phase, the fallback decision reroutes through the gateway, and the
  tripped actions are exported. The world is the policies of the namespace, its routes, the tracker of the
  enforcement series, the gauge of the usage and the events; the rest is the environment.
  \<open>resource.MustParse\<close> panics on a text that is no number.
\<close>

definition budgetEnforcementFinalizer :: string where
  "budgetEnforcementFinalizer = ''aiops.imperium.io/budget-enforcement-metrics''"

record AIBudgetPolicyStatus =
  by_ObservedGeneration :: int64
  by_CurrentSpendEUR :: "quantity option"
  by_ProjectedMonthlySpendEUR :: "quantity option"
  by_UsagePercent :: int32
  by_Phase :: string
  by_ActiveFallbackModel :: string
  by_FallbackActuated :: bool
  by_FallbackReason :: string
  by_Ready :: "Condition option"

record AIBudgetPolicy =
  bx_Namespace :: string
  bx_UID :: string
  bx_Generation :: int64
  bx_Deleting :: bool
  bx_Finalizers :: "string list"
  bx_Spec :: AIBudgetPolicySpec
  bx_Status :: AIBudgetPolicyStatus

record budget_env =
  bn_api :: unstructured_api
  bn_codec :: saved_codec
  bn_IsNoMatch :: "go_error \<Rightarrow> bool"
  bn_qf :: "quantity \<Rightarrow> f64"
  bn_MustParse :: "string \<Rightarrow> quantity option"
  bn_oor :: "f64 \<Rightarrow> int32"
  bn_get :: "go_error option"
  bn_update :: "go_error option"
  bn_updateStatus :: "go_error option"
  bn_listErr1 :: "go_error option"
  bn_listErr2 :: "go_error option"
  bn_updateRoute :: "route \<Rightarrow> go_error option"
  bn_catalog :: "catalog result"
  bn_gateways :: "AIGateway list result"
  bn_policies :: "AISovereigntyPolicySpec list result"
  bn_collect :: "Collector \<Rightarrow> int \<Rightarrow> UsageSample list result"

record budget_world =
  bw_policies :: "(string, AIBudgetPolicy) gomap"
  bw_routes :: "route list"
  bw_enforcement :: tracker
  bw_usage :: "(series, f64) gomap"
  bw_events :: "string list"

datatype budget_outcome = Done int "go_error option" | Panicked

subsection \<open>The parts of a run\<close>

definition periodWindow :: "string \<Rightarrow> int" where
  "periodWindow period =
     (if period = ''daily'' then 24 * hour_ns
      else if period = ''weekly'' then 7 * 24 * hour_ns
      else 30 * 24 * hour_ns)"

definition moneyQuantity :: "(string \<Rightarrow> quantity option) \<Rightarrow> f64 \<Rightarrow> quantity option" where
  "moneyQuantity MustParse v = MustParse (fmt_f 6 v)"

text \<open>\<open>firstGateway\<close> and \<open>firstSovereigntyPolicy\<close>: the first of the list, none when the call fails.\<close>

definition first_of :: "'a list result \<Rightarrow> 'a option" where
  "first_of r = (case r of Inl _ \<Rightarrow> None | Inr [] \<Rightarrow> None | Inr (x # _) \<Rightarrow> Some x)"

fun budget_collector :: "Collector \<Rightarrow> string" where
  "budget_collector (PrometheusCollector _) = ''prometheus''"
| "budget_collector (ConfigMapCollector _ _) = ''configmap''"
| "budget_collector (AIGWCollector _ _) = ''aigw''"
| "budget_collector FakeCollector = ''fake''"

definition store_policy :: "go_error option \<Rightarrow> string \<Rightarrow> AIBudgetPolicy \<Rightarrow> budget_world \<Rightarrow> budget_world" where
  "store_policy e name p w =
     (case e of
        Some _ \<Rightarrow> w
      | None \<Rightarrow> w\<lparr>bw_policies := (if bx_Deleting p \<and> bx_Finalizers p = [] then AList.delete name (bw_policies w)
          else AList.update name p (bw_policies w))\<rparr>)"

definition budget_reroutes ::
  "budget_env \<Rightarrow> route list \<Rightarrow> (string, string) gomap \<Rightarrow> route list \<times> string list \<times> go_error option" where
  "budget_reroutes E routes desired =
     actuateReroutesWithAnnotation (bn_api E) (bn_codec E) (bn_IsNoMatch E) (bn_updateRoute E)
       (bn_listErr1 E) (bn_listErr2 E) routes desired budgetRerouteAnnotation"

definition budget_delete :: "budget_env \<Rightarrow> string \<Rightarrow> AIBudgetPolicy \<Rightarrow> budget_world \<Rightarrow> budget_world \<times> budget_outcome" where
  "budget_delete E name p w =
     (if budgetEnforcementFinalizer \<in> set (bx_Finalizers p) then
        (let (routes', _, _) = budget_reroutes E (bw_routes w) [];
             w = w\<lparr>bw_routes := routes', bw_enforcement := forget (bx_UID p) (bw_enforcement w)\<rparr>;
             p = p\<lparr>bx_Finalizers := filter (\<lambda>f. f \<noteq> budgetEnforcementFinalizer) (bx_Finalizers p)\<rparr>
         in (store_policy (bn_update E) name p w, Done 0 (bn_update E)))
      else (w, Done 0 None))"

text \<open>Spend, projection and evaluation of the scoped samples.\<close>

definition observed_spend :: "budget_env \<Rightarrow> catalog \<Rightarrow> AIBudgetPolicySpec \<Rightarrow> UsageSample list \<Rightarrow> f64" where
  "observed_spend E cat spec samples =
     li_CostTotal (bd_Total (Compute (filterByBudgetTarget samples (bp_Target spec)) (map_of (priceBook (bn_qf E) cat))))"

definition projected_spend :: "budget_env \<Rightarrow> catalog \<Rightarrow> AIBudgetPolicySpec \<Rightarrow> UsageSample list \<Rightarrow> f64" where
  "projected_spend E cat spec samples = fmul (observed_spend E cat spec samples) (monthlyFactor (bp_Period spec))"

definition budget_result :: "budget_env \<Rightarrow> catalog \<Rightarrow> AIBudgetPolicySpec \<Rightarrow> UsageSample list \<Rightarrow> BudgetResult" where
  "budget_result E cat spec samples =
     Evaluate_budget (bn_oor E) (projected_spend E cat spec samples) (bn_qf E (bp_BudgetEUR spec))
       \<lparr>WarningPct = bp_WarningThresholdPercent spec, CriticalPct = bp_CriticalThresholdPercent spec,
        HardLimitPct = bp_HardLimitPercent spec\<rparr>
       \<lparr>OnWarning = ba_OnWarning (bp_Actions spec), OnCritical = ba_OnCritical (bp_Actions spec),
        OnHardLimit = ba_OnHardLimit (bp_Actions spec)\<rparr>"

definition sovereignty_enforced :: "budget_env \<Rightarrow> bool" where
  "sovereignty_enforced E =
     (case first_of (bn_policies E) of None \<Rightarrow> False | Some s \<Rightarrow> sp_EnforcementMode s = EnforcementEnforce)"

definition budget_decision ::
  "budget_env \<Rightarrow> catalog \<Rightarrow> AIBudgetPolicySpec \<Rightarrow> Collector \<Rightarrow> UsageSample list \<Rightarrow> budgetFallbackDecision" where
  "budget_decision E cat spec c samples =
     budgetFallbackDesired (bn_qf E) cat samples (filterByBudgetTarget samples (bp_Target spec)) spec
       (br_Phase (budget_result E cat spec samples)) (budget_collector c) (sovereignty_enforced E)"

definition action_series :: "string \<Rightarrow> AIBudgetPolicySpec \<Rightarrow> string \<Rightarrow> string \<Rightarrow> string \<Rightarrow> series" where
  "action_series name spec phase action actuated =
     [name, bt_Namespace (bp_Target spec), bt_Application (bp_Target spec), phase, action, actuated]"

definition append_reason :: "string \<Rightarrow> string \<Rightarrow> string" where
  "append_reason reason addition = (if reason \<noteq> '''' then reason @ ''; '' else reason) @ addition"

text \<open>The series of the reroute and the reason, after the actuation.\<close>

definition fallback_report ::
  "string \<Rightarrow> AIBudgetPolicySpec \<Rightarrow> string \<Rightarrow> budgetFallbackDecision \<Rightarrow> string list \<Rightarrow> go_error option \<Rightarrow>
     series list \<times> bool \<times> string" where
  "fallback_report name spec phase d actuated err =
     (let reason = (case err of None \<Rightarrow> bd_reason d
            | Some e \<Rightarrow> append_reason (bd_reason d) (''gateway actuation failed: '' @ err_text e));
          allActuated = (err = None \<and> list_all (\<lambda>(m, _). m \<in> set actuated) (bd_desired d))
      in if bd_desired d \<noteq> [] then
           ([action_series name spec phase (action_string ActionReroute) (if allActuated then ''true'' else ''false'')],
            allActuated,
            if \<not> allActuated \<and> err = None then append_reason reason ''gateway reroute was only partially actuated'' else reason)
         else if bp_FallbackModelRef spec \<noteq> '''' \<and> budgetFallbackPhaseReached phase (bp_FallbackOnPhase spec) then
           ([action_series name spec phase (action_string ActionReroute) ''false''], False, reason)
         else ([], False, reason))"

definition budget_message ::
  "budget_env \<Rightarrow> catalog \<Rightarrow> AIBudgetPolicySpec \<Rightarrow> UsageSample list \<Rightarrow> string" where
  "budget_message E cat spec samples =
     (let r = budget_result E cat spec samples
      in if \<not> feq (monthlyFactor (bp_Period spec)) (Fin 1) then
           ''projected '' @ fmt_f 2 (projected_spend E cat spec samples) @ '' / '' @ fmt_f 2 (bn_qf E (bp_BudgetEUR spec)) @
           '' EUR monthly ('' @ show_int (sint (br_UsagePercent r)) @ ''%) '' @ emdash @ '' '' @ br_Phase r @
           '' [observed '' @ fmt_f 4 (observed_spend E cat spec samples) @ '' over '' @ bp_Period spec @ '' window]''
         else br_Message r)"

definition budget_event :: "AIBudgetPolicySpec \<Rightarrow> BudgetResult \<Rightarrow> string \<Rightarrow> string" where
  "budget_event spec r reason =
     br_Phase r @ '' '' @ emdash @ '' recommended actions: '' @ Join (br_TriggeredActions r) '', '' @
     (if bp_FallbackModelRef spec \<noteq> '''' \<and> budgetFallbackPhaseReached (br_Phase r) (bp_FallbackOnPhase spec)
      then GoText.render ''; consider rerouting to cheaper fallback model %q'' [bp_FallbackModelRef spec] else []) @
     (if reason \<noteq> '''' then ''; '' @ reason else [])"

definition set_ready :: "Condition \<Rightarrow> AIBudgetPolicy \<Rightarrow> AIBudgetPolicy" where
  "set_ready c p = p\<lparr>bx_Status := (bx_Status p)\<lparr>by_Ready := Some c\<rparr>\<rparr>"

subsection \<open>The run\<close>

definition budget_enforce ::
  "budget_env \<Rightarrow> string \<Rightarrow> AIBudgetPolicy \<Rightarrow> catalog \<Rightarrow> Collector \<Rightarrow> UsageSample list \<Rightarrow> budget_world \<Rightarrow> budget_world \<times> budget_outcome" where
  "budget_enforce E name p cat c samples w =
     (let spec = bx_Spec p; r = budget_result E cat spec samples
      in case (moneyQuantity (bn_MustParse E) (observed_spend E cat spec samples),
               moneyQuantity (bn_MustParse E) (projected_spend E cat spec samples)) of
           (Some current, Some monthly) \<Rightarrow>
             (let advisory = map (\<lambda>a. action_series name spec (br_Phase r) a ''false'') (br_TriggeredActions r);
                  d = budget_decision E cat spec c samples;
                  (routes', actuated, err) = budget_reroutes E (bw_routes w) (bd_desired d);
                  (reroute, allActuated, reason) = fallback_report name spec (br_Phase r) d actuated err;
                  t = (bw_enforcement w)\<lparr>exported := fold set_series advisory (exported (bw_enforcement w))\<rparr>;
                  w = w\<lparr>bw_usage := AList.update [bx_Namespace p, name] (of_i32 (br_UsagePercent r)) (bw_usage w),
                        bw_routes := routes', bw_enforcement := retire (bx_UID p) (advisory @ reroute) t\<rparr>;
                  msg = budget_message E cat spec samples;
                  msg = (if reason \<noteq> '''' then msg @ '' '' @ emdash @ '' '' @ reason else msg);
                  p = p\<lparr>bx_Status := (bx_Status p)\<lparr>by_Phase := br_Phase r, by_UsagePercent := br_UsagePercent r,
                        by_CurrentSpendEUR := Some current, by_ProjectedMonthlySpendEUR := Some monthly,
                        by_ActiveFallbackModel := bd_activeModel d, by_FallbackActuated := allActuated,
                        by_FallbackReason := reason\<rparr>\<rparr>;
                  p = set_ready (readyTrue (bx_Generation p) msg) p
              in case bn_updateStatus E of
                   Some e \<Rightarrow> (w, Done 0 (Some e))
                 | None \<Rightarrow>
                     (let w = store_policy None name p w
                      in (if br_TriggeredActions r \<noteq> [] then w\<lparr>bw_events := bw_events w @ [budget_event spec r reason]\<rparr> else w,
                          Done (60 * sec_ns) None)))
         | _ \<Rightarrow> (w, Panicked))"

definition budget_live :: "budget_env \<Rightarrow> string \<Rightarrow> AIBudgetPolicy \<Rightarrow> budget_world \<Rightarrow> budget_world \<times> budget_outcome" where
  "budget_live E name p0 w =
     (let p = p0\<lparr>bx_Status := (bx_Status p0)\<lparr>by_ObservedGeneration := bx_Generation p0, by_ActiveFallbackModel := '''',
            by_FallbackActuated := False, by_FallbackReason := ''''\<rparr>\<rparr>;
          not_ready = (\<lambda>reason text. (store_policy (bn_updateStatus E) name
            (set_ready (readyFalse (bx_Generation p) reason text) p) w, Done minute_ns None))
      in case bn_catalog E of
           Inl e \<Rightarrow> (w, Done 0 (Some e))
         | Inr cat \<Rightarrow>
             (case collectorFor (bx_Namespace p) (first_of (bn_gateways E)) of
                Inl t \<Rightarrow> not_ready ReasonNoTelemetry t
              | Inr c \<Rightarrow>
                  (case bn_collect E c (periodWindow (bp_Period (bx_Spec p))) of
                     Inl e \<Rightarrow> not_ready ReasonReconcileError (err_text e)
                   | Inr samples \<Rightarrow> budget_enforce E name p cat c samples w)))"

definition Reconcile_budget :: "budget_env \<Rightarrow> string \<Rightarrow> budget_world \<Rightarrow> budget_world \<times> budget_outcome" where
  "Reconcile_budget E name w =
     (case (bn_get E, map_of (bw_policies w) name) of
        (Some e, _) \<Rightarrow> (w, Done 0 (Some e))
      | (None, None) \<Rightarrow> (w, Done 0 None)
      | (None, Some p) \<Rightarrow>
          if bx_Deleting p then budget_delete E name p w
          else if budgetEnforcementFinalizer \<in> set (bx_Finalizers p) then budget_live E name p w
          else
            let p = p\<lparr>bx_Finalizers := bx_Finalizers p @ [budgetEnforcementFinalizer]\<rparr>
            in case bn_update E of
                 Some e \<Rightarrow> (w, Done 0 (Some e))
               | None \<Rightarrow> budget_live E name p (store_policy None name p w))"

section \<open>What a budget may move\<close>

text \<open>The usage that the policy asks for before its fallback acts.\<close>

definition fallback_threshold_met :: "AIBudgetPolicySpec \<Rightarrow> int32 \<Rightarrow> bool" where
  "fallback_threshold_met spec pct \<longleftrightarrow>
     (if bp_FallbackOnPhase spec = '''' \<or> bp_FallbackOnPhase spec = BudgetFallbackOnExceeded then
        sint (bp_HardLimitPercent spec) \<le> sint pct
      else if bp_FallbackOnPhase spec = BudgetFallbackOnCritical then
        sint (bp_CriticalThresholdPercent spec) \<le> sint pct \<or> sint (bp_HardLimitPercent spec) \<le> sint pct
      else True)"

lemma budget_phase_cases:
  fixes E cat spec samples
  defines "r \<equiv> budget_result E cat spec samples"
  shows "br_Phase r = PhaseUnknown \<and> br_TriggeredActions r = [] \<or>
    (br_Phase r, br_TriggeredActions r) = phase_of (br_UsagePercent r)
       \<lparr>WarningPct = bp_WarningThresholdPercent spec, CriticalPct = bp_CriticalThresholdPercent spec,
        HardLimitPct = bp_HardLimitPercent spec\<rparr>
       \<lparr>OnWarning = ba_OnWarning (bp_Actions spec), OnCritical = ba_OnCritical (bp_Actions spec),
        OnHardLimit = ba_OnHardLimit (bp_Actions spec)\<rparr>"
  by (cases "fle (bn_qf E (bp_BudgetEUR spec)) (Fin 0)")
     (simp_all add: r_def budget_result_def Evaluate_budget_def Let_def split: prod.splits)

lemma budget_rank_simps [simp]:
  "budgetPhaseRank PhaseUnknown = 0" "budgetPhaseRank PhaseWithinBudget = 1" "budgetPhaseRank PhaseWarning = 2"
  "budgetPhaseRank PhaseCritical = 3" "budgetPhaseRank PhaseExceeded = 4"
  "budgetPhaseRank BudgetFallbackOnCritical = 3" "budgetPhaseRank BudgetFallbackOnExceeded = 4"
  by (simp_all add: budgetPhaseRank_def phase_defs BudgetFallbackOnExceeded_def BudgetFallbackOnCritical_def)

lemma phase_reached_usage:
  assumes "budgetFallbackPhaseReached (br_Phase (budget_result E cat spec samples)) (bp_FallbackOnPhase spec)"
  shows "fallback_threshold_met spec (br_UsagePercent (budget_result E cat spec samples))"
proof -
  let ?r = "budget_result E cat spec samples"
  have "budgetPhaseRank (br_Phase ?r) \<le> (if sint (bp_HardLimitPercent spec) \<le> sint (br_UsagePercent ?r) then 4
      else if sint (bp_CriticalThresholdPercent spec) \<le> sint (br_UsagePercent ?r) then 3 else 2)"
    using budget_phase_cases[of E cat spec samples] by (auto simp: phase_of_def split: if_splits)
  then show ?thesis
    using assms by (auto simp: fallback_threshold_met_def budgetFallbackPhaseReached_def fallbackPhaseOrDefault_def
        split: if_splits)
qed

lemma desired_guarded:
  assumes "bd_desired (budgetFallbackDesired qf cat allS scoped spec phase coll sov) \<noteq> []"
  shows "\<exists>f prov. bp_EnforcementMode spec = EnforcementEnforce \<and>
    budgetFallbackPhaseReached phase (bp_FallbackOnPhase spec) \<and> \<not> sov \<and>
    modelByName cat (bp_FallbackModelRef spec) = Some f \<and>
    provider_of cat (ms_ProviderRef (model_Spec f)) = Some prov \<and> ps_Managed (prov_Spec prov) \<and>
    set (bd_desired (budgetFallbackDesired qf cat allS scoped spec phase coll sov)) \<subseteq>
      {(m, t). t = ms_ModelName (model_Spec f) \<and> m \<noteq> t \<and> m \<in> us_Model ` set scoped \<and>
         m \<notin> set (sharedModelsOutsideTarget allS (bp_Target spec))}"
proof -
  obtain f p where g: "fallback_guard qf cat allS spec phase coll sov = Inr (f, p)"
    using assms by (auto simp: budgetFallbackDesired_eq split: sum.splits)
  have "bp_EnforcementMode spec = EnforcementEnforce \<and> budgetFallbackPhaseReached phase (bp_FallbackOnPhase spec) \<and>
      \<not> sov \<and> modelByName cat (bp_FallbackModelRef spec) = Some f \<and>
      (\<exists>prov. provider_of cat (ms_ProviderRef (model_Spec f)) = Some prov \<and> ps_Managed (prov_Spec prov))"
    using g by (auto simp: fallback_guard_def split: if_splits option.splits)
  moreover have "set (bd_desired (budgetFallbackDesired qf cat allS scoped spec phase coll sov)) \<subseteq>
      {(m, t). t = ms_ModelName (model_Spec f) \<and> m \<noteq> t \<and> m \<in> us_Model ` set scoped \<and>
         m \<notin> set (sharedModelsOutsideTarget allS (bp_Target spec))}"
    by (auto simp: budgetFallbackDesired_eq g wants_fallback_def usageByModel_total split: if_splits)
  ultimately show ?thesis by blast
qed

text \<open>
  A set of reroutes that the policy, the telemetry and the sovereignty policies of the namespace justify:
  it leads to the fallback model only, and away from models that only the target of the budget uses.
\<close>

definition justified_reroutes :: "budget_env \<Rightarrow> string \<Rightarrow> budget_world \<Rightarrow> (string, string) gomap \<Rightarrow> bool" where
  "justified_reroutes E name w d \<longleftrightarrow>
     (\<exists>p cat c samples f prov. map_of (bw_policies w) name = Some p \<and> \<not> bx_Deleting p \<and> bn_catalog E = Inr cat \<and>
        collectorFor (bx_Namespace p) (first_of (bn_gateways E)) = Inr c \<and>
        bn_collect E c (periodWindow (bp_Period (bx_Spec p))) = Inr samples \<and>
        d = bd_desired (budget_decision E cat (bx_Spec p) c samples) \<and>
        bp_EnforcementMode (bx_Spec p) = EnforcementEnforce \<and>
        fallback_threshold_met (bx_Spec p) (br_UsagePercent (budget_result E cat (bx_Spec p) samples)) \<and>
        \<not> sovereignty_enforced E \<and>
        modelByName cat (bp_FallbackModelRef (bx_Spec p)) = Some f \<and>
        provider_of cat (ms_ProviderRef (model_Spec f)) = Some prov \<and> ps_Managed (prov_Spec prov) \<and>
        (\<forall>(m, t) \<in> set d. t = ms_ModelName (model_Spec f) \<and> m \<noteq> t \<and>
           (\<exists>s \<in> set samples. us_Model s = m) \<and>
           (\<forall>s \<in> set samples. us_Model s = m \<longrightarrow> budgetTargetMatchesSample s (bp_Target (bx_Spec p)))))"

lemma dedicated_model:
  assumes "m \<in> us_Model ` set (filterByBudgetTarget samples t)" "m \<notin> set (sharedModelsOutsideTarget samples t)"
    and "s \<in> set samples" "us_Model s = m"
  shows "budgetTargetMatchesSample s t"
  using assms by (auto simp: set_shared filterByBudgetTarget_def budgetTargetMatchesSample_eq)

lemma desired_justified:
  assumes "map_of (bw_policies w) name = Some p" "\<not> bx_Deleting p" "bn_catalog E = Inr cat"
    "collectorFor (bx_Namespace p) (first_of (bn_gateways E)) = Inr c"
    "bn_collect E c (periodWindow (bp_Period (bx_Spec p))) = Inr samples"
    and ne: "bd_desired (budget_decision E cat (bx_Spec p) c samples) \<noteq> []"
  shows "justified_reroutes E name w (bd_desired (budget_decision E cat (bx_Spec p) c samples))"
proof -
  let ?spec = "bx_Spec p"
  let ?d = "bd_desired (budget_decision E cat ?spec c samples)"
  obtain f prov where fp: "bp_EnforcementMode ?spec = EnforcementEnforce"
      "budgetFallbackPhaseReached (br_Phase (budget_result E cat ?spec samples)) (bp_FallbackOnPhase ?spec)"
      "\<not> sovereignty_enforced E" "modelByName cat (bp_FallbackModelRef ?spec) = Some f"
      "provider_of cat (ms_ProviderRef (model_Spec f)) = Some prov" "ps_Managed (prov_Spec prov)"
    and sub: "set ?d \<subseteq> {(m, t). t = ms_ModelName (model_Spec f) \<and> m \<noteq> t \<and>
      m \<in> us_Model ` set (filterByBudgetTarget samples (bp_Target ?spec)) \<and>
      m \<notin> set (sharedModelsOutsideTarget samples (bp_Target ?spec))}"
    using desired_guarded[OF ne[unfolded budget_decision_def]] unfolding budget_decision_def by blast
  have "\<forall>(m, t) \<in> set ?d. t = ms_ModelName (model_Spec f) \<and> m \<noteq> t \<and> (\<exists>s \<in> set samples. us_Model s = m) \<and>
      (\<forall>s \<in> set samples. us_Model s = m \<longrightarrow> budgetTargetMatchesSample s (bp_Target ?spec))"
  proof (clarify, intro conjI ballI impI)
    fix m t assume "(m, t) \<in> set ?d"
    then have mt: "t = ms_ModelName (model_Spec f)" "m \<noteq> t"
        "m \<in> us_Model ` set (filterByBudgetTarget samples (bp_Target ?spec))"
        "m \<notin> set (sharedModelsOutsideTarget samples (bp_Target ?spec))"
      using sub by auto
    then show "t = ms_ModelName (model_Spec f)" "m \<noteq> t" by auto
    show "\<exists>s \<in> set samples. us_Model s = m" using mt(3) by (auto simp: filterByBudgetTarget_def)
    show "budgetTargetMatchesSample s (bp_Target ?spec)" if "s \<in> set samples" "us_Model s = m" for s
      using dedicated_model[OF mt(3,4) that] .
  qed
  then show ?thesis
    using assms(1-5) fp(1,3-6) phase_reached_usage[OF fp(2)] unfolding justified_reroutes_def by blast
qed

lemma store_policy_fields [simp]:
  "bw_routes (store_policy e name p w) = bw_routes w" "bw_enforcement (store_policy e name p w) = bw_enforcement w"
  by (simp_all add: store_policy_def split: option.splits)

lemma budget_enforce_routes:
  "bw_routes (fst (budget_enforce E name p cat c samples w)) \<in>
     {bw_routes w, fst (budget_reroutes E (bw_routes w) (bd_desired (budget_decision E cat (bx_Spec p) c samples)))}"
  by (auto simp: budget_enforce_def Let_def split: option.splits prod.splits)

lemma budget_live_routes:
  "bw_routes (fst (budget_live E name p w)) = bw_routes w \<or>
   (\<exists>cat c samples. bn_catalog E = Inr cat \<and> collectorFor (bx_Namespace p) (first_of (bn_gateways E)) = Inr c \<and>
      bn_collect E c (periodWindow (bp_Period (bx_Spec p))) = Inr samples \<and>
      bw_routes (fst (budget_live E name p w)) =
        fst (budget_reroutes E (bw_routes w) (bd_desired (budget_decision E cat (bx_Spec p) c samples))))"
proof -
  have keep: "bx_Namespace (p\<lparr>bx_Status := st\<rparr>) = bx_Namespace p" "bx_Spec (p\<lparr>bx_Status := st\<rparr>) = bx_Spec p" for st
    by simp_all
  show ?thesis
    using budget_enforce_routes[of E name]
    by (auto simp: budget_live_def Let_def keep split: sum.splits) (metis insertE keep(2) singletonD)+
qed



lemma budget_live_justified:
  assumes "map_of (bw_policies v) name = Some q" "\<not> bx_Deleting q" "bx_Spec q = bx_Spec p"
    "bx_Namespace q = bx_Namespace p"
  shows "\<exists>d. (d = [] \<or> justified_reroutes E name v d) \<and>
    bw_routes (fst (budget_live E name p w)) \<in> {bw_routes w, fst (budget_reroutes E (bw_routes w) d)}"
  using budget_live_routes[of E name p w]
proof (elim disjE exE conjE)
  fix cat c samples
  let ?d = "bd_desired (budget_decision E cat (bx_Spec p) c samples)"
  assume a: "bn_catalog E = Inr cat" "collectorFor (bx_Namespace p) (first_of (bn_gateways E)) = Inr c"
    "bn_collect E c (periodWindow (bp_Period (bx_Spec p))) = Inr samples"
    and r: "bw_routes (fst (budget_live E name p w)) = fst (budget_reroutes E (bw_routes w) ?d)"
  have "?d = [] \<or> justified_reroutes E name v ?d"
    using desired_justified[OF assms(1,2) a(1), of c samples] a assms(3,4) by auto
  then show ?thesis using r by blast
qed blast

text \<open>
  C5: A budget moves traffic only with cause: a run of the controller leaves the routes as they are, takes
  its reroutes back, or applies the reroutes that its policy justifies. Those lead to the fallback
  model of a managed provider, the policy is in enforce mode and its usage has reached the threshold of the
  fallback, no sovereignty policy is enforced, and every rerouted model is used by the target only.
\<close>

theorem budget_moves_traffic_justified:
  "\<exists>d. (d = [] \<or> justified_reroutes E name w d) \<and>
     bw_routes (fst (Reconcile_budget E name w)) \<in> {bw_routes w, fst (budget_reroutes E (bw_routes w) d)}"
proof (cases "map_of (bw_policies w) name")
  case None
  then show ?thesis by (auto simp: Reconcile_budget_def split: option.splits)
next
  case (Some p)
  let ?p = "p\<lparr>bx_Finalizers := bx_Finalizers p @ [budgetEnforcementFinalizer]\<rparr>"
  show ?thesis
  proof (cases "bn_get E = None \<and> \<not> bx_Deleting p")
    case True
    consider "budgetEnforcementFinalizer \<in> set (bx_Finalizers p)"
      | "budgetEnforcementFinalizer \<notin> set (bx_Finalizers p)" "bn_update E = None"
      | "budgetEnforcementFinalizer \<notin> set (bx_Finalizers p)" "bn_update E \<noteq> None" by blast
    then show ?thesis
    proof cases
      case 1
      then show ?thesis using budget_live_justified[OF Some, of p E w] True Some by (simp add: Reconcile_budget_def)
    next
      case 2
      then show ?thesis
        using budget_live_justified[OF Some, of ?p E "store_policy None name ?p w"] True Some
        by (simp add: Reconcile_budget_def Let_def)
    next
      case 3
      then show ?thesis using True Some by (auto simp: Reconcile_budget_def Let_def)
    qed
  next
    case False
    then show ?thesis using Some
      by (auto simp: Reconcile_budget_def budget_delete_def Let_def split: option.splits prod.splits)
  qed
qed


section \<open>What a run exports\<close>

definition configured_actions :: "AIBudgetPolicySpec \<Rightarrow> string set" where
  "configured_actions spec =
     set (ba_OnWarning (bp_Actions spec)) \<union> set (ba_OnCritical (bp_Actions spec)) \<union> set (ba_OnHardLimit (bp_Actions spec))"

definition advisory_series :: "string \<Rightarrow> AIBudgetPolicySpec \<Rightarrow> series set" where
  "advisory_series name spec = {action_series name spec phase a ''false'' | phase a. a \<in> configured_actions spec}"

text \<open>One run of a policy may drop the series it emitted last and export its advisory ones.\<close>

definition tracker_moves :: "string \<Rightarrow> AIBudgetPolicy \<Rightarrow> tracker \<Rightarrow> tracker \<Rightarrow> bool" where
  "tracker_moves name p t t' \<longleftrightarrow>
     set (exported t) - set (last_emitted t (bx_UID p)) \<subseteq> set (exported t') \<and>
     set (exported t') \<subseteq> set (exported t) \<union> advisory_series name (bx_Spec p)"

lemma tracker_moves_refl [simp]: "tracker_moves name p t t"
  by (auto simp: tracker_moves_def)

lemma tracker_moves_forget [simp]: "tracker_moves name p t (forget (bx_UID p) t)"
  by (auto simp: tracker_moves_def)

lemma triggered_configured: "set (br_TriggeredActions (budget_result E cat spec samples)) \<subseteq> configured_actions spec"
  using budget_phase_cases[of E cat spec samples]
  by (auto simp: phase_of_def configured_actions_def split: if_splits)

lemma tracker_moves_retire:
  assumes "set advisory \<subseteq> advisory_series name (bx_Spec p)"
  shows "tracker_moves name p t
    (retire (bx_UID p) (advisory @ rr) (t\<lparr>exported := fold set_series advisory (exported t)\<rparr>))"
  using assms by (auto simp: tracker_moves_def retire_def last_emitted_def)

lemma tracker_moves_retire_only [simp]: "tracker_moves name p t (retire (bx_UID p) rr t)"
  by (auto simp: tracker_moves_def retire_def last_emitted_def)

lemma budget_enforce_tracker:
  "tracker_moves name p (bw_enforcement w) (bw_enforcement (fst (budget_enforce E name p cat c samples w)))"
proof -
  have "set (map (\<lambda>a. action_series name (bx_Spec p) ph a ''false'') (br_TriggeredActions (budget_result E cat (bx_Spec p) samples)))
      \<subseteq> advisory_series name (bx_Spec p)" for ph
    using triggered_configured[of E cat "bx_Spec p" samples] by (auto simp: advisory_series_def)
  note moves = tracker_moves_retire[OF this]
  show ?thesis
    by (simp add: budget_enforce_def Let_def moves split: option.splits prod.splits)
qed

lemma tracker_moves_cong:
  "bx_UID p = bx_UID q \<Longrightarrow> bx_Spec p = bx_Spec q \<Longrightarrow> tracker_moves name p = tracker_moves name q"
  by (intro ext) (simp add: tracker_moves_def)

lemma budget_live_tracker:
  "tracker_moves name p (bw_enforcement w) (bw_enforcement (fst (budget_live E name p w)))"
proof -
  have same: "tracker_moves name (p\<lparr>bx_Status := st\<rparr>) = tracker_moves name p" for st
    by (rule tracker_moves_cong) simp_all
  show ?thesis
    using budget_enforce_tracker[of name "p\<lparr>bx_Status := st\<rparr>" w E for st]
    by (simp add: budget_live_def Let_def same split: sum.splits)
qed

text \<open>
  C6: The controller exports advisories only: a run drops no series but those its policy emitted
  last, and exports no series but configured actions of its policy with \<open>actuated="false"\<close>. In
  particular no run exports the series of an actuated reroute, which it hands to \<open>retire\<close> only.
\<close>

theorem budget_exports_advisories_only:
  "case map_of (bw_policies w) name of
     None \<Rightarrow> fst (Reconcile_budget E name w) = w
   | Some p \<Rightarrow> tracker_moves name p (bw_enforcement w) (bw_enforcement (fst (Reconcile_budget E name w)))"
proof (cases "map_of (bw_policies w) name")
  case None
  then show ?thesis by (auto simp: Reconcile_budget_def split: option.splits)
next
  case (Some p)
  let ?p = "p\<lparr>bx_Finalizers := bx_Finalizers p @ [budgetEnforcementFinalizer]\<rparr>"
  have same: "tracker_moves name ?p = tracker_moves name p"
    by (rule tracker_moves_cong) simp_all
  show ?thesis
    using Some budget_live_tracker[of name p w E] budget_live_tracker[of name ?p "store_policy None name ?p w" E]
    by (auto simp: Reconcile_budget_def budget_delete_def Let_def same split: option.splits prod.splits)
qed


end
