(* ===== verification/Spec2Isabelle.thy ===== *)
theory Spec2Isabelle
  imports Budgetengine Breakevenengine Enforcementengine Catalog Routingscore Recommendationengine
    Gatewayactuator Controllercatalog Budgetfallback Metrictracker Sovereigntyreconcile Qualitystats Qualityengine Govarpricing Changerequest Routeoverride Govarcalibration Qualitysignals Qualitygateproof Budgetreconcile
begin

text \<open>
  AI FinOps operator: a Kubernetes operator in Go that observes the use of language models through an
  AI gateway and computes cost, budget, data sovereignty, quality and routing from it. This library
  models its engines and controllers as executable functions and proves what makes them correct.

  \<^bold>\<open>How the program works.\<close> Collectors turn telemetry into usage samples. Pure engines under internal/ work on
  them: costengine prices them, budgetengine and breakevenengine evaluate spend, sovereigntyengine
  judges flows against a policy's zones, enforcementengine decides what to do about a violation,
  routingscore and recommendationengine rank models, qualityengine and pkg/qualitystats score answers,
  govarpricing reserves and settles money, govarcalibration bounds output tokens. Controllers under
  internal/controller/ read the custom resources of api/v1alpha1/, call the engines, write status and
  metrics, and change the AIGatewayRoutes of the namespace through gatewayactuator.go and
  gatewayreroute. Four controllers share these routes, each under its own annotation.

  \<^bold>\<open>The language.\<close> Prelude: Go maps as association lists with distinct keys, errors as values (\<open>'a result\<close>),
  stable insertion sort for package sort, the grouping loop; the locale \<open>sort_order\<close>. GoFloat: float64 as
  the rational it denotes, with rounding; int64 and int32 as words. GoMath: square root, truncating
  division. GoStrings, GoText, GoTime: what the code uses of strings, strconv, fmt, encoding/json and
  time. Sha256: SHA-256 and SHA-1 themselves, on 32-bit words. Sequences: reference definitions of edit distance
  and longest common subsequence.

  \<^bold>\<open>The resources.\<close> Apitypes, Govartypes: specs and statuses of api/v1alpha1/ as records of the fields the modelled
  code reads; the types of change requests and overrides stand in the theories of their controllers.

  \<^bold>\<open>The engines.\<close> Collectors (collector.go, configmap.go, prometheus.go), Costengine, Budgetengine,
  Breakevenengine, Enforcementengine, Sovereigntyengine, Shadowengine, Catalog (defaults.go), Routingscore
  (score.go), Recommendationengine, Qualitystats (pkg/qualitystats), Qualityengine, Govarpricing
  (pricing.go), Govarcalibration (calibration.go, authoritative.go). The lemmas: conservation of
  tokens and cost per dimension; phases and thresholds with the overflow of the percentage; exactly which
  flows are critical; gates and monotonicity of scores; the tables of the quality engine against their
  references; verdicts of the statistical tests; money computed exactly or refused, a settlement
  within its reservation, digests that cover their snapshots; the finite-sample coverage of split
  conformal bounds.

  \<^bold>\<open>The gateway.\<close> Gatewayreroute (ApplyControls on decoded rules) and Gatewayactuator (all routes of a namespace,
  originals saved in an annotation). The accessors of decoded JSON and the text of the annotation are the
  locales \<open>unstructured_access\<close> and \<open>gateway\<close>, interpreted on concrete accessors. The lemmas: what one pass
  enforces, idempotence, that any history of passes is undone by one release pass, and the simulation
  of a pass by \<open>slot_step\<close> on each rule (\<open>pass_route_slot\<close>), from which follows how two controllers on one
  route interfere. Restoration is stated for plain routes: distinct models, named first backends without a
  body mutation.

  \<^bold>\<open>The controllers.\<close> Controllercatalog (catalog.go), Budgetfallback (budgetfallback.go), Metrictracker
  (enforcementmetrics.go, reportmetrics.go), Sovereigntyreconcile (aisovereigntypolicy_controller.go,
  shadow.go, status.go), Changerequest (aichangerequest_types.go and its controller), Routeoverride
  (airoute_override_types.go and its controller), Budgetreconcile (aibudgetpolicy_controller.go, money.go),
  Qualitygatetypes, Qualitysignals, Qualitygate and
  Qualitygateproof (aiqualitygate_types.go, its controller and qualitygatemetrics.go: types, functions without
  calls, the controller with its evaluation jobs, and what it promises). One reconcile is a function from an environment (the
  results of the client's calls, the clock) and a world (routes, stored object, metrics, events) to
  the world after it and the result. Changerequest, Routeoverride and Qualitygateproof close it under edits by users as
  step relations \<open>cr_step\<close>, \<open>ov_step\<close> and \<open>gate_step\<close>; their properties speak of all runs: four eyes,
  final phases, termination of every authorization, restoration of the routes, a consistent status. A quality gate
  passes exactly when dataset, evidence, telemetry and verdicts are in order (\<open>quality_gate_passes\<close>). A budget
  moves traffic only with cause (\<open>budget_moves_traffic_justified\<close>).

  \<^bold>\<open>Parameters.\<close> Code outside src/ is an argument: the client's calls, the accessors of the unstructured package
  (\<open>unstructured_api\<close>) and the annotation's text (\<open>saved_codec\<close>), the decimal value of a
  resource.Quantity (\<open>qf\<close>, \<open>qv\<close>), the tables of package unicode, the JSON text of a \<open>metav1.Time\<close> and of
  the score audit, the YAML decoder, the
  conversion of a float64 that does not fit an integer type (\<open>oor\<close>, left open by the Go specification)
  and the order in which Go ranges over a map where it matters.

  \<^bold>\<open>Bounds and fuel.\<close> Loops are folds or structural recursions. \<open>duration_terms\<close> has the length of the text as fuel,
  enough because every term consumes a byte (\<open>duration_term_shorter\<close>); the edit distance fills a table
  row by row; the walk over included charges is bounded by the number of rows, and
  \<open>included_graph_rooted\<close> shows that it decides rootedness. Times are nanoseconds without bound; years
  outside 0 to 9999 are refused where the code refuses them.

  \<^bold>\<open>Not modelled.\<close> zz_generated.deepcopy.go is generated. The files under cmd/ and the console server are flags and wiring of
  net/http and of the manager. internal/metrics declares the Prometheus vectors; a series set or deleted is
  part of the worlds of the controllers that own it. The sample ConfigMaps, charts and manifests hold no
  Go. Goroutines and the work queue are outside: a reconcile is one step, and the step relations
  interleave such steps.
\<close>

end
